(* ===== verification/Prelude.thy ===== *)
theory Prelude
  imports Main "HOL-Library.Char_ord" "HOL-Library.List_Lexorder" "HOL-Library.Multiset"
begin

text \<open>
  What the components share: the representation of Python strings, byte strings and
  timestamps, exceptions as values, the sequencing of operations that may raise, the
  character classes of the identifier patterns, and the list lemmas the component
  proofs use.

  A Python \<open>str\<close> is represented by its UTF-8 encoding, one \<open>char\<close> for each byte, so
  that \<open>.encode("utf-8")\<close> is the identity, Python's order by code points is the
  lexicographic order of the bytes, and a substring test on text is the same test on
  bytes. \<open>py_len\<close> counts code points (the bytes that are not continuation bytes).
\<close>

named_theorems result_simps \<open>equations that run operations returning a result\<close>
named_theorems record_defs \<open>definitions of the record validators\<close>

section \<open>Text and bytes\<close>

type_synonym pystr = string
type_synonym pybytes = string

definition py_len :: "pystr \<Rightarrow> nat" where
  "py_len s = length (filter (\<lambda>c. \<not> (128 \<le> (of_char c :: nat) \<and> of_char c < (192::nat))) s)"

definition is_digit :: "char \<Rightarrow> bool" where
  "is_digit c \<longleftrightarrow> CHR ''0'' \<le> c \<and> c \<le> CHR ''9''"

definition is_upper :: "char \<Rightarrow> bool" where
  "is_upper c \<longleftrightarrow> CHR ''A'' \<le> c \<and> c \<le> CHR ''Z''"

definition is_lower :: "char \<Rightarrow> bool" where
  "is_lower c \<longleftrightarrow> CHR ''a'' \<le> c \<and> c \<le> CHR ''z''"

definition is_alnum :: "char \<Rightarrow> bool" where
  "is_alnum c \<longleftrightarrow> is_digit c \<or> is_upper c \<or> is_lower c"

definition is_hex :: "char \<Rightarrow> bool" where
  "is_hex c \<longleftrightarrow> is_digit c \<or> (CHR ''a'' \<le> c \<and> c \<le> CHR ''f'')"

definition starts_with :: "pystr \<Rightarrow> pystr \<Rightarrow> bool" where
  "starts_with p s \<longleftrightarrow> take (length p) s = p"

text \<open>\<open>str.removeprefix\<close>: the text unchanged where it does not start with the prefix.\<close>

definition removeprefix :: "pystr \<Rightarrow> pystr \<Rightarrow> pystr" where
  "removeprefix p s = (if starts_with p s then drop (length p) s else s)"

text \<open>The test \<open>p in s\<close> on strings and on bytes.\<close>

fun contains :: "'a list \<Rightarrow> 'a list \<Rightarrow> bool" where
  "contains p [] = (p = [])"
| "contains p (c # s) = (take (length p) (c # s) = p \<or> contains p s)"

text \<open>\<open>str.split\<close> at a separator of one character.\<close>

fun split_on :: "'a \<Rightarrow> 'a list \<Rightarrow> 'a list list" where
  "split_on c [] = [[]]"
| "split_on c (x # xs) =
     (if x = c then [] # split_on c xs
      else case split_on c xs of [] \<Rightarrow> [[x]] | y # ys \<Rightarrow> (x # y) # ys)"

text \<open>
  \<open>not s.strip()\<close>: every code point of the text is white space. Python's white space
  is the ASCII characters below, U+0085, U+00A0, U+1680, U+2000 to U+200A, U+2028, U+2029,
  U+202F, U+205F and U+3000, here in their UTF-8 encodings of two and three bytes.
\<close>

definition is_space :: "char \<Rightarrow> bool" where
  "is_space c \<longleftrightarrow> c \<in> {CHR 0x09, CHR 0x0A, CHR 0x0B, CHR 0x0C, CHR 0x0D, CHR 0x1C, CHR 0x1D,
     CHR 0x1E, CHR 0x1F, CHR 0x20}"

definition is_space2 :: "char \<Rightarrow> char \<Rightarrow> bool" where
  "is_space2 a b \<longleftrightarrow> a = CHR 0xC2 \<and> b \<in> {CHR 0x85, CHR 0xA0}"

definition is_space3 :: "char \<Rightarrow> char \<Rightarrow> char \<Rightarrow> bool" where
  "is_space3 a b c \<longleftrightarrow>
     (a, b, c) \<in> {(CHR 0xE1, CHR 0x9A, CHR 0x80), (CHR 0xE2, CHR 0x81, CHR 0x9F),
       (CHR 0xE3, CHR 0x80, CHR 0x80)} \<or>
     (a = CHR 0xE2 \<and> b = CHR 0x80 \<and>
      (CHR 0x80 \<le> c \<and> c \<le> CHR 0x8A \<or> c \<in> {CHR 0xA8, CHR 0xA9, CHR 0xAF}))"

fun all_space :: "pystr \<Rightarrow> bool" where
  "all_space [] = True"
| "all_space [a] = is_space a"
| "all_space [a, b] = ((is_space a \<and> is_space b) \<or> is_space2 a b)"
| "all_space (a # b # c # s) =
     (if is_space a then all_space (b # c # s)
      else if is_space2 a b then all_space (c # s)
      else is_space3 a b c \<and> all_space s)"

lemma starts_with_append [simp]: "starts_with p (p @ s)"
  by (simp add: starts_with_def)

lemma removeprefix_append [simp]: "removeprefix p (p @ s) = s"
  by (simp add: removeprefix_def)

lemma starts_withE:
  assumes "starts_with p s"
  obtains r where "s = p @ r"
proof
  show "s = p @ drop (length p) s"
    using assms unfolding starts_with_def by (metis append_take_drop_id)
qed

lemma contains_iff: "contains p s \<longleftrightarrow> (\<exists>u v. s = u @ p @ v)"
proof (induction s)
  case Nil
  then show ?case by auto
next
  case (Cons c s)
  show ?case
  proof
    assume "contains p (c # s)"
    then consider "take (length p) (c # s) = p" | "contains p s" by auto
    then show "\<exists>u v. c # s = u @ p @ v"
    proof cases
      case 1
      then have "c # s = [] @ p @ drop (length p) (c # s)"
        by (metis append_Nil append_take_drop_id)
      then show ?thesis by blast
    next
      case 2
      then obtain u v where "s = u @ p @ v" using Cons.IH by blast
      then have "c # s = (c # u) @ p @ v" by simp
      then show ?thesis by blast
    qed
  next
    assume "\<exists>u v. c # s = u @ p @ v"
    then obtain u v where *: "c # s = u @ p @ v" by blast
    show "contains p (c # s)"
    proof (cases u)
      case Nil
      with * have "take (length p) (c # s) = p" by simp
      then show ?thesis by simp
    next
      case (Cons d u')
      with * have "s = u' @ p @ v" by simp
      then show ?thesis using Cons.IH by auto
    qed
  qed
qed

section \<open>Timestamps\<close>

text \<open>
  A \<open>datetime\<close> is an instant in microseconds with an optional UTC offset; a naive
  timestamp has no offset and its instant is local. Python refuses to order a naive
  against an aware timestamp with a \<open>TypeError\<close>.
\<close>

datatype datetime = Datetime (instant: int) (utcoffset: "int option")

definition is_aware :: "datetime \<Rightarrow> bool" where
  "is_aware d \<longleftrightarrow> utcoffset d \<noteq> None"

definition add_seconds :: "datetime \<Rightarrow> int \<Rightarrow> datetime" where
  "add_seconds d s = Datetime (instant d + s * 1000000) (utcoffset d)"

section \<open>Exceptions as values\<close>

text \<open>
  The exceptions the modelled code raises or meets. A message is the constant part of
  the source's text; \<open>ValidationError\<close> is pydantic's rejection of a field constraint.
\<close>

datatype import_error_code = UNSUPPORTED_VERSION | MALFORMED_EVIDENCE | POLICY_BLOCKED

datatype py_error =
    ValueError string
  | ValidationError string
  | EvidenceStoreError string
  | FlightRecorderImportError import_error_code string
  | KeyError string
  | TypeError string
  | OSError string
  | RuntimeError string
  | IndexError
  | StopIteration
  | RecursionError
  | AttributeError string

text \<open>The exception hierarchy as \<open>except ValueError\<close> sees it.\<close>

fun is_value_error :: "py_error \<Rightarrow> bool" where
  "is_value_error (ValueError _) = True"
| "is_value_error (ValidationError _) = True"
| "is_value_error (EvidenceStoreError _) = True"
| "is_value_error (FlightRecorderImportError _ _) = True"
| "is_value_error _ = False"

fun is_os_error :: "py_error \<Rightarrow> bool" where
  "is_os_error (OSError _) = True"
| "is_os_error _ = False"

type_synonym 'a result = "py_error + 'a"

definition rbind :: "'a result \<Rightarrow> ('a \<Rightarrow> 'b result) \<Rightarrow> 'b result" where
  "rbind r f = (case r of Inl e \<Rightarrow> Inl e | Inr x \<Rightarrow> f x)"

definition is_ok :: "'a result \<Rightarrow> bool" where
  "is_ok r = (case r of Inl _ \<Rightarrow> False | Inr _ \<Rightarrow> True)"

text \<open>A list comprehension whose body may raise: the first error ends it.\<close>

fun traverse :: "('a \<Rightarrow> 'b result) \<Rightarrow> 'a list \<Rightarrow> 'b list result" where
  "traverse f [] = Inr []"
| "traverse f (x # xs) = rbind (f x) (\<lambda>y. rbind (traverse f xs) (\<lambda>ys. Inr (y # ys)))"

text \<open>A sequence of \<open>if ...: raise\<close> statements: the first condition that holds raises.\<close>

fun first_failure :: "(bool \<times> string) list \<Rightarrow> string option" where
  "first_failure [] = None"
| "first_failure ((c, msg) # cs) = (if c then Some msg else first_failure cs)"

definition raise_first :: "(bool \<times> string) list \<Rightarrow> 'a \<Rightarrow> 'a result" where
  "raise_first cs x = (case first_failure cs of Some msg \<Rightarrow> Inl (ValueError msg) | None \<Rightarrow> Inr x)"

lemma rbind_simps [simp, result_simps]:
  "rbind (Inl e) f = Inl e" "rbind (Inr x) f = f x"
  by (simp_all add: rbind_def)

lemma rbind_Inr_iff [result_simps]: "rbind r f = Inr y \<longleftrightarrow> (\<exists>x. r = Inr x \<and> f x = Inr y)"
  by (cases r) auto

lemma rbind_Inl_iff [result_simps]:
  "rbind r f = Inl e \<longleftrightarrow> r = Inl e \<or> (\<exists>x. r = Inr x \<and> f x = Inl e)"
  by (cases r) auto

lemma is_ok_simps [simp]: "is_ok (Inl e) = False" "is_ok (Inr x) = True"
  by (simp_all add: is_ok_def)

lemma is_ok_iff: "is_ok r \<longleftrightarrow> (\<exists>x. r = Inr x)"
  by (cases r) auto

lemma traverse_Inr_iff:
  "traverse f xs = Inr ys \<longleftrightarrow> list_all2 (\<lambda>x y. f x = Inr y) xs ys"
proof (induction xs arbitrary: ys)
  case Nil
  then show ?case by auto
next
  case (Cons x xs)
  show ?case by (cases ys) (auto simp: result_simps Cons.IH)
qed

lemma traverse_cong [fundef_cong]:
  assumes "xs = ys" and "\<And>x. x \<in> set ys \<Longrightarrow> f x = g x"
  shows "traverse f xs = traverse g ys"
  using assms by (induction ys arbitrary: xs) auto

lemma traverse_Inr_map: "(\<And>x. x \<in> set xs \<Longrightarrow> f x = Inr (g x)) \<Longrightarrow> traverse f xs = Inr (map g xs)"
  by (induction xs) auto

lemma traverse_Inl: "traverse f xs = Inl e \<Longrightarrow> \<exists>x\<in>set xs. f x = Inl e"
  by (induction xs) (auto simp: result_simps)

lemma first_failure_None_iff: "first_failure cs = None \<longleftrightarrow> (\<forall>c\<in>set cs. \<not> fst c)"
  by (induction cs rule: first_failure.induct) auto

lemma raise_first_Inr_iff [result_simps]:
  "raise_first cs x = Inr y \<longleftrightarrow> y = x \<and> (\<forall>c\<in>set cs. \<not> fst c)"
  by (auto simp: raise_first_def first_failure_None_iff [symmetric] split: option.splits)

lemma raise_first_Inl: "raise_first cs x = Inl e \<Longrightarrow> \<exists>m. e = ValueError m"
  by (auto simp: raise_first_def split: option.splits)

section \<open>Lists used as sets and dictionaries\<close>

text \<open>\<open>list(dict.fromkeys(xs))\<close>: duplicates dropped, first occurrences kept in order.\<close>

fun fromkeys :: "'a list \<Rightarrow> 'a list" where
  "fromkeys [] = []"
| "fromkeys (x # xs) = x # fromkeys (filter (\<lambda>y. y \<noteq> x) xs)"

lemma set_fromkeys [simp]: "set (fromkeys xs) = set xs"
  by (induction xs rule: fromkeys.induct) auto

lemma distinct_fromkeys [simp]: "distinct (fromkeys xs)"
  by (induction xs rule: fromkeys.induct) auto

text \<open>\<open>sorted(set(xs))\<close>.\<close>

definition sorted_set :: "'a::linorder list \<Rightarrow> 'a list" where
  "sorted_set xs = sort (remdups xs)"

lemma set_sorted_set [simp]: "set (sorted_set xs) = set xs"
  by (simp add: sorted_set_def)

lemma distinct_sorted_set [simp]: "distinct (sorted_set xs)"
  by (simp add: sorted_set_def)

lemma sorted_sorted_set [simp]: "sorted (sorted_set xs)"
  by (simp add: sorted_set_def)

lemma sorted_set_cong: "set xs = set ys \<Longrightarrow> sorted_set xs = sorted_set ys"
  by (rule sorted_distinct_set_unique) auto

lemma sorted_set_idem: "sorted xs \<Longrightarrow> distinct xs \<Longrightarrow> sorted_set xs = xs"
  by (rule sorted_distinct_set_unique) auto

lemma find_Some_in: "List.find p xs = Some x \<Longrightarrow> x \<in> set xs \<and> p x"
  by (induction xs) (auto split: if_splits)

text \<open>A dictionary built from pairs: a later pair wins, as in \<open>{k: v for ...}\<close>.\<close>

definition dict_of :: "('k \<times> 'v) list \<Rightarrow> 'k \<rightharpoonup> 'v" where
  "dict_of kvs = map_of (rev kvs)"

lemma dict_of_distinct:
  assumes "distinct (map fst kvs)"
  shows "dict_of kvs = map_of kvs"
proof -
  have "map_of (rev kvs) = map_of kvs"
    by (rule map_of_eqI) (use assms in \<open>auto simp: rev_map [symmetric] distinct_rev\<close>)
  then show ?thesis by (simp add: dict_of_def)
qed

text \<open>An optional field's constraint, executable.\<close>

lemma pred_option_code [code]: "pred_option p None = True" "pred_option p (Some x) = p x"
  by simp_all

end
