(* ===== verification/Factory_Base.thy ===== *)
theory Factory_Base
  imports Prelude
begin

text \<open>
  The controlled vocabularies of \<^verbatim>\<open>tcfactory/v3/enums.py\<close>, the identifier patterns the
  factory's records share, and the retry budgets of \<^verbatim>\<open>tcfactory/v3/retry_policy.py\<close>.
\<close>

section \<open>Vocabularies\<close>

datatype Lane = PRODUCT | MARKET | COMPETITOR | TRUST | FACTORY

datatype WorkKind = CODE | SPECIFICATION | RESEARCH | CONTROLLED_EXPERIMENT | EXTERNAL_EVIDENCE
  | MACHINE_POLICY_REVIEW | COMMERCIAL_EXPERIMENT | MAINTENANCE | MIGRATION

datatype WorkStatus = PROPOSED | READY | QUEUED | RUNNING | PAUSED_QUOTA | PAUSED_BACKEND
  | WAITING_EXTERNAL | BLOCKED_TECHNICAL | BLOCKED_POLICY | PASSED_ENGINEERING | REJECTED_VALUE
  | NATIVE_SUFFICIENT | DEFERRED | SUPERSEDED | CANCELLED | COMPLETED

datatype Disposition = KEEP | INTEGRATE_EXISTING_BACKEND | UPSTREAM | NARROW | REPLACE | PAUSE
  | STOP | NOT_REVIEWED

datatype OwnerType = AI | MACHINE_POLICY_AUTHORITY | CUSTOMER | EXTERNAL_PARTY

datatype RiskTier = MECHANICAL | STANDARD | INTEGRATION | TRUST_CORE | EXTERNAL

datatype EngineeringMaturity = DESIGN_ONLY | IMPLEMENTED_EXPERIMENTAL | CONTROLLED_VALIDATED
  | EXTERNAL_VALIDATED | DEPRECATED

datatype CommercialMaturity = NOT_EVALUATED | NATIVE_ADVANTAGE_UNPROVEN
  | NATIVE_ADVANTAGE_DEMONSTRATED | EXTERNAL_VALUE_DEMONSTRATED | COMMERCIALLY_SUPPORTED | WITHDRAWN

datatype EvidenceType = CUSTOMER_CONVERSATION | INCIDENT_ARCHIVE_ACCESS | PAID_PREFLIGHT
  | PAID_PILOT | DECISION_CHANGED | SECOND_PAID_ACTION | INDEPENDENT_OPERATOR
  | UPSTREAM_ACCEPTANCE | PROVIDER_ACCEPTANCE | INCIDENT_TIMELINE | UPCOMING_CHANGE
  | PILOT_CANDIDATE | CUSTOMER_AUTHORIZATION | SECOND_ACTION_COMMITMENT | GPU_EXECUTION
  | SAME_FAMILY_CASE | SUPPORT_ACCEPTANCE | DELIVERY_ECONOMICS

text \<open>\<open>for state in WorkStatus\<close> enumerates the members in declaration order.\<close>

definition all_statuses :: "WorkStatus list" where
  "all_statuses = [PROPOSED, READY, QUEUED, RUNNING, PAUSED_QUOTA, PAUSED_BACKEND,
     WAITING_EXTERNAL, BLOCKED_TECHNICAL, BLOCKED_POLICY, PASSED_ENGINEERING, REJECTED_VALUE,
     NATIVE_SUFFICIENT, DEFERRED, SUPERSEDED, CANCELLED, COMPLETED]"

lemma UNIV_WorkStatus: "UNIV = set all_statuses"
proof (rule set_eqI)
  show "x \<in> UNIV \<longleftrightarrow> x \<in> set all_statuses" for x
    by (cases x) (simp_all add: all_statuses_def)
qed

lemma in_all_statuses [simp]: "s \<in> set all_statuses"
  using UNIV_WorkStatus by auto

lemma distinct_all_statuses [simp]: "distinct all_statuses"
  by (simp add: all_statuses_def)

text \<open>
  With the library's \<open>enum\<close> class for the statuses, a statement over all statuses is
  decided by evaluation.
\<close>

instantiation WorkStatus :: enum
begin

definition enum_WorkStatus :: "WorkStatus list" where
  "enum_WorkStatus = all_statuses"

definition enum_all_WorkStatus :: "(WorkStatus \<Rightarrow> bool) \<Rightarrow> bool" where
  "enum_all_WorkStatus P = list_all P all_statuses"

definition enum_ex_WorkStatus :: "(WorkStatus \<Rightarrow> bool) \<Rightarrow> bool" where
  "enum_ex_WorkStatus P = list_ex P all_statuses"

instance
  by standard
    (auto simp: enum_WorkStatus_def enum_all_WorkStatus_def enum_ex_WorkStatus_def
      UNIV_WorkStatus list_all_iff list_ex_iff)

end

lemma UNIV_Lane: "UNIV = {PRODUCT, MARKET, COMPETITOR, TRUST, FACTORY}"
  by (auto intro: Lane.exhaust)

fun lane_value :: "Lane \<Rightarrow> pystr" where
  "lane_value PRODUCT = ''PRODUCT''"
| "lane_value MARKET = ''MARKET''"
| "lane_value COMPETITOR = ''COMPETITOR''"
| "lane_value TRUST = ''TRUST''"
| "lane_value FACTORY = ''FACTORY''"

fun status_value :: "WorkStatus \<Rightarrow> pystr" where
  "status_value PROPOSED = ''PROPOSED''"
| "status_value READY = ''READY''"
| "status_value QUEUED = ''QUEUED''"
| "status_value RUNNING = ''RUNNING''"
| "status_value PAUSED_QUOTA = ''PAUSED_QUOTA''"
| "status_value PAUSED_BACKEND = ''PAUSED_BACKEND''"
| "status_value WAITING_EXTERNAL = ''WAITING_EXTERNAL''"
| "status_value BLOCKED_TECHNICAL = ''BLOCKED_TECHNICAL''"
| "status_value BLOCKED_POLICY = ''BLOCKED_POLICY''"
| "status_value PASSED_ENGINEERING = ''PASSED_ENGINEERING''"
| "status_value REJECTED_VALUE = ''REJECTED_VALUE''"
| "status_value NATIVE_SUFFICIENT = ''NATIVE_SUFFICIENT''"
| "status_value DEFERRED = ''DEFERRED''"
| "status_value SUPERSEDED = ''SUPERSEDED''"
| "status_value CANCELLED = ''CANCELLED''"
| "status_value COMPLETED = ''COMPLETED''"

section \<open>Identifier patterns\<close>

text \<open>\<^verbatim>\<open>^V3-[A-Z]+-[0-9]{3}$\<close>: the last four characters are the hyphen and the digits.\<close>

definition is_work_item_id :: "pystr \<Rightarrow> bool" where
  "is_work_item_id s \<longleftrightarrow>
     starts_with ''V3-'' s \<and> 8 \<le> length s \<and>
     (let body = drop 3 s; letters = take (length body - 4) body; tail = drop (length body - 4) body
      in letters \<noteq> [] \<and> list_all is_upper letters \<and>
         hd tail = CHR ''-'' \<and> list_all is_digit (tl tail))"

text \<open>
  \<^verbatim>\<open>^M[0-9]+_[A-Z0-9_]+$\<close>: digits up to the first underscore, then at least one
  character of the second class.
\<close>

definition is_milestone_id :: "pystr \<Rightarrow> bool" where
  "is_milestone_id s \<longleftrightarrow>
     starts_with ''M'' s \<and>
     (let ds = takeWhile is_digit (drop 1 s); rest = dropWhile is_digit (drop 1 s)
      in ds \<noteq> [] \<and> 2 \<le> length rest \<and> hd rest = CHR ''_'' \<and>
         list_all (\<lambda>c. is_upper c \<or> is_digit c \<or> c = CHR ''_'') (tl rest))"

text \<open>\<^verbatim>\<open>^sha256:[0-9a-f]{64}$\<close> and \<^verbatim>\<open>^[0-9a-f]{40}$\<close>.\<close>

definition is_digest :: "pystr \<Rightarrow> bool" where
  "is_digest s \<longleftrightarrow> starts_with ''sha256:'' s \<and> length s = 71 \<and> list_all is_hex (drop 7 s)"

definition is_git_sha :: "pystr \<Rightarrow> bool" where
  "is_git_sha s \<longleftrightarrow> length s = 40 \<and> list_all is_hex s"

lemma is_digestE:
  assumes "is_digest s"
  obtains h where "s = ''sha256:'' @ h" "length h = 64" "list_all is_hex h"
proof -
  from assms have sw: "starts_with ''sha256:'' s" and len: "length s = 71"
    and hex: "list_all is_hex (drop 7 s)"
    by (simp_all add: is_digest_def)
  from sw obtain h where h: "s = ''sha256:'' @ h" by (rule starts_withE)
  show thesis
    by (rule that [OF h]) (use len hex in \<open>simp_all add: h\<close>)
qed

section \<open>Retry policy\<close>

record RetryPolicy =
  max_plan_attempts :: int
  max_candidate_repair_cycles :: int
  max_same_finding_repeats :: int
  max_candidate_restarts :: int

definition valid_retry_policy :: "RetryPolicy \<Rightarrow> bool" where
  "valid_retry_policy p \<longleftrightarrow>
     0 \<le> max_plan_attempts p \<and> max_plan_attempts p \<le> 5 \<and>
     0 \<le> max_candidate_repair_cycles p \<and> max_candidate_repair_cycles p \<le> 10 \<and>
     1 \<le> max_same_finding_repeats p \<and> max_same_finding_repeats p \<le> 5 \<and>
     0 \<le> max_candidate_restarts p \<and> max_candidate_restarts p \<le> 3"

definition plan_attempts_remaining :: "RetryPolicy \<Rightarrow> int \<Rightarrow> int result" where
  "plan_attempts_remaining p attempts =
     (if attempts < 0 then Inl (ValueError ''attempt count cannot be negative'')
      else Inr (max 0 (max_plan_attempts p - attempts)))"

definition repair_cycles_remaining :: "RetryPolicy \<Rightarrow> int \<Rightarrow> int result" where
  "repair_cycles_remaining p cycles =
     (if cycles < 0 then Inl (ValueError ''cycle count cannot be negative'')
      else Inr (max 0 (max_candidate_repair_cycles p - cycles)))"

definition repeated_finding_exhausted :: "RetryPolicy \<Rightarrow> int \<Rightarrow> bool result" where
  "repeated_finding_exhausted p repeats =
     (if repeats < 0 then Inl (ValueError ''repeat count cannot be negative'')
      else Inr (max_same_finding_repeats p \<le> repeats))"

section \<open>Ordering of timestamps\<close>

text \<open>\<open>a < b\<close> on timestamps: a \<open>TypeError\<close> when one is naive and the other aware.\<close>

definition dt_less :: "datetime \<Rightarrow> datetime \<Rightarrow> bool result" where
  "dt_less a b =
     (if is_aware a \<noteq> is_aware b
      then Inl (TypeError ''cannot compare offset-naive and offset-aware datetimes'')
      else Inr (instant a < instant b))"

lemma dt_less_aware: "is_aware a \<Longrightarrow> is_aware b \<Longrightarrow> dt_less a b = Inr (instant a < instant b)"
  by (simp add: dt_less_def)

end
