(* ===== verification/Canonical_Json.thy ===== *)
theory Canonical_Json
  imports Factory_Base Complex_Main
begin

text \<open>
  JSON values and the canonical serialisation of \<^verbatim>\<open>traincapsule_core/base.py\<close>
  (\<^verbatim>\<open>json.dumps(value, ensure_ascii=False, separators=(",", ":"), sort_keys=True) + "\n"\<close>):
  the keys of every object are sorted, no space is written, and strings are escaped as
  CPython's encoder does. Digests are SHA-256 over these bytes. The main lemma is that the
  serialisation is injective up to the order of object keys, so that two records with the
  same canonical bytes are the same record.

  What the code takes from outside the repository is a parameter: the record \<open>platform\<close>
  holds \<^verbatim>\<open>hashlib.sha256(..).hexdigest()\<close>, CPython's \<open>repr\<close> of floats, \<open>str.casefold\<close>,
  and what pydantic does with strings and timestamps.
\<close>

section \<open>Values and the platform\<close>

datatype pyfloat = Finite rat | PosInf | NegInf | NaN

text \<open>Python's order of floats, in which NaN is not less than anything.\<close>

fun float_less :: "pyfloat \<Rightarrow> pyfloat \<Rightarrow> bool" where
  "float_less (Finite x) (Finite y) = (x < y)"
| "float_less NegInf (Finite y) = True"
| "float_less NegInf PosInf = True"
| "float_less (Finite x) PosInf = True"
| "float_less _ _ = False"

datatype json =
    JNull
  | JBool bool
  | JInt int
  | JFloat pyfloat
  | JStr pystr
  | JList "json list"
  | JObj "(pystr \<times> json) list"

record platform =
  hexdigest :: "pybytes \<Rightarrow> pystr"
  float_repr :: "pyfloat \<Rightarrow> pystr"
  casefold :: "pystr \<Rightarrow> pystr"
  strip :: "pystr \<Rightarrow> pystr"
  dump_datetime :: "datetime \<Rightarrow> pystr"
  isoformat_z :: "datetime \<Rightarrow> pystr"
  parse_datetime :: "pystr \<Rightarrow> datetime option"
  dumps_indent :: "json \<Rightarrow> pybytes"
  loads :: "pybytes \<Rightarrow> json option"

section \<open>Printing\<close>

definition digit_char :: "nat \<Rightarrow> char" where
  "digit_char d = ''0123456789abcdef'' ! d"

fun show_nat :: "nat \<Rightarrow> pystr" where
  "show_nat n = (if n < 10 then [digit_char n] else show_nat (n div 10) @ [digit_char (n mod 10)])"

declare show_nat.simps [simp del]

definition show_int :: "int \<Rightarrow> pystr" where
  "show_int i = (if i < 0 then CHR ''-'' # show_nat (nat (- i)) else show_nat (nat i))"

definition escape_char :: "char \<Rightarrow> pystr" where
  "escape_char c =
     (if c = CHR 0x22 then [CHR 0x5C, CHR 0x22]
      else if c = CHR 0x5C then [CHR 0x5C, CHR 0x5C]
      else if c = CHR 0x0A then [CHR 0x5C, CHR ''n'']
      else if c = CHR 0x0D then [CHR 0x5C, CHR ''r'']
      else if c = CHR 0x09 then [CHR 0x5C, CHR ''t'']
      else if c = CHR 0x0C then [CHR 0x5C, CHR ''f'']
      else if c = CHR 0x08 then [CHR 0x5C, CHR ''b'']
      else if of_char c < (32::nat) then
        [CHR 0x5C, CHR ''u'', CHR ''0'', CHR ''0'',
         digit_char (of_char c div 16), digit_char (of_char c mod 16)]
      else [c])"

definition escape_body :: "pystr \<Rightarrow> pystr" where
  "escape_body s = concat (map escape_char s)"

definition quote :: "pystr \<Rightarrow> pystr" where
  "quote s = CHR 0x22 # escape_body s @ [CHR 0x22]"

fun join :: "'a list \<Rightarrow> 'a list list \<Rightarrow> 'a list" where
  "join sep [] = []"
| "join sep [x] = x"
| "join sep (x # y # ys) = x @ sep @ join sep (y # ys)"

fun render :: "platform \<Rightarrow> json \<Rightarrow> pystr" where
  "render P JNull = ''null''"
| "render P (JBool b) = (if b then ''true'' else ''false'')"
| "render P (JInt i) = show_int i"
| "render P (JFloat f) = float_repr P f"
| "render P (JStr s) = quote s"
| "render P (JList xs) = CHR ''['' # join '','' (map (render P) xs) @ '']''"
| "render P (JObj kvs) =
     CHR ''{'' # join '','' (map (\<lambda>(k, v). quote k @ '':'' @ render P v) kvs) @ ''}''"

text \<open>\<open>sort_keys=True\<close>, at every level.\<close>

fun sort_keys :: "json \<Rightarrow> json" where
  "sort_keys (JList xs) = JList (map sort_keys xs)"
| "sort_keys (JObj kvs) = JObj (sort_key fst (map (\<lambda>(k, v). (k, sort_keys v)) kvs))"
| "sort_keys j = j"

lemma sort_keys_idem [simp]: "sort_keys (sort_keys j) = sort_keys j"
proof (induction j rule: sort_keys.induct)
  case (2 kvs)
  let ?ys = "sort_key fst (map (\<lambda>(k, v). (k, sort_keys v)) kvs)"
  have "map (\<lambda>(k, v). (k, sort_keys v)) ?ys = ?ys"
    using 2 by (intro map_idI) auto
  then show ?case by (simp add: sort_key_id_if_sorted)
qed (auto simp: comp_def)

definition canonical_json_bytes :: "platform \<Rightarrow> json \<Rightarrow> pybytes" where
  "canonical_json_bytes P j = render P (sort_keys j) @ [CHR 0x0A]"

definition sha256_digest :: "platform \<Rightarrow> pybytes \<Rightarrow> pystr" where
  "sha256_digest P payload = ''sha256:'' @ hexdigest P payload"

definition digest_json :: "platform \<Rightarrow> json \<Rightarrow> pystr" where
  "digest_json P j = sha256_digest P (canonical_json_bytes P j)"

text \<open>Values without floating-point numbers, and optional fields.\<close>

fun float_free :: "json \<Rightarrow> bool" where
  "float_free (JFloat _) = False"
| "float_free (JList xs) = list_all float_free xs"
| "float_free (JObj kvs) = list_all (\<lambda>(k, v). float_free v) kvs"
| "float_free _ = True"

definition jopt :: "('a \<Rightarrow> json) \<Rightarrow> 'a option \<Rightarrow> json" where
  "jopt f v = (case v of None \<Rightarrow> JNull | Some x \<Rightarrow> f x)"

definition jget :: "(pystr \<times> json) list \<Rightarrow> pystr \<Rightarrow> json option" where
  "jget kvs k = map_of kvs k"

text \<open>\<open>raw.get(k)\<close> of a parsed document that need not be an object.\<close>

definition document_field :: "json \<Rightarrow> pystr \<Rightarrow> json result" where
  "document_field raw k = (case raw of
     JObj kvs \<Rightarrow> Inr (case jget kvs k of None \<Rightarrow> JNull | Some v \<Rightarrow> v)
   | _ \<Rightarrow> Inl (AttributeError ''get''))"

section \<open>Numbers print injectively\<close>

lemma digit_char_inj: "a < 16 \<Longrightarrow> b < 16 \<Longrightarrow> digit_char a = digit_char b \<longleftrightarrow> a = b"
proof -
  have d: "distinct ''0123456789abcdef''" by simp
  show "a < 16 \<Longrightarrow> b < 16 \<Longrightarrow> digit_char a = digit_char b \<longleftrightarrow> a = b"
    unfolding digit_char_def by (rule nth_eq_iff_index_eq [OF d]) simp_all
qed

lemma digit_char_is_digit: "d < 10 \<Longrightarrow> is_digit (digit_char d)"
proof -
  assume "d < 10"
  then have "d \<in> set [0..<10]" by simp
  moreover have "\<forall>d\<in>set [0..<10]. is_digit (digit_char d)" by code_simp
  ultimately show ?thesis by blast
qed

lemma show_nat_digits: "list_all is_digit (show_nat n)" and show_nat_not_Nil: "show_nat n \<noteq> []"
  by (induction n rule: show_nat.induct) (subst show_nat.simps, simp add: digit_char_is_digit)+

lemmas show_nat_neq_Nil [simp] = show_nat_not_Nil show_nat_not_Nil [symmetric]

lemma show_nat_inj: "show_nat m = show_nat n \<Longrightarrow> m = n"
proof (induction m arbitrary: n rule: show_nat.induct)
  case (1 m)
  show ?case
  proof (cases "m < 10")
    case True
    with "1.prems" show ?thesis
      by (cases "n < 10")
        (auto simp: show_nat.simps [of m] show_nat.simps [of n] digit_char_inj)
  next
    case False
    with "1.prems" have n: "\<not> n < 10"
      by (auto simp: show_nat.simps [of m] show_nat.simps [of n])
    with False "1.prems" have "show_nat (m div 10) = show_nat (n div 10)"
      and "digit_char (m mod 10) = digit_char (n mod 10)"
      by (auto simp: show_nat.simps [of m] show_nat.simps [of n])
    with False "1.IH" have "m div 10 = n div 10" and "m mod 10 = n mod 10"
      by (auto simp: digit_char_inj)
    then show ?thesis by (metis div_mult_mod_eq)
  qed
qed

definition num_char :: "char \<Rightarrow> bool" where
  "num_char c \<longleftrightarrow> is_digit c \<or> c = CHR ''-''"

lemma show_int_chars: "list_all num_char (show_int i)"
  using show_nat_digits by (auto simp: show_int_def num_char_def list_all_iff)

lemma is_digit_not_minus [simp]: "\<not> is_digit (CHR ''-'')"
  by code_simp

lemma show_nat_hd: "hd (show_nat n) \<noteq> CHR ''-''"
  using show_nat_digits [of n] show_nat_not_Nil [of n]
  by (cases "show_nat n") (auto simp: list_all_iff)

lemma show_int_inj: "show_int i = show_int j \<Longrightarrow> i = j"
proof -
  assume eq: "show_int i = show_int j"
  have "show_nat a \<noteq> CHR ''-'' # show_nat b" for a b
    using show_nat_hd [of a] by (metis list.sel(1))
  with eq have "i < 0 \<longleftrightarrow> j < 0"
    by (auto simp: show_int_def split: if_splits) metis+
  with eq show "i = j"
    by (auto simp: show_int_def split: if_splits dest: show_nat_inj)
qed

section \<open>Strings print injectively\<close>

lemma escape_char_cases:
  obtains "escape_char c = [c]" "c \<noteq> CHR 0x22" "c \<noteq> CHR 0x5C"
  | x where "escape_char c = [CHR 0x5C, x]" "x \<noteq> CHR ''u''"
  | "escape_char c = [CHR 0x5C, CHR ''u'', CHR ''0'', CHR ''0'',
       digit_char (of_char c div 16), digit_char (of_char c mod 16)]" "of_char c < (32::nat)"
proof -
  let ?S = "[CHR 0x22, CHR 0x5C, CHR 0x0A, CHR 0x0D, CHR 0x09, CHR 0x0C, CHR 0x08]"
  consider "c \<in> set ?S" | "c \<notin> set ?S" "of_char c < (32::nat)" | "c \<notin> set ?S" "\<not> of_char c < (32::nat)"
    by blast
  then show thesis
  proof cases
    case 1
    then have "\<exists>x. escape_char c = [CHR 0x5C, x] \<and> x \<noteq> CHR ''u''"
      by (auto simp: escape_char_def)
    then show ?thesis using that(2) by blast
  next
    case 2
    then show ?thesis by (intro that(3)) (simp_all add: escape_char_def)
  next
    case 3
    then show ?thesis by (intro that(1)) (simp_all add: escape_char_def)
  qed
qed

lemma escape_char_two:
  assumes "escape_char c = [CHR 0x5C, x]"
  shows "(x, c) \<in> {(CHR 0x22, CHR 0x22), (CHR 0x5C, CHR 0x5C), (CHR ''n'', CHR 0x0A),
    (CHR ''r'', CHR 0x0D), (CHR ''t'', CHR 0x09), (CHR ''f'', CHR 0x0C), (CHR ''b'', CHR 0x08)}"
  using assms unfolding escape_char_def by (auto split: if_splits)

lemma escape_char_prefix: "escape_char c @ r = escape_char d @ s \<Longrightarrow> c = d \<and> r = s"
proof -
  assume eq: "escape_char c @ r = escape_char d @ s"
  have six: "c = d" if "digit_char (of_char c div 16) = digit_char (of_char d div 16)"
    "digit_char (of_char c mod 16) = digit_char (of_char d mod 16)"
    "of_char c < (32::nat)" "of_char d < (32::nat)" for c d :: char
  proof -
    from that have "of_char c div 16 = (of_char d div 16 :: nat)"
      "of_char c mod 16 = (of_char d mod 16 :: nat)"
      by (auto simp: digit_char_inj)
    then have "of_char c = (of_char d :: nat)" by (metis div_mult_mod_eq)
    then show "c = d" by simp
  qed
  show ?thesis
  proof (cases c rule: escape_char_cases)
    case 1
    with eq show ?thesis by (cases d rule: escape_char_cases) auto
  next
    case (2 x)
    with eq show ?thesis
      by (cases d rule: escape_char_cases) (auto dest: escape_char_two)
  next
    case 3
    with eq show ?thesis
      by (cases d rule: escape_char_cases) (auto dest: six)
  qed
qed

lemma escape_char_not_quote: "escape_char c @ r \<noteq> CHR 0x22 # s"
  by (cases c rule: escape_char_cases) auto

lemma escape_body_prefix:
  "escape_body s @ CHR 0x22 # r = escape_body t @ CHR 0x22 # r' \<Longrightarrow> s = t \<and> r = r'"
proof (induction s arbitrary: t)
  case Nil
  then show ?case
    by (cases t) (auto simp: escape_body_def escape_char_not_quote [symmetric])
next
  case (Cons c s)
  then obtain d t' where t: "t = d # t'"
    by (cases t) (auto simp: escape_body_def escape_char_not_quote)
  with Cons.prems have "escape_char c @ (escape_body s @ CHR 0x22 # r) =
      escape_char d @ (escape_body t' @ CHR 0x22 # r')"
    by (simp add: escape_body_def)
  then have "c = d" and "escape_body s @ CHR 0x22 # r = escape_body t' @ CHR 0x22 # r'"
    by (auto dest: escape_char_prefix)
  with Cons.IH t show ?case by auto
qed

lemma quote_prefix: "quote s @ r = quote t @ r' \<Longrightarrow> s = t \<and> r = r'"
  by (auto simp: quote_def dest: escape_body_prefix)

section \<open>Documents print injectively\<close>

text \<open>What may follow a value: nothing, a separator, a closing bracket or the final newline.\<close>

definition delimited :: "pystr \<Rightarrow> bool" where
  "delimited r \<longleftrightarrow> r = [] \<or> hd r \<in> {CHR '','', CHR '']'', CHR ''}'', CHR 0x0A}"

lemma not_num_char_delims [simp]:
  "\<not> num_char (CHR '','')" "\<not> num_char (CHR '']'')" "\<not> num_char (CHR ''}'')"
  "\<not> num_char (CHR 0x0A)" "\<not> num_char (CHR ''n'')" "\<not> num_char (CHR ''t'')"
  "\<not> num_char (CHR ''f'')" "\<not> num_char (CHR 0x22)" "\<not> num_char (CHR ''['')"
  "\<not> num_char (CHR ''{'')"
  by code_simp+

lemma show_int_prefix:
  assumes "show_int i @ r = show_int j @ s" "delimited r" "delimited s"
  shows "i = j \<and> r = s"
proof -
  have tw: "takeWhile num_char (show_int k @ q) = show_int k" if "delimited q" for k q
    using that show_int_chars [of k]
    by (cases q) (auto simp: delimited_def takeWhile_append list_all_iff)
  from assms have "show_int i = show_int j" by (metis tw)
  with assms(1) show ?thesis by (auto dest: show_int_inj)
qed

lemma show_int_hd: "show_int i \<noteq> [] \<and> num_char (hd (show_int i))"
  using show_int_chars [of i] show_nat_not_Nil
  by (cases "show_int i") (auto simp: show_int_def list_all_iff split: if_splits)

lemma hd_show_int_neq [simp]:
  "\<not> num_char c \<Longrightarrow> hd (show_int i) \<noteq> c" "\<not> num_char c \<Longrightarrow> c \<noteq> hd (show_int i)"
  using show_int_hd [of i] by auto

text \<open>The first character of a printed value tells its constructor.\<close>

lemma render_hd:
  "float_free j \<Longrightarrow> render P j \<noteq> [] \<and>
     (case j of JNull \<Rightarrow> hd (render P j) = CHR ''n''
      | JBool b \<Rightarrow> hd (render P j) = (if b then CHR ''t'' else CHR ''f'')
      | JInt i \<Rightarrow> num_char (hd (render P j))
      | JFloat f \<Rightarrow> True
      | JStr s \<Rightarrow> hd (render P j) = CHR 0x22
      | JList xs \<Rightarrow> hd (render P j) = CHR ''[''
      | JObj kvs \<Rightarrow> hd (render P j) = CHR ''{'')"
  by (cases j) (auto simp: show_int_hd quote_def)

definition same_constructor :: "json \<Rightarrow> json \<Rightarrow> bool" where
  "same_constructor a b \<longleftrightarrow>
     (case a of JNull \<Rightarrow> b = JNull | JBool x \<Rightarrow> b = JBool x | JInt _ \<Rightarrow> (\<exists>i. b = JInt i)
      | JFloat _ \<Rightarrow> (\<exists>f. b = JFloat f) | JStr _ \<Rightarrow> (\<exists>s. b = JStr s)
      | JList _ \<Rightarrow> (\<exists>xs. b = JList xs) | JObj _ \<Rightarrow> (\<exists>kvs. b = JObj kvs))"

lemma render_same_constructor:
  assumes "render P a @ r = render P b @ s" "float_free a" "float_free b"
  shows "same_constructor a b"
proof -
  have "hd (render P a) = hd (render P b)"
    using assms render_hd [of a P] render_hd [of b P] by (metis hd_append2)
  then show ?thesis
    using assms(2,3) render_hd [of a P] render_hd [of b P]
    by (cases a; cases b) (auto simp: same_constructor_def split: if_splits)
qed

text \<open>
  A list of items separated by commas and ended by a closing bracket splits in one way
  only, when each item splits in one way only and does not start with the bracket.
\<close>

definition unambiguous :: "('a \<Rightarrow> pystr) \<Rightarrow> 'a \<Rightarrow> ('a \<Rightarrow> bool) \<Rightarrow> bool" where
  "unambiguous f x ok \<longleftrightarrow>
     (\<forall>y r s. ok y \<longrightarrow> delimited r \<longrightarrow> delimited s \<longrightarrow> f x @ r = f y @ s \<longrightarrow> x = y \<and> r = s)"

lemma unambiguousD:
  "unambiguous f x ok \<Longrightarrow> f x @ r = f y @ s \<Longrightarrow> ok y \<Longrightarrow> delimited r \<Longrightarrow> delimited s \<Longrightarrow> x = y \<and> r = s"
  unfolding unambiguous_def by blast

lemma join_Cons: "join sep (x # xs) = x @ (if xs = [] then [] else sep @ join sep xs)"
  by (cases xs) auto

lemma hd_join: "x \<noteq> [] \<Longrightarrow> hd (join sep (x # xs) @ r) = hd x"
  by (simp add: join_Cons)

lemma join_prefix:
  assumes "\<forall>x\<in>set xs. unambiguous f x ok" "list_all ok ys"
    and "close \<in> {CHR '']'', CHR ''}''}"
    and "\<forall>x. ok x \<longrightarrow> f x \<noteq> [] \<and> hd (f x) \<noteq> close" "list_all ok xs"
    and "join '','' (map f xs) @ close # r = join '','' (map f ys) @ close # s"
  shows "xs = ys \<and> r = s"
  using assms
proof (induction xs arbitrary: ys)
  case Nil
  have "ys = []"
  proof (cases ys)
    case (Cons y ys')
    with Nil.prems(2,4) have "f y \<noteq> []" and "hd (f y) \<noteq> close" by auto
    with Nil.prems(6) Cons show ?thesis
      by (auto dest: arg_cong [where f = hd] simp: hd_join)
  qed
  with Nil.prems(6) show ?case by simp
next
  case (Cons x xs)
  have "ys \<noteq> []"
  proof
    assume "ys = []"
    moreover from Cons.prems(4,5) have "f x \<noteq> []" and "hd (f x) \<noteq> close" by auto
    ultimately show False
      using Cons.prems(6) by (auto dest: arg_cong [where f = hd] simp: hd_join)
  qed
  then obtain y ys' where ys: "ys = y # ys'" by (cases ys) auto
  let ?rest = "\<lambda>zs q. (if zs = [] then [] else '','' @ join '','' (map f zs)) @ close # q"
  have "f x @ ?rest xs r = f y @ ?rest ys' s"
    using Cons.prems(6) by (auto simp: ys join_Cons)
  moreover have "delimited (?rest xs r)" and "delimited (?rest ys' s)"
    using Cons.prems(3) by (auto simp: delimited_def)
  moreover have "unambiguous f x ok" and "ok y"
    using Cons.prems(1,2) by (auto simp: ys)
  ultimately have "x = y \<and> ?rest xs r = ?rest ys' s"
    by (intro unambiguousD [where f = f and ok = ok])
  then have "x = y" and rest: "?rest xs r = ?rest ys' s" by blast+
  have "xs = [] \<longleftrightarrow> ys' = []"
    using rest Cons.prems(3) by (auto split: if_splits)
  then have "join '','' (map f xs) @ close # r = join '','' (map f ys') @ close # s"
    using rest by (auto split: if_splits)
  with Cons.IH Cons.prems \<open>x = y\<close> ys show ?case by auto
qed

lemma render_unambiguous: "float_free a \<Longrightarrow> unambiguous (render P) a float_free"
proof (induction a)
  case (JStr s)
  show ?case unfolding unambiguous_def
  proof (intro allI impI)
    fix b r q
    assume "float_free b" "render P (JStr s) @ r = render P b @ q"
    then obtain t where "b = JStr t" "quote s @ r = quote t @ q"
      using render_same_constructor [of P "JStr s" r b q] by (auto simp: same_constructor_def)
    then show "JStr s = b \<and> r = q" by (auto dest: quote_prefix)
  qed
next
  case (JInt i)
  show ?case unfolding unambiguous_def
  proof (intro allI impI)
    fix b r q
    assume "float_free b" "delimited r" "delimited q" "render P (JInt i) @ r = render P b @ q"
    then obtain k where "b = JInt k" "show_int i @ r = show_int k @ q"
      using render_same_constructor [of P "JInt i" r b q] by (auto simp: same_constructor_def)
    then show "JInt i = b \<and> r = q"
      using \<open>delimited r\<close> \<open>delimited q\<close> show_int_prefix by auto
  qed
next
  case (JList xs)
  have step: "\<forall>x\<in>set xs. unambiguous (render P) x float_free"
    using JList by (auto simp: list_all_iff)
  have hd: "\<forall>x. float_free x \<longrightarrow> render P x \<noteq> [] \<and> hd (render P x) \<noteq> CHR '']''"
  proof (intro allI impI)
    fix x assume "float_free x"
    then show "render P x \<noteq> [] \<and> hd (render P x) \<noteq> CHR '']''"
      using render_hd [of x P] by (cases x) (auto split: if_splits)
  qed
  show ?case unfolding unambiguous_def
  proof (intro allI impI)
    fix b r q
    assume b: "float_free b" and eq: "render P (JList xs) @ r = render P b @ q"
    then obtain ys where ys: "b = JList ys"
      using JList.prems render_same_constructor [of P "JList xs" r b q]
      by (auto simp: same_constructor_def)
    have "xs = ys \<and> r = q"
      by (rule join_prefix [where f = "render P" and ok = float_free and close = "CHR '']''"])
        (use step hd b eq JList.prems ys in simp_all)
    with ys show "JList xs = b \<and> r = q" by simp
  qed
next
  case (JObj kvs)
  let ?f = "\<lambda>(k, v). quote k @ '':'' @ render P v" and ?ok = "\<lambda>(k, v). float_free v"
  have step: "\<forall>x\<in>set kvs. unambiguous ?f x ?ok"
  proof
    fix x assume x: "x \<in> set kvs"
    obtain k v where kv: "x = (k, v)" by (cases x)
    with JObj x have "unambiguous (render P) v float_free"
      by (fastforce simp: list_all_iff)
    then show "unambiguous ?f x ?ok"
      unfolding unambiguous_def kv by (auto dest!: quote_prefix)
  qed
  show ?case unfolding unambiguous_def
  proof (intro allI impI)
    fix b r q
    assume b: "float_free b" and eq: "render P (JObj kvs) @ r = render P b @ q"
    then obtain ys where ys: "b = JObj ys"
      using JObj.prems render_same_constructor [of P "JObj kvs" r b q]
      by (auto simp: same_constructor_def)
    have "kvs = ys \<and> r = q"
      by (rule join_prefix [where f = ?f and ok = ?ok and close = "CHR ''}''"])
        (use step b eq JObj.prems ys in \<open>auto simp: quote_def\<close>)
    with ys show "JObj kvs = b \<and> r = q" by simp
  qed
next
  case JNull
  show ?case unfolding unambiguous_def
    using render_same_constructor [of P JNull] by (fastforce simp: same_constructor_def)
next
  case (JBool x)
  show ?case unfolding unambiguous_def
    using render_same_constructor [of P "JBool x"] by (fastforce simp: same_constructor_def)
next
  case (JFloat x)
  then show ?case by simp
qed

lemma float_free_sort_keys: "float_free (sort_keys j) \<longleftrightarrow> float_free j"
  by (induction j rule: sort_keys.induct) (auto simp: list_all_iff)

lemma canonical_json_bytes_eq_iff:
  assumes "float_free a" "float_free b"
  shows "canonical_json_bytes P a = canonical_json_bytes P b \<longleftrightarrow> sort_keys a = sort_keys b"
proof
  assume eq: "canonical_json_bytes P a = canonical_json_bytes P b"
  have nl: "delimited [CHR 0x0A]" by (simp add: delimited_def)
  have "unambiguous (render P) (sort_keys a) float_free"
    by (rule render_unambiguous) (simp add: float_free_sort_keys assms)
  then show "sort_keys a = sort_keys b"
    using eq nl assms(2) unfolding unambiguous_def canonical_json_bytes_def
    by (metis float_free_sort_keys)
qed (simp add: canonical_json_bytes_def)

text \<open>
  C11: canonical JSON bytes identify a document up to the order of its object keys: two
  documents without floating-point numbers encode to the same bytes exactly when they are
  equal after sorting the keys of every object.
\<close>

theorem canonical_json_injective:
  "\<lbrakk>float_free a; float_free b\<rbrakk> \<Longrightarrow>
     canonical_json_bytes P a = canonical_json_bytes P b \<longleftrightarrow> sort_keys a = sort_keys b"
  by (rule canonical_json_bytes_eq_iff)

definition sample_platform :: platform where
  "sample_platform = \<lparr>hexdigest = (\<lambda>b. replicate 64 CHR ''0''), float_repr = (\<lambda>_. ''0.5''),
     casefold = id, strip = id, dump_datetime = (\<lambda>d. show_int (instant d)),
     isoformat_z = (\<lambda>d. show_int (instant d) @ ''Z''), parse_datetime = (\<lambda>_. None),
     dumps_indent = (\<lambda>_. []), loads = (\<lambda>_. None)\<rparr>"

theorem canonical_json_injective_witness:
  "canonical_json_bytes sample_platform (JObj [(''b'', JInt 12), (''a'', JList [JNull])]) =
   canonical_json_bytes sample_platform (JObj [(''a'', JList [JNull]), (''b'', JInt 12)]) \<and>
   canonical_json_bytes sample_platform (JObj [(''a'', JStr ''x'')]) \<noteq>
   canonical_json_bytes sample_platform (JList [JStr ''a'', JStr ''x''])"
proof -
  have "sort_keys (JObj [(''b'', JInt 12), (''a'', JList [JNull])]) =
      sort_keys (JObj [(''a'', JList [JNull]), (''b'', JInt 12)])"
    by code_simp
  then show ?thesis by (subst (1 2) canonical_json_injective) simp_all
qed

end
