(* ===== verification/Completion_Policy.thy ===== *)
theory Completion_Policy
  imports Factory_Base
begin

text \<open>
  The typed evidence policy of \<^verbatim>\<open>tcfactory/v3/completion_policy.py\<close>: the contracts of
  work items and milestones, and the two evaluations that list what a contract still
  lacks. A failure is a value that names the missing piece; the source renders it as a
  sentence. Dictionaries with a fixed iteration order are association lists.
\<close>

datatype EvidenceAuthority = CONTROLLER | INDEPENDENT_REVIEWER | INDEPENDENT_MACHINE_POLICY
  | TRUSTED_EXTERNAL | LIVE_GPU_RUNNER

datatype SemanticEvidence = DETERMINISTIC_ARTIFACT | CANDIDATE_MANIFEST | INDEPENDENT_REVIEW
  | MACHINE_POLICY_DECISION | NATIVE_VALUE_AUTHORIZATION | REACHABLE_ACCOUNT | ATTRIBUTABLE_SOURCE
  | TRAINCHECK_INCIDENT_DIFFERENTIAL | SUPPORT_POLICY | DELIVERY_ECONOMICS
  | THIRD_SAME_FAMILY_CASE | LEGAL_REDUCTION_VERIFIED | ILLEGAL_REDUCTION_REJECTED
  | CUSTOMER_DECISION_CHANGED | CUSTOMER_VALUE_EXCEEDS_PRICE_RETAINED_EFFORT

datatype EvidenceGrade = DETERMINISTIC | CONTROLLED | LIVE | EXTERNAL

datatype CorrelationField = PRODUCT_LINEAGE | CUSTOMER | FAMILY | OFFER | PACK

record CorrelatedEvidenceFact =
  product_lineage_digest :: pystr
  candidate_sha :: pystr
  source_work_item_id :: pystr
  evidence_digest :: pystr
  authority_receipt_digest :: pystr
  customer_identity_digest :: "pystr option"
  family_identity_digest :: "pystr option"
  offer_identity_digest :: "pystr option"
  pack_identity_digest :: "pystr option"
  semantic :: "SemanticEvidence option"
  external_evidence_type :: "EvidenceType option"

definition exactly_one_fact :: "CorrelatedEvidenceFact \<Rightarrow> CorrelatedEvidenceFact result" where
  "exactly_one_fact f = raise_first
     [((semantic f = None) = (external_evidence_type f = None),
       ''correlated evidence must carry exactly one typed fact'')] f"

fun fact_identity :: "CorrelatedEvidenceFact \<Rightarrow> CorrelationField \<Rightarrow> pystr option" where
  "fact_identity f PRODUCT_LINEAGE = Some (product_lineage_digest f)"
| "fact_identity f CUSTOMER = customer_identity_digest f"
| "fact_identity f FAMILY = family_identity_digest f"
| "fact_identity f OFFER = offer_identity_digest f"
| "fact_identity f PACK = pack_identity_digest f"

record MilestoneExitCriterionContract =
  criterion_id :: pystr
  criterion_digest :: pystr
  ec_required_work_item_ids :: "pystr list"
  ec_required_external_evidence_types :: "EvidenceType list"
  ec_required_semantic_counts :: "(SemanticEvidence \<times> int) list"
  ec_machine_policy_required :: bool
  ec_required_correlation_fields :: "CorrelationField list"

definition exit_criterion_exact_roster ::
  "MilestoneExitCriterionContract \<Rightarrow> MilestoneExitCriterionContract result" where
  "exit_criterion_exact_roster c = raise_first
     [(\<not> distinct (ec_required_work_item_ids c), ''exit-criterion work-item IDs must be unique''),
      (\<not> distinct (ec_required_external_evidence_types c),
       ''exit-criterion external evidence types must be unique'')] c"

record WorkItemEvidenceContract =
  wc_work_item_id :: pystr
  wc_milestone_id :: pystr
  wc_roadmap_evidence_digest :: pystr
  minimum_grade :: EvidenceGrade
  required_authorities :: "EvidenceAuthority list"
  required_semantics :: "SemanticEvidence list"
  allowed_external_evidence_types :: "EvidenceType list"
  minimum_external_artifacts :: int
  minimum_semantic_counts :: "SemanticEvidence \<rightharpoonup> int"
  required_prior_evidence :: "(pystr \<times> SemanticEvidence list) list"

text \<open>The loop over the prior-evidence dictionary raises at its first bad entry.\<close>

definition exact_requirements :: "WorkItemEvidenceContract \<Rightarrow> WorkItemEvidenceContract result" where
  "exact_requirements c = raise_first
     ([(\<not> distinct (required_authorities c), ''work-item evidence authorities must be unique''),
       (\<not> distinct (required_semantics c), ''work-item semantic evidence must be unique''),
       (\<not> distinct (allowed_external_evidence_types c),
        ''allowed external evidence types must be unique''),
       (EvidenceAuthority.TRUSTED_EXTERNAL \<in> set (required_authorities c)
          \<and> allowed_external_evidence_types c = [],
        ''trusted-external authority requires exact evidence types''),
       (minimum_external_artifacts c \<noteq> 0 \<and> allowed_external_evidence_types c = [],
        ''external artifact minimum requires exact evidence types'')] @
      concat (map (\<lambda>(w, sems).
        [(w = wc_work_item_id c \<or> sems = [],
          ''prior evidence dependency is empty or self-referential''),
         (\<not> distinct sems, ''prior evidence dependency semantics must be unique'')])
        (required_prior_evidence c))) c"

record MilestoneEvidenceContract =
  mc_milestone_id :: pystr
  mc_roadmap_evidence_digest :: pystr
  mc_required_external_evidence_types :: "EvidenceType list"
  mc_required_semantic_counts :: "(SemanticEvidence \<times> int) list"
  mc_machine_policy_required :: bool
  allow_unrelated_future_lanes_while_external_wait :: "pystr list"
  exit_criteria :: "MilestoneExitCriterionContract list"

record CompletionEvidencePolicy =
  work_items_sha256 :: pystr
  milestones_sha256 :: pystr
  cp_work_items :: "WorkItemEvidenceContract list"
  cp_milestones :: "MilestoneEvidenceContract list"

definition unique_roster :: "CompletionEvidencePolicy \<Rightarrow> CompletionEvidencePolicy result" where
  "unique_roster p = raise_first
     [(\<not> distinct (map wc_work_item_id (cp_work_items p)),
       ''completion work-item contracts must be unique''),
      (\<not> distinct (map mc_milestone_id (cp_milestones p)),
       ''completion milestone contracts must be unique'')] p"

definition policy_work_item ::
  "CompletionEvidencePolicy \<Rightarrow> pystr \<Rightarrow> WorkItemEvidenceContract result" where
  "policy_work_item p w =
     (case filter (\<lambda>c. wc_work_item_id c = w) (cp_work_items p) of
        [c] \<Rightarrow> Inr c
      | _ \<Rightarrow> Inl (ValueError ''work item has no unique evidence contract''))"

definition policy_milestone ::
  "CompletionEvidencePolicy \<Rightarrow> pystr \<Rightarrow> MilestoneEvidenceContract result" where
  "policy_milestone p m =
     (case filter (\<lambda>c. mc_milestone_id c = m) (cp_milestones p) of
        [c] \<Rightarrow> Inr c
      | _ \<Rightarrow> Inl (ValueError ''milestone has no unique evidence contract''))"

record CompletionEvidenceObservation =
  grade :: EvidenceGrade
  authorities :: "EvidenceAuthority list"
  semantic_counts :: "SemanticEvidence \<rightharpoonup> int"
  external_type_counts :: "(EvidenceType \<times> int) list"
  prior_evidence :: "pystr \<rightharpoonup> SemanticEvidence list"

fun grade_rank :: "EvidenceGrade \<Rightarrow> nat" where
  "grade_rank DETERMINISTIC = 0"
| "grade_rank CONTROLLED = 1"
| "grade_rank LIVE = 2"
| "grade_rank EXTERNAL = 3"

text \<open>\<open>d.get(k, 0)\<close>.\<close>

definition get0 :: "('k \<rightharpoonup> int) \<Rightarrow> 'k \<Rightarrow> int" where
  "get0 m k = (case m k of None \<Rightarrow> 0 | Some v \<Rightarrow> v)"

datatype evidence_failure =
    GradeBelow EvidenceGrade EvidenceGrade
  | LacksAuthority EvidenceAuthority
  | LacksSemantic int SemanticEvidence
  | LacksExternalArtifacts int
  | UnrelatedExternal "EvidenceType list"
  | LacksPrior SemanticEvidence pystr
  | LacksWorkItems pystr "pystr list"
  | LacksExternal pystr EvidenceType
  | LacksCriterionSemantic pystr int SemanticEvidence
  | LacksMachinePolicy pystr
  | LacksCorrelation pystr "CorrelationField list"

definition evaluate_work_item_evidence_contract ::
  "WorkItemEvidenceContract \<Rightarrow> CompletionEvidenceObservation \<Rightarrow> evidence_failure list" where
  "evaluate_work_item_evidence_contract c obs =
     (if grade_rank (grade obs) < grade_rank (minimum_grade c)
      then [GradeBelow (grade obs) (minimum_grade c)] else []) @
     map LacksAuthority (filter (\<lambda>a. a \<notin> set (authorities obs)) (required_authorities c)) @
     concat (map (\<lambda>s.
       let minimum = max 1 (get0 (minimum_semantic_counts c) s)
       in if get0 (semantic_counts obs) s < minimum then [LacksSemantic minimum s] else [])
       (required_semantics c)) @
     (if allowed_external_evidence_types c = [] then []
      else
       (let observed = sum_list (map (get0 (map_of (external_type_counts obs)))
                         (allowed_external_evidence_types c));
            disallowed = filter (\<lambda>t. t \<notin> set (allowed_external_evidence_types c))
                         (map fst (external_type_counts obs))
        in (if observed < minimum_external_artifacts c
            then [LacksExternalArtifacts (minimum_external_artifacts c)] else []) @
           (if disallowed \<noteq> [] then [UnrelatedExternal disallowed] else []))) @
     concat (map (\<lambda>(w, sems).
       let observed = (case prior_evidence obs w of None \<Rightarrow> [] | Some xs \<Rightarrow> xs)
       in map (\<lambda>s. LacksPrior s w) (filter (\<lambda>s. s \<notin> set observed) sems))
       (required_prior_evidence c))"

text \<open>
  The correlation closure of one exit criterion. \<open>fact.identity(field) or ""\<close> is empty
  for a missing identity, and only a tuple with no empty part founds a group; the groups
  are the facts that share such a tuple.
\<close>

definition identity_tuple :: "CorrelationField list \<Rightarrow> CorrelatedEvidenceFact \<Rightarrow> pystr list" where
  "identity_tuple cfs f =
     map (\<lambda>fl. case fact_identity f fl of None \<Rightarrow> [] | Some s \<Rightarrow> s) cfs"

definition correlated_groups ::
  "CorrelationField list \<Rightarrow> CorrelatedEvidenceFact list \<Rightarrow> CorrelatedEvidenceFact list list" where
  "correlated_groups cfs facts =
     (let usable = filter (\<lambda>f. [] \<notin> set (identity_tuple cfs f)) facts
      in map (\<lambda>t. filter (\<lambda>f. identity_tuple cfs f = t) usable)
           (fromkeys (map (identity_tuple cfs) usable)))"

definition criterion_correlated ::
  "MilestoneExitCriterionContract \<Rightarrow> CorrelatedEvidenceFact list \<Rightarrow> bool" where
  "criterion_correlated c facts =
     list_ex (\<lambda>g.
       set (map fst (ec_required_semantic_counts c)) \<subseteq> set (List.map_filter semantic g) \<and>
       set (ec_required_external_evidence_types c) \<subseteq> set (List.map_filter external_evidence_type g))
       (correlated_groups (ec_required_correlation_fields c) facts)"

definition criterion_failures ::
  "pystr set \<Rightarrow> (SemanticEvidence \<rightharpoonup> int) \<Rightarrow> (EvidenceType \<rightharpoonup> int) \<Rightarrow> bool \<Rightarrow>
   CorrelatedEvidenceFact list \<Rightarrow> MilestoneExitCriterionContract \<Rightarrow> evidence_failure list" where
  "criterion_failures completed sem_counts ext_counts machine_policy facts c =
     (let missing = sorted_set (filter (\<lambda>w. w \<notin> completed) (ec_required_work_item_ids c))
      in if missing \<noteq> [] then [LacksWorkItems (criterion_id c) missing] else []) @
     map (LacksExternal (criterion_id c))
       (filter (\<lambda>t. get0 ext_counts t < 1) (ec_required_external_evidence_types c)) @
     map (\<lambda>(s, n). LacksCriterionSemantic (criterion_id c) n s)
       (filter (\<lambda>(s, n). get0 sem_counts s < n) (ec_required_semantic_counts c)) @
     (if ec_machine_policy_required c \<and> \<not> machine_policy
      then [LacksMachinePolicy (criterion_id c)] else []) @
     (if ec_required_correlation_fields c \<noteq> [] \<and> \<not> criterion_correlated c facts
      then [LacksCorrelation (criterion_id c) (ec_required_correlation_fields c)] else [])"

definition evaluate_milestone_exit_criteria ::
  "MilestoneEvidenceContract \<Rightarrow> pystr set \<Rightarrow> (SemanticEvidence \<rightharpoonup> int) \<Rightarrow> (EvidenceType \<rightharpoonup> int) \<Rightarrow>
   bool \<Rightarrow> CorrelatedEvidenceFact list \<Rightarrow> evidence_failure list" where
  "evaluate_milestone_exit_criteria c completed sem_counts ext_counts machine_policy facts =
     concat (map (criterion_failures completed sem_counts ext_counts machine_policy facts)
       (exit_criteria c))"

section \<open>Lemmas\<close>

definition same_identity ::
  "CorrelationField list \<Rightarrow> CorrelatedEvidenceFact list \<Rightarrow> CorrelatedEvidenceFact \<Rightarrow>
   CorrelatedEvidenceFact list" where
  "same_identity cfs facts f = filter (\<lambda>f'. identity_tuple cfs f' = identity_tuple cfs f) facts"

lemma set_correlated_groups:
  "set (correlated_groups cfs facts) =
     same_identity cfs facts ` {f \<in> set facts. [] \<notin> set (identity_tuple cfs f)}"
proof -
  have "filter (\<lambda>f'. identity_tuple cfs f' = identity_tuple cfs f)
          (filter (\<lambda>f'. [] \<notin> set (identity_tuple cfs f')) facts) = same_identity cfs facts f"
    if "[] \<notin> set (identity_tuple cfs f)" for f
    unfolding same_identity_def filter_filter by (rule filter_cong) (use that in auto)
  then show ?thesis
    unfolding correlated_groups_def Let_def set_map set_fromkeys image_image set_filter
    by (intro image_cong) auto
qed

lemma set_map_filter: "y \<in> set (List.map_filter f xs) \<longleftrightarrow> (\<exists>x\<in>set xs. f x = Some y)"
  by (induction xs) (auto simp: List.map_filter_def split: option.splits)

lemma map_filter_same_identity:
  "s \<in> set (List.map_filter h (same_identity cfs facts f)) \<longleftrightarrow>
     (\<exists>f'\<in>set facts. h f' = Some s \<and> identity_tuple cfs f' = identity_tuple cfs f)"
  by (auto simp: set_map_filter same_identity_def)

text \<open>
  A criterion is correlated when some fact carries every correlation identity, and each
  required kind of evidence is a fact that carries the same identities.
\<close>

lemma criterion_correlated_iff:
  "criterion_correlated c facts \<longleftrightarrow>
     (\<exists>f\<in>set facts.
        [] \<notin> set (identity_tuple (ec_required_correlation_fields c) f) \<and>
        (\<forall>s\<in>fst ` set (ec_required_semantic_counts c). \<exists>f'\<in>set facts. semantic f' = Some s \<and>
           identity_tuple (ec_required_correlation_fields c) f' =
           identity_tuple (ec_required_correlation_fields c) f) \<and>
        (\<forall>t\<in>set (ec_required_external_evidence_types c). \<exists>f'\<in>set facts.
           external_evidence_type f' = Some t \<and>
           identity_tuple (ec_required_correlation_fields c) f' =
           identity_tuple (ec_required_correlation_fields c) f))"
  unfolding criterion_correlated_def list_ex_iff set_correlated_groups subset_eq set_map
    bex_simps(7) by (simp only: mem_Collect_eq Bex_def conj_assoc map_filter_same_identity)

lemma criterion_failures_Nil_iff:
  "criterion_failures completed sc ec mp facts c = [] \<longleftrightarrow>
     set (ec_required_work_item_ids c) \<subseteq> completed \<and>
     (\<forall>t\<in>set (ec_required_external_evidence_types c). 1 \<le> get0 ec t) \<and>
     (\<forall>(s, n)\<in>set (ec_required_semantic_counts c). n \<le> get0 sc s) \<and>
     (ec_machine_policy_required c \<longrightarrow> mp) \<and>
     (ec_required_correlation_fields c \<noteq> [] \<longrightarrow> criterion_correlated c facts)"
proof -
  have "sorted_set (filter (\<lambda>w. w \<notin> completed) (ec_required_work_item_ids c)) = [] \<longleftrightarrow>
        set (ec_required_work_item_ids c) \<subseteq> completed"
    by (auto simp: set_empty [symmetric] simp del: set_empty)
  then show ?thesis
    by (auto simp: criterion_failures_def Let_def filter_empty_conv not_less)
qed

section \<open>What closing a milestone means\<close>

text \<open>
  C9: the exit criteria of a milestone report nothing exactly when every criterion has all
  its work items completed, one artifact of every external evidence type, the required
  count of every semantic evidence, the machine-policy decision where it is required, and,
  where it names correlation fields, one fact that carries all these identities such that
  every required semantic and external evidence is a fact with the very same identities.
\<close>

theorem milestone_exit_iff:
  "evaluate_milestone_exit_criteria m completed sc ec mp facts = [] \<longleftrightarrow>
   (\<forall>c\<in>set (exit_criteria m).
      set (ec_required_work_item_ids c) \<subseteq> completed \<and>
      (\<forall>t\<in>set (ec_required_external_evidence_types c). 1 \<le> get0 ec t) \<and>
      (\<forall>(s, n)\<in>set (ec_required_semantic_counts c). n \<le> get0 sc s) \<and>
      (ec_machine_policy_required c \<longrightarrow> mp) \<and>
      (ec_required_correlation_fields c \<noteq> [] \<longrightarrow>
        (\<exists>f\<in>set facts.
          [] \<notin> set (identity_tuple (ec_required_correlation_fields c) f) \<and>
          (\<forall>s\<in>fst ` set (ec_required_semantic_counts c). \<exists>f'\<in>set facts. semantic f' = Some s \<and>
             identity_tuple (ec_required_correlation_fields c) f' =
             identity_tuple (ec_required_correlation_fields c) f) \<and>
          (\<forall>t\<in>set (ec_required_external_evidence_types c). \<exists>f'\<in>set facts.
             external_evidence_type f' = Some t \<and>
             identity_tuple (ec_required_correlation_fields c) f' =
             identity_tuple (ec_required_correlation_fields c) f))))"
  unfolding criterion_correlated_iff [symmetric] criterion_failures_Nil_iff [symmetric]
  by (auto simp: evaluate_milestone_exit_criteria_def)

definition sample_fact :: "SemanticEvidence option \<Rightarrow> EvidenceType option \<Rightarrow> CorrelatedEvidenceFact" where
  "sample_fact s t = \<lparr>product_lineage_digest = ''lineage'', candidate_sha = ''sha'',
     source_work_item_id = ''M9-001'', evidence_digest = ''evidence'',
     authority_receipt_digest = ''receipt'', customer_identity_digest = Some ''acme'',
     family_identity_digest = None, offer_identity_digest = None, pack_identity_digest = None,
     semantic = s, external_evidence_type = t\<rparr>"

definition sample_criterion :: MilestoneExitCriterionContract where
  "sample_criterion = \<lparr>criterion_id = ''exit-1'', criterion_digest = ''digest'',
     ec_required_work_item_ids = [''M9-001''], ec_required_external_evidence_types = [PAID_PILOT],
     ec_required_semantic_counts = [(CUSTOMER_DECISION_CHANGED, 1)],
     ec_machine_policy_required = False, ec_required_correlation_fields = [CUSTOMER]\<rparr>"

definition sample_milestone :: MilestoneEvidenceContract where
  "sample_milestone = \<lparr>mc_milestone_id = ''M9'', mc_roadmap_evidence_digest = ''digest'',
     mc_required_external_evidence_types = [PAID_PILOT], mc_required_semantic_counts = [],
     mc_machine_policy_required = False, allow_unrelated_future_lanes_while_external_wait = [],
     exit_criteria = [sample_criterion]\<rparr>"

theorem milestone_exit_iff_witness:
  "evaluate_milestone_exit_criteria sample_milestone {''M9-001''}
     [CUSTOMER_DECISION_CHANGED \<mapsto> 1] [PAID_PILOT \<mapsto> 2] False
     [sample_fact (Some CUSTOMER_DECISION_CHANGED) None, sample_fact None (Some PAID_PILOT)] = []"
  unfolding milestone_exit_iff
  by (simp add: sample_milestone_def sample_criterion_def sample_fact_def get0_def identity_tuple_def)

text \<open>
  The report of a work item's contract is empty exactly when the observed grade
  reaches the minimum, every authority took part, every required semantic was observed at
  least once and as often as the contract counts, the allowed external types add up to the
  minimum and no other type was observed, and every named prior work item carries its
  required semantics.
\<close>

theorem work_item_contract_iff:
  "evaluate_work_item_evidence_contract c obs = [] \<longleftrightarrow>
   grade_rank (minimum_grade c) \<le> grade_rank (grade obs) \<and>
   set (required_authorities c) \<subseteq> set (authorities obs) \<and>
   (\<forall>s\<in>set (required_semantics c).
      1 \<le> get0 (semantic_counts obs) s \<and>
      get0 (minimum_semantic_counts c) s \<le> get0 (semantic_counts obs) s) \<and>
   (allowed_external_evidence_types c \<noteq> [] \<longrightarrow>
      minimum_external_artifacts c \<le>
        (\<Sum>t\<leftarrow>allowed_external_evidence_types c. get0 (map_of (external_type_counts obs)) t) \<and>
      fst ` set (external_type_counts obs) \<subseteq> set (allowed_external_evidence_types c)) \<and>
   (\<forall>(w, sems)\<in>set (required_prior_evidence c). \<forall>s\<in>set sems.
      \<exists>xs. prior_evidence obs w = Some xs \<and> s \<in> set xs)"
proof -
  have sem: "(let minimum = max 1 (get0 m s) in if get0 n s < minimum then [LacksSemantic minimum s] else [])
      = [] \<longleftrightarrow> 1 \<le> get0 n s \<and> get0 m s \<le> get0 n s" for m n s
    by (auto simp: Let_def)
  have prior: "(let observed = (case m w of None \<Rightarrow> [] | Some xs \<Rightarrow> xs)
      in map (\<lambda>s. LacksPrior s w) (filter (\<lambda>s. s \<notin> set observed) sems)) = [] \<longleftrightarrow>
      (\<forall>s\<in>set sems. \<exists>xs. m w = Some xs \<and> s \<in> set xs)"
    for m :: "pystr \<rightharpoonup> SemanticEvidence list" and w sems
    by (cases "m w") (auto simp: Let_def filter_empty_conv)
  have ext: "(if as = [] then [] else
       (let observed = sum_list (map f as); disallowed = filter (\<lambda>t. t \<notin> set as) ts
        in (if observed < n then [LacksExternalArtifacts n] else []) @
           (if disallowed \<noteq> [] then [UnrelatedExternal disallowed] else []))) = [] \<longleftrightarrow>
      (as \<noteq> [] \<longrightarrow> n \<le> sum_list (map f as) \<and> set ts \<subseteq> set as)" for as f ts n
    by (auto simp: Let_def filter_empty_conv)
  show ?thesis
    unfolding evaluate_work_item_evidence_contract_def append_is_Nil_conv concat_eq_Nil_conv map_is_Nil_conv
      ext set_map ball_simps sem split_beta prior
    by (simp add: filter_empty_conv subset_eq not_less)
qed

definition sample_contract :: WorkItemEvidenceContract where
  "sample_contract = \<lparr>wc_work_item_id = ''M9-001'', wc_milestone_id = ''M9'',
     wc_roadmap_evidence_digest = ''digest'', minimum_grade = CONTROLLED,
     required_authorities = [CONTROLLER], required_semantics = [SUPPORT_POLICY],
     allowed_external_evidence_types = [PAID_PILOT], minimum_external_artifacts = 2,
     minimum_semantic_counts = [SUPPORT_POLICY \<mapsto> 2],
     required_prior_evidence = [(''M8-001'', [INDEPENDENT_REVIEW])]\<rparr>"

definition sample_observation :: CompletionEvidenceObservation where
  "sample_observation = \<lparr>grade = LIVE, authorities = [CONTROLLER],
     semantic_counts = [SUPPORT_POLICY \<mapsto> 3], external_type_counts = [(PAID_PILOT, 2)],
     prior_evidence = [''M8-001'' \<mapsto> [INDEPENDENT_REVIEW]]\<rparr>"

theorem work_item_contract_iff_witness:
  "evaluate_work_item_evidence_contract sample_contract sample_observation = []"
  unfolding work_item_contract_iff
  by (simp add: sample_contract_def sample_observation_def get0_def)

end
