(* ===== verification/Maturity.thy ===== *)
theory Maturity
  imports Canonical_Json Completion_Policy
begin

text \<open>
  Engineering and commercial maturity (\<^verbatim>\<open>tcfactory/v3/maturity.py\<close>): labels must carry
  references, and an elevated commercial label is supported only by an authorization
  derived from correlated facts of one product lineage whose digest recomputes.
\<close>

section \<open>Records\<close>

record MaturityTarget =
  mt_engineering :: EngineeringMaturity
  mt_commercial :: CommercialMaturity

record MaturityState =
  ms_engineering :: EngineeringMaturity
  ms_commercial :: CommercialMaturity
  engineering_evidence :: "pystr list"
  ms_external_evidence_refs :: "pystr list"

definition unprintable_reference :: "pystr \<Rightarrow> bool" where
  "unprintable_reference s \<longleftrightarrow> all_space s \<or> list_ex (\<lambda>c. of_char c < (32::nat)) s"

definition reference_checks :: "string \<Rightarrow> string \<Rightarrow> pystr list \<Rightarrow> (bool \<times> string) list" where
  "reference_checks unique printable refs =
     [(\<not> distinct refs, unique), (list_ex unprintable_reference refs, printable)]"

definition require_evidence_for_elevated_maturity :: "MaturityState \<Rightarrow> MaturityState result" where
  "require_evidence_for_elevated_maturity m = raise_first
     (reference_checks ''engineering evidence references must be unique''
        ''engineering evidence references must be non-empty printable strings''
        (engineering_evidence m) @
      reference_checks ''external evidence references must be unique''
        ''external evidence references must be non-empty printable strings''
        (ms_external_evidence_refs m) @
      [(ms_engineering m \<in> {IMPLEMENTED_EXPERIMENTAL, CONTROLLED_VALIDATED, EXTERNAL_VALIDATED}
          \<and> engineering_evidence m = [],
        ''elevated engineering maturity requires engineering evidence''),
       (ms_engineering m = EXTERNAL_VALIDATED \<and> ms_external_evidence_refs m = [],
        ''external engineering validation requires external evidence''),
       (ms_commercial m \<in> {NATIVE_ADVANTAGE_DEMONSTRATED, EXTERNAL_VALUE_DEMONSTRATED,
          COMMERCIALLY_SUPPORTED} \<and> ms_external_evidence_refs m = [],
        ''elevated commercial maturity requires external evidence'')]) m"

section \<open>Authorizations\<close>

fun semantic_value :: "SemanticEvidence \<Rightarrow> pystr" where
  "semantic_value DETERMINISTIC_ARTIFACT = ''DETERMINISTIC_ARTIFACT''"
| "semantic_value CANDIDATE_MANIFEST = ''CANDIDATE_MANIFEST''"
| "semantic_value INDEPENDENT_REVIEW = ''INDEPENDENT_REVIEW''"
| "semantic_value MACHINE_POLICY_DECISION = ''MACHINE_POLICY_DECISION''"
| "semantic_value NATIVE_VALUE_AUTHORIZATION = ''NATIVE_VALUE_AUTHORIZATION''"
| "semantic_value REACHABLE_ACCOUNT = ''REACHABLE_ACCOUNT''"
| "semantic_value ATTRIBUTABLE_SOURCE = ''ATTRIBUTABLE_SOURCE''"
| "semantic_value TRAINCHECK_INCIDENT_DIFFERENTIAL = ''TRAINCHECK_INCIDENT_DIFFERENTIAL''"
| "semantic_value SUPPORT_POLICY = ''SUPPORT_POLICY''"
| "semantic_value SemanticEvidence.DELIVERY_ECONOMICS = ''DELIVERY_ECONOMICS''"
| "semantic_value THIRD_SAME_FAMILY_CASE = ''THIRD_SAME_FAMILY_CASE''"
| "semantic_value LEGAL_REDUCTION_VERIFIED = ''LEGAL_REDUCTION_VERIFIED''"
| "semantic_value ILLEGAL_REDUCTION_REJECTED = ''ILLEGAL_REDUCTION_REJECTED''"
| "semantic_value CUSTOMER_DECISION_CHANGED = ''CUSTOMER_DECISION_CHANGED''"
| "semantic_value CUSTOMER_VALUE_EXCEEDS_PRICE_RETAINED_EFFORT =
     ''CUSTOMER_VALUE_EXCEEDS_PRICE_RETAINED_EFFORT''"

fun evidence_type_value :: "EvidenceType \<Rightarrow> pystr" where
  "evidence_type_value CUSTOMER_CONVERSATION = ''CUSTOMER_CONVERSATION''"
| "evidence_type_value INCIDENT_ARCHIVE_ACCESS = ''INCIDENT_ARCHIVE_ACCESS''"
| "evidence_type_value PAID_PREFLIGHT = ''PAID_PREFLIGHT''"
| "evidence_type_value PAID_PILOT = ''PAID_PILOT''"
| "evidence_type_value DECISION_CHANGED = ''DECISION_CHANGED''"
| "evidence_type_value SECOND_PAID_ACTION = ''SECOND_PAID_ACTION''"
| "evidence_type_value INDEPENDENT_OPERATOR = ''INDEPENDENT_OPERATOR''"
| "evidence_type_value UPSTREAM_ACCEPTANCE = ''UPSTREAM_ACCEPTANCE''"
| "evidence_type_value PROVIDER_ACCEPTANCE = ''PROVIDER_ACCEPTANCE''"
| "evidence_type_value INCIDENT_TIMELINE = ''INCIDENT_TIMELINE''"
| "evidence_type_value UPCOMING_CHANGE = ''UPCOMING_CHANGE''"
| "evidence_type_value PILOT_CANDIDATE = ''PILOT_CANDIDATE''"
| "evidence_type_value CUSTOMER_AUTHORIZATION = ''CUSTOMER_AUTHORIZATION''"
| "evidence_type_value SECOND_ACTION_COMMITMENT = ''SECOND_ACTION_COMMITMENT''"
| "evidence_type_value GPU_EXECUTION = ''GPU_EXECUTION''"
| "evidence_type_value SAME_FAMILY_CASE = ''SAME_FAMILY_CASE''"
| "evidence_type_value SUPPORT_ACCEPTANCE = ''SUPPORT_ACCEPTANCE''"
| "evidence_type_value EvidenceType.DELIVERY_ECONOMICS = ''DELIVERY_ECONOMICS''"

definition dump_fact :: "CorrelatedEvidenceFact \<Rightarrow> json" where
  "dump_fact f = JObj
     [(''productLineageDigest'', JStr (product_lineage_digest f)),
      (''candidateSha'', JStr (candidate_sha f)),
      (''sourceWorkItemId'', JStr (source_work_item_id f)),
      (''evidenceDigest'', JStr (evidence_digest f)),
      (''authorityReceiptDigest'', JStr (authority_receipt_digest f)),
      (''customerIdentityDigest'', jopt JStr (customer_identity_digest f)),
      (''familyIdentityDigest'', jopt JStr (family_identity_digest f)),
      (''offerIdentityDigest'', jopt JStr (offer_identity_digest f)),
      (''packIdentityDigest'', jopt JStr (pack_identity_digest f)),
      (''semantic'', jopt (JStr \<circ> semantic_value) (semantic f)),
      (''externalEvidenceType'', jopt (JStr \<circ> evidence_type_value) (external_evidence_type f))]"

definition authorization_digest_of ::
  "platform \<Rightarrow> pystr \<Rightarrow> CorrelatedEvidenceFact list \<Rightarrow> pystr list \<Rightarrow> pystr" where
  "authorization_digest_of P lineage facts receipts = digest_json P (JObj
     [(''productLineageDigest'', JStr lineage),
      (''correlatedFacts'', JList (map dump_fact facts)),
      (''verifiedReceiptDigests'', JList (map JStr receipts))])"

text \<open>The sort key is a tuple of four strings; as lists of equal length they compare alike.\<close>

definition fact_key :: "CorrelatedEvidenceFact \<Rightarrow> pystr list" where
  "fact_key f =
     [source_work_item_id f, evidence_digest f,
      (case semantic f of None \<Rightarrow> [] | Some s \<Rightarrow> semantic_value s),
      (case external_evidence_type f of None \<Rightarrow> [] | Some t \<Rightarrow> evidence_type_value t)]"

record CommercialMaturityAuthorization =
  au_product_lineage_digest :: pystr
  correlated_facts :: "CorrelatedEvidenceFact list"
  verified_receipt_digests :: "pystr list"
  authorization_digest :: pystr

definition fact_fields_ok :: "CorrelatedEvidenceFact \<Rightarrow> bool" where
  "fact_fields_ok f \<longleftrightarrow>
     is_digest (product_lineage_digest f) \<and> is_git_sha (candidate_sha f) \<and>
     is_work_item_id (source_work_item_id f) \<and> is_digest (evidence_digest f) \<and>
     is_digest (authority_receipt_digest f) \<and>
     pred_option is_digest (customer_identity_digest f) \<and>
     pred_option is_digest (family_identity_digest f) \<and>
     pred_option is_digest (offer_identity_digest f) \<and>
     pred_option is_digest (pack_identity_digest f)"

definition validate_fact :: "CorrelatedEvidenceFact \<Rightarrow> CorrelatedEvidenceFact result" where
  "validate_fact f =
     (if \<not> fact_fields_ok f then Inl (ValidationError ''CorrelatedEvidenceFact'')
      else exactly_one_fact f)"

definition derived_not_asserted ::
  "platform \<Rightarrow> CommercialMaturityAuthorization \<Rightarrow> CommercialMaturityAuthorization result" where
  "derived_not_asserted P a = raise_first
     ([(correlated_facts a \<noteq> sort_key fact_key (correlated_facts a),
        ''commercial facts are not in canonical order''),
       (verified_receipt_digests a \<noteq> sorted_set (verified_receipt_digests a),
        ''verified commercial receipt roster is not canonical''),
       (\<not> distinct (map fact_key (correlated_facts a)),
        ''commercial fact roster contains duplicates'')] @
      concat (map (\<lambda>f.
        [(product_lineage_digest f \<noteq> au_product_lineage_digest a,
          ''commercial facts mix product lineages''),
         (authority_receipt_digest f \<notin> set (verified_receipt_digests a),
          ''commercial fact is not backed by a verified receipt''),
         (external_evidence_type f \<noteq> None \<and> evidence_digest f \<noteq> authority_receipt_digest f,
          ''external fact digest differs from its signed receipt'')]) (correlated_facts a)) @
      [(authorization_digest a \<noteq> authorization_digest_of P (au_product_lineage_digest a)
          (correlated_facts a) (verified_receipt_digests a),
        ''commercial authorization digest is caller-authored or stale'')]) a"

text \<open>\<open>model_validate\<close> of an authorization: field constraints, the facts, then the validator.\<close>

definition validate_authorization ::
  "platform \<Rightarrow> CommercialMaturityAuthorization \<Rightarrow> CommercialMaturityAuthorization result" where
  "validate_authorization P a =
     (if \<not> (is_digest (au_product_lineage_digest a) \<and> is_digest (authorization_digest a) \<and>
            1 \<le> length (correlated_facts a) \<and> length (correlated_facts a) \<le> 256 \<and>
            1 \<le> length (verified_receipt_digests a) \<and> length (verified_receipt_digests a) \<le> 256)
      then Inl (ValidationError ''CommercialMaturityAuthorization'')
      else rbind (traverse validate_fact (correlated_facts a)) (\<lambda>_. derived_not_asserted P a))"

definition derive_commercial_maturity_authorization ::
  "platform \<Rightarrow> CorrelatedEvidenceFact list \<Rightarrow> pystr list \<Rightarrow> CommercialMaturityAuthorization result"
where
  "derive_commercial_maturity_authorization P facts verified =
     (case remdups (map product_lineage_digest facts) of
        [lineage] \<Rightarrow>
          (let ordered = sort_key fact_key facts; receipts = sorted_set verified
           in validate_authorization P
             \<lparr>au_product_lineage_digest = lineage, correlated_facts = ordered,
              verified_receipt_digests = receipts,
              authorization_digest = authorization_digest_of P lineage ordered receipts\<rparr>)
      | _ \<Rightarrow> Inl (ValueError ''commercial facts do not share one stable product lineage''))"

section \<open>Support for a claimed maturity\<close>

definition facts_semantic ::
  "CommercialMaturityAuthorization \<Rightarrow> SemanticEvidence \<Rightarrow> CorrelatedEvidenceFact list" where
  "facts_semantic a s = filter (\<lambda>f. semantic f = Some s) (correlated_facts a)"

definition facts_external ::
  "CommercialMaturityAuthorization \<Rightarrow> EvidenceType \<Rightarrow> CorrelatedEvidenceFact list" where
  "facts_external a t = filter (\<lambda>f. external_evidence_type f = Some t) (correlated_facts a)"

definition identities_of :: "CorrelationField list \<Rightarrow> CorrelatedEvidenceFact \<Rightarrow> pystr option list" where
  "identities_of cfs f = map (fact_identity f) cfs"

text \<open>
  Every call passes at least two groups; on an empty list the source would raise
  \<open>IndexError\<close>, and the model answers False.
\<close>

fun correlated :: "CorrelatedEvidenceFact list list \<Rightarrow> CorrelationField list \<Rightarrow> bool" where
  "correlated [] cfs = False"
| "correlated (g # gs) cfs =
     (if list_ex (\<lambda>h. h = []) (g # gs) then False
      else list_ex (\<lambda>anchor.
        None \<notin> set (identities_of cfs anchor) \<and>
        list_all (list_ex (\<lambda>f. identities_of cfs f = identities_of cfs anchor)) gs) g)"

definition value_supported :: "CommercialMaturityAuthorization \<Rightarrow> bool" where
  "value_supported a \<longleftrightarrow>
     (let native = facts_semantic a NATIVE_VALUE_AUTHORIZATION;
          decision = facts_external a DECISION_CHANGED;
          changed = facts_semantic a CUSTOMER_DECISION_CHANGED;
          valuable = facts_semantic a CUSTOMER_VALUE_EXCEEDS_PRICE_RETAINED_EFFORT
      in correlated [decision, changed, valuable] [PRODUCT_LINEAGE, CUSTOMER, OFFER] \<and>
         correlated [decision, native] [PRODUCT_LINEAGE])"

definition commercially_supported :: "CommercialMaturityAuthorization \<Rightarrow> bool" where
  "commercially_supported a \<longleftrightarrow>
     (let decision = facts_external a DECISION_CHANGED;
          repeat = facts_external a SECOND_PAID_ACTION;
          economics = facts_semantic a SemanticEvidence.DELIVERY_ECONOMICS;
          same_family = facts_external a SAME_FAMILY_CASE;
          third_case = facts_semantic a THIRD_SAME_FAMILY_CASE;
          support = facts_external a SUPPORT_ACCEPTANCE;
          support_policy = facts_semantic a SUPPORT_POLICY
      in value_supported a \<and>
         correlated [decision, repeat, economics] [PRODUCT_LINEAGE, CUSTOMER, OFFER] \<and>
         correlated [decision, repeat, same_family, third_case] [PRODUCT_LINEAGE, CUSTOMER] \<and>
         correlated [same_family, third_case, support, support_policy]
           [PRODUCT_LINEAGE, FAMILY, PACK])"

definition commercial_maturity_supported ::
  "platform \<Rightarrow> CommercialMaturity \<Rightarrow> CommercialMaturityAuthorization option \<Rightarrow> bool" where
  "commercial_maturity_supported P m authorization =
     (if m \<in> {NOT_EVALUATED, NATIVE_ADVANTAGE_UNPROVEN, WITHDRAWN} then True
      else case authorization of
        None \<Rightarrow> False
      | Some a \<Rightarrow>
         (case validate_authorization P a of
            Inl _ \<Rightarrow> False
          | Inr a \<Rightarrow>
             (case m of
                NATIVE_ADVANTAGE_DEMONSTRATED \<Rightarrow>
                  facts_semantic a NATIVE_VALUE_AUTHORIZATION \<noteq> []
              | EXTERNAL_VALUE_DEMONSTRATED \<Rightarrow> value_supported a
              | COMMERCIALLY_SUPPORTED \<Rightarrow> commercially_supported a
              | _ \<Rightarrow> False)))"

section \<open>Lemmas\<close>

lemma correlated_nonempty: "correlated gs cfs \<Longrightarrow> [] \<notin> set gs"
  by (cases gs) (auto simp: list_ex_iff split: if_splits)

lemma correlated_common_identity:
  assumes "correlated gs cfs"
  obtains ids where "None \<notin> set ids" "\<forall>g\<in>set gs. \<exists>f\<in>set g. identities_of cfs f = ids"
proof (cases gs)
  case Nil
  with assms show thesis by simp
next
  case (Cons g gs')
  with assms obtain anchor where a: "anchor \<in> set g" "None \<notin> set (identities_of cfs anchor)"
    "\<forall>h\<in>set gs'. \<exists>f\<in>set h. identities_of cfs f = identities_of cfs anchor"
    by (auto simp: list_ex_iff list_all_iff split: if_splits)
  show thesis
    by (rule that [of "identities_of cfs anchor"]) (use a Cons in auto)
qed

lemma validate_authorization_Inr:
  assumes "validate_authorization P a = Inr b"
  shows "b = a"
    and "\<forall>f\<in>set (correlated_facts a). product_lineage_digest f = au_product_lineage_digest a \<and>
      authority_receipt_digest f \<in> set (verified_receipt_digests a)"
    and "authorization_digest a = authorization_digest_of P (au_product_lineage_digest a)
      (correlated_facts a) (verified_receipt_digests a)"
  using assms
  by (auto simp: validate_authorization_def derived_not_asserted_def result_simps split: if_splits)

lemma supported_iff_validated:
  assumes "m \<notin> {NOT_EVALUATED, NATIVE_ADVANTAGE_UNPROVEN, WITHDRAWN}"
  shows "commercial_maturity_supported P m auth \<longleftrightarrow>
    (\<exists>a. auth = Some a \<and> validate_authorization P a = Inr a \<and>
       (case m of NATIVE_ADVANTAGE_DEMONSTRATED \<Rightarrow> facts_semantic a NATIVE_VALUE_AUTHORIZATION \<noteq> []
        | EXTERNAL_VALUE_DEMONSTRATED \<Rightarrow> value_supported a
        | COMMERCIALLY_SUPPORTED \<Rightarrow> commercially_supported a | _ \<Rightarrow> False))"
  using assms
  by (auto simp: commercial_maturity_supported_def dest: validate_authorization_Inr(1)
      split: option.splits sum.splits)

lemma value_supported_native: "value_supported a \<Longrightarrow> facts_semantic a NATIVE_VALUE_AUTHORIZATION \<noteq> []"
  by (auto simp: value_supported_def Let_def dest!: correlated_nonempty)

lemma sort_key_mset_cong:
  assumes "mset xs = mset ys" "distinct (map f xs)"
  shows "sort_key f xs = sort_key f ys"
proof (rule properties_for_sort_key)
  show "mset (sort_key f ys) = mset xs" using assms(1) by simp
  have inj: "inj_on f (set xs)" using assms(2) by (simp add: distinct_map)
  have set_eq: "set ys = set xs" using assms(1) by (metis set_mset_mset)
  have dist: "distinct xs" "distinct ys"
    using assms by (auto simp: distinct_map dest: mset_eq_imp_distinct_iff)
  have one: "filter (\<lambda>x. f k = f x) zs = [k]"
    if "k \<in> set zs" "distinct zs" "set zs = set xs" for k zs
  proof -
    have "filter (\<lambda>x. f k = f x) zs = filter (\<lambda>x. x = k) zs"
      using inj that by (intro filter_cong) (auto dest: inj_onD)
    also have "\<dots> = [k]"
      using that(1,2) by (induction zs) (auto simp: filter_empty_conv)
    finally show ?thesis .
  qed
  show "filter (\<lambda>x. f k = f x) (sort_key f ys) = filter (\<lambda>x. f k = f x) xs" if "k \<in> set (sort_key f ys)" for k
    using that one [of k "sort_key f ys"] one [of k xs] dist set_eq by simp
  show "sorted (map f (sort_key f ys))" by simp
qed

section \<open>What a supported commercial maturity rests on\<close>

text \<open>
  The ladder of commercial maturities is monotone: evidence that supports commercial
  support also supports demonstrated external value, and that supports a demonstrated
  native advantage.
\<close>

theorem maturity_ladder:
  "(commercial_maturity_supported P COMMERCIALLY_SUPPORTED auth \<longrightarrow>
      commercial_maturity_supported P EXTERNAL_VALUE_DEMONSTRATED auth) \<and>
   (commercial_maturity_supported P EXTERNAL_VALUE_DEMONSTRATED auth \<longrightarrow>
      commercial_maturity_supported P NATIVE_ADVANTAGE_DEMONSTRATED auth)"
  by (auto simp: supported_iff_validated commercially_supported_def Let_def dest: value_supported_native)

definition sample_digest :: "char \<Rightarrow> pystr" where
  "sample_digest c = ''sha256:'' @ replicate 64 c"

definition authorized_fact :: "char \<Rightarrow> SemanticEvidence option \<Rightarrow> EvidenceType option \<Rightarrow> CorrelatedEvidenceFact" where
  "authorized_fact c s t = \<lparr>product_lineage_digest = sample_digest CHR ''1'',
     candidate_sha = replicate 40 CHR ''a'', source_work_item_id = ''V3-VALUE-001'',
     evidence_digest = sample_digest c, authority_receipt_digest = sample_digest c,
     customer_identity_digest = Some (sample_digest CHR ''3''),
     family_identity_digest = None, offer_identity_digest = Some (sample_digest CHR ''4''),
     pack_identity_digest = None, semantic = s, external_evidence_type = t\<rparr>"

definition sample_facts :: "CorrelatedEvidenceFact list" where
  "sample_facts =
     [authorized_fact CHR ''a'' (Some CUSTOMER_DECISION_CHANGED) None,
      authorized_fact CHR ''b'' (Some CUSTOMER_VALUE_EXCEEDS_PRICE_RETAINED_EFFORT) None,
      authorized_fact CHR ''c'' (Some NATIVE_VALUE_AUTHORIZATION) None,
      authorized_fact CHR ''d'' None (Some DECISION_CHANGED)]"

definition sample_receipts :: "pystr list" where
  "sample_receipts = map sample_digest ''abcd''"

definition sample_authorization :: CommercialMaturityAuthorization where
  "sample_authorization =
     \<lparr>au_product_lineage_digest = sample_digest CHR ''1'', correlated_facts = sample_facts,
      verified_receipt_digests = sample_receipts, authorization_digest = sample_digest CHR ''0''\<rparr>"

lemma sample_digest_ok [simp]: "is_digest (sample_digest c) \<longleftrightarrow> is_hex c"
  by (auto simp: sample_digest_def is_digest_def starts_with_def list_all_iff)

lemma sample_digest_less [simp]:
  "sample_digest c = sample_digest d \<longleftrightarrow> c = d" "sample_digest c < sample_digest d \<longleftrightarrow> c < d"
proof -
  have "replicate 64 x = x # replicate 63 x" for x :: char
    using replicate_Suc [of 63 x] by simp
  then show eq: "sample_digest c = sample_digest d \<longleftrightarrow> c = d"
    and less: "sample_digest c < sample_digest d \<longleftrightarrow> c < d"
    by (auto simp: sample_digest_def)
qed

lemma sample_facts_sorted:
  "sort_key fact_key sample_facts = sample_facts" "sorted_set sample_receipts = sample_receipts"
  "distinct (map fact_key sample_facts)"
proof -
  have "sorted (map fact_key sample_facts)" "sorted sample_receipts" "distinct sample_receipts"
    by (simp_all add: sample_facts_def sample_receipts_def fact_key_def authorized_fact_def
        less_eq_char_def less_char_def less_imp_le)
  then show "sort_key fact_key sample_facts = sample_facts" "sorted_set sample_receipts = sample_receipts"
    by (simp_all add: sort_key_id_if_sorted sorted_set_def sorted_sort_id distinct_remdups_id)
  show "distinct (map fact_key sample_facts)"
    by (simp add: sample_facts_def fact_key_def authorized_fact_def)
qed

lemma sample_authorization_valid:
  "validate_authorization sample_platform sample_authorization = Inr sample_authorization"
proof -
  have digest: "authorization_digest_of sample_platform l fs rs = sample_digest CHR ''0''" for l fs rs
    by (simp add: authorization_digest_of_def digest_json_def sha256_digest_def sample_platform_def
        sample_digest_def)
  have fact: "validate_fact (authorized_fact c s t) = Inr (authorized_fact c s t)"
    if "is_hex c" "(s = None) \<noteq> (t = None)" for c s t
    using that by (auto simp: validate_fact_def fact_fields_ok_def exactly_one_fact_def authorized_fact_def
      result_simps is_git_sha_def list_all_iff is_hex_def is_digit_def is_work_item_id_def starts_with_def is_upper_def)
  have "traverse validate_fact sample_facts = Inr sample_facts"
    by (simp add: sample_facts_def fact is_hex_def is_digit_def)
  moreover have "derived_not_asserted sample_platform sample_authorization = Inr sample_authorization"
    unfolding derived_not_asserted_def digest
    by (simp add: raise_first_Inr_iff sample_authorization_def sample_facts_sorted)
      (simp add: sample_facts_def sample_receipts_def authorized_fact_def)
  ultimately show ?thesis
    unfolding validate_authorization_def
    by (simp add: sample_authorization_def is_hex_def is_digit_def)
      (simp add: sample_facts_def sample_receipts_def)
qed

lemma sample_authorization_value:
  "commercial_maturity_supported sample_platform EXTERNAL_VALUE_DEMONSTRATED (Some sample_authorization)"
proof -
  have "value_supported sample_authorization"
    by (simp add: value_supported_def sample_authorization_def facts_semantic_def facts_external_def
        sample_facts_def authorized_fact_def identities_of_def)
  then show ?thesis using sample_authorization_valid by (simp add: supported_iff_validated)
qed

theorem maturity_ladder_witness:
  "commercial_maturity_supported sample_platform NATIVE_ADVANTAGE_DEMONSTRATED (Some sample_authorization)"
  using maturity_ladder [of sample_platform "Some sample_authorization"] sample_authorization_value by blast

text \<open>
  C10: a claim of demonstrated external value rests on one validated authorization in which
  the changed decision, its attestation and the value attestation all carry the same
  customer and the same offer, next to a native-value authorization, and every fact of it
  is of the one product lineage and backed by a verified receipt.
\<close>

theorem external_value_grounded:
  assumes "commercial_maturity_supported P EXTERNAL_VALUE_DEMONSTRATED auth"
  shows "\<exists>a customer offer. auth = Some a \<and> validate_authorization P a = Inr a \<and>
    (\<exists>f\<in>set (correlated_facts a). external_evidence_type f = Some DECISION_CHANGED \<and>
       customer_identity_digest f = Some customer \<and> offer_identity_digest f = Some offer) \<and>
    (\<exists>f\<in>set (correlated_facts a). semantic f = Some CUSTOMER_DECISION_CHANGED \<and>
       customer_identity_digest f = Some customer \<and> offer_identity_digest f = Some offer) \<and>
    (\<exists>f\<in>set (correlated_facts a). semantic f = Some CUSTOMER_VALUE_EXCEEDS_PRICE_RETAINED_EFFORT \<and>
       customer_identity_digest f = Some customer \<and> offer_identity_digest f = Some offer) \<and>
    (\<exists>f\<in>set (correlated_facts a). semantic f = Some NATIVE_VALUE_AUTHORIZATION) \<and>
    (\<forall>f\<in>set (correlated_facts a). product_lineage_digest f = au_product_lineage_digest a \<and>
       authority_receipt_digest f \<in> set (verified_receipt_digests a))"
proof -
  from assms obtain a where a: "auth = Some a" "validate_authorization P a = Inr a" "value_supported a"
    by (auto simp: supported_iff_validated)
  from a(3) have "correlated [facts_external a DECISION_CHANGED, facts_semantic a CUSTOMER_DECISION_CHANGED,
      facts_semantic a CUSTOMER_VALUE_EXCEEDS_PRICE_RETAINED_EFFORT] [PRODUCT_LINEAGE, CUSTOMER, OFFER]"
    unfolding value_supported_def Let_def by blast
  then obtain ids where ids: "None \<notin> set ids"
    "\<exists>f\<in>set (facts_external a DECISION_CHANGED). identities_of [PRODUCT_LINEAGE, CUSTOMER, OFFER] f = ids"
    "\<exists>f\<in>set (facts_semantic a CUSTOMER_DECISION_CHANGED). identities_of [PRODUCT_LINEAGE, CUSTOMER, OFFER] f = ids"
    "\<exists>f\<in>set (facts_semantic a CUSTOMER_VALUE_EXCEEDS_PRICE_RETAINED_EFFORT).
       identities_of [PRODUCT_LINEAGE, CUSTOMER, OFFER] f = ids"
    by (rule correlated_common_identity) simp
  obtain f where f: "identities_of [PRODUCT_LINEAGE, CUSTOMER, OFFER] f = ids" using ids(2) by blast
  then obtain customer offer where co: "tl ids = [Some customer, Some offer]"
    using ids(1) by (cases "customer_identity_digest f"; cases "offer_identity_digest f")
      (auto simp: identities_of_def)
  have eq: "customer_identity_digest f = Some customer \<and> offer_identity_digest f = Some offer"
    if "identities_of [PRODUCT_LINEAGE, CUSTOMER, OFFER] f = ids" for f
    using that co by (auto simp: identities_of_def)
  have native: "\<exists>f\<in>set (correlated_facts a). semantic f = Some NATIVE_VALUE_AUTHORIZATION"
    using value_supported_native [OF a(3)] by (auto simp: facts_semantic_def filter_empty_conv)
  have common: "\<exists>f\<in>set (correlated_facts a). p f \<and>
      customer_identity_digest f = Some customer \<and> offer_identity_digest f = Some offer"
    if "\<exists>f\<in>set (filter p (correlated_facts a)).
      identities_of [PRODUCT_LINEAGE, CUSTOMER, OFFER] f = ids" for p
    using that eq by auto
  note carried = ids(2-4) [unfolded facts_semantic_def facts_external_def, THEN common]
  show ?thesis
    using a(1,2) carried native validate_authorization_Inr(2) [OF a(2)] by blast
qed

theorem external_value_grounded_witness:
  "\<exists>customer. \<exists>f\<in>set sample_facts. external_evidence_type f = Some DECISION_CHANGED \<and>
     customer_identity_digest f = Some customer"
  using external_value_grounded [OF sample_authorization_value]
  by (auto simp: sample_authorization_def)

text \<open>
  The derived authorization does not depend on the order of the facts or of the
  verified receipt digests, nor on repetitions among the latter.
\<close>

theorem derivation_order_independent:
  assumes "mset facts = mset facts'" "set receipts = set receipts'" "distinct (map fact_key facts)"
  shows "derive_commercial_maturity_authorization P facts receipts =
    derive_commercial_maturity_authorization P facts' receipts'"
proof -
  have sorted: "sort_key fact_key facts = sort_key fact_key facts'"
    using assms(1,3) by (rule sort_key_mset_cong)
  have rec: "sorted_set receipts = sorted_set receipts'" using assms(2) by (rule sorted_set_cong)
  have lin: "set (map product_lineage_digest facts) = set (map product_lineage_digest facts')"
    using mset_eq_setD [OF assms(1)] by simp
  show ?thesis
  proof (cases "remdups (map product_lineage_digest facts)")
    case Nil
    then have "facts = []" by simp
    with assms(1) show ?thesis by (simp add: derive_commercial_maturity_authorization_def)
  next
    case (Cons x xs)
    have len: "length (remdups (map product_lineage_digest facts)) =
        length (remdups (map product_lineage_digest facts'))"
      by (simp only: length_remdups_card_conv lin)
    show ?thesis
    proof (cases xs)
      case Nil
      with len Cons obtain y where y: "remdups (map product_lineage_digest facts') = [y]"
        by (metis length_0_conv length_Suc_conv list.size(3) list.size(4))
      have "set [x] = set [y]" using lin Cons Nil y by (metis set_remdups)
      then show ?thesis
        using Cons Nil y by (simp add: derive_commercial_maturity_authorization_def sorted rec)
    next
      case (Cons z zs)
      with len \<open>remdups (map product_lineage_digest facts) = x # xs\<close> obtain u v us where
        "remdups (map product_lineage_digest facts') = u # v # us"
        by (metis length_Suc_conv)
      then show ?thesis
        using Cons \<open>remdups (map product_lineage_digest facts) = x # xs\<close>
        by (simp add: derive_commercial_maturity_authorization_def)
    qed
  qed
qed

theorem derivation_order_independent_witness:
  "derive_commercial_maturity_authorization sample_platform sample_facts sample_receipts =
   derive_commercial_maturity_authorization sample_platform (rev sample_facts) (rev sample_receipts)"
  by (rule derivation_order_independent) (simp_all add: sample_facts_sorted)

end
