(* ===== verification/External_Evidence.thy ===== *)
theory External_Evidence
  imports Factory_Base
begin

text \<open>
  Outside facts as signed receipts (\<^verbatim>\<open>tcfactory/v3/external_evidence.py\<close>): the receipt
  record with its roster validator, the currency window, the trust gate that the
  controller applies before a receipt may advance commercial work, and the
  revocation-list chain rule. Loading and cryptographic verification of receipts is
  the environment's: its verdict is the field \<open>signature_valid\<close>.
\<close>

datatype ArtifactLocationClass = TRUSTED_EXTERNAL | CUSTOMER_LOCAL | REDACTED_REFERENCE
datatype SignatureAlgorithm = ED25519 | EXTERNAL_TRUSTED_ROOT

record EvidenceIssuer =
  issuer_id :: pystr
  issuer_authority :: pystr

record ReceiptArtifact =
  ra_name :: pystr
  ra_digest :: pystr
  ra_location_class :: ArtifactLocationClass

record EvidenceSignature =
  sig_algorithm :: SignatureAlgorithm
  sig_key_id :: pystr
  sig_value :: pystr

record CustomerDecisionValueAttestation =
  decision_changed_or_materially_strengthened :: bool
  value_exceeds_price_and_retained_effort :: bool
  observed_price_microusd :: int
  retained_effort_minutes :: int
  attribution_artifact_digests :: "pystr list"

record EvidenceCorrelationIdentity =
  ci_product_lineage_digest :: pystr
  ci_candidate_sha :: pystr
  ci_customer_identity_digest :: "pystr option"
  ci_family_identity_digest :: "pystr option"
  ci_offer_identity_digest :: "pystr option"
  ci_pack_identity_digest :: "pystr option"

record ExternalEvidenceReceipt =
  receipt_id :: pystr
  evidence_type :: EvidenceType
  subject_id :: pystr
  issuer :: EvidenceIssuer
  receipt_issued_at :: datetime
  receipt_observed_at :: datetime
  receipt_expires_at :: datetime
  revocation_epoch :: int
  revoked :: bool
  nonce :: pystr
  candidate_or_offer_identity :: "pystr option"
  receipt_outcome :: pystr
  receipt_artifacts :: "ReceiptArtifact list"
  receipt_limitations :: "pystr list"
  receipt_signature :: EvidenceSignature
  synthetic_test_only :: bool
  customer_decision_value :: "CustomerDecisionValueAttestation option"
  correlation_identity :: "EvidenceCorrelationIdentity option"

definition unique_attribution ::
  "CustomerDecisionValueAttestation \<Rightarrow> CustomerDecisionValueAttestation result" where
  "unique_attribution a = raise_first
     [(\<not> distinct (attribution_artifact_digests a),
       ''customer decision/value attribution must be unique'')] a"

text \<open>\<open>any((a, b, c, d))\<close> over optional strings: a value counts when it is a non-empty string.\<close>

definition truthy :: "pystr option \<Rightarrow> bool" where
  "truthy v = (case v of None \<Rightarrow> False | Some s \<Rightarrow> s \<noteq> [])"

definition has_commercial_identity ::
  "EvidenceCorrelationIdentity \<Rightarrow> EvidenceCorrelationIdentity result" where
  "has_commercial_identity c = raise_first
     [(\<not> (truthy (ci_customer_identity_digest c) \<or> truthy (ci_family_identity_digest c)
          \<or> truthy (ci_offer_identity_digest c) \<or> truthy (ci_pack_identity_digest c)),
       ''external evidence correlation lacks a commercial identity'')] c"

definition unique_artifact_roster :: "ExternalEvidenceReceipt \<Rightarrow> ExternalEvidenceReceipt result" where
  "unique_artifact_roster r =
     (let names = map ra_name (receipt_artifacts r);
          digests = map ra_digest (receipt_artifacts r);
          identities = map (\<lambda>a. (ra_name a, ra_digest a, ra_location_class a)) (receipt_artifacts r)
      in raise_first
        ([(\<not> distinct names, ''external evidence artifact names must be unique''),
          (\<not> distinct digests, ''external evidence artifact digests must be unique''),
          (\<not> distinct identities, ''external evidence artifact identities must be unique'')] @
         (case customer_decision_value r of
            None \<Rightarrow> []
          | Some v \<Rightarrow>
             [(evidence_type r \<noteq> DECISION_CHANGED,
               ''customer decision/value attestation requires DECISION_CHANGED evidence''),
              (\<not> set (attribution_artifact_digests v) \<subseteq> set digests,
               ''customer decision/value attribution is absent from receipt artifacts'')]) @
         (case correlation_identity r of
            None \<Rightarrow> []
          | Some c \<Rightarrow>
             [(candidate_or_offer_identity r \<noteq> Some (ci_candidate_sha c),
               ''external evidence correlation candidate does not match its receipt'')])) r)"

text \<open>
  \<open>require_current\<close>: the comparisons run in the source's order and stop at the first
  that holds; each of them may raise on a naive timestamp.
\<close>

definition require_current :: "ExternalEvidenceReceipt \<Rightarrow> datetime \<Rightarrow> unit result" where
  "require_current r now =
     (if \<not> is_aware now
      then Inl (ValueError ''external evidence verification time must be timezone-aware'')
      else if revoked r
      then Inl (ValueError ''external evidence receipt is stale, revoked, or impossible'')
      else rbind (dt_less (receipt_observed_at r) (receipt_issued_at r)) (\<lambda>backwards.
        if backwards
        then Inl (ValueError ''external evidence receipt is stale, revoked, or impossible'')
        else rbind (dt_less now (receipt_observed_at r)) (\<lambda>future.
          if future
          then Inl (ValueError ''external evidence receipt is stale, revoked, or impossible'')
          else rbind (dt_less now (receipt_expires_at r)) (\<lambda>live.
            if live then Inr ()
            else Inl (ValueError ''external evidence receipt is stale, revoked, or impossible'')))))"

definition require_commercial_trust :: "ExternalEvidenceReceipt \<Rightarrow> bool \<Rightarrow> bool \<Rightarrow> unit result" where
  "require_commercial_trust r signature_valid source_agent_writable = raise_first
     [(synthetic_test_only r, ''synthetic evidence cannot advance commercial maturity''),
      (source_agent_writable, ''AI-writable external evidence is not trusted''),
      (\<not> signature_valid, ''external evidence signature is invalid''),
      (receipt_artifacts r = [], ''trusted external evidence requires at least one artifact'')] ()"

record TrustedEvidenceRecord =
  ter_receipt :: ExternalEvidenceReceipt
  ter_signature_valid :: bool
  ter_source_agent_writable :: bool

definition record_require_commercial_trust ::
  "TrustedEvidenceRecord \<Rightarrow> ExternalEvidenceReceipt result" where
  "record_require_commercial_trust t =
     rbind (require_commercial_trust (ter_receipt t) (ter_signature_valid t)
              (ter_source_agent_writable t)) (\<lambda>_. Inr (ter_receipt t))"

record ExternalEvidenceRevocationList =
  rl_epoch :: int
  rl_previous_list_digest :: "pystr option"
  rl_issued_at :: datetime
  rl_expires_at :: datetime
  rl_revoked_receipt_ids :: "pystr list"
  rl_revoked_nonces :: "pystr list"

definition revocation_list_validate_chain ::
  "ExternalEvidenceRevocationList \<Rightarrow> ExternalEvidenceRevocationList result" where
  "revocation_list_validate_chain l =
     (if (rl_epoch l = 1) \<noteq> (rl_previous_list_digest l = None)
      then Inl (ValueError ''revocation-list previous digest does not match its epoch'')
      else rbind (dt_less (rl_issued_at l) (rl_expires_at l)) (\<lambda>ordered.
        if \<not> ordered then Inl (ValueError ''revocation-list validity window is invalid'')
        else raise_first
          [(\<not> distinct (rl_revoked_receipt_ids l) \<or> \<not> distinct (rl_revoked_nonces l),
            ''revocation-list entries must be unique'')] l))"

section \<open>Lemmas\<close>

lemma record_require_commercial_trust_Inr_iff:
  "record_require_commercial_trust t = Inr r \<longleftrightarrow>
     r = ter_receipt t \<and> \<not> synthetic_test_only r \<and> \<not> ter_source_agent_writable t \<and>
     ter_signature_valid t \<and> receipt_artifacts r \<noteq> []"
  by (auto simp: record_require_commercial_trust_def require_commercial_trust_def result_simps)

lemma require_current_window:
  assumes "require_current r now = Inr ()"
  shows "\<not> revoked r" "instant (receipt_issued_at r) \<le> instant (receipt_observed_at r)"
    "instant (receipt_observed_at r) \<le> instant now" "instant now < instant (receipt_expires_at r)"
  using assms
  by (auto simp: require_current_def dt_less_def result_simps split: if_splits)

end
