(* ===== verification/Work_Items.thy ===== *)
theory Work_Items
  imports Maturity External_Evidence
begin

text \<open>
  Work items of the factory roadmap (\<^verbatim>\<open>tcfactory/v3/work_items.py\<close>): the table of
  allowed status transitions, the record with its validator, and the collection whose
  hard dependencies must form an acyclic graph. The depth-first search is modelled with
  its two sets of visited and visiting identifiers and Python's recursion limit as fuel.
\<close>

section \<open>Status transitions\<close>

fun ALLOWED_TRANSITIONS :: "WorkStatus \<Rightarrow> WorkStatus list" where
  "ALLOWED_TRANSITIONS PROPOSED =
     [READY, WAITING_EXTERNAL, PASSED_ENGINEERING, BLOCKED_POLICY, REJECTED_VALUE,
      NATIVE_SUFFICIENT, DEFERRED, SUPERSEDED, CANCELLED]"
| "ALLOWED_TRANSITIONS READY =
     [QUEUED, WAITING_EXTERNAL, BLOCKED_TECHNICAL, BLOCKED_POLICY, DEFERRED, CANCELLED]"
| "ALLOWED_TRANSITIONS QUEUED =
     [RUNNING, PAUSED_QUOTA, PAUSED_BACKEND, BLOCKED_TECHNICAL, CANCELLED]"
| "ALLOWED_TRANSITIONS RUNNING =
     [PAUSED_QUOTA, PAUSED_BACKEND, WAITING_EXTERNAL, BLOCKED_TECHNICAL, BLOCKED_POLICY,
      PASSED_ENGINEERING, READY, REJECTED_VALUE, NATIVE_SUFFICIENT, DEFERRED, CANCELLED]"
| "ALLOWED_TRANSITIONS PAUSED_QUOTA = [QUEUED, CANCELLED]"
| "ALLOWED_TRANSITIONS PAUSED_BACKEND = [READY, BLOCKED_TECHNICAL, CANCELLED]"
| "ALLOWED_TRANSITIONS WAITING_EXTERNAL =
     [READY, PASSED_ENGINEERING, REJECTED_VALUE, NATIVE_SUFFICIENT, DEFERRED, CANCELLED]"
| "ALLOWED_TRANSITIONS BLOCKED_TECHNICAL = [READY, DEFERRED, CANCELLED]"
| "ALLOWED_TRANSITIONS BLOCKED_POLICY = [READY, DEFERRED, CANCELLED]"
| "ALLOWED_TRANSITIONS PASSED_ENGINEERING =
     [COMPLETED, WAITING_EXTERNAL, REJECTED_VALUE, NATIVE_SUFFICIENT, DEFERRED]"
| "ALLOWED_TRANSITIONS REJECTED_VALUE = []"
| "ALLOWED_TRANSITIONS NATIVE_SUFFICIENT = []"
| "ALLOWED_TRANSITIONS DEFERRED = [PROPOSED, CANCELLED]"
| "ALLOWED_TRANSITIONS SUPERSEDED = []"
| "ALLOWED_TRANSITIONS CANCELLED = []"
| "ALLOWED_TRANSITIONS COMPLETED = []"

definition assert_status_transition :: "WorkStatus \<Rightarrow> WorkStatus \<Rightarrow> unit result" where
  "assert_status_transition current target =
     (if target \<notin> set (ALLOWED_TRANSITIONS current)
      then Inl (ValueError ''invalid work status transition'') else Inr ())"

text \<open>The life of one item: a sequence of transitions the table allows.\<close>

inductive status_step :: "WorkStatus \<Rightarrow> WorkStatus \<Rightarrow> bool" where
  step: "assert_status_transition s t = Inr () \<Longrightarrow> status_step s t"

inductive_cases status_stepE: "status_step s t"

section \<open>Work items\<close>

record WorkItem =
  wi_version :: int
  work_item_id :: pystr
  title :: pystr
  wi_lane :: Lane
  kind :: WorkKind
  milestone :: pystr
  decision_contribution :: pystr
  customer_outcome :: pystr
  depends_on :: "pystr list"
  soft_depends_on :: "pystr list"
  source_dependency_expression :: "pystr option"
  blocks_commercial_release :: bool
  priority :: int
  risk_tier :: RiskTier
  maturity_target :: MaturityTarget
  disposition :: Disposition
  status :: WorkStatus
  owner_type :: OwnerType
  automatable :: bool
  packet_path :: "pystr option"
  evidence_required :: "pystr list"
  external_receipt_required :: bool
  machine_policy_receipt_required :: bool
  retry_policy :: RetryPolicy
  external_evidence_refs :: "pystr list"
  created_at :: "datetime option"
  updated_at :: "datetime option"

text \<open>The \<open>Field\<close> constraints, which pydantic checks before the model validator runs.\<close>

definition work_item_fields_ok :: "WorkItem \<Rightarrow> bool" where
  "work_item_fields_ok w \<longleftrightarrow>
     wi_version w = 3 \<and> is_work_item_id (work_item_id w) \<and> title w \<noteq> [] \<and>
     is_milestone_id (milestone w) \<and> decision_contribution w \<noteq> [] \<and>
     0 \<le> priority w \<and> priority w \<le> 100 \<and> valid_retry_policy (retry_policy w)"

definition advancing_statuses :: "WorkStatus list" where
  "advancing_statuses = [READY, QUEUED, RUNNING, PASSED_ENGINEERING, COMPLETED]"

definition work_item_checks :: "WorkItem \<Rightarrow> (bool \<times> string) list" where
  "work_item_checks w =
     [(work_item_id w \<in> set (depends_on w) \<union> set (soft_depends_on w),
       ''work item cannot depend on itself''),
      (\<not> distinct (depends_on w), ''hard dependencies must be unique''),
      (\<not> distinct (soft_depends_on w), ''soft dependencies must be unique''),
      (set (depends_on w) \<inter> set (soft_depends_on w) \<noteq> {},
       ''hard and soft dependencies overlap''),
      (kind w = EXTERNAL_EVIDENCE \<and> automatable w, ''external evidence is not automatable''),
      (kind w = EXTERNAL_EVIDENCE \<and> owner_type w = AI, ''AI cannot own external evidence''),
      (kind w = EXTERNAL_EVIDENCE \<and> \<not> external_receipt_required w,
       ''external evidence work requires an external receipt''),
      (kind w = COMMERCIAL_EXPERIMENT \<and> \<not> external_receipt_required w,
       ''commercial experiment work requires an external receipt''),
      (kind w = MACHINE_POLICY_REVIEW \<and> owner_type w \<noteq> MACHINE_POLICY_AUTHORITY,
       ''machine-policy review requires independent machine-policy authority''),
      (kind w = MACHINE_POLICY_REVIEW \<and> automatable w,
       ''machine-policy review is not AI-automatable''),
      (kind w = MACHINE_POLICY_REVIEW \<and> \<not> machine_policy_receipt_required w,
       ''machine-policy review requires an independently signed receipt''),
      (owner_type w = MACHINE_POLICY_AUTHORITY \<and> kind w \<noteq> MACHINE_POLICY_REVIEW,
       ''machine-policy authority may own only machine-policy review work''),
      (external_receipt_required w \<and> status w \<in> set advancing_statuses
         \<and> external_evidence_refs w = [],
       ''external-receipt work cannot advance without a bound receipt reference''),
      (status w = COMPLETED \<and> external_receipt_required w \<and> external_evidence_refs w = [],
       ''completed work lacks required external receipt references''),
      (status w = COMPLETED
         \<and> mt_commercial (maturity_target w) \<notin>
             {NOT_EVALUATED, NATIVE_ADVANTAGE_UNPROVEN, WITHDRAWN}
         \<and> external_evidence_refs w = [],
       ''completed commercial maturity lacks external evidence'')]"

definition validate_work_item :: "WorkItem \<Rightarrow> WorkItem result" where
  "validate_work_item w =
     (if \<not> work_item_fields_ok w then Inl (ValidationError ''WorkItem'')
      else rbind (raise_first (work_item_checks w) w) (\<lambda>w.
        case (created_at w, updated_at w) of
          (Some c, Some u) \<Rightarrow>
            rbind (dt_less u c) (\<lambda>early.
              if early then Inl (ValueError ''updatedAt cannot precede createdAt'') else Inr w)
        | _ \<Rightarrow> Inr w))"

section \<open>Collections\<close>

record WorkItemCollection =
  wc_version :: int
  active_milestone :: pystr
  work_items :: "WorkItem list"

text \<open>The graph dictionary of \<open>_require_acyclic\<close>; a later item of the same name wins.\<close>

definition dependency_graph :: "WorkItem list \<Rightarrow> pystr \<rightharpoonup> pystr list" where
  "dependency_graph ws = dict_of (map (\<lambda>w. (work_item_id w, depends_on w)) ws)"

text \<open>
  The nested function \<open>visit\<close> and its loop over the dependencies. The state is the pair
  of \<open>visiting\<close> and \<open>visited\<close>; the fuel is the interpreter's remaining recursion depth,
  and running out of it is \<open>RecursionError\<close>. Python iterates a set of dependencies in an
  unspecified order; the list order stands for it, and the results below hold for any.
\<close>

type_synonym dfs_state = "pystr list \<times> pystr list"

fun visit :: "nat \<Rightarrow> (pystr \<rightharpoonup> pystr list) \<Rightarrow> pystr \<Rightarrow> dfs_state \<Rightarrow> dfs_state result"
  and visit_all :: "nat \<Rightarrow> (pystr \<rightharpoonup> pystr list) \<Rightarrow> pystr list \<Rightarrow> dfs_state \<Rightarrow> dfs_state result"
where
  "visit 0 g x st = Inl RecursionError"
| "visit (Suc n) g x (visiting, visited) =
     (if x \<in> set visiting then Inl (ValueError ''hard dependency cycle'')
      else if x \<in> set visited then Inr (visiting, visited)
      else case g x of
        None \<Rightarrow> Inl (KeyError x)
      | Some deps \<Rightarrow>
         rbind (visit_all n g deps (x # visiting, visited)) (\<lambda>(visiting', visited').
           Inr (removeAll x visiting', x # visited')))"
| "visit_all n g [] st = Inr st"
| "visit_all n g (d # ds) st = rbind (visit n g d st) (visit_all n g ds)"

definition require_acyclic :: "nat \<Rightarrow> WorkItem list \<Rightarrow> unit result" where
  "require_acyclic limit ws =
     rbind (visit_all limit (dependency_graph ws) (sorted_set (map work_item_id ws)) ([], []))
       (\<lambda>_. Inr ())"

definition validate_graph :: "nat \<Rightarrow> WorkItemCollection \<Rightarrow> WorkItemCollection result" where
  "validate_graph limit c =
     (let identifiers = map work_item_id (work_items c)
      in if \<not> distinct identifiers then Inl (ValueError ''work item IDs must be unique'')
         else if \<not> list_all (\<lambda>w. set (depends_on w) \<union> set (soft_depends_on w) \<subseteq> set identifiers)
                   (work_items c)
         then Inl (ValueError ''work item has missing dependencies'')
         else rbind (require_acyclic limit (work_items c)) (\<lambda>_. Inr c))"

definition collection_item :: "WorkItemCollection \<Rightarrow> pystr \<Rightarrow> WorkItem result" where
  "collection_item c i =
     (case filter (\<lambda>w. work_item_id w = i) (work_items c) of
        [] \<Rightarrow> Inl (KeyError i) | w # _ \<Rightarrow> Inr w)"

definition validate_completion_item ::
  "platform \<Rightarrow> (pystr \<rightharpoonup> TrustedEvidenceRecord) \<Rightarrow> WorkItem \<Rightarrow> unit result" where
  "validate_completion_item P receipts w =
     (if status w \<noteq> COMPLETED then Inr ()
      else rbind (traverse (\<lambda>rid. case receipts rid of
              None \<Rightarrow> Inl (ValueError ''completed work has unknown receipt'')
            | Some record \<Rightarrow> record_require_commercial_trust record) (external_evidence_refs w))
        (\<lambda>_. if \<not> commercial_maturity_supported P (mt_commercial (maturity_target w)) None
             then Inl (ValueError ''commercial maturity exceeds trusted evidence'') else Inr ()))"

definition validate_completion_evidence ::
  "platform \<Rightarrow> (pystr \<rightharpoonup> TrustedEvidenceRecord) \<Rightarrow> WorkItemCollection \<Rightarrow> unit result" where
  "validate_completion_evidence P receipts c =
     rbind (traverse (validate_completion_item P receipts) (work_items c)) (\<lambda>_. Inr ())"

section \<open>The transition table\<close>

lemma status_step_iff: "status_step s t \<longleftrightarrow> t \<in> set (ALLOWED_TRANSITIONS s)"
  by (auto simp: assert_status_transition_def status_step.simps split: if_splits)

definition terminal_statuses :: "WorkStatus list" where
  "terminal_statuses = [REJECTED_VALUE, NATIVE_SUFFICIENT, SUPERSEDED, CANCELLED, COMPLETED]"

lemma terminal_iff: "(\<forall>t. \<not> status_step s t) \<longleftrightarrow> s \<in> set terminal_statuses"
  unfolding status_step_iff terminal_statuses_def by (cases s) auto

lemma no_self_step: "\<not> status_step s s"
  unfolding status_step_iff by (cases s) auto

lemma into_COMPLETED: "status_step s COMPLETED \<Longrightarrow> s = PASSED_ENGINEERING"
  unfolding status_step_iff by (cases s) auto

lemma into_RUNNING: "status_step s RUNNING \<Longrightarrow> s = QUEUED"
  unfolding status_step_iff by (cases s) auto

text \<open>
  The table lets every item that is not in a final state reach one, and a completed item
  has been through \<open>PASSED_ENGINEERING\<close>.
\<close>

lemma can_finish: "\<exists>t\<in>set terminal_statuses. status_step\<^sup>*\<^sup>* s t"
proof -
  have one: "status_step\<^sup>*\<^sup>* s CANCELLED" if "CANCELLED \<in> set (ALLOWED_TRANSITIONS s)" for s
    using that by (intro r_into_rtranclp) (simp add: status_step_iff)
  consider "CANCELLED \<in> set (ALLOWED_TRANSITIONS s)" | "s = PASSED_ENGINEERING"
    | "s \<in> set terminal_statuses"
    by (cases s) (auto simp: terminal_statuses_def)
  then show ?thesis
  proof cases
    case 2
    then have "status_step s COMPLETED" by (simp add: status_step_iff)
    then show ?thesis by (auto simp: terminal_statuses_def)
  qed (use one in \<open>auto simp: terminal_statuses_def\<close>)
qed

section \<open>The search for cycles is correct\<close>

definition edges :: "('a \<rightharpoonup> 'a list) \<Rightarrow> ('a \<times> 'a) set" where
  "edges g = {(x, y). \<exists>ds. g x = Some ds \<and> y \<in> set ds}"

text \<open>
  What is known of the visited identifiers: their dependencies are visited too, and the
  edges between them have no cycle.
\<close>

definition explored :: "(pystr \<rightharpoonup> pystr list) \<Rightarrow> pystr set \<Rightarrow> bool" where
  "explored g V \<longleftrightarrow>
     (\<forall>x\<in>V. \<exists>ds. g x = Some ds \<and> set ds \<subseteq> V) \<and> acyclic {(x, y). (x, y) \<in> edges g \<and> x \<in> V}"

lemma explored_empty: "explored g {}"
  by (simp add: explored_def acyclic_def)

lemma acyclic_new_source:
  assumes "acyclic R" "x \<notin> Range (R \<union> S)" "S \<subseteq> {x} \<times> UNIV"
  shows "acyclic (R \<union> S)"
  unfolding acyclic_def
proof (intro allI notI)
  fix z assume cyc: "(z, z) \<in> (R \<union> S)\<^sup>+"
  then have "z \<in> Range (R \<union> S)" by (metis Range_iff tranclE)
  then have "z \<noteq> x" using assms(2) by auto
  have "(z, y) \<in> R\<^sup>+" if "(z, y) \<in> (R \<union> S)\<^sup>+" for y
    using that
  proof (induction rule: trancl_induct)
    case (base y)
    then show ?case using assms(3) \<open>z \<noteq> x\<close> by auto
  next
    case (step y w)
    then have "y \<in> Range (R \<union> S)" by (metis Range_iff tranclE)
    then have "(y, w) \<in> R" using step.hyps(2) assms(2,3) by auto
    then show ?case by (rule trancl_into_trancl [OF step.IH])
  qed
  with cyc assms(1) show False by (auto simp: acyclic_def)
qed

lemma explored_insert:
  assumes "explored g V" "g x = Some ds" "set ds \<subseteq> V" "x \<notin> V"
  shows "explored g (insert x V)"
proof -
  let ?R = "{(a, b). (a, b) \<in> edges g \<and> a \<in> V}" and ?S = "{(a, b). (a, b) \<in> edges g \<and> a = x}"
  have "Range (?R \<union> ?S) \<subseteq> V"
    using assms(1-3) unfolding explored_def edges_def by fastforce
  then have "acyclic (?R \<union> ?S)"
    using assms(1,4) by (intro acyclic_new_source [where x = x]) (auto simp: explored_def)
  moreover have "?R \<union> ?S = {(a, b). (a, b) \<in> edges g \<and> a \<in> insert x V}" by auto
  moreover have "\<forall>y\<in>insert x V. \<exists>ds. g y = Some ds \<and> set ds \<subseteq> insert x V"
    using assms(1-3) unfolding explored_def by (metis insert_iff subset_insertI2)
  ultimately show ?thesis unfolding explored_def by simp
qed

lemma visit_restores:
  "visit n g x st = Inr st' \<Longrightarrow> fst st' = fst st"
  "visit_all n g ds st = Inr st' \<Longrightarrow> fst st' = fst st"
proof (induction n g x st and n g ds st arbitrary: st' and st' rule: visit_visit_all.induct)
  case (2 n g x visiting visited)
  then show ?case
    by (fastforce simp: result_simps split: if_splits option.splits)
qed (auto simp: result_simps)

lemma visit_explores:
  "visit n g x st = Inr st' \<Longrightarrow> explored g (set (snd st)) \<Longrightarrow> set (fst st) \<inter> set (snd st) = {} \<Longrightarrow>
     explored g (set (snd st')) \<and> set (fst st) \<inter> set (snd st') = {} \<and>
     set (snd st) \<subseteq> set (snd st') \<and> x \<in> set (snd st')"
  "visit_all n g ds st = Inr st' \<Longrightarrow> explored g (set (snd st)) \<Longrightarrow> set (fst st) \<inter> set (snd st) = {} \<Longrightarrow>
     explored g (set (snd st')) \<and> set (fst st) \<inter> set (snd st') = {} \<and>
     set (snd st) \<subseteq> set (snd st') \<and> set ds \<subseteq> set (snd st')"
proof (induction n g x st and n g ds st arbitrary: st' and st' rule: visit_visit_all.induct)
  case (2 n g x visiting visited)
  show ?case
  proof (cases "x \<in> set visited")
    case True
    with 2 show ?thesis by (auto split: if_splits)
  next
    case False
    with 2 obtain deps vg vd where x: "x \<notin> set visiting" and deps: "g x = Some deps"
      and all: "visit_all n g deps (x # visiting, visited) = Inr (vg, vd)"
      and st': "st' = (removeAll x vg, x # vd)"
      by (auto simp: result_simps split: if_splits option.splits)
    from 2 x False deps all have IH: "explored g (set vd)" "set (x # visiting) \<inter> set vd = {}"
      "set visited \<subseteq> set vd" "set deps \<subseteq> set vd"
      by fastforce+
    from IH deps have "explored g (insert x (set vd))"
      by (intro explored_insert [where ds = deps]) auto
    with IH x st' show ?thesis by auto
  qed
next
  case (4 n g d ds st)
  then obtain st1 where v: "visit n g d st = Inr st1" "visit_all n g ds st1 = Inr st'"
    by (auto simp: result_simps)
  have same: "fst st1 = fst st" using v(1) by (rule visit_restores)
  from "4.IH"(1) [OF v(1) "4.prems"(2,3)]
  have st1: "explored g (set (snd st1))" "set (fst st) \<inter> set (snd st1) = {}"
    "set (snd st) \<subseteq> set (snd st1)" "d \<in> set (snd st1)"
    by blast+
  from "4.IH"(2) [OF v(2) st1(1)] same st1(2)
  have "explored g (set (snd st'))" "set (fst st) \<inter> set (snd st') = {}"
    "set (snd st1) \<subseteq> set (snd st')" "set ds \<subseteq> set (snd st')"
    by simp_all
  with st1 show ?case by auto
qed auto

text \<open>
  A failure is a cycle: every identifier being visited leads to the current one. With
  enough fuel and a closed graph there is no other failure.
\<close>

lemma visit_failure:
  assumes "finite (dom g)" "\<forall>ds\<in>ran g. set ds \<subseteq> dom g"
  shows "visit n g x st = Inl e \<Longrightarrow> card (dom g - set (fst st)) < n \<Longrightarrow> x \<in> dom g \<Longrightarrow>
      \<forall>y\<in>set (fst st). (y, x) \<in> (edges g)\<^sup>+ \<Longrightarrow>
      e = ValueError ''hard dependency cycle'' \<and> \<not> acyclic (edges g)"
    and "visit_all n g ds st = Inl e \<Longrightarrow> card (dom g - set (fst st)) < n \<Longrightarrow> set ds \<subseteq> dom g \<Longrightarrow>
      \<forall>x\<in>set ds. \<forall>y\<in>set (fst st). (y, x) \<in> (edges g)\<^sup>+ \<Longrightarrow>
      e = ValueError ''hard dependency cycle'' \<and> \<not> acyclic (edges g)"
  using assms
proof (induction n g x st and n g ds st rule: visit_visit_all.induct)
  case (2 n g x visiting visited)
  show ?case
  proof (cases "x \<in> set visiting")
    case True
    with 2 have "(x, x) \<in> (edges g)\<^sup>+" by auto
    with 2 True show ?thesis by (auto simp: acyclic_def)
  next
    case False
    with 2 obtain deps where notin: "x \<notin> set visited" and deps: "g x = Some deps"
      and fail: "visit_all n g deps (x # visiting, visited) = Inl e"
      by (auto simp: result_simps split: if_splits option.splits)
    have "dom g - set (x # visiting) = (dom g - set visiting) - {x}" by auto
    moreover have "x \<in> dom g - set visiting" using False deps by auto
    ultimately have "card (dom g - set (x # visiting)) < card (dom g - set visiting)"
      using "2.prems"(5) by (metis card_Diff1_less finite_Diff)
    then have fuel: "card (dom g - set (x # visiting)) < n"
      using "2.prems"(2) by simp
    have paths: "(y, d) \<in> (edges g)\<^sup>+" if "d \<in> set deps" "y \<in> set (x # visiting)" for d y
    proof -
      have "(x, d) \<in> edges g" using deps that(1) by (auto simp: edges_def)
      then show ?thesis using "2.prems"(4) that(2) by (auto intro: trancl_into_trancl)
    qed
    have "set deps \<subseteq> dom g" using "2.prems"(6) deps by (metis ranI)
    then show ?thesis
      using "2.IH" [OF False notin deps] fail fuel paths "2.prems"(5,6) by auto
  qed
next
  case (4 n g d ds st)
  show ?case
  proof (cases "visit n g d st")
    case (Inl e')
    with 4 show ?thesis by auto
  next
    case (Inr st1)
    then have "fst st1 = fst st" by (rule visit_restores)
    with Inr 4 show ?thesis by auto
  qed
qed auto

lemma dom_dependency_graph: "dom (dependency_graph ws) = work_item_id ` set ws"
  by (auto simp: dependency_graph_def dict_of_def dom_map_of_conv_image_fst image_image
      simp flip: rev_map)

lemma finite_dom_dependency_graph: "finite (dom (dependency_graph ws))"
  by (simp add: dom_dependency_graph)

definition hard_edges :: "WorkItem list \<Rightarrow> (pystr \<times> pystr) set" where
  "hard_edges ws = {(work_item_id w, d) | w d. w \<in> set ws \<and> d \<in> set (depends_on w)}"

lemma dependency_graph_distinct:
  assumes "distinct (map work_item_id ws)"
  shows "edges (dependency_graph ws) = hard_edges ws"
    and "ran (dependency_graph ws) = depends_on ` set ws"
proof -
  have d: "distinct (map fst (map (\<lambda>w. (work_item_id w, depends_on w)) ws))"
    using assms by (simp add: comp_def)
  note g = dependency_graph_def dict_of_distinct [OF d]
  have some: "dependency_graph ws x = Some ds \<longleftrightarrow>
      (\<exists>w\<in>set ws. work_item_id w = x \<and> depends_on w = ds)" for x ds
    unfolding g map_of_eq_Some_iff [OF d] by auto
  show "edges (dependency_graph ws) = hard_edges ws"
    by (auto simp: edges_def hard_edges_def some)
  show "ran (dependency_graph ws) = depends_on ` set ws"
    by (auto simp: ran_def some)
qed

lemma require_acyclic_correct:
  assumes "distinct (map work_item_id ws)" "\<forall>w\<in>set ws. set (depends_on w) \<subseteq> work_item_id ` set ws"
    and "length ws < limit"
  shows "require_acyclic limit ws =
    (if acyclic (hard_edges ws) then Inr () else Inl (ValueError ''hard dependency cycle''))"
proof (cases "visit_all limit (dependency_graph ws) (sorted_set (map work_item_id ws)) ([], [])")
  case (Inl e)
  have "card (work_item_id ` set ws) \<le> length ws"
    by (metis card_length length_map list.set_map)
  then have "e = ValueError ''hard dependency cycle'' \<and> \<not> acyclic (edges (dependency_graph ws))"
    using assms Inl
    by (intro visit_failure(2) [OF finite_dom_dependency_graph _ Inl])
      (auto simp: dependency_graph_distinct dom_dependency_graph)
  with Inl show ?thesis
    by (simp add: require_acyclic_def dependency_graph_distinct(1) [OF assms(1)])
next
  case (Inr st)
  from visit_explores(2) [OF Inr] have st: "explored (dependency_graph ws) (set (snd st))"
    "work_item_id ` set ws \<subseteq> set (snd st)"
    by (simp_all add: explored_empty)
  have "x \<in> set (snd st)" if "(x, y) \<in> edges (dependency_graph ws)" for x y
  proof -
    have "x \<in> dom (dependency_graph ws)" using that by (auto simp: edges_def)
    then show ?thesis using st(2) by (simp only: dom_dependency_graph) blast
  qed
  then have "edges (dependency_graph ws) \<subseteq>
      {(x, y). (x, y) \<in> edges (dependency_graph ws) \<and> x \<in> set (snd st)}"
    by blast
  with st have "acyclic (edges (dependency_graph ws))"
    unfolding explored_def by (meson acyclic_subset)
  with Inr show ?thesis
    by (simp add: require_acyclic_def dependency_graph_distinct(1) [OF assms(1)])
qed

lemma validate_work_item_Inr:
  "validate_work_item w = Inr w' \<Longrightarrow> w' = w \<and> work_item_fields_ok w \<and> (\<forall>c\<in>set (work_item_checks w). \<not> fst c)"
  by (auto simp: validate_work_item_def result_simps split: if_splits option.splits prod.splits)

section \<open>Properties\<close>

text \<open>
  C8: a collection validates exactly when its identifiers are unique, every hard and soft
  dependency names an item of the collection, and the hard dependencies form an acyclic
  graph, provided the interpreter can recurse once per item.
\<close>

theorem validate_graph_iff:
  assumes "length (work_items c) < limit"
  shows "validate_graph limit c = Inr c \<longleftrightarrow>
    distinct (map work_item_id (work_items c)) \<and>
    (\<forall>w\<in>set (work_items c). set (depends_on w) \<union> set (soft_depends_on w)
       \<subseteq> work_item_id ` set (work_items c)) \<and>
    acyclic (hard_edges (work_items c))"
proof -
  have "require_acyclic limit (work_items c) = Inr () \<longleftrightarrow> acyclic (hard_edges (work_items c))"
    if "distinct (map work_item_id (work_items c))"
      "\<forall>w\<in>set (work_items c). set (depends_on w) \<union> set (soft_depends_on w)
         \<subseteq> work_item_id ` set (work_items c)"
    using that require_acyclic_correct [OF that(1) _ assms] by auto
  then show ?thesis
    by (auto simp: validate_graph_def Let_def list_all_iff result_simps)
qed

definition sample_work_item :: "pystr \<Rightarrow> pystr list \<Rightarrow> WorkStatus \<Rightarrow> WorkItem" where
  "sample_work_item i deps st = \<lparr>wi_version = 3, work_item_id = i, title = ''title'', wi_lane = PRODUCT,
     kind = CODE, milestone = ''M1'', decision_contribution = ''decision'',
     customer_outcome = ''outcome'', depends_on = deps, soft_depends_on = [],
     source_dependency_expression = None, blocks_commercial_release = False, priority = 50,
     risk_tier = STANDARD,
     maturity_target = \<lparr>mt_engineering = DESIGN_ONLY, mt_commercial = NOT_EVALUATED\<rparr>,
     disposition = KEEP, status = st, owner_type = AI, automatable = True, packet_path = None,
     evidence_required = [], external_receipt_required = False,
     machine_policy_receipt_required = False,
     retry_policy = \<lparr>max_plan_attempts = 1, max_candidate_repair_cycles = 1,
       max_same_finding_repeats = 1, max_candidate_restarts = 1\<rparr>,
     external_evidence_refs = [], created_at = None, updated_at = None\<rparr>"

definition sample_collection :: WorkItemCollection where
  "sample_collection = \<lparr>wc_version = 3, active_milestone = ''M1'',
     work_items = [sample_work_item ''M1-001'' [] COMPLETED,
       sample_work_item ''M1-003'' [] READY,
       sample_work_item ''M1-002'' [''M1-001''] READY]\<rparr>"

theorem validate_graph_iff_witness: "acyclic (hard_edges (work_items sample_collection))"
proof -
  have "validate_graph 1000 sample_collection = Inr sample_collection" by code_simp
  then show ?thesis
    using validate_graph_iff [of sample_collection 1000] by (simp add: sample_collection_def)
qed

text \<open>
  C12: in every history of an item, a sequence of transitions the table allows, the status right
  before \<open>COMPLETED\<close> is \<open>PASSED_ENGINEERING\<close> and the status right before \<open>RUNNING\<close> is \<open>QUEUED\<close>; a
  final status comes only at the end, and no status is repeated at once. The final statuses are
  exactly the five of the table without successors, and every status can still reach one.
\<close>

theorem status_histories:
  "(\<forall>path k. successively status_step path \<longrightarrow> Suc k < length path \<longrightarrow>
      (path ! Suc k = COMPLETED \<longrightarrow> path ! k = PASSED_ENGINEERING) \<and>
      (path ! Suc k = RUNNING \<longrightarrow> path ! k = QUEUED) \<and>
      path ! k \<notin> set terminal_statuses \<and> path ! k \<noteq> path ! Suc k) \<and>
   (\<forall>s. (\<nexists>t. status_step s t) \<longleftrightarrow> s \<in> set terminal_statuses) \<and>
   (\<forall>s. \<not> status_step s s) \<and>
   (\<forall>s. \<exists>t\<in>set terminal_statuses. status_step\<^sup>*\<^sup>* s t)"
proof -
  let ?before = "\<lambda>s t. (t = COMPLETED \<longrightarrow> s = PASSED_ENGINEERING) \<and> (t = RUNNING \<longrightarrow> s = QUEUED) \<and>
    s \<notin> set terminal_statuses \<and> s \<noteq> t"
  have before: "?before s t" if "status_step s t" for s t
    using that into_COMPLETED into_RUNNING terminal_iff no_self_step by metis
  have "?before (path ! k) (path ! Suc k)" if "successively status_step path" "Suc k < length path" for path k
    using that unfolding successively_conv_nth by (intro before) blast
  then show ?thesis using terminal_iff no_self_step can_finish by blast
qed

definition sample_history :: "WorkStatus list" where
  "sample_history = [PROPOSED, READY, QUEUED, RUNNING, WAITING_EXTERNAL, PASSED_ENGINEERING, COMPLETED]"

theorem status_histories_witness:
  "successively status_step sample_history \<and> sample_history ! 5 = PASSED_ENGINEERING \<and> sample_history ! 2 = QUEUED"
proof -
  have "successively status_step sample_history" by (simp add: sample_history_def status_step_iff)
  moreover have "sample_history ! Suc 5 = COMPLETED" "sample_history ! Suc 2 = RUNNING" "length sample_history = 7"
    by (simp_all add: sample_history_def)
  ultimately show ?thesis using status_histories by simp
qed

text \<open>
  The collection's completion evidence validates exactly when every completed item
  names only receipts whose record is signed, not synthetic, not writable by an agent and
  carries artifacts, and targets no elevated commercial maturity: the call passes no
  authorization, so no receipt can support an elevated one.
\<close>

theorem completion_evidence_iff:
  "validate_completion_evidence P receipts c = Inr () \<longleftrightarrow>
   (\<forall>w\<in>set (work_items c). status w = COMPLETED \<longrightarrow>
      mt_commercial (maturity_target w) \<in> {NOT_EVALUATED, NATIVE_ADVANTAGE_UNPROVEN, WITHDRAWN} \<and>
      (\<forall>i\<in>set (external_evidence_refs w). \<exists>t. receipts i = Some t \<and>
         \<not> synthetic_test_only (ter_receipt t) \<and> \<not> ter_source_agent_writable t \<and>
         ter_signature_valid t \<and> receipt_artifacts (ter_receipt t) \<noteq> []))"
proof -
  have tr: "(\<exists>ys. traverse f xs = Inr ys) \<longleftrightarrow> (\<forall>x\<in>set xs. \<exists>y. f x = Inr y)"
    for f :: "'x \<Rightarrow> 'y result" and xs
    by (induction xs) (auto simp: result_simps)
  have rec: "(\<exists>y. (case receipts i of None \<Rightarrow> Inl e | Some t \<Rightarrow> record_require_commercial_trust t) = Inr y)
      \<longleftrightarrow> (\<exists>t. receipts i = Some t \<and> \<not> synthetic_test_only (ter_receipt t) \<and>
        \<not> ter_source_agent_writable t \<and> ter_signature_valid t \<and> receipt_artifacts (ter_receipt t) \<noteq> [])" for i e
    by (auto simp: record_require_commercial_trust_Inr_iff split: option.splits)
  have item: "(\<exists>u. validate_completion_item P receipts w = Inr u) \<longleftrightarrow> (status w = COMPLETED \<longrightarrow>
      mt_commercial (maturity_target w) \<in> {NOT_EVALUATED, NATIVE_ADVANTAGE_UNPROVEN, WITHDRAWN} \<and>
      (\<forall>i\<in>set (external_evidence_refs w). \<exists>y. (case receipts i of
         None \<Rightarrow> Inl (ValueError ''completed work has unknown receipt'')
       | Some record \<Rightarrow> record_require_commercial_trust record) = Inr y))" for w
    unfolding tr [symmetric]
    by (auto simp: validate_completion_item_def commercial_maturity_supported_def result_simps)
  show ?thesis
    unfolding validate_completion_evidence_def rbind_Inr_iff
    by (simp only: simp_thms ex_simps tr item rec)
qed

theorem completion_evidence_iff_witness:
  "\<forall>P. validate_completion_evidence P (\<lambda>_. None) sample_collection = Inr ()"
  unfolding completion_evidence_iff by (simp add: sample_collection_def sample_work_item_def)

end
