(* ===== verification/Scheduler.thy ===== *)
theory Scheduler
  imports Work_Items "HOL-Library.Product_Lexorder"
begin

text \<open>
  The lane-aware scheduler (\<^verbatim>\<open>tcfactory/v3/scheduler.py\<close>): it explains for every work item
  why it may not run, ranks the eligible ones by weighted score and tie-break, and fills
  the free read-only and mutating sessions lane by lane within the lanes' work-in-progress
  limits. Scores are exact rationals; the source computes them in floating point, which is
  exact on the factors 0 and 1 of the derived facts.
\<close>

section \<open>Configuration and facts\<close>

record LaneWipLimit =
  wip_mutating :: int
  wip_read_only :: int

record SchedulerWeights =
  w_current_milestone_critical_path :: int
  w_customer_decision_relevance :: int
  w_external_evidence_unblock :: int
  w_native_equivalence_risk :: int
  w_trust_release_blocker :: int
  w_reusable_same_family_value :: int
  w_short_feedback_cycle :: int
  w_speculative_surface_area :: int
  w_security_or_integration_burden :: int
  w_likely_native_duplication :: int
  w_context_or_quota_cost :: int

record SchedulerConfig =
  sc_active_milestone :: pystr
  wip :: "(Lane \<times> LaneWipLimit) list"
  allow_mutating_only_on_controller_failure :: bool
  weights :: SchedulerWeights
  tie_break :: "pystr list"
  waiting_states_do_not_block_other_lanes :: "WorkStatus list"

definition validate_limits :: "SchedulerConfig \<Rightarrow> SchedulerConfig result" where
  "validate_limits c = raise_first
     [(set (map fst (wip c)) \<noteq> {PRODUCT, MARKET, COMPETITOR, TRUST, FACTORY},
       ''scheduler WIP lanes mismatch''),
      (\<not> distinct (tie_break c), ''scheduler tie-break rules must be unique''),
      (\<not> {WAITING_EXTERNAL, DEFERRED, NATIVE_SUFFICIENT, REJECTED_VALUE} \<subseteq>
          set (waiting_states_do_not_block_other_lanes c),
       ''scheduler waiting-state isolation is incomplete'')] c"

record SchedulingFacts =
  current_milestone_critical_path :: rat
  customer_decision_relevance :: rat
  external_evidence_unblock :: rat
  native_equivalence_risk :: rat
  trust_release_blocker :: rat
  reusable_same_family_value :: rat
  short_feedback_cycle :: rat
  speculative_surface_area :: rat
  security_or_integration_burden :: rat
  likely_native_duplication :: rat
  context_or_quota_cost :: rat
  critical_path_length :: int
  reversible_size :: rat
  requires_native_comparison_work_item :: "pystr option"

record ActiveWork =
  aw_work_item_id :: pystr
  aw_lane :: Lane
  aw_mutating :: bool

record TrustedSchedulerOverride =
  ov_decision_id :: pystr
  ov_work_item_id :: pystr
  ov_signature_valid :: bool
  ov_source_agent_writable :: bool

definition require_trusted :: "TrustedSchedulerOverride \<Rightarrow> TrustedSchedulerOverride result" where
  "require_trusted t = raise_first
     [(ov_source_agent_writable t, ''AI-writable scheduler override is not trusted''),
      (\<not> ov_signature_valid t, ''scheduler override signature is invalid'')] t"

definition MUTATING_KINDS :: "WorkKind list" where
  "MUTATING_KINDS = [CODE, SPECIFICATION, RESEARCH, CONTROLLED_EXPERIMENT, MAINTENANCE, MIGRATION]"

definition SATISFIED_DEPENDENCY_STATES :: "WorkStatus list" where
  "SATISFIED_DEPENDENCY_STATES = [PASSED_ENGINEERING, COMPLETED]"

definition CORE_SCHEDULING_LANES :: "Lane list" where
  "CORE_SCHEDULING_LANES = [PRODUCT, MARKET, COMPETITOR, TRUST]"

definition is_mutating :: "WorkItem \<Rightarrow> bool" where
  "is_mutating w \<longleftrightarrow> kind w \<in> set MUTATING_KINDS"

definition default_scheduling_facts :: "WorkItem \<Rightarrow> pystr \<Rightarrow> SchedulingFacts" where
  "default_scheduling_facts w active = \<lparr>
     current_milestone_critical_path = of_bool (milestone w = active),
     customer_decision_relevance = 0,
     external_evidence_unblock = of_bool (kind w = EXTERNAL_EVIDENCE),
     native_equivalence_risk = of_bool (wi_lane w = COMPETITOR),
     trust_release_blocker = of_bool (wi_lane w = TRUST \<and> blocks_commercial_release w),
     reusable_same_family_value = 0,
     short_feedback_cycle = of_bool (kind w \<in> {RESEARCH, SPECIFICATION}),
     speculative_surface_area = 0,
     security_or_integration_burden = of_bool (risk_tier w \<in> {INTEGRATION, TRUST_CORE}),
     likely_native_duplication = 0,
     context_or_quota_cost = 0,
     critical_path_length = 100,
     reversible_size = 1 / 2,
     requires_native_comparison_work_item = None\<rparr>"

text \<open>Each component is a name, a weight, a factor and their product.\<close>

type_synonym score_component = "pystr \<times> int \<times> rat \<times> rat"

definition score_components :: "SchedulerWeights \<Rightarrow> SchedulingFacts \<Rightarrow> score_component list" where
  "score_components w f = map (\<lambda>(name, weight, factor). (name, weight, factor, of_int weight * factor))
     [(''current_milestone_critical_path'', w_current_milestone_critical_path w,
         current_milestone_critical_path f),
      (''customer_decision_relevance'', w_customer_decision_relevance w,
         customer_decision_relevance f),
      (''external_evidence_unblock'', w_external_evidence_unblock w, external_evidence_unblock f),
      (''native_equivalence_risk'', w_native_equivalence_risk w, native_equivalence_risk f),
      (''trust_release_blocker'', w_trust_release_blocker w, trust_release_blocker f),
      (''reusable_same_family_value'', w_reusable_same_family_value w,
         reusable_same_family_value f),
      (''short_feedback_cycle'', w_short_feedback_cycle w, short_feedback_cycle f),
      (''speculative_surface_area'', w_speculative_surface_area w, speculative_surface_area f),
      (''security_or_integration_burden'', w_security_or_integration_burden w,
         security_or_integration_burden f),
      (''likely_native_duplication'', w_likely_native_duplication w, likely_native_duplication f),
      (''context_or_quota_cost'', w_context_or_quota_cost w, context_or_quota_cost f)]"

definition score :: "SchedulerConfig \<Rightarrow> SchedulingFacts \<Rightarrow> rat" where
  "score c f = sum_list (map (\<lambda>(_, _, _, contribution). contribution) (score_components (weights c) f))"

definition tie_key :: "WorkItem \<Rightarrow> SchedulingFacts \<Rightarrow> int \<times> int \<times> int \<times> int \<times> rat \<times> pystr" where
  "tie_key w f =
     (critical_path_length f,
      of_bool (kind w \<notin> {RESEARCH, EXTERNAL_EVIDENCE, CONTROLLED_EXPERIMENT}),
      of_bool (wi_lane w \<noteq> COMPETITOR),
      of_bool (wi_lane w \<noteq> TRUST),
      reversible_size f,
      work_item_id w)"

section \<open>Evaluation of one item\<close>

datatype schedule_reason =
    MilestoneNotActive pystr pystr
  | StatusNotReady WorkStatus
  | NeedsExternalReceipt
  | NeedsMachinePolicyReceipt
  | AlreadyActive
  | UnsatisfiedDependencies "pystr list"
  | NativeComparisonIncomplete pystr
  | LaneWipLimitReached
  | FactoryMaintenanceNeedsFailure

record SchedulerEvaluation =
  se_work_item_id :: pystr
  se_lane :: Lane
  se_eligible :: bool
  se_reasons :: "schedule_reason list"
  se_score :: rat
  se_components :: "score_component list"
  se_selected :: bool

text \<open>The arguments of one scheduling cycle.\<close>

record cycle_input =
  ci_collection :: WorkItemCollection
  ci_config :: SchedulerConfig
  ci_cycle_id :: pystr
  ci_decided_at :: datetime
  ci_facts :: "pystr \<rightharpoonup> SchedulingFacts"
  ci_active_work :: "ActiveWork list"
  ci_max_mutating :: int
  ci_max_read_only :: int
  ci_controller_failure :: bool
  ci_migration_bootstrap :: bool
  ci_override :: "TrustedSchedulerOverride option"
  ci_lane_cursor :: "Lane option"
  ci_future_milestones :: "Lane \<Rightarrow> pystr set"

definition items_of :: "cycle_input \<Rightarrow> pystr \<rightharpoonup> WorkItem" where
  "items_of I = dict_of (map (\<lambda>w. (work_item_id w, w)) (work_items (ci_collection I)))"

definition facts_for :: "cycle_input \<Rightarrow> WorkItem \<Rightarrow> SchedulingFacts" where
  "facts_for I w = (case ci_facts I (work_item_id w) of
     Some f \<Rightarrow> f
   | None \<Rightarrow> default_scheduling_facts w (sc_active_milestone (ci_config I)))"

definition active_count :: "cycle_input \<Rightarrow> Lane \<Rightarrow> bool \<Rightarrow> int" where
  "active_count I lane m =
     int (length (filter (\<lambda>a. aw_lane a = lane \<and> aw_mutating a = m) (ci_active_work I)))"

definition factory_exception :: "cycle_input \<Rightarrow> WorkItem \<Rightarrow> bool" where
  "factory_exception I w \<longleftrightarrow> ci_controller_failure I \<or>
     (ci_migration_bootstrap I \<and> milestone w = ''M0_FACTORY_MIGRATED'' \<and> kind w = MIGRATION)"

text \<open>
  \<open>config.wip[item.lane]\<close>: a validated configuration names every lane, so the lookup
  cannot fail; the model reads a missing lane as closed.
\<close>

definition lane_wip :: "SchedulerConfig \<Rightarrow> Lane \<Rightarrow> LaneWipLimit" where
  "lane_wip c lane = (case map_of (wip c) lane of
     Some l \<Rightarrow> l | None \<Rightarrow> \<lparr>wip_mutating = 0, wip_read_only = 0\<rparr>)"

definition lane_limit :: "cycle_input \<Rightarrow> WorkItem \<Rightarrow> int" where
  "lane_limit I w =
     (let l = lane_wip (ci_config I) (wi_lane w);
          limit = (if is_mutating w then wip_mutating l else wip_read_only l)
      in if wi_lane w = FACTORY \<and> is_mutating w \<and> factory_exception I w \<and> limit = 0 then 1 else limit)"

definition unsatisfied :: "cycle_input \<Rightarrow> WorkItem \<Rightarrow> pystr list" where
  "unsatisfied I w = filter (\<lambda>d. case items_of I d of
       None \<Rightarrow> True | Some v \<Rightarrow> status v \<notin> set SATISFIED_DEPENDENCY_STATES) (depends_on w)"

definition native_incomplete :: "cycle_input \<Rightarrow> pystr \<Rightarrow> bool" where
  "native_incomplete I n \<longleftrightarrow> (case items_of I n of
     None \<Rightarrow> True | Some v \<Rightarrow> status v \<notin> set SATISFIED_DEPENDENCY_STATES)"

definition reasons :: "cycle_input \<Rightarrow> WorkItem \<Rightarrow> schedule_reason list" where
  "reasons I w =
     (let active = sc_active_milestone (ci_config I)
      in (if milestone w \<noteq> active \<and> milestone w \<notin> ci_future_milestones I (wi_lane w)
          then [MilestoneNotActive (milestone w) active] else []) @
     (if status w \<noteq> READY then [StatusNotReady (status w)] else []) @
     (if external_receipt_required w then [NeedsExternalReceipt] else []) @
     (if machine_policy_receipt_required w then [NeedsMachinePolicyReceipt] else []) @
     (if work_item_id w \<in> set (map aw_work_item_id (ci_active_work I)) then [AlreadyActive] else []) @
     (if unsatisfied I w \<noteq> [] then [UnsatisfiedDependencies (sort (unsatisfied I w))] else []) @
     (case requires_native_comparison_work_item (facts_for I w) of
        None \<Rightarrow> []
      | Some n \<Rightarrow> if native_incomplete I n then [NativeComparisonIncomplete n] else []) @
     (if lane_limit I w \<le> active_count I (wi_lane w) (is_mutating w)
      then [LaneWipLimitReached] else []) @
     (if wi_lane w = FACTORY \<and> is_mutating w
         \<and> allow_mutating_only_on_controller_failure (ci_config I) \<and> \<not> factory_exception I w
      then [FactoryMaintenanceNeedsFailure] else []))"

definition evaluate_item :: "cycle_input \<Rightarrow> WorkItem \<Rightarrow> SchedulerEvaluation" where
  "evaluate_item I w = \<lparr>
     se_work_item_id = work_item_id w, se_lane = wi_lane w,
     se_eligible = (reasons I w = []), se_reasons = reasons I w,
     se_score = score (ci_config I) (facts_for I w),
     se_components = score_components (weights (ci_config I)) (facts_for I w),
     se_selected = False\<rparr>"

section \<open>Ranking and lane order\<close>

definition sorted_items :: "cycle_input \<Rightarrow> WorkItem list" where
  "sorted_items I = List.map_filter (items_of I)
     (sorted_set (map work_item_id (work_items (ci_collection I))))"

definition rank_key :: "cycle_input \<Rightarrow> WorkItem \<Rightarrow> rat \<times> int \<times> int \<times> int \<times> int \<times> rat \<times> pystr" where
  "rank_key I w = (- score (ci_config I) (facts_for I w), tie_key w (facts_for I w))"

definition ranked_items :: "cycle_input \<Rightarrow> WorkItem list" where
  "ranked_items I = sort_key (rank_key I) (filter (\<lambda>w. reasons I w = []) (sorted_items I))"

definition fair_lanes :: "Lane option \<Rightarrow> Lane list" where
  "fair_lanes cursor =
     (let c = (case cursor of
                 Some l \<Rightarrow> if l \<in> set CORE_SCHEDULING_LANES then l else PRODUCT
               | None \<Rightarrow> PRODUCT);
          rest = dropWhile (\<lambda>l. l \<noteq> c) CORE_SCHEDULING_LANES;
          before = takeWhile (\<lambda>l. l \<noteq> c) CORE_SCHEDULING_LANES
      in rest @ before @ [FACTORY])"

text \<open>
  A trusted override moves its item to the front of the ranking and its lane to the front
  of the lanes; an override of an item that is not eligible is refused.
\<close>

definition apply_override ::
  "TrustedSchedulerOverride option \<Rightarrow> WorkItem list \<Rightarrow> Lane list \<Rightarrow> (WorkItem list \<times> Lane list) result"
where
  "apply_override ov ranked lanes =
     (case ov of
        None \<Rightarrow> Inr (ranked, lanes)
      | Some t \<Rightarrow> rbind (require_trusted t) (\<lambda>record.
         case List.find (\<lambda>w. work_item_id w = ov_work_item_id record) ranked of
           None \<Rightarrow> Inl (ValueError ''trusted scheduler override targets an ineligible work item'')
         | Some match \<Rightarrow>
             Inr (match # remove1 match ranked,
                  wi_lane match # filter (\<lambda>l. l \<noteq> wi_lane match) lanes)))"

section \<open>Selection\<close>

definition selectable :: "cycle_input \<Rightarrow> bool \<Rightarrow> WorkItem list \<Rightarrow> WorkItem \<Rightarrow> bool" where
  "selectable I m selected w \<longleftrightarrow>
     is_mutating w = m \<and>
     active_count I (wi_lane w) m + int (length (filter (\<lambda>v. wi_lane v = wi_lane w) selected))
       < lane_limit I w"

text \<open>The double loop over the lanes and the remaining candidates: the first hit is chosen.\<close>

fun choose_next :: "(WorkItem \<Rightarrow> bool) \<Rightarrow> Lane list \<Rightarrow> WorkItem list \<Rightarrow> WorkItem option" where
  "choose_next p [] remaining = None"
| "choose_next p (l # ls) remaining =
     (case List.find (\<lambda>w. wi_lane w = l \<and> p w) remaining of
        Some w \<Rightarrow> Some w
      | None \<Rightarrow> choose_next p ls remaining)"

text \<open>The loop \<open>while capacity > 0\<close> for one mode; it stops early when nothing fits.\<close>

fun fill :: "cycle_input \<Rightarrow> bool \<Rightarrow> Lane list \<Rightarrow> nat \<Rightarrow> WorkItem list \<Rightarrow> WorkItem list \<Rightarrow>
    WorkItem list \<times> WorkItem list" where
  "fill I m lanes 0 remaining selected = (selected, remaining)"
| "fill I m lanes (Suc n) remaining selected =
     (case choose_next (selectable I m selected) lanes remaining of
        None \<Rightarrow> (selected, remaining)
      | Some w \<Rightarrow> fill I m lanes n (remove1 w remaining) (selected @ [w]))"

definition capacity :: "cycle_input \<Rightarrow> bool \<Rightarrow> int" where
  "capacity I m =
     (let global_mutating = int (length (filter aw_mutating (ci_active_work I)))
      in if m then ci_max_mutating I - global_mutating
         else ci_max_read_only I - (int (length (ci_active_work I)) - global_mutating))"

definition select :: "cycle_input \<Rightarrow> Lane list \<Rightarrow> WorkItem list \<Rightarrow>
    WorkItem list \<times> WorkItem list \<times> WorkItem list" where
  "select I lanes ranked =
     (let (read_only, rest) = fill I False lanes (nat (capacity I False)) ranked [];
          (mutating, rest') = fill I True lanes (nat (capacity I True)) rest []
      in (read_only, mutating, rest'))"

section \<open>The cycle\<close>

definition dump_scheduler_config :: "SchedulerConfig \<Rightarrow> json" where
  "dump_scheduler_config c = JObj
     [(''version'', JInt 3),
      (''activeMilestone'', JStr (sc_active_milestone c)),
      (''wip'', JObj (map (\<lambda>(l, x). (lane_value l, JObj
          [(''mutating'', JInt (wip_mutating x)), (''readOnly'', JInt (wip_read_only x))])) (wip c))),
      (''factoryMaintenance'', JObj
          [(''allowMutatingOnlyOnControllerFailure'',
            JBool (allow_mutating_only_on_controller_failure c))]),
      (''weights'', JObj
          [(''currentMilestoneCriticalPath'', JInt (w_current_milestone_critical_path (weights c))),
           (''customerDecisionRelevance'', JInt (w_customer_decision_relevance (weights c))),
           (''externalEvidenceUnblock'', JInt (w_external_evidence_unblock (weights c))),
           (''nativeEquivalenceRisk'', JInt (w_native_equivalence_risk (weights c))),
           (''trustReleaseBlocker'', JInt (w_trust_release_blocker (weights c))),
           (''reusableSameFamilyValue'', JInt (w_reusable_same_family_value (weights c))),
           (''shortFeedbackCycle'', JInt (w_short_feedback_cycle (weights c))),
           (''speculativeSurfaceArea'', JInt (w_speculative_surface_area (weights c))),
           (''securityOrIntegrationBurden'', JInt (w_security_or_integration_burden (weights c))),
           (''likelyNativeDuplication'', JInt (w_likely_native_duplication (weights c))),
           (''contextOrQuotaCost'', JInt (w_context_or_quota_cost (weights c)))]),
      (''tieBreak'', JList (map JStr (tie_break c))),
      (''waitingStatesDoNotBlockOtherLanes'',
         JList (map (JStr \<circ> status_value) (waiting_states_do_not_block_other_lanes c)))]"

record SchedulerDecisionArtifact =
  sd_cycle_id :: pystr
  sd_decided_at :: datetime
  sd_active_milestone :: pystr
  sd_config_digest :: pystr
  sd_evaluations :: "SchedulerEvaluation list"
  selected_work_item_ids :: "pystr list"
  override_decision_id :: "pystr option"

text \<open>A dependency outside the collection: the lookup \<open>items[dependency]\<close> raises.\<close>

definition missing_dependency :: "cycle_input \<Rightarrow> pystr option" where
  "missing_dependency I =
     List.find (\<lambda>d. items_of I d = None) (concat (map depends_on (sorted_items I)))"

definition schedule_cycle :: "platform \<Rightarrow> cycle_input \<Rightarrow> SchedulerDecisionArtifact result" where
  "schedule_cycle P I =
     (if ci_max_mutating I \<le> 0 \<or> ci_max_read_only I \<le> 0
      then Inl (ValueError ''global scheduler concurrency limits must be positive'')
      else if \<not> distinct (map aw_work_item_id (ci_active_work I))
      then Inl (ValueError ''duplicate active work item'')
      else case missing_dependency I of
        Some d \<Rightarrow> Inl (KeyError d)
      | None \<Rightarrow>
         rbind (apply_override (ci_override I) (ranked_items I) (fair_lanes (ci_lane_cursor I)))
           (\<lambda>(ranked, lanes).
             let (read_only, mutating, rest) = select I lanes ranked;
                 selected = map work_item_id (read_only @ mutating)
             in if strip P (ci_cycle_id I) = [] then Inl (ValidationError ''SchedulerDecisionArtifact'')
             else Inr \<lparr>
               sd_cycle_id = strip P (ci_cycle_id I),
               sd_decided_at = ci_decided_at I,
               sd_active_milestone = sc_active_milestone (ci_config I),
               sd_config_digest = digest_json P (dump_scheduler_config (ci_config I)),
               sd_evaluations = map (\<lambda>w. (evaluate_item I w)
                   \<lparr>se_selected := work_item_id w \<in> set selected\<rparr>) (sorted_items I),
               selected_work_item_ids = selected,
               override_decision_id = map_option ov_decision_id (ci_override I)\<rparr>))"

section \<open>Lemmas on choosing and filling\<close>

lemma choose_next_Some:
  assumes "choose_next p lanes remaining = Some w"
  shows "w \<in> set remaining" "p w" "wi_lane w \<in> set lanes"
  using assms by (induction lanes) (auto dest: find_Some_in split: option.splits)

lemma choose_next_None:
  "choose_next p lanes remaining = None \<longleftrightarrow>
     (\<forall>w\<in>set remaining. wi_lane w \<in> set lanes \<longrightarrow> \<not> p w)"
  by (induction lanes) (auto simp: find_None_iff dest: find_Some_in split: option.splits)

lemma fill_keeps_items:
  assumes "fill I m lanes n remaining selected = (selected', remaining')"
  shows "mset selected' + mset remaining' = mset selected + mset remaining"
  using assms
proof (induction n arbitrary: remaining selected)
  case (Suc n)
  show ?case
  proof (cases "choose_next (selectable I m selected) lanes remaining")
    case (Some w)
    then have "w \<in> set remaining" by (rule choose_next_Some)
    with Suc Some show ?thesis by fastforce
  qed (use Suc.prems in auto)
qed simp

lemma fill_extends:
  assumes "fill I m lanes n remaining selected = (selected', remaining')"
  shows "\<exists>new. selected' = selected @ new \<and> length new \<le> n \<and> (\<forall>w\<in>set new. is_mutating w = m)"
  using assms
proof (induction n arbitrary: remaining selected)
  case (Suc n)
  show ?case
  proof (cases "choose_next (selectable I m selected) lanes remaining")
    case (Some w)
    with Suc.prems have "fill I m lanes n (remove1 w remaining) (selected @ [w]) =
        (selected', remaining')"
      by simp
    from Suc.IH [OF this] obtain new where new: "selected' = (selected @ [w]) @ new"
      "length new \<le> n" "\<forall>v\<in>set new. is_mutating v = m"
      by blast
    moreover have "is_mutating w = m"
      using choose_next_Some(2) [OF Some] by (simp add: selectable_def)
    ultimately have "selected' = selected @ (w # new) \<and> length (w # new) \<le> Suc n \<and>
        (\<forall>v\<in>set (w # new). is_mutating v = m)"
      by simp
    then show ?thesis by blast
  qed (use Suc.prems in auto)
qed simp

text \<open>
  Two items of one lane and mode with room in the lane have the same limit: a closed
  lane opens to exactly one under the factory exception.
\<close>

lemma lane_limit_unique:
  assumes "0 < lane_limit I v" "0 < lane_limit I w" "wi_lane v = wi_lane w"
    "is_mutating v = is_mutating w"
  shows "lane_limit I v = lane_limit I w"
  using assms by (auto simp: lane_limit_def Let_def split: if_splits)

definition lane_ok :: "cycle_input \<Rightarrow> bool \<Rightarrow> WorkItem list \<Rightarrow> bool" where
  "lane_ok I m selected \<longleftrightarrow>
     (\<forall>w\<in>set selected. is_mutating w = m \<and>
        active_count I (wi_lane w) m + int (length (filter (\<lambda>v. wi_lane v = wi_lane w) selected))
          \<le> lane_limit I w)"

lemma active_count_nonneg: "0 \<le> active_count I l m"
  by (simp add: active_count_def)

lemma lane_ok_pos:
  assumes "lane_ok I m selected" "w \<in> set selected"
  shows "0 < lane_limit I w"
proof -
  have "filter (\<lambda>v. wi_lane v = wi_lane w) selected \<noteq> []"
    using assms(2) by (auto simp: filter_empty_conv)
  then have "0 < int (length (filter (\<lambda>v. wi_lane v = wi_lane w) selected))" by simp
  moreover have "active_count I (wi_lane w) m +
      int (length (filter (\<lambda>v. wi_lane v = wi_lane w) selected)) \<le> lane_limit I w"
    using assms by (auto simp: lane_ok_def)
  ultimately show ?thesis
    using active_count_nonneg [of I "wi_lane w" m] by linarith
qed

lemma lane_ok_snoc:
  assumes ok: "lane_ok I m selected" and w: "selectable I m selected w"
  shows "lane_ok I m (selected @ [w])"
  unfolding lane_ok_def
proof
  fix v assume v: "v \<in> set (selected @ [w])"
  have wlim: "active_count I (wi_lane w) m +
      int (length (filter (\<lambda>x. wi_lane x = wi_lane w) selected)) < lane_limit I w"
    and wm: "is_mutating w = m"
    using w by (auto simp: selectable_def)
  then have wpos: "0 < lane_limit I w" using active_count_nonneg [of I "wi_lane w" m] by linarith
  show "is_mutating v = m \<and> active_count I (wi_lane v) m +
      int (length (filter (\<lambda>x. wi_lane x = wi_lane v) (selected @ [w]))) \<le> lane_limit I v"
  proof (cases "v \<in> set selected")
    case False
    with v wlim wm show ?thesis by simp
  next
    case True
    with ok have vm: "is_mutating v = m" and vlim: "active_count I (wi_lane v) m +
        int (length (filter (\<lambda>x. wi_lane x = wi_lane v) selected)) \<le> lane_limit I v"
      by (auto simp: lane_ok_def)
    show ?thesis
    proof (cases "wi_lane v = wi_lane w")
      case True
      then have "lane_limit I v = lane_limit I w"
        using lane_ok_pos [OF ok \<open>v \<in> set selected\<close>] wpos vm wm by (intro lane_limit_unique) auto
      with True wlim vm show ?thesis by simp
    next
      case False
      with vlim vm show ?thesis by simp
    qed
  qed
qed

lemma fill_lane_ok:
  assumes "fill I m lanes n remaining selected = (selected', remaining')" "lane_ok I m selected"
  shows "lane_ok I m selected'"
  using assms
proof (induction n arbitrary: remaining selected)
  case (Suc n)
  show ?case
  proof (cases "choose_next (selectable I m selected) lanes remaining")
    case (Some w)
    then have "selectable I m selected w" by (rule choose_next_Some(2))
    then have "lane_ok I m (selected @ [w])" by (rule lane_ok_snoc [OF Suc.prems(2)])
    with Suc.IH Suc.prems(1) Some show ?thesis by simp
  qed (use Suc.prems in auto)
qed simp

text \<open>The loop is work-conserving: it stops with sessions free only when nothing fits.\<close>

lemma fill_maximal:
  assumes "fill I m lanes n remaining selected = (selected', remaining')"
    and "length selected' < length selected + n"
  shows "\<forall>w\<in>set remaining'. wi_lane w \<in> set lanes \<longrightarrow> \<not> selectable I m selected' w"
  using assms
proof (induction n arbitrary: remaining selected)
  case (Suc n)
  show ?case
  proof (cases "choose_next (selectable I m selected) lanes remaining")
    case None
    with Suc.prems show ?thesis by (auto simp: choose_next_None)
  next
    case (Some w)
    with Suc.prems show ?thesis by (intro Suc.IH) auto
  qed
qed simp

lemma set_fair_lanes: "set (fair_lanes cursor) = UNIV"
proof -
  have "set (dropWhile q xs) \<union> (set (takeWhile q xs) \<union> {FACTORY}) = insert FACTORY (set xs)" for q xs
    using set_append [of "takeWhile q xs" "dropWhile q xs"] by auto
  then have "set (fair_lanes cursor) = insert FACTORY (set CORE_SCHEDULING_LANES)"
    unfolding fair_lanes_def Let_def by simp
  then show ?thesis unfolding UNIV_Lane CORE_SCHEDULING_LANES_def by auto
qed

lemma apply_override_cases:
  assumes "apply_override ov ranked lanes = Inr (ranked', lanes')"
  obtains "ov = None" "ranked' = ranked" "lanes' = lanes"
  | t w where "ov = Some t" "ov_signature_valid t" "\<not> ov_source_agent_writable t"
      "w \<in> set ranked" "work_item_id w = ov_work_item_id t"
      "ranked' = w # remove1 w ranked" "lanes' = wi_lane w # filter (\<lambda>l. l \<noteq> wi_lane w) lanes"
proof (cases ov)
  case None
  with assms that(1) show thesis by (simp add: apply_override_def)
next
  case (Some t)
  with assms have tr: "ov_signature_valid t" "\<not> ov_source_agent_writable t"
    by (auto simp: apply_override_def require_trusted_def result_simps)
  with Some assms obtain w where w: "List.find (\<lambda>w. work_item_id w = ov_work_item_id t) ranked = Some w"
    by (auto simp: apply_override_def require_trusted_def raise_first_def split: option.splits)
  show thesis
    by (rule that(2) [OF Some tr])
      (use Some assms tr w find_Some_in [OF w] in
        \<open>auto simp: apply_override_def require_trusted_def raise_first_def\<close>)
qed

lemma apply_override_Inr:
  assumes "apply_override ov ranked lanes = Inr (ranked', lanes')"
  shows "mset ranked' = mset ranked" "set lanes \<subseteq> set lanes'"
  using assms by (auto elim!: apply_override_cases)

section \<open>Lemmas on the collection\<close>

lemma items_of_Some: "items_of I i = Some w \<Longrightarrow> w \<in> set (work_items (ci_collection I)) \<and> work_item_id w = i"
  unfolding items_of_def dict_of_def by (auto dest!: map_of_SomeD)

lemma set_sorted_items:
  assumes "distinct (map work_item_id (work_items (ci_collection I)))"
  shows "set (sorted_items I) = set (work_items (ci_collection I))"
proof -
  have d: "distinct (map fst (map (\<lambda>w. (work_item_id w, w)) (work_items (ci_collection I))))"
    using assms by (simp add: comp_def)
  have "items_of I i = Some w \<longleftrightarrow> w \<in> set (work_items (ci_collection I)) \<and> work_item_id w = i" for i w
    unfolding items_of_def dict_of_distinct [OF d] map_of_eq_Some_iff [OF d] by auto
  then show ?thesis
    by (auto simp: sorted_items_def set_map_filter)
qed

lemma map_id_sorted_items:
  "map work_item_id (sorted_items I) = sorted_set (map work_item_id (work_items (ci_collection I)))"
proof -
  have "\<exists>w. items_of I i = Some w \<and> work_item_id w = i"
    if "i \<in> set (map work_item_id (work_items (ci_collection I)))" for i
  proof -
    have "i \<in> dom (items_of I)"
      using that by (auto simp: items_of_def dict_of_def dom_map_of_conv_image_fst image_image
          simp flip: rev_map)
    then show ?thesis using items_of_Some by blast
  qed
  then have "map work_item_id (List.map_filter (items_of I) xs) = xs"
    if "set xs \<subseteq> set (map work_item_id (work_items (ci_collection I)))" for xs
    using that by (induction xs) (fastforce simp: List.map_filter_def)+
  then show ?thesis by (simp add: sorted_items_def)
qed

lemma distinct_sorted_items: "distinct (map work_item_id (sorted_items I))"
  by (simp add: map_id_sorted_items)

lemma set_ranked_items: "set (ranked_items I) = {w \<in> set (sorted_items I). reasons I w = []}"
  by (simp add: ranked_items_def)

lemma distinct_ranked_items: "distinct (map work_item_id (ranked_items I))"
proof -
  have "inj_on work_item_id (set (sorted_items I))" "distinct (sorted_items I)"
    using distinct_sorted_items [of I] by (simp_all add: distinct_map)
  then show ?thesis
    by (auto simp: distinct_map ranked_items_def intro: inj_on_subset)
qed

text \<open>Running a whole cycle: what the selected and the unselected candidates satisfy.\<close>

lemma select_spec:
  assumes "select I lanes ranked = (ro, mu, rest)"
  shows "mset ro + mset mu + mset rest = mset ranked"
    and "lane_ok I False ro" "lane_ok I True mu"
    and "int (length ro) \<le> max 0 (capacity I False)" "int (length mu) \<le> max 0 (capacity I True)"
    and "int (length ro) < capacity I False \<Longrightarrow> w \<in> set rest \<Longrightarrow> wi_lane w \<in> set lanes \<Longrightarrow>
           \<not> selectable I False ro w"
    and "int (length mu) < capacity I True \<Longrightarrow> w \<in> set rest \<Longrightarrow> wi_lane w \<in> set lanes \<Longrightarrow>
           \<not> selectable I True mu w"
proof -
  from assms obtain rest1 where
    f1: "fill I False lanes (nat (capacity I False)) ranked [] = (ro, rest1)" and
    f2: "fill I True lanes (nat (capacity I True)) rest1 [] = (mu, rest)"
    by (auto simp: select_def split: prod.splits)
  have nil: "lane_ok I m []" for m by (simp add: lane_ok_def)
  note keep1 = fill_keeps_items [OF f1] and keep2 = fill_keeps_items [OF f2]
  show "mset ro + mset mu + mset rest = mset ranked" using keep1 keep2 by (simp add: add.assoc)
  show "lane_ok I False ro" "lane_ok I True mu"
    using fill_lane_ok [OF f1 nil] fill_lane_ok [OF f2 nil] by auto
  show "int (length ro) \<le> max 0 (capacity I False)"
    using fill_extends [OF f1] by auto
  show "int (length mu) \<le> max 0 (capacity I True)"
    using fill_extends [OF f2] by auto
  have sub: "set rest \<subseteq> set rest1"
    using keep2 by (metis mset_subset_eq_add_right set_mset_mono set_mset_mset union_code mset.simps(1) add_0)
  show "\<not> selectable I False ro w"
    if "int (length ro) < capacity I False" "w \<in> set rest" "wi_lane w \<in> set lanes"
    using fill_maximal [OF f1] that sub by auto
  show "\<not> selectable I True mu w"
    if "int (length mu) < capacity I True" "w \<in> set rest" "wi_lane w \<in> set lanes"
    using fill_maximal [OF f2] that by auto
qed

lemma schedule_cycle_Inr:
  assumes "schedule_cycle P I = Inr d"
  obtains ranked lanes ro mu rest where
    "mset ranked = mset (ranked_items I)" "set lanes = UNIV" "select I lanes ranked = (ro, mu, rest)"
    "selected_work_item_ids d = map work_item_id (ro @ mu)"
    "apply_override (ci_override I) (ranked_items I) (fair_lanes (ci_lane_cursor I)) = Inr (ranked, lanes)"
    "sd_evaluations d = map (\<lambda>w. (evaluate_item I w)
       \<lparr>se_selected := work_item_id w \<in> set (selected_work_item_ids d)\<rparr>) (sorted_items I)"
    "missing_dependency I = None"
proof -
  from assms obtain ranked lanes where
    ov: "apply_override (ci_override I) (ranked_items I) (fair_lanes (ci_lane_cursor I)) = Inr (ranked, lanes)"
    and miss: "missing_dependency I = None"
    by (auto simp: schedule_cycle_def result_simps split: if_splits option.splits)
  obtain ro mu rest where sel: "select I lanes ranked = (ro, mu, rest)" by (cases "select I lanes ranked")
  show thesis
  proof (rule that)
    show "mset ranked = mset (ranked_items I)" using apply_override_Inr(1) [OF ov] .
    show "set lanes = UNIV" using apply_override_Inr(2) [OF ov] by (simp add: set_fair_lanes top.extremum_unique)
    show "select I lanes ranked = (ro, mu, rest)" by (fact sel)
    show "missing_dependency I = None" by (fact miss)
    show "apply_override (ci_override I) (ranked_items I) (fair_lanes (ci_lane_cursor I)) = Inr (ranked, lanes)"
      by (fact ov)
  qed (use assms ov sel miss in \<open>auto simp: schedule_cycle_def Let_def split: if_splits\<close>)
qed

section \<open>A small cycle\<close>

text \<open>
  Two ready items of the product lane, one of them with a completed dependency, one free
  session per mode, and no active work: the input on which the properties below are instantiated.
\<close>

definition sample_config :: SchedulerConfig where
  "sample_config = \<lparr>sc_active_milestone = ''M1'',
     wip = map (\<lambda>l. (l, \<lparr>wip_mutating = 1, wip_read_only = 1\<rparr>)) [PRODUCT, MARKET, COMPETITOR, TRUST, FACTORY],
     allow_mutating_only_on_controller_failure = True,
     weights = \<lparr>w_current_milestone_critical_path = 10, w_customer_decision_relevance = 9,
       w_external_evidence_unblock = 8, w_native_equivalence_risk = 7, w_trust_release_blocker = 6,
       w_reusable_same_family_value = 5, w_short_feedback_cycle = 4, w_speculative_surface_area = - 3,
       w_security_or_integration_burden = - 2, w_likely_native_duplication = - 1,
       w_context_or_quota_cost = - 1\<rparr>,
     tie_break = [''critical_path''],
     waiting_states_do_not_block_other_lanes =
       [WAITING_EXTERNAL, DEFERRED, NATIVE_SUFFICIENT, REJECTED_VALUE]\<rparr>"

definition sample_input :: "TrustedSchedulerOverride option \<Rightarrow> cycle_input" where
  "sample_input ov = \<lparr>ci_collection = sample_collection, ci_config = sample_config,
     ci_cycle_id = ''cycle-1'', ci_decided_at = Datetime 0 (Some 0), ci_facts = Map.empty,
     ci_active_work = [], ci_max_mutating = 1, ci_max_read_only = 1, ci_controller_failure = False,
     ci_migration_bootstrap = False, ci_override = ov, ci_lane_cursor = None,
     ci_future_milestones = (\<lambda>_. {})\<rparr>"

definition sample_override :: TrustedSchedulerOverride where
  "sample_override = \<lparr>ov_decision_id = ''D-1'', ov_work_item_id = ''M1-003'',
     ov_signature_valid = True, ov_source_agent_writable = False\<rparr>"

definition sample_decision :: "TrustedSchedulerOverride option \<Rightarrow> SchedulerDecisionArtifact" where
  "sample_decision ov = projr (schedule_cycle sample_platform (sample_input ov))"

lemma sample_schedules:
  "schedule_cycle sample_platform (sample_input None) = Inr (sample_decision None)"
  "schedule_cycle sample_platform (sample_input (Some sample_override)) = Inr (sample_decision (Some sample_override))"
proof -
  have "is_ok (schedule_cycle sample_platform (sample_input None))"
    "is_ok (schedule_cycle sample_platform (sample_input (Some sample_override)))"
    by code_simp+
  then show "schedule_cycle sample_platform (sample_input None) = Inr (sample_decision None)"
    "schedule_cycle sample_platform (sample_input (Some sample_override)) = Inr (sample_decision (Some sample_override))"
    by (auto simp: sample_decision_def is_ok_def split: sum.splits)
qed

section \<open>What a cycle selects\<close>

definition selected_items :: "cycle_input \<Rightarrow> SchedulerDecisionArtifact \<Rightarrow> WorkItem list" where
  "selected_items I d = filter (\<lambda>w. work_item_id w \<in> set (selected_work_item_ids d)) (sorted_items I)"

definition selected_count ::
  "cycle_input \<Rightarrow> SchedulerDecisionArtifact \<Rightarrow> (WorkItem \<Rightarrow> bool) \<Rightarrow> int" where
  "selected_count I d p = int (length (filter p (selected_items I d)))"

text \<open>The selected items are the two lists the loops filled.\<close>

lemma schedule_cycle_selected:
  assumes "schedule_cycle P I = Inr d"
  obtains lanes ranked ro mu rest where
    "select I lanes ranked = (ro, mu, rest)" "set lanes = UNIV" "mset ranked = mset (ranked_items I)"
    "mset (selected_items I d) = mset (ro @ mu)" "set rest = set (ranked_items I) - set (selected_items I d)"
    "selected_work_item_ids d = map work_item_id (ro @ mu)" "distinct (selected_work_item_ids d)"
    "apply_override (ci_override I) (ranked_items I) (fair_lanes (ci_lane_cursor I)) = Inr (ranked, lanes)"
proof -
  from assms obtain ranked lanes ro mu rest where *:
    "mset ranked = mset (ranked_items I)" "set lanes = UNIV" "select I lanes ranked = (ro, mu, rest)"
    "selected_work_item_ids d = map work_item_id (ro @ mu)"
    "apply_override (ci_override I) (ranked_items I) (fair_lanes (ci_lane_cursor I)) = Inr (ranked, lanes)"
    by (rule schedule_cycle_Inr)
  have split: "mset (ro @ mu @ rest) = mset (ranked_items I)"
    using select_spec(1) [OF *(3)] *(1) by (simp add: add.assoc)
  have sub: "set (ro @ mu @ rest) = set (ranked_items I)"
    using split by (metis set_mset_mset)
  have "mset (map work_item_id (ro @ mu @ rest)) = mset (map work_item_id (ranked_items I))"
    using split by (metis mset_map)
  then have dist: "distinct (map work_item_id (ro @ mu @ rest))"
    using distinct_ranked_items [of I] by (metis mset_eq_imp_distinct_iff)
  have inj: "inj_on work_item_id (set (sorted_items I))" and "distinct (sorted_items I)"
    using distinct_sorted_items [of I] by (simp_all add: distinct_map)
  have "set (ro @ mu) \<subseteq> set (sorted_items I)"
    using sub by (auto simp: set_ranked_items)
  then have set_sel: "set (selected_items I d) = set (ro @ mu)"
    using inj unfolding selected_items_def *(4) set_map set_filter by (blast dest: inj_onD)
  moreover from dist have all: "distinct (ro @ mu @ rest)" by (simp only: distinct_map)
  moreover from all have "distinct (ro @ mu)" by auto
  ultimately have "mset (selected_items I d) = mset (ro @ mu)"
    using \<open>distinct (sorted_items I)\<close>
    by (subst set_eq_iff_mset_eq_distinct [symmetric]) (auto simp: selected_items_def)
  moreover have "set rest = set (ranked_items I) - set (selected_items I d)"
    using all unfolding set_sel sub [symmetric] by auto
  moreover have "distinct (selected_work_item_ids d)" using dist unfolding *(4) by auto
  ultimately show thesis using that * by blast
qed

lemma selected_count_eq:
  "mset (selected_items I d) = mset xs \<Longrightarrow> selected_count I d p = int (length (filter p xs))"
  unfolding selected_count_def by (metis mset_filter size_mset)

lemma filter_mode_cong:
  assumes "lane_ok I False ro" "lane_ok I True mu"
  shows "filter (\<lambda>v. q v \<and> is_mutating v = m) (ro @ mu) = filter q (if m then mu else ro)"
proof -
  have "filter (\<lambda>v. q v \<and> is_mutating v = m) xs = (if k = m then filter q xs else [])"
    if "lane_ok I k xs" for xs k
    using that by (auto simp: lane_ok_def filter_empty_conv intro: filter_cong)
  from this [OF assms(1)] this [OF assms(2)] show ?thesis by auto
qed

lemma reasons_Nil_facts:
  assumes "reasons I w = []"
  shows "status w = READY" "\<not> external_receipt_required w" "\<not> machine_policy_receipt_required w"
    "work_item_id w \<notin> aw_work_item_id ` set (ci_active_work I)"
    "\<forall>d\<in>set (depends_on w). \<exists>v. items_of I d = Some v \<and> status v \<in> {PASSED_ENGINEERING, COMPLETED}"
    "active_count I (wi_lane w) (is_mutating w) < lane_limit I w"
proof -
  note parts = assms [unfolded reasons_def Let_def append_is_Nil_conv]
  show "status w = READY" "\<not> external_receipt_required w" "\<not> machine_policy_receipt_required w"
    "work_item_id w \<notin> aw_work_item_id ` set (ci_active_work I)"
    using parts by (simp_all split: if_splits)
  have "unsatisfied I w = []" using parts by (simp split: if_splits)
  then show "\<forall>d\<in>set (depends_on w). \<exists>v. items_of I d = Some v \<and> status v \<in> {PASSED_ENGINEERING, COMPLETED}"
    by (auto simp: unsatisfied_def filter_empty_conv SATISFIED_DEPENDENCY_STATES_def split: option.splits)
  show "active_count I (wi_lane w) (is_mutating w) < lane_limit I w"
    using parts by (simp split: if_splits)
qed

text \<open>
  C6: every item a cycle selects is a work item of the collection that is ready, not
  already active, not waiting for a receipt, and whose hard dependencies have all passed
  engineering or completed; no item is selected twice; the selected and active items of a
  lane and mode stay within that lane's limit; and the selected items of a mode do not
  exceed its free sessions.
\<close>

theorem schedule_cycle_safe:
  assumes "schedule_cycle P I = Inr d"
    and "distinct (map work_item_id (work_items (ci_collection I)))"
  shows "distinct (selected_work_item_ids d) \<and>
    set (selected_work_item_ids d) = work_item_id ` set (selected_items I d) \<and>
    (\<forall>w\<in>set (selected_items I d).
       w \<in> set (work_items (ci_collection I)) \<and> status w = READY \<and>
       \<not> external_receipt_required w \<and> \<not> machine_policy_receipt_required w \<and>
       work_item_id w \<notin> aw_work_item_id ` set (ci_active_work I) \<and>
       (\<forall>i\<in>set (depends_on w). \<exists>v. items_of I i = Some v \<and> status v \<in> {PASSED_ENGINEERING, COMPLETED}) \<and>
       active_count I (wi_lane w) (is_mutating w)
         + selected_count I d (\<lambda>v. wi_lane v = wi_lane w \<and> is_mutating v = is_mutating w)
         \<le> lane_limit I w) \<and>
    (\<forall>m. selected_count I d (\<lambda>v. is_mutating v = m) \<le> max 0 (capacity I m))"
proof -
  from assms(1) obtain lanes ranked ro mu rest where
    sel: "select I lanes ranked = (ro, mu, rest)" and ms: "mset (selected_items I d) = mset (ro @ mu)"
    and ids: "selected_work_item_ids d = map work_item_id (ro @ mu)"
    and dist: "distinct (selected_work_item_ids d)"
    and ranked: "mset ranked = mset (ranked_items I)"
    by (rule schedule_cycle_selected)
  note spec = select_spec [OF sel]
  have set_sel: "set (selected_items I d) = set (ro @ mu)" using ms by (metis set_mset_mset)
  have "set ranked = set (ranked_items I)" using ranked by (metis set_mset_mset)
  moreover have "set (ro @ mu @ rest) = set ranked"
    using arg_cong [OF spec(1), of set_mset] by (simp add: Un_assoc)
  ultimately have elig: "w \<in> set (work_items (ci_collection I)) \<and> reasons I w = []"
    if "w \<in> set (selected_items I d)" for w
    using that unfolding set_sel by (auto simp: set_ranked_items set_sorted_items [OF assms(2)])
  have count: "selected_count I d (\<lambda>v. q v \<and> is_mutating v = m) =
      int (length (filter q (if m then mu else ro)))" for q m
    unfolding selected_count_eq [OF ms] filter_mode_cong [OF spec(2,3)] ..
  have lane: "active_count I (wi_lane w) (is_mutating w)
      + selected_count I d (\<lambda>v. wi_lane v = wi_lane w \<and> is_mutating v = is_mutating w) \<le> lane_limit I w"
    if "w \<in> set (selected_items I d)" for w
    using that spec(2,3) unfolding count set_sel by (auto simp: lane_ok_def)
  have cap: "selected_count I d (\<lambda>v. is_mutating v = m) \<le> max 0 (capacity I m)" for m
    using count [of "\<lambda>_. True" m] spec(4,5) by (cases m) auto
  have ready: "w \<in> set (work_items (ci_collection I)) \<and> status w = READY \<and>
       \<not> external_receipt_required w \<and> \<not> machine_policy_receipt_required w \<and>
       work_item_id w \<notin> aw_work_item_id ` set (ci_active_work I) \<and>
       (\<forall>i\<in>set (depends_on w). \<exists>v. items_of I i = Some v \<and> status v \<in> {PASSED_ENGINEERING, COMPLETED})"
    if "w \<in> set (selected_items I d)" for w
    using elig [OF that] reasons_Nil_facts [of I w] by blast
  have "set (selected_work_item_ids d) = work_item_id ` set (selected_items I d)"
    by (simp only: ids set_sel set_map)
  with dist lane ready cap show ?thesis by blast
qed

theorem schedule_cycle_safe_witness:
  "selected_work_item_ids (sample_decision None) = [''M1-002''] \<and>
   work_item_id ` set (selected_items (sample_input None) (sample_decision None)) = {''M1-002''}"
proof -
  have ids: "selected_work_item_ids (sample_decision None) = [''M1-002'']" by code_simp
  have "distinct (map work_item_id (work_items (ci_collection (sample_input None))))" by code_simp
  with ids show ?thesis using schedule_cycle_safe [OF sample_schedules(1)] by simp
qed

text \<open>
  C7: the cycle is work-conserving. An eligible item that is not selected finds either no
  free session of its mode left or its lane at its limit.
\<close>

theorem schedule_cycle_work_conserving:
  assumes "schedule_cycle P I = Inr d" and "w \<in> set (sorted_items I)" and "reasons I w = []"
    and "work_item_id w \<notin> set (selected_work_item_ids d)"
  shows "capacity I (is_mutating w) \<le> selected_count I d (\<lambda>v. is_mutating v = is_mutating w) \<or>
    lane_limit I w \<le> active_count I (wi_lane w) (is_mutating w)
      + selected_count I d (\<lambda>v. wi_lane v = wi_lane w \<and> is_mutating v = is_mutating w)"
proof -
  from assms(1) obtain lanes ranked ro mu rest where
    sel: "select I lanes ranked = (ro, mu, rest)" and ms: "mset (selected_items I d) = mset (ro @ mu)"
    and lanes: "set lanes = UNIV" and rest: "set rest = set (ranked_items I) - set (selected_items I d)"
    by (rule schedule_cycle_selected)
  note spec = select_spec [OF sel]
  have count: "selected_count I d (\<lambda>v. q v \<and> is_mutating v = m) =
      int (length (filter q (if m then mu else ro)))" for q m
    unfolding selected_count_eq [OF ms] filter_mode_cong [OF spec(2,3)] ..
  have w: "w \<in> set rest"
    using assms(2-4) rest by (simp add: set_ranked_items selected_items_def)
  let ?sel = "if is_mutating w then mu else ro"
  have "int (length ?sel) < capacity I (is_mutating w) \<longrightarrow> \<not> selectable I (is_mutating w) ?sel w"
    using spec(6) [OF _ w] spec(7) [OF _ w] lanes by simp
  moreover have "selected_count I d (\<lambda>v. is_mutating v = is_mutating w) = int (length ?sel)"
    using count [of "\<lambda>_. True" "is_mutating w"] by simp
  ultimately show ?thesis
    unfolding count selectable_def by linarith
qed

theorem schedule_cycle_work_conserving_witness:
  "capacity (sample_input None) True
     \<le> selected_count (sample_input None) (sample_decision None) (\<lambda>v. is_mutating v = True) \<or>
   lane_limit (sample_input None) (sample_work_item ''M1-003'' [] READY)
     \<le> active_count (sample_input None) PRODUCT True +
       selected_count (sample_input None) (sample_decision None) (\<lambda>v. wi_lane v = PRODUCT \<and> is_mutating v = True)"
proof -
  let ?w = "sample_work_item ''M1-003'' [] READY"
  have "?w \<in> set (sorted_items (sample_input None))" "reasons (sample_input None) ?w = []"
    "work_item_id ?w \<notin> set (selected_work_item_ids (sample_decision None))"
    by code_simp+
  note fact = schedule_cycle_work_conserving [OF sample_schedules(1) this]
  have "is_mutating ?w = True" "wi_lane ?w = PRODUCT" by code_simp+
  with fact show ?thesis by simp
qed

lemma fill_keeps_head:
  assumes "fill I m lanes n (w # xs) selected = (selected', remaining')" "is_mutating w \<noteq> m"
  shows "\<exists>ys. remaining' = w # ys"
  using assms
proof (induction n arbitrary: xs selected)
  case (Suc n)
  show ?case
  proof (cases "choose_next (selectable I m selected) lanes (w # xs)")
    case (Some v)
    then have "v \<noteq> w" using choose_next_Some(2) [OF Some] Suc.prems(2) by (auto simp: selectable_def)
    with Suc Some show ?thesis by auto
  qed (use Suc.prems in auto)
qed auto

lemma fill_takes_head:
  assumes "fill I m (wi_lane w # lanes) (Suc n) (w # xs) [] = (selected', remaining')"
    and "selectable I m [] w"
  shows "w \<in> set selected'"
proof -
  have "fill I m (wi_lane w # lanes) n xs [w] = (selected', remaining')"
    using assms by simp
  from fill_extends [OF this] show ?thesis by auto
qed

text \<open>
  A trusted override of an eligible item is honoured: when a session of the item's
  mode is free, the item is selected.
\<close>

theorem schedule_cycle_override_selected:
  assumes "schedule_cycle P I = Inr d" and "ci_override I = Some t"
    and "w \<in> set (sorted_items I)" and "work_item_id w = ov_work_item_id t"
    and "0 < capacity I (is_mutating w)"
  shows "ov_work_item_id t \<in> set (selected_work_item_ids d)"
proof -
  from assms(1) obtain ranked lanes ro mu rest where
    sel: "select I lanes ranked = (ro, mu, rest)"
    and ids: "selected_work_item_ids d = map work_item_id (ro @ mu)"
    and ov: "apply_override (ci_override I) (ranked_items I) (fair_lanes (ci_lane_cursor I)) = Inr (ranked, lanes)"
    by (rule schedule_cycle_Inr)
  from ov assms(2) obtain v lanes' where v: "v \<in> set (ranked_items I)" "work_item_id v = ov_work_item_id t"
    "ranked = v # remove1 v (ranked_items I)" "lanes = wi_lane v # lanes'"
    by (auto elim: apply_override_cases)
  have "inj_on work_item_id (set (sorted_items I))"
    using distinct_sorted_items [of I] by (simp add: distinct_map)
  moreover have "v \<in> set (sorted_items I)" using v(1) by (simp add: set_ranked_items)
  moreover have "work_item_id v = work_item_id w" using v(2) assms(4) by simp
  ultimately have "v = w" using assms(3) by (simp add: inj_on_eq_iff)
  have ok: "selectable I (is_mutating w) [] w"
    using v(1) \<open>v = w\<close> reasons_Nil_facts(6) [of I w] by (auto simp: selectable_def set_ranked_items)
  from sel obtain rest1 where
    f1: "fill I False lanes (nat (capacity I False)) ranked [] = (ro, rest1)" and
    f2: "fill I True lanes (nat (capacity I True)) rest1 [] = (mu, rest)"
    by (auto simp: select_def split: prod.splits)
  obtain n where n: "nat (capacity I (is_mutating w)) = Suc n"
    using assms(5) by (metis not0_implies_Suc zero_less_nat_eq neq0_conv)
  have "w \<in> set (ro @ mu)"
  proof (cases "is_mutating w")
    case False
    with f1 n v \<open>v = w\<close> ok have "w \<in> set ro" by (intro fill_takes_head) auto
    then show ?thesis by simp
  next
    case True
    from fill_keeps_head [OF f1 [unfolded v(3)]] True \<open>v = w\<close> obtain ys where "rest1 = w # ys" by auto
    with f2 n v \<open>v = w\<close> ok True have "w \<in> set mu" by (intro fill_takes_head) auto
    then show ?thesis by simp
  qed
  then show ?thesis using ids assms(4) by force
qed

theorem schedule_cycle_override_selected_witness:
  "''M1-003'' \<in> set (selected_work_item_ids (sample_decision (Some sample_override)))"
proof -
  let ?I = "sample_input (Some sample_override)" and ?w = "sample_work_item ''M1-003'' [] READY"
  have "ci_override ?I = Some sample_override" by (simp add: sample_input_def)
  moreover have "?w \<in> set (sorted_items ?I)" "work_item_id ?w = ov_work_item_id sample_override"
    "0 < capacity ?I (is_mutating ?w)"
    by code_simp+
  ultimately have "ov_work_item_id sample_override \<in> set (selected_work_item_ids (sample_decision (Some sample_override)))"
    by (rule schedule_cycle_override_selected [OF sample_schedules(2)])
  then show ?thesis by (simp add: sample_override_def)
qed

text \<open>
  The decision does not depend on the order in which the collection lists its items.
\<close>

theorem schedule_cycle_order_independent:
  assumes "mset (work_items c) = mset (work_items (ci_collection I))"
    and "distinct (map work_item_id (work_items c))"
  shows "schedule_cycle P (I\<lparr>ci_collection := c\<rparr>) = schedule_cycle P I"
proof -
  let ?J = "I\<lparr>ci_collection := c\<rparr>"
  let ?kv = "\<lambda>ws. map (\<lambda>w. (work_item_id w, w)) ws"
  have d: "distinct (map fst (?kv (work_items c)))" using assms(2) by (simp add: comp_def)
  moreover have "mset (map fst (?kv (work_items c))) = mset (map fst (?kv (work_items (ci_collection I))))"
    using arg_cong [OF assms(1), of "image_mset work_item_id"] by (simp add: comp_def)
  ultimately have d': "distinct (map fst (?kv (work_items (ci_collection I))))"
    using mset_eq_imp_distinct_iff by blast
  have same: "set (work_items c) = set (work_items (ci_collection I))"
    using assms(1) by (rule mset_eq_setD)
  then have "set (?kv (work_items c)) = set (?kv (work_items (ci_collection I)))" by simp
  then have items: "items_of ?J = items_of I"
    using map_of_inject_set [OF d d'] by (simp add: items_of_def dict_of_distinct [OF d] dict_of_distinct [OF d'])
  have "sorted_set (map work_item_id (work_items c)) =
      sorted_set (map work_item_id (work_items (ci_collection I)))"
    by (rule sorted_set_cong) (simp add: same)
  then have sorted: "sorted_items ?J = sorted_items I" by (simp add: sorted_items_def items)
  have facts: "facts_for ?J = facts_for I" by (rule ext) (simp add: facts_for_def cong: option.case_cong)
  have active: "active_count ?J = active_count I" by (intro ext) (simp add: active_count_def)
  have limit: "lane_limit ?J = lane_limit I"
    by (rule ext) (simp add: lane_limit_def factory_exception_def)
  have unsat: "unsatisfied ?J = unsatisfied I" "native_incomplete ?J = native_incomplete I"
    "factory_exception ?J = factory_exception I"
    by (intro ext; simp add: unsatisfied_def native_incomplete_def factory_exception_def items)+
  have reas: "reasons ?J = reasons I"
    by (rule ext) (simp add: reasons_def unsat facts active limit cong: option.case_cong if_cong
        split del: if_split)
  have ranked: "ranked_items ?J = ranked_items I"
    by (simp add: ranked_items_def reas sorted rank_key_def [abs_def] facts)
  have selct: "selectable ?J = selectable I"
    by (intro ext) (simp add: selectable_def active limit)
  have fill: "fill ?J m lanes n xs ys = fill I m lanes n xs ys" for m lanes n xs ys
    by (induction n arbitrary: xs ys) (auto simp: selct split: option.splits)
  have sel: "select ?J = select I"
    by (intro ext) (simp add: select_def fill capacity_def)
  show ?thesis
    by (simp add: schedule_cycle_def missing_dependency_def items sorted ranked sel evaluate_item_def
        reas facts cong: option.case_cong if_cong split del: if_split)
qed

theorem schedule_cycle_order_independent_witness:
  "schedule_cycle sample_platform
     (sample_input None\<lparr>ci_collection := sample_collection\<lparr>work_items := rev (work_items sample_collection)\<rparr>\<rparr>) =
   schedule_cycle sample_platform (sample_input None)"
  by (rule schedule_cycle_order_independent)
    (simp_all add: sample_input_def sample_collection_def sample_work_item_def)

end
