(* ===== verification/Work_Queue.thy ===== *)
theory Work_Queue
  imports Work_Items "HOL-Library.AList"
begin

text \<open>
  The file-system queue of work items (\<^verbatim>\<open>tcfactory/v3/queue.py\<close>): one directory per
  status, a lease file per running item and a write-ahead journal per transition. A
  transition is a list of atomic file-system actions, so that a crash is a prefix of the
  list; \<open>reconcile_transactions\<close> is what the next start does with the remains.

  The YAML documents of the entries are an abstract type with a codec
  (\<open>yaml.safe_dump\<close> and \<open>load_yaml\<close>), which the results assume to be lossless; leases
  and journals are their parsed records. Every operation runs under the item's lock, which
  makes it atomic for other processes; failing system calls and symbolic links are not
  modelled, nor are \<open>archive_v2\<close> and the read-only report \<open>compatible_items\<close>.
\<close>

section \<open>State\<close>

record QueueLease =
  ql_work_item_id :: pystr
  owner_id :: pystr
  owner_process_identity :: "pystr option"
  lease_id :: pystr
  claimed_at :: datetime
  expires_at :: datetime
  generation :: int

record TransitionIntent =
  ti_work_item_id :: pystr
  ti_source :: WorkStatus
  ti_target :: WorkStatus
  ti_updated_at :: datetime

definition is_upper_hex :: "char \<Rightarrow> bool" where
  "is_upper_hex c \<longleftrightarrow> is_digit c \<or> (CHR ''A'' \<le> c \<and> c \<le> CHR ''F'')"

definition queue_lease_fields_ok :: "QueueLease \<Rightarrow> bool" where
  "queue_lease_fields_ok l \<longleftrightarrow>
     is_work_item_id (ql_work_item_id l) \<and>
     1 \<le> py_len (owner_id l) \<and> py_len (owner_id l) \<le> 128 \<and>
     pred_option (\<lambda>s. 1 \<le> py_len s \<and> py_len s \<le> 160) (owner_process_identity l) \<and>
     starts_with ''LEASE-'' (lease_id l) \<and> length (lease_id l) = 38 \<and>
     list_all is_upper_hex (drop 6 (lease_id l)) \<and> 1 \<le> generation l"

text \<open>\<open>QueueLease.model_validate\<close>.\<close>

definition validate_lease :: "QueueLease \<Rightarrow> QueueLease result" where
  "validate_lease l = (if queue_lease_fields_ok l then Inr l else Inl (ValidationError ''QueueLease''))"

text \<open>
  The directories are association lists from file names to contents: entries by state
  directory and identifier, leases and journals by identifier.
\<close>

record 'doc queue_fs =
  entries :: "((WorkStatus \<times> pystr) \<times> 'doc) list"
  leases :: "(pystr \<times> QueueLease) list"
  journals :: "(pystr \<times> TransitionIntent) list"

record 'doc yaml_codec =
  safe_dump :: "WorkItem \<Rightarrow> 'doc"
  load_item :: "'doc \<Rightarrow> WorkItem result"

abbreviation entry_at :: "'doc queue_fs \<Rightarrow> WorkStatus \<Rightarrow> pystr \<Rightarrow> 'doc option" where
  "entry_at fs s i \<equiv> map_of (entries fs) (s, i)"

abbreviation lease_at :: "'doc queue_fs \<Rightarrow> pystr \<Rightarrow> QueueLease option" where
  "lease_at fs \<equiv> map_of (leases fs)"

abbreviation journal_at :: "'doc queue_fs \<Rightarrow> pystr \<Rightarrow> TransitionIntent option" where
  "journal_at fs \<equiv> map_of (journals fs)"

text \<open>\<open>initialize\<close> creates the empty name space.\<close>

definition initialize :: "'doc queue_fs" where
  "initialize = \<lparr>entries = [], leases = [], journals = []\<rparr>"

section \<open>Reading\<close>

definition paths :: "'doc queue_fs \<Rightarrow> pystr \<Rightarrow> WorkStatus list" where
  "paths fs i = filter (\<lambda>s. entry_at fs s i \<noteq> None) all_statuses"

definition locate :: "'doc queue_fs \<Rightarrow> pystr \<Rightarrow> WorkStatus result" where
  "locate fs i = (case paths fs i of
     [s] \<Rightarrow> Inr s
   | _ \<Rightarrow> Inl (ValueError ''expected exactly one queue entry''))"

definition read_entry :: "'doc yaml_codec \<Rightarrow> 'doc queue_fs \<Rightarrow> WorkStatus \<Rightarrow> pystr \<Rightarrow> WorkItem result" where
  "read_entry Y fs s i = (case entry_at fs s i of
     None \<Rightarrow> Inl (OSError ''No such file or directory'')
   | Some d \<Rightarrow> rbind (load_item Y d) validate_work_item)"

definition load :: "'doc yaml_codec \<Rightarrow> 'doc queue_fs \<Rightarrow> pystr \<Rightarrow> WorkItem result" where
  "load Y fs i = rbind (locate fs i) (\<lambda>s. read_entry Y fs s i)"

text \<open>\<open>sorted(directory.glob("V3-*.yaml"))\<close>: the stems in the order of their file names.\<close>

definition glob_entries :: "'doc queue_fs \<Rightarrow> WorkStatus \<Rightarrow> pystr list" where
  "glob_entries fs s = sort_key (\<lambda>i. i @ ''.yaml'')
     (filter (starts_with ''V3-'') (remdups (map snd (filter (\<lambda>k. fst k = s) (map fst (entries fs))))))"

definition read_directory :: "'doc yaml_codec \<Rightarrow> 'doc queue_fs \<Rightarrow> WorkStatus list \<Rightarrow> WorkItem list result" where
  "read_directory Y fs states =
     rbind (traverse (\<lambda>s. traverse (read_entry Y fs s) (glob_entries fs s)) states) (\<lambda>ws. Inr (concat ws))"

definition items :: "'doc yaml_codec \<Rightarrow> 'doc queue_fs \<Rightarrow> WorkStatus list \<Rightarrow> WorkItem list result" where
  "items Y fs states =
     rbind (read_directory Y fs (if states = [] then all_statuses else states)) (\<lambda>ws.
       if distinct (map work_item_id ws) then Inr ws
       else Inl (ValueError ''duplicate active V3 queue work item''))"

definition by_lane :: "'doc yaml_codec \<Rightarrow> 'doc queue_fs \<Rightarrow> (Lane \<times> WorkItem list) list result" where
  "by_lane Y fs = rbind (read_directory Y fs all_statuses) (\<lambda>ws.
     Inr (map (\<lambda>l. (l, sort_key work_item_id (filter (\<lambda>w. wi_lane w = l) ws))) (fromkeys (map wi_lane ws))))"

section \<open>Writing\<close>

text \<open>
  An operation returns its result and the state it leaves, also when it fails. The value
  returned for a path is the state directory the entry is in.
\<close>

type_synonym ('a, 'doc) qop = "'doc queue_fs \<Rightarrow> 'a result \<times> 'doc queue_fs"

datatype 'doc fs_action =
    WriteJournal pystr TransitionIntent
  | WriteEntry WorkStatus pystr 'doc
  | MoveEntry WorkStatus WorkStatus pystr
  | UnlinkJournal pystr
  | UnlinkLease pystr

fun perform :: "'doc fs_action \<Rightarrow> 'doc queue_fs \<Rightarrow> 'doc queue_fs" where
  "perform (WriteJournal i t) fs = fs\<lparr>journals := AList.update i t (journals fs)\<rparr>"
| "perform (WriteEntry s i d) fs = fs\<lparr>entries := AList.update (s, i) d (entries fs)\<rparr>"
| "perform (MoveEntry s t i) fs = (case entry_at fs s i of
     None \<Rightarrow> fs
   | Some d \<Rightarrow> fs\<lparr>entries := AList.update (t, i) d (AList.delete (s, i) (entries fs))\<rparr>)"
| "perform (UnlinkJournal i) fs = fs\<lparr>journals := AList.delete i (journals fs)\<rparr>"
| "perform (UnlinkLease i) fs = fs\<lparr>leases := AList.delete i (leases fs)\<rparr>"

definition perform_all :: "'doc fs_action list \<Rightarrow> 'doc queue_fs \<Rightarrow> 'doc queue_fs" where
  "perform_all as fs = fold perform as fs"

definition put :: "'doc yaml_codec \<Rightarrow> WorkItem \<Rightarrow> (WorkStatus, 'doc) qop" where
  "put Y w fs =
     (if paths fs (work_item_id w) \<noteq> [] then (Inl (ValueError ''duplicate queue work item''), fs)
      else (Inr (status w), perform (WriteEntry (status w) (work_item_id w) (safe_dump Y w)) fs))"

text \<open>Read an entry, compute its replacement, write it back to the same file.\<close>

definition rewrite_entry ::
  "'doc yaml_codec \<Rightarrow> pystr \<Rightarrow> (WorkItem \<Rightarrow> WorkItem result) \<Rightarrow> (WorkStatus, 'doc) qop" where
  "rewrite_entry Y i f fs =
     (case rbind (locate fs i) (\<lambda>s. rbind (read_entry Y fs s i) (\<lambda>w. rbind (f w) (\<lambda>u. Inr (s, u)))) of
        Inl e \<Rightarrow> (Inl e, fs)
      | Inr (s, u) \<Rightarrow> (Inr s, perform (WriteEntry s i (safe_dump Y u)) fs))"

text \<open>Validation strips the references, also the new one.\<close>

definition bind_external_evidence ::
  "platform \<Rightarrow> 'doc yaml_codec \<Rightarrow> pystr \<Rightarrow> pystr \<Rightarrow> datetime \<Rightarrow> (WorkStatus, 'doc) qop" where
  "bind_external_evidence P Y i receipt now = rewrite_entry Y i (\<lambda>w.
     if \<not> external_receipt_required w
     then Inl (ValueError ''work item does not require external evidence'')
     else validate_work_item (w\<lparr>external_evidence_refs := map (strip P) (fromkeys (external_evidence_refs w @ [receipt])),
            updated_at := Some now\<rparr>))"

definition refresh_blocked_from_authority ::
  "'doc yaml_codec \<Rightarrow> WorkItem \<Rightarrow> datetime \<Rightarrow> (WorkStatus, 'doc) qop" where
  "refresh_blocked_from_authority Y canonical now = rewrite_entry Y (work_item_id canonical) (\<lambda>w.
     if status w \<noteq> BLOCKED_TECHNICAL
     then Inl (ValueError ''queue item is no longer blocked technical'')
     else validate_work_item (canonical\<lparr>status := status w,
            external_evidence_refs := external_evidence_refs w,
            created_at := (case created_at w of None \<Rightarrow> created_at canonical | Some c \<Rightarrow> Some c),
            updated_at := Some now\<rparr>))"

definition transition_plan ::
  "'doc yaml_codec \<Rightarrow> pystr \<Rightarrow> WorkStatus \<Rightarrow> datetime \<Rightarrow> 'doc queue_fs \<Rightarrow> 'doc fs_action list result" where
  "transition_plan Y i target now fs =
     rbind (locate fs i) (\<lambda>s. rbind (read_entry Y fs s i) (\<lambda>w.
     rbind (assert_status_transition (status w) target) (\<lambda>_.
     rbind (validate_work_item (w\<lparr>status := target, updated_at := Some now\<rparr>)) (\<lambda>u.
     Inr ([WriteJournal i \<lparr>ti_work_item_id = i, ti_source = status w, ti_target = target,
             ti_updated_at = now\<rparr>,
           WriteEntry s i (safe_dump Y u), MoveEntry s target i, UnlinkJournal i] @
          (if target \<noteq> RUNNING then [UnlinkLease i] else []))))))"

definition transition_owned ::
  "'doc yaml_codec \<Rightarrow> pystr \<Rightarrow> WorkStatus \<Rightarrow> datetime \<Rightarrow> (WorkStatus, 'doc) qop" where
  "transition_owned Y i target now fs = (case transition_plan Y i target now fs of
     Inl e \<Rightarrow> (Inl e, fs)
   | Inr as \<Rightarrow> (Inr target, perform_all as fs))"

text \<open>\<open>transition\<close> runs it under the item's lock.\<close>

definition transition ::
  "'doc yaml_codec \<Rightarrow> pystr \<Rightarrow> WorkStatus \<Rightarrow> datetime \<Rightarrow> (WorkStatus, 'doc) qop" where
  "transition Y i target now = transition_owned Y i target now"

section \<open>Recovery of interrupted transitions\<close>

definition reconcile_one :: "'doc yaml_codec \<Rightarrow> pystr \<Rightarrow> (pystr, 'doc) qop" where
  "reconcile_one Y stem fs = (case journal_at fs stem of
     None \<Rightarrow> (Inl (ValidationError ''TransitionIntent''), fs)
   | Some t \<Rightarrow>
      (let i = ti_work_item_id t; s = ti_source t; d = ti_target t
       in if entry_at fs d i \<noteq> None \<and> entry_at fs s i = None then
            (case read_entry Y fs d i of
               Inl e \<Rightarrow> (Inl e, fs)
             | Inr w \<Rightarrow> if status w \<noteq> d
                 then (Inl (ValueError ''transition destination has the wrong embedded status''), fs)
                 else (Inr i, perform (UnlinkJournal stem) fs))
          else if entry_at fs s i \<noteq> None \<and> entry_at fs d i = None then
            (case read_entry Y fs s i of
               Inl e \<Rightarrow> (Inl e, fs)
             | Inr w \<Rightarrow> if status w \<noteq> d
                 then (Inl (ValueError ''transition source does not contain target state''), fs)
                 else (Inr i, perform (UnlinkJournal stem) (perform (MoveEntry s d i) fs)))
          else (Inl (ValueError ''ambiguous interrupted transition''), fs)))"

fun run_each :: "('k \<Rightarrow> ('a, 'doc) qop) \<Rightarrow> 'k list \<Rightarrow> ('a list, 'doc) qop" where
  "run_each f [] fs = (Inr [], fs)"
| "run_each f (k # ks) fs = (case f k fs of
     (Inl e, fs') \<Rightarrow> (Inl e, fs')
   | (Inr x, fs') \<Rightarrow> (case run_each f ks fs' of
        (Inl e, fs'') \<Rightarrow> (Inl e, fs'')
      | (Inr xs, fs'') \<Rightarrow> (Inr (x # xs), fs'')))"

definition glob_journals :: "'doc queue_fs \<Rightarrow> pystr list" where
  "glob_journals fs = sort_key (\<lambda>i. i @ ''.json'')
     (filter (starts_with ''V3-'') (remdups (map fst (journals fs))))"

definition reconcile_transactions :: "'doc yaml_codec \<Rightarrow> (pystr list, 'doc) qop" where
  "reconcile_transactions Y fs = run_each (reconcile_one Y) (glob_journals fs) fs"

section \<open>Leases\<close>

text \<open>
  The identifier of the fresh lease and the identity of the calling process come from
  \<open>uuid4\<close> and procfs. A record is stored as its constructor leaves it, with its texts stripped.
\<close>

definition release_expired :: "'doc yaml_codec \<Rightarrow> pystr \<Rightarrow> datetime \<Rightarrow> 'doc queue_fs \<Rightarrow> 'doc queue_fs result" where
  "release_expired Y i now fs = rbind (load Y fs i) (\<lambda>w.
     if status w \<noteq> QUEUED then Inl (ValueError ''only QUEUED work may be claimed'')
     else case lease_at fs i of
       None \<Rightarrow> Inr fs
     | Some existing \<Rightarrow> rbind (validate_lease existing) (\<lambda>existing.
         rbind (dt_less now (expires_at existing)) (\<lambda>active.
           if active then Inl (ValueError ''work item already has an active lease'')
           else Inr (perform (UnlinkLease i) fs))))"

text \<open>The lease is written, then the item moves; a failed move takes the lease back.\<close>

definition claim_running :: "'doc yaml_codec \<Rightarrow> pystr \<Rightarrow> QueueLease \<Rightarrow> datetime \<Rightarrow> (QueueLease, 'doc) qop" where
  "claim_running Y i lease now fs =
     (case transition_owned Y i RUNNING now (fs\<lparr>leases := AList.update i lease (leases fs)\<rparr>) of
        (Inr _, gs) \<Rightarrow> (Inr lease, gs)
      | (Inl e, gs) \<Rightarrow>
         (Inl e, if map_option lease_id (lease_at gs i) = Some (lease_id lease)
                 then perform (UnlinkLease i) gs else gs))"

definition claim ::
  "platform \<Rightarrow> 'doc yaml_codec \<Rightarrow> pystr \<Rightarrow> pystr \<Rightarrow> pystr option \<Rightarrow> pystr \<Rightarrow> datetime \<Rightarrow> int \<Rightarrow> (QueueLease, 'doc) qop" where
  "claim P Y i owner process fresh now lease_seconds fs =
     (if lease_seconds < 30 \<or> 14400 < lease_seconds
      then (Inl (ValueError ''lease_seconds must be between 30 and 14400''), fs)
      else case release_expired Y i now fs of
        Inl e \<Rightarrow> (Inl e, fs)
      | Inr fs1 \<Rightarrow>
         (case validate_lease \<lparr>ql_work_item_id = i, owner_id = strip P owner, owner_process_identity = map_option (strip P) process,
                 lease_id = fresh, claimed_at = now, expires_at = add_seconds now lease_seconds,
                 generation = 1\<rparr> of
            Inl e \<Rightarrow> (Inl e, fs1)
          | Inr lease \<Rightarrow> claim_running Y i lease now fs1))"

definition renew ::
  "'doc yaml_codec \<Rightarrow> pystr \<Rightarrow> pystr \<Rightarrow> datetime \<Rightarrow> int \<Rightarrow> (QueueLease, 'doc) qop" where
  "renew Y i lid now lease_seconds fs =
     (case rbind (load Y fs i) (\<lambda>w.
        if status w \<noteq> RUNNING then Inl (ValueError ''only RUNNING work leases may be renewed'')
        else case lease_at fs i of
          None \<Rightarrow> Inl (ValidationError ''QueueLease'')
        | Some l \<Rightarrow> rbind (validate_lease l) (\<lambda>l.
            if lease_id l \<noteq> lid
            then Inl (ValueError ''lease is missing, expired, or owned by another controller'')
            else rbind (dt_less now (expires_at l)) (\<lambda>live.
              if \<not> live
              then Inl (ValueError ''lease is missing, expired, or owned by another controller'')
              else Inr (l\<lparr>expires_at := add_seconds now lease_seconds, generation := generation l + 1\<rparr>)))) of
        Inl e \<Rightarrow> (Inl e, fs)
      | Inr l \<Rightarrow> (Inr l, fs\<lparr>leases := AList.update i l (leases fs)\<rparr>))"

text \<open>\<open>int\<close> of a digit string.\<close>

definition nat_of_digits :: "pystr \<Rightarrow> nat" where
  "nat_of_digits s = fold (\<lambda>c n. 10 * n + (of_char c - 48)) s 0"

text \<open>
  Whether the owner of a lease is alive: unknown without a recorded identity, and otherwise
  whether procfs still shows the very process; \<open>proc\<close> is \<open>_process_identity\<close>.
\<close>

definition lease_owner_is_alive :: "(nat \<Rightarrow> pystr option) \<Rightarrow> QueueLease \<Rightarrow> bool option" where
  "lease_owner_is_alive proc l = (case owner_process_identity l of
     None \<Rightarrow> None
   | Some identity \<Rightarrow> (case split_on CHR '':'' identity of
        [scheme, pid, ticks] \<Rightarrow>
          if scheme \<noteq> ''linux-proc'' \<or> pid = [] \<or> \<not> list_all is_digit pid then Some False
          else Some (proc (nat_of_digits pid) = Some identity)
      | _ \<Rightarrow> Some False))"

definition abandoned :: "(nat \<Rightarrow> pystr option) \<Rightarrow> datetime \<Rightarrow> QueueLease option \<Rightarrow> bool result" where
  "abandoned proc now lease = (case lease of
     None \<Rightarrow> Inr True
   | Some l \<Rightarrow> rbind (validate_lease l) (\<lambda>l. rbind (dt_less now (expires_at l)) (\<lambda>live.
       Inr (\<not> live \<or> lease_owner_is_alive proc l = Some False))))"

text \<open>One round of the loop: \<open>Some\<close> identifier when the item was recovered.\<close>

definition recover_one ::
  "'doc yaml_codec \<Rightarrow> (nat \<Rightarrow> pystr option) \<Rightarrow> datetime \<Rightarrow> pystr \<Rightarrow> (pystr option, 'doc) qop" where
  "recover_one Y proc now i fs =
     (case load Y fs i of
        Inl e \<Rightarrow> (Inl e, fs)
      | Inr w \<Rightarrow> if status w \<noteq> RUNNING then (Inr None, fs)
         else case abandoned proc now (lease_at fs i) of
             Inl e \<Rightarrow> (Inl e, fs)
           | Inr False \<Rightarrow> (Inr None, fs)
           | Inr True \<Rightarrow> (case transition_owned Y i BLOCKED_TECHNICAL now fs of
                (Inl e, fs') \<Rightarrow> (Inl e, fs')
              | (Inr _, fs') \<Rightarrow> (Inr (Some i), fs')))"

definition recover_expired_claims ::
  "'doc yaml_codec \<Rightarrow> (nat \<Rightarrow> pystr option) \<Rightarrow> datetime \<Rightarrow> (pystr list, 'doc) qop" where
  "recover_expired_claims Y proc now fs =
     (case items Y fs [RUNNING] of
        Inl e \<Rightarrow> (Inl e, fs)
      | Inr ws \<Rightarrow> (case run_each (recover_one Y proc now) (map work_item_id ws) fs of
           (Inl e, fs') \<Rightarrow> (Inl e, fs')
         | (Inr rs, fs') \<Rightarrow> (Inr (List.map_filter id rs), fs')))"

definition recover_interrupted ::
  "'doc yaml_codec \<Rightarrow> (nat \<Rightarrow> pystr option) \<Rightarrow> datetime \<Rightarrow> (pystr list, 'doc) qop" where
  "recover_interrupted Y proc now = recover_expired_claims Y proc now"

section \<open>The file system as maps\<close>

lemma perform_maps [simp]:
  "map_of (journals (perform (WriteJournal i ti) fs)) = (map_of (journals fs))(i \<mapsto> ti)"
  "map_of (entries (perform (WriteEntry s i d) fs)) = (map_of (entries fs))((s, i) \<mapsto> d)"
  "map_of (journals (perform (UnlinkJournal i) fs)) = (map_of (journals fs))(i := None)"
  "map_of (leases (perform (UnlinkLease i) fs)) = (map_of (leases fs))(i := None)"
  "entry_at fs s i = Some d \<Longrightarrow> map_of (entries (perform (MoveEntry s t i) fs)) =
     (map_of (entries fs))((s, i) := None, (t, i) \<mapsto> d)"
  by (simp_all add: update_conv' delete_conv')

lemma perform_frame [simp]:
  "entries (perform (WriteJournal i ti) fs) = entries fs"
  "leases (perform (WriteJournal i ti) fs) = leases fs"
  "journals (perform (WriteEntry s i d) fs) = journals fs"
  "leases (perform (WriteEntry s i d) fs) = leases fs"
  "journals (perform (MoveEntry s t i) fs) = journals fs"
  "leases (perform (MoveEntry s t i) fs) = leases fs"
  "entries (perform (UnlinkJournal i) fs) = entries fs"
  "leases (perform (UnlinkJournal i) fs) = leases fs"
  "entries (perform (UnlinkLease i) fs) = entries fs"
  "journals (perform (UnlinkLease i) fs) = journals fs"
  by (simp_all split: option.splits)

declare perform.simps [simp del]

lemma perform_all_simps [simp]:
  "perform_all [] fs = fs" "perform_all (a # as) fs = perform_all as (perform a fs)"
  "perform_all (as @ bs) fs = perform_all bs (perform_all as fs)"
  by (simp_all add: perform_all_def)

text \<open>
  A document is right for its place when it parses to a valid item with that name and
  status; the queue is well formed when every entry is right for its place and no item has
  two entries.
\<close>

definition yaml_lossless :: "'doc yaml_codec \<Rightarrow> bool" where
  "yaml_lossless Y \<longleftrightarrow> (\<forall>w. load_item Y (safe_dump Y w) = Inr w)"

definition doc_item :: "'doc yaml_codec \<Rightarrow> WorkStatus \<Rightarrow> pystr \<Rightarrow> 'doc \<Rightarrow> WorkItem \<Rightarrow> bool" where
  "doc_item Y s i d w \<longleftrightarrow>
     load_item Y d = Inr w \<and> validate_work_item w = Inr w \<and> work_item_id w = i \<and> status w = s"

definition entries_ok :: "'doc yaml_codec \<Rightarrow> (WorkStatus \<times> pystr \<rightharpoonup> 'doc) \<Rightarrow> bool" where
  "entries_ok Y m \<longleftrightarrow>
     (\<forall>s i d. m (s, i) = Some d \<longrightarrow> (\<exists>w. doc_item Y s i d w)) \<and>
     (\<forall>s t i. m (s, i) \<noteq> None \<longrightarrow> m (t, i) \<noteq> None \<longrightarrow> s = t)"

definition queue_ok :: "'doc yaml_codec \<Rightarrow> 'doc queue_fs \<Rightarrow> bool" where
  "queue_ok Y fs \<longleftrightarrow> entries_ok Y (map_of (entries fs))"

definition quiescent :: "'doc queue_fs \<Rightarrow> bool" where
  "quiescent fs \<longleftrightarrow> journals fs = []"

lemma validate_work_item_same: "validate_work_item w = Inr u \<Longrightarrow> u = w"
  by (blast dest: validate_work_item_Inr)

lemma doc_item_fun: "doc_item Y s i d w \<Longrightarrow> doc_item Y t j d v \<Longrightarrow> w = v"
  by (simp add: doc_item_def)

lemma doc_item_dump:
  "yaml_lossless Y \<Longrightarrow> validate_work_item w = Inr u \<Longrightarrow> doc_item Y (status w) (work_item_id w) (safe_dump Y w) w"
  by (auto simp: doc_item_def yaml_lossless_def dest: validate_work_item_Inr)

lemma entries_ok_item: "entries_ok Y m \<Longrightarrow> m (s, i) = Some d \<Longrightarrow> \<exists>w. doc_item Y s i d w"
  by (simp add: entries_ok_def)

lemma entries_ok_unique: "entries_ok Y m \<Longrightarrow> m (s, i) = Some d \<Longrightarrow> t \<noteq> s \<Longrightarrow> m (t, i) = None"
  unfolding entries_ok_def by (metis option.distinct(1))

lemma entries_ok_write:
  assumes "entries_ok Y m" "\<And>t. t \<noteq> s \<Longrightarrow> m (t, i) = None" "doc_item Y s i d w"
  shows "entries_ok Y (m((s, i) \<mapsto> d))"
  using assms unfolding entries_ok_def by (auto split: if_splits)

lemma entries_ok_remove: "entries_ok Y m \<Longrightarrow> entries_ok Y (m(k := None))"
  unfolding entries_ok_def by auto

lemma entries_ok_move:
  assumes "entries_ok Y m" "m (s, i) = Some d'" "doc_item Y t i d w"
  shows "entries_ok Y (m((s, i) := None, (t, i) \<mapsto> d))"
  using entries_ok_unique [OF assms(1,2)]
  by (intro entries_ok_write [OF entries_ok_remove [OF assms(1)] _ assms(3)]) auto

lemma set_all_statuses: "set all_statuses = UNIV" and distinct_all_statuses: "distinct all_statuses"
  using enum_UNIV enum_distinct by (auto simp: enum_WorkStatus_def)

lemma paths_Nil_iff: "paths fs i = [] \<longleftrightarrow> (\<forall>s. entry_at fs s i = None)"
  by (auto simp: paths_def filter_empty_conv set_all_statuses)

lemma filter_single_iff: "distinct xs \<Longrightarrow> filter p xs = [x] \<longleftrightarrow> x \<in> set xs \<and> p x \<and> (\<forall>y\<in>set xs. p y \<longrightarrow> y = x)"
proof (induction xs)
  case (Cons a xs)
  then show ?case by (cases "p a") (auto simp: filter_empty_conv)
qed simp

lemma locate_iff: "locate fs i = Inr s \<longleftrightarrow> entry_at fs s i \<noteq> None \<and> (\<forall>t. t \<noteq> s \<longrightarrow> entry_at fs t i = None)"
proof -
  have "locate fs i = Inr s \<longleftrightarrow> paths fs i = [s]"
    by (auto simp: locate_def split: list.splits)
  then show ?thesis
    unfolding paths_def filter_single_iff [OF distinct_all_statuses] by (auto simp: set_all_statuses)
qed

lemma locate_ok: "queue_ok Y fs \<Longrightarrow> entry_at fs s i = Some d \<Longrightarrow> locate fs i = Inr s"
  unfolding locate_iff queue_ok_def by (auto dest: entries_ok_unique)

lemma read_entry_Inr:
  "read_entry Y fs s i = Inr w \<longleftrightarrow>
     (\<exists>d. entry_at fs s i = Some d \<and> load_item Y d = Inr w \<and> validate_work_item w = Inr w)"
  by (auto simp: read_entry_def result_simps split: option.splits dest: validate_work_item_Inr)

lemma read_entry_ok: "doc_item Y s i d w \<Longrightarrow> entry_at fs s i = Some d \<Longrightarrow> read_entry Y fs s i = Inr w"
  by (auto simp: read_entry_Inr doc_item_def)

lemma load_Inr_iff:
  assumes "queue_ok Y fs"
  shows "load Y fs i = Inr w \<longleftrightarrow> (\<exists>s d. entry_at fs s i = Some d \<and> doc_item Y s i d w)"
proof
  assume "load Y fs i = Inr w"
  then obtain s d where "entry_at fs s i = Some d" "load_item Y d = Inr w"
    by (auto simp: load_def result_simps read_entry_Inr)
  then show "\<exists>s d. entry_at fs s i = Some d \<and> doc_item Y s i d w"
    using assms entries_ok_item unfolding queue_ok_def doc_item_def by fastforce
next
  assume "\<exists>s d. entry_at fs s i = Some d \<and> doc_item Y s i d w"
  then show "load Y fs i = Inr w"
    using locate_ok [OF assms] read_entry_ok by (fastforce simp: load_def)
qed

text \<open>What the queue holds, as a map from identifiers to items.\<close>

definition queue_item :: "'doc yaml_codec \<Rightarrow> 'doc queue_fs \<Rightarrow> pystr \<rightharpoonup> WorkItem" where
  "queue_item Y fs i = (case load Y fs i of Inl _ \<Rightarrow> None | Inr w \<Rightarrow> Some w)"

lemma queue_item_Some: "queue_item Y fs i = Some w \<longleftrightarrow> load Y fs i = Inr w"
  by (auto simp: queue_item_def split: sum.splits)

lemma queue_item_iff:
  "queue_ok Y fs \<Longrightarrow> queue_item Y fs i = Some w \<longleftrightarrow> (\<exists>s d. entry_at fs s i = Some d \<and> doc_item Y s i d w)"
  by (simp add: queue_item_Some load_Inr_iff)

lemma queue_item_cong: "map_of (entries fs) = map_of (entries gs) \<Longrightarrow> queue_item Y fs = queue_item Y gs"
  by (rule ext) (simp add: queue_item_def load_def locate_def paths_def read_entry_def)

lemma queue_item_upd:
  assumes ok: "queue_ok Y fs" "queue_ok Y gs"
    and same: "\<And>j s. j \<noteq> i \<Longrightarrow> entry_at gs s j = entry_at fs s j"
    and new: "entry_at gs t i = Some d" "doc_item Y t i d w"
  shows "queue_item Y gs = (queue_item Y fs)(i \<mapsto> w)"
proof
  fix j
  show "queue_item Y gs j = ((queue_item Y fs)(i \<mapsto> w)) j"
  proof (cases "j = i")
    case True
    with new show ?thesis by (auto simp: queue_item_iff [OF ok(2)])
  next
    case False
    have "queue_item Y gs j = Some v \<longleftrightarrow> queue_item Y fs j = Some v" for v
      unfolding queue_item_iff [OF ok(1)] queue_item_iff [OF ok(2)] by (simp only: same [OF False])
    then have "queue_item Y gs j = queue_item Y fs j" by (metis option.exhaust)
    with False show ?thesis by simp
  qed
qed

lemma queue_item_move:
  assumes ok: "queue_ok Y fs" and "entry_at fs s i = Some d'" "doc_item Y t i d w"
    and gs: "map_of (entries gs) = (map_of (entries fs))((s, i) := None, (t, i) \<mapsto> d)"
  shows "queue_ok Y gs" "queue_item Y gs = (queue_item Y fs)(i \<mapsto> w)"
proof -
  show ok': "queue_ok Y gs"
    unfolding queue_ok_def gs using ok assms(2,3) by (intro entries_ok_move) (auto simp: queue_ok_def)
  show "queue_item Y gs = (queue_item Y fs)(i \<mapsto> w)"
    by (rule queue_item_upd [OF ok ok' _ _ assms(3)]) (simp_all add: gs)
qed

lemma queue_item_write:
  assumes ok: "queue_ok Y fs" and "\<And>t. t \<noteq> s \<Longrightarrow> entry_at fs t i = None" "doc_item Y s i d w"
    and gs: "map_of (entries gs) = (map_of (entries fs))((s, i) \<mapsto> d)"
  shows "queue_ok Y gs" "queue_item Y gs = (queue_item Y fs)(i \<mapsto> w)"
proof -
  show ok': "queue_ok Y gs"
    unfolding queue_ok_def gs
    by (rule entries_ok_write [OF ok [unfolded queue_ok_def]]) (use assms(2,3) in auto)
  show "queue_item Y gs = (queue_item Y fs)(i \<mapsto> w)"
    by (rule queue_item_upd [OF ok ok' _ _ assms(3)]) (simp_all add: gs)
qed

section \<open>Transitions\<close>

definition moved :: "WorkItem \<Rightarrow> WorkStatus \<Rightarrow> datetime \<Rightarrow> WorkItem" where
  "moved w target now = w\<lparr>status := target, updated_at := Some now\<rparr>"

lemma moved_simps [simp]: "status (moved w t now) = t" "work_item_id (moved w t now) = work_item_id w"
  by (simp_all add: moved_def)

lemma transition_planE:
  assumes "transition_plan Y i target now fs = Inr as" "queue_ok Y fs" "yaml_lossless Y"
  obtains w d where "entry_at fs (status w) i = Some d" "doc_item Y (status w) i d w"
    "queue_item Y fs i = Some w" "status_step (status w) target"
    "doc_item Y target i (safe_dump Y (moved w target now)) (moved w target now)"
    "as = [WriteJournal i \<lparr>ti_work_item_id = i, ti_source = status w, ti_target = target, ti_updated_at = now\<rparr>,
       WriteEntry (status w) i (safe_dump Y (moved w target now)), MoveEntry (status w) target i, UnlinkJournal i] @
      (if target \<noteq> RUNNING then [UnlinkLease i] else [])"
proof -
  from assms(1) obtain s w u where loc: "locate fs i = Inr s" and rd: "read_entry Y fs s i = Inr w"
    and step: "\<exists>x. assert_status_transition (status w) target = Inr x"
    and val: "validate_work_item (moved w target now) = Inr u"
    and as: "as = [WriteJournal i \<lparr>ti_work_item_id = i, ti_source = status w, ti_target = target, ti_updated_at = now\<rparr>,
       WriteEntry s i (safe_dump Y u), MoveEntry s target i, UnlinkJournal i] @
      (if target \<noteq> RUNNING then [UnlinkLease i] else [])"
    unfolding transition_plan_def moved_def [symmetric] rbind_Inr_iff by blast
  from rd obtain d where d: "entry_at fs s i = Some d" "load_item Y d = Inr w" by (auto simp: read_entry_Inr)
  with assms(2) have doc: "doc_item Y s i d w"
    using entries_ok_item unfolding queue_ok_def doc_item_def by fastforce
  then have s: "status w = s" "work_item_id w = i" by (auto simp: doc_item_def)
  have u: "u = moved w target now" using validate_work_item_Inr [OF val] by simp
  show thesis
  proof (rule that)
    show "entry_at fs (status w) i = Some d" "doc_item Y (status w) i d w" using d doc s by simp_all
    show "queue_item Y fs i = Some w" using d doc by (auto simp: queue_item_iff [OF assms(2)])
    show "status_step (status w) target" using step by (auto intro: status_step.intros)
    show "doc_item Y target i (safe_dump Y (moved w target now)) (moved w target now)"
      using doc_item_dump [OF assms(3) val] s by simp
  qed (simp add: as u s)
qed

text \<open>The states a transition goes through, one after each of its actions.\<close>

lemma transition_stages:
  fixes target :: WorkStatus and ti :: TransitionIntent and d' :: 'doc
  assumes "entry_at fs s i = Some d" "s \<noteq> target"
  defines "f1 \<equiv> perform (WriteJournal i ti) fs"
  defines "f2 \<equiv> perform (WriteEntry s i d') f1"
  defines "f3 \<equiv> perform (MoveEntry s target i) f2"
  defines "f4 \<equiv> perform (UnlinkJournal i) f3"
  shows "entries f1 = entries fs" "map_of (entries f2) = (map_of (entries fs))((s, i) \<mapsto> d')"
    "map_of (entries f3) = (map_of (entries fs))((s, i) := None, (target, i) \<mapsto> d')"
    "entries f4 = entries f3" "journals f3 = journals f1" "journals f2 = journals f1"
    "leases f4 = leases fs" "leases f3 = leases fs" "leases f2 = leases fs"
    "journals f1 = AList.update i ti (journals fs)" "journals f4 = AList.delete i (journals f3)"
proof -
  have at: "entry_at f2 s i = Some d'" by (simp add: f2_def)
  show "map_of (entries f2) = (map_of (entries fs))((s, i) \<mapsto> d')" by (simp add: f1_def f2_def)
  then show "map_of (entries f3) = (map_of (entries fs))((s, i) := None, (target, i) \<mapsto> d')"
    unfolding f3_def perform_maps(5) [OF at] by (auto simp: fun_eq_iff)
  show "journals f1 = AList.update i ti (journals fs)" "journals f4 = AList.delete i (journals f3)"
    by (simp_all add: f1_def f4_def perform.simps)
qed (simp_all add: f1_def f2_def f3_def f4_def)

lemma step_neq: "status_step s t \<Longrightarrow> s \<noteq> t"
  using no_self_step by blast

lemma transition_effect:
  assumes "transition_plan Y i target now fs = Inr as" "queue_ok Y fs" "yaml_lossless Y"
  obtains w where "queue_item Y fs i = Some w" "status_step (status w) target"
    "queue_ok Y (perform_all as fs)"
    "queue_item Y (perform_all as fs) = (queue_item Y fs)(i \<mapsto> moved w target now)"
    "journals (perform_all as fs) = AList.delete i (journals fs)"
    "lease_at (perform_all as fs) = (if target = RUNNING then lease_at fs else (lease_at fs)(i := None))"
proof -
  from assms obtain w d where w: "entry_at fs (status w) i = Some d" "doc_item Y (status w) i d w"
    "queue_item Y fs i = Some w" "status_step (status w) target"
    and new: "doc_item Y target i (safe_dump Y (moved w target now)) (moved w target now)"
    and as: "as = [WriteJournal i \<lparr>ti_work_item_id = i, ti_source = status w, ti_target = target, ti_updated_at = now\<rparr>,
       WriteEntry (status w) i (safe_dump Y (moved w target now)), MoveEntry (status w) target i, UnlinkJournal i] @
      (if target \<noteq> RUNNING then [UnlinkLease i] else [])"
    by (rule transition_planE)
  note stages = transition_stages [OF w(1) step_neq [OF w(4)]]
  have ent: "map_of (entries (perform_all as fs)) =
      (map_of (entries fs))((status w, i) := None, (target, i) \<mapsto> safe_dump Y (moved w target now))"
    unfolding as using stages(3,4) by simp
  have "AList.delete i (AList.update i ti js) = AList.delete i js" for ti and js :: "(pystr \<times> TransitionIntent) list"
    by (induction js) auto
  then have jour: "journals (perform_all as fs) = AList.delete i (journals fs)"
    unfolding as using stages(5,10,11) by auto
  have lea: "lease_at (perform_all as fs) = (if target = RUNNING then lease_at fs else (lease_at fs)(i := None))"
    unfolding as using stages(7) by simp
  show thesis
    by (rule that [OF w(3,4) queue_item_move [OF assms(2) w(1) new ent] jour lea])
qed

lemma transition_owned_cases:
  assumes "transition_owned Y i target now fs = (r, gs)" "queue_ok Y fs" "yaml_lossless Y"
  obtains (fail) e where "r = Inl e" "gs = fs" "transition_plan Y i target now fs = Inl e"
  | (ok) w where "r = Inr target" "queue_item Y fs i = Some w" "status_step (status w) target"
      "queue_ok Y gs" "queue_item Y gs = (queue_item Y fs)(i \<mapsto> moved w target now)"
      "journals gs = AList.delete i (journals fs)"
      "lease_at gs = (if target = RUNNING then lease_at fs else (lease_at fs)(i := None))"
proof (cases "transition_plan Y i target now fs")
  case (Inl e)
  with assms(1) show thesis by (intro fail) (auto simp: transition_owned_def)
next
  case (Inr as)
  then have "r = Inr target" "gs = perform_all as fs" using assms(1) by (simp_all add: transition_owned_def)
  with transition_effect [OF Inr assms(2,3)] ok show thesis by metis
qed

lemma delete_Nil_iff: "quiescent fs \<Longrightarrow> journals gs = AList.delete i (journals fs) \<Longrightarrow> quiescent gs"
  by (simp add: quiescent_def)

subsection \<open>A small queue\<close>


definition plain_codec :: "WorkItem yaml_codec" where
  "plain_codec = \<lparr>safe_dump = (\<lambda>w. w), load_item = Inr\<rparr>"

definition queued_item :: "WorkStatus \<Rightarrow> WorkItem" where
  "queued_item s = (sample_work_item ''V3-A-001'' [] s)\<lparr>milestone := ''M1_READY''\<rparr>"

definition sample_queue :: "WorkStatus \<Rightarrow> WorkItem queue_fs" where
  "sample_queue s = \<lparr>entries = [((s, ''V3-A-001''), queued_item s)], leases = [], journals = []\<rparr>"

definition sample_now :: datetime where
  "sample_now = Datetime 1000000 (Some 0)"

definition sample_lease_id :: pystr where
  "sample_lease_id = ''LEASE-'' @ replicate 32 CHR ''A''"

lemma plain_lossless: "yaml_lossless plain_codec"
  by (simp add: yaml_lossless_def plain_codec_def)

lemma sample_queue_ok:
  assumes "s \<in> {QUEUED, RUNNING, PASSED_ENGINEERING}"
  shows "queue_ok plain_codec (sample_queue s)" "quiescent (sample_queue s)"
proof -
  have valid: "\<forall>s\<in>set [QUEUED, RUNNING, PASSED_ENGINEERING]. validate_work_item (queued_item s) = Inr (queued_item s)"
    by code_simp
  have "doc_item plain_codec s ''V3-A-001'' (queued_item s) (queued_item s)"
    using valid assms by (auto simp: doc_item_def plain_codec_def queued_item_def sample_work_item_def)
  then show "queue_ok plain_codec (sample_queue s)"
    by (auto simp: queue_ok_def entries_ok_def sample_queue_def split: if_splits)
  show "quiescent (sample_queue s)" by (simp add: sample_queue_def quiescent_def)
qed

subsection \<open>What a transition does\<close>

text \<open>
  C14: a transition either fails and leaves the queue untouched, or it is exactly one
  allowed step of one item: the queue afterwards holds the same items except that this one
  has the target status and the time of the update, in one place only, and its lease is
  gone unless the target is \<open>RUNNING\<close>.
\<close>

theorem transition_refines:
  assumes "yaml_lossless Y" "queue_ok Y fs" "quiescent fs" "transition Y i target now fs = (r, gs)"
  shows "queue_ok Y gs \<and> quiescent gs \<and>
    (case r of
       Inl e \<Rightarrow> gs = fs
     | Inr s \<Rightarrow> s = target \<and>
         (\<exists>w. queue_item Y fs i = Some w \<and> status_step (status w) target \<and>
            queue_item Y gs = (queue_item Y fs)(i \<mapsto> w\<lparr>status := target, updated_at := Some now\<rparr>)) \<and>
         lease_at gs = (if target = RUNNING then lease_at fs else (lease_at fs)(i := None)))"
  using assms(4)[unfolded transition_def] assms(2,1)
proof (cases rule: transition_owned_cases)
  case (ok w)
  with assms(3) show ?thesis by (auto simp: moved_def intro: delete_Nil_iff)
qed (use assms in auto)

theorem transition_refines_witness:
  "status_step QUEUED RUNNING \<and>
   queue_ok plain_codec (snd (transition plain_codec ''V3-A-001'' RUNNING sample_now (sample_queue QUEUED)))"
proof -
  have "is_ok (fst (transition plain_codec ''V3-A-001'' RUNNING sample_now (sample_queue QUEUED)))" by code_simp
  then obtain r gs where run: "transition plain_codec ''V3-A-001'' RUNNING sample_now (sample_queue QUEUED) = (Inr r, gs)"
    by (cases "transition plain_codec ''V3-A-001'' RUNNING sample_now (sample_queue QUEUED)")
      (auto simp: is_ok_def split: sum.splits)
  have "queue_item plain_codec (sample_queue QUEUED) ''V3-A-001'' = Some (queued_item QUEUED)" by code_simp
  moreover have "status (queued_item QUEUED) = QUEUED" by (simp add: queued_item_def sample_work_item_def)
  ultimately show ?thesis
    using transition_refines [OF plain_lossless sample_queue_ok run] run by auto
qed

section \<open>Crashes\<close>

text \<open>
  A crash leaves the effect of a prefix of the plan. One journal is left from the first
  action until the fourth.
\<close>

lemma valid_id_prefix: "doc_item Y s i d w \<Longrightarrow> starts_with ''V3-'' i"
  by (auto simp: doc_item_def work_item_fields_ok_def is_work_item_id_def dest!: validate_work_item_Inr)

lemma reconcile_single:
  assumes "journals fs = [(i, t)]" "starts_with ''V3-'' i"
  shows "reconcile_transactions Y fs = (case reconcile_one Y i fs of
    (Inl e, gs) \<Rightarrow> (Inl e, gs) | (Inr x, gs) \<Rightarrow> (Inr [x], gs))"
  using assms by (simp add: reconcile_transactions_def glob_journals_def split: prod.splits sum.splits)

lemma reconcile_none: "quiescent fs \<Longrightarrow> reconcile_transactions Y fs = (Inr [], fs)"
  by (simp add: reconcile_transactions_def glob_journals_def quiescent_def)

lemma reconcile_written:
  assumes "journals fs = [(i, \<lparr>ti_work_item_id = i, ti_source = s, ti_target = t, ti_updated_at = now\<rparr>)]"
    and "starts_with ''V3-'' i" "s \<noteq> t" "entry_at fs s i = Some d" "entry_at fs t i = None"
    and "load_item Y d = Inr w" "validate_work_item w = Inr w"
  shows "reconcile_transactions Y fs =
    (if status w = t then (Inr [i], perform (UnlinkJournal i) (perform (MoveEntry s t i) fs))
     else (Inl (ValueError ''transition source does not contain target state''), fs))"
  using assms by (simp add: reconcile_single reconcile_one_def Let_def read_entry_def)

lemma reconcile_moved:
  assumes "journals fs = [(i, \<lparr>ti_work_item_id = i, ti_source = s, ti_target = t, ti_updated_at = now\<rparr>)]"
    and "starts_with ''V3-'' i" "entry_at fs t i = Some d" "entry_at fs s i = None" "doc_item Y t i d w"
  shows "reconcile_transactions Y fs = (Inr [i], perform (UnlinkJournal i) fs)"
  using assms by (simp add: reconcile_single reconcile_one_def Let_def read_entry_def doc_item_def)

lemma crash_states:
  assumes "transition_plan Y i target now fs = Inr as" "queue_ok Y fs" "yaml_lossless Y" "quiescent fs"
  obtains w f1 f2 f3 f4 where
    "take 1 as = [hd as]" "perform_all (take 1 as) fs = f1" "perform_all (take 2 as) fs = f2"
    "perform_all (take 3 as) fs = f3" "perform_all (take 4 as) fs = f4"
    "reconcile_transactions Y f1 = (Inl (ValueError ''transition source does not contain target state''), f1)"
    "reconcile_transactions Y f2 = (Inr [i], f4)" "reconcile_transactions Y f3 = (Inr [i], f4)"
    "quiescent f4" "entries (perform_all as fs) = entries f4" "journals (perform_all as fs) = journals f4"
    "length as \<le> 5" "queue_ok Y f4"
proof -
  from assms(1-3) obtain w d where w: "entry_at fs (status w) i = Some d" "doc_item Y (status w) i d w"
    "status_step (status w) target"
    and new: "doc_item Y target i (safe_dump Y (moved w target now)) (moved w target now)"
    and as: "as = [WriteJournal i \<lparr>ti_work_item_id = i, ti_source = status w, ti_target = target, ti_updated_at = now\<rparr>,
       WriteEntry (status w) i (safe_dump Y (moved w target now)), MoveEntry (status w) target i, UnlinkJournal i] @
      (if target \<noteq> RUNNING then [UnlinkLease i] else [])"
    by (rule transition_planE)
  have neq: "status w \<noteq> target" by (rule step_neq [OF w(3)])
  note stages = transition_stages [OF w(1) neq] and v3 = valid_id_prefix [OF w(2)]
  have free: "entry_at fs target i = None"
    using entries_ok_unique [OF assms(2) [unfolded queue_ok_def] w(1)] neq by simp
  let ?ti = "\<lparr>ti_work_item_id = i, ti_source = status w, ti_target = target, ti_updated_at = now\<rparr>"
  let ?d = "safe_dump Y (moved w target now)"
  let ?f1 = "perform (WriteJournal i ?ti) fs"
  let ?f2 = "perform (WriteEntry (status w) i ?d) ?f1"
  let ?f3 = "perform (MoveEntry (status w) target i) ?f2"
  let ?f4 = "perform (UnlinkJournal i) ?f3"
  have j: "journals ?f1 = [(i, ?ti)]" using assms(4) by (simp add: quiescent_def perform.simps)
  have r1: "reconcile_transactions Y ?f1 =
      (Inl (ValueError ''transition source does not contain target state''), ?f1)"
    using w(1,2) j v3 neq free
    by (subst reconcile_written [where i = i and s = "status w" and t = target and now = now and d = d and w = w])
      (simp_all add: doc_item_def)
  have r2: "reconcile_transactions Y ?f2 = (Inr [i], ?f4)"
    using new j stages(2,6) v3 neq free
    by (subst reconcile_written [where i = i and s = "status w" and t = target and now = now
          and d = ?d and w = "moved w target now"]) (simp_all add: doc_item_def)
  have r3: "reconcile_transactions Y ?f3 = (Inr [i], ?f4)"
    using new j stages(3,5) v3 neq
    by (intro reconcile_moved [where s = "status w" and t = target and now = now and d = ?d
          and w = "moved w target now"]) simp_all
  have ent4: "map_of (entries ?f4) = (map_of (entries fs))((status w, i) := None, (target, i) \<mapsto> ?d)"
    using stages(3,4) by simp
  have q4: "quiescent ?f4" using stages(5,11) j by (simp add: quiescent_def)
  define rest :: "'a fs_action list" where "rest = (if target \<noteq> RUNNING then [UnlinkLease i] else [])"
  have fin: "entries (perform_all rest f) = entries f" "journals (perform_all rest f) = journals f" for f
    by (simp_all add: rest_def)
  show thesis
    by (rule that [OF _ _ _ _ _ r1 r2 r3 q4 _ _ _ queue_item_move(1) [OF assms(2) w(1) new ent4]])
      (simp_all add: as numeral_eq_Suc rest_def [symmetric] fin, simp add: rest_def)
qed

text \<open>
  C1: crash consistency. A transition that is cut after any number of its actions except
  exactly one is repaired by the next start: reconciliation succeeds, the queue is well
  formed and without journals, and it holds either the items it held before the transition (no
  action done) or those the finished transition leaves. Reconciliation looks at no lease: one
  that the cut left behind stays until a later claim finds it expired.
\<close>

theorem crash_recovery:
  assumes "yaml_lossless Y" "queue_ok Y fs" "quiescent fs"
    and "transition_plan Y i target now fs = Inr as" "n \<noteq> 1"
  shows "\<exists>ids gs. reconcile_transactions Y (perform_all (take n as) fs) = (Inr ids, gs) \<and>
    queue_ok Y gs \<and> quiescent gs \<and>
    queue_item Y gs = (if n = 0 then queue_item Y fs else queue_item Y (perform_all as fs))"
proof -
  obtain f2 f3 f4 where f: "perform_all (take 2 as) fs = f2" "perform_all (take 3 as) fs = f3"
    "perform_all (take 4 as) fs = f4"
    and r: "reconcile_transactions Y f2 = (Inr [i], f4)" "reconcile_transactions Y f3 = (Inr [i], f4)"
    and q4: "quiescent f4" "queue_ok Y f4"
    and fin: "entries (perform_all as fs) = entries f4" "journals (perform_all as fs) = journals f4" "length as \<le> 5"
    by (rule crash_states [OF assms(4,2,1,3)])
  have same: "queue_item Y (perform_all as fs) = queue_item Y f4" by (rule queue_item_cong) (simp add: fin)
  have q5: "quiescent (perform_all as fs)" "queue_ok Y (perform_all as fs)"
    using q4 fin by (simp_all add: quiescent_def queue_ok_def)
  consider "n = 0" | "n \<in> {2, 3, 4}" | "n \<ge> 5" using assms(5) by force
  then show ?thesis
  proof cases
    case 1
    then show ?thesis using assms(2,3) reconcile_none by fastforce
  next
    case 2
    then show ?thesis using f r same q4 reconcile_none [OF q4(1)] by auto
  next
    case 3
    then have "take n as = as" using fin(3) by simp
    then show ?thesis using reconcile_none [OF q5(1)] q5 3 by auto
  qed
qed

theorem crash_recovery_witness:
  "\<exists>as ids gs. transition_plan plain_codec ''V3-A-001'' RUNNING sample_now (sample_queue QUEUED) = Inr as \<and>
     reconcile_transactions plain_codec (perform_all (take 2 as) (sample_queue QUEUED)) = (Inr ids, gs) \<and>
     queue_ok plain_codec gs"
proof -
  have "is_ok (transition_plan plain_codec ''V3-A-001'' RUNNING sample_now (sample_queue QUEUED))" by code_simp
  then obtain as where "transition_plan plain_codec ''V3-A-001'' RUNNING sample_now (sample_queue QUEUED) = Inr as"
    by (auto simp: is_ok_def split: sum.splits)
  then show ?thesis
    using crash_recovery [OF plain_lossless sample_queue_ok, of QUEUED "''V3-A-001''" RUNNING sample_now as 2] by auto
qed

text \<open>
  C16: the one crash the journal does not cover. A transition cut right after its journal
  is written, before the entry is rewritten, makes every later start fail: reconciliation
  raises and leaves the journal where it is.
\<close>

theorem crash_after_journal_not_repaired:
  assumes "yaml_lossless Y" "queue_ok Y fs" "quiescent fs"
    and "transition_plan Y i target now fs = Inr as"
  shows "reconcile_transactions Y (perform_all (take 1 as) fs) =
    (Inl (ValueError ''transition source does not contain target state''), perform_all (take 1 as) fs)"
  by (rule crash_states [OF assms(4,2,1,3)]) simp

theorem crash_after_journal_witness:
  "\<exists>as. transition_plan plain_codec ''V3-A-001'' RUNNING sample_now (sample_queue QUEUED) = Inr as \<and>
     \<not> is_ok (fst (reconcile_transactions plain_codec (perform_all (take 1 as) (sample_queue QUEUED))))"
proof -
  have "is_ok (transition_plan plain_codec ''V3-A-001'' RUNNING sample_now (sample_queue QUEUED))" by code_simp
  then obtain as where "transition_plan plain_codec ''V3-A-001'' RUNNING sample_now (sample_queue QUEUED) = Inr as"
    by (auto simp: is_ok_def split: sum.splits)
  then show ?thesis
    using crash_after_journal_not_repaired [OF plain_lossless sample_queue_ok, of QUEUED "''V3-A-001''" RUNNING sample_now as]
    by (auto simp: is_ok_def)
qed

section \<open>The other operations\<close>

lemma put_effect:
  assumes "put Y w fs = (r, gs)" "queue_ok Y fs" "yaml_lossless Y" "validate_work_item w = Inr w"
  shows "queue_ok Y gs" "journals gs = journals fs" "leases gs = leases fs"
    "queue_item Y gs = (if queue_item Y fs (work_item_id w) = None then (queue_item Y fs)(work_item_id w \<mapsto> w)
       else queue_item Y fs)"
    "is_ok r \<longleftrightarrow> queue_item Y fs (work_item_id w) = None"
proof -
  have free: "paths fs (work_item_id w) = [] \<longleftrightarrow> queue_item Y fs (work_item_id w) = None"
  proof
    assume "queue_item Y fs (work_item_id w) = None"
    then show "paths fs (work_item_id w) = []"
      using entries_ok_item [OF assms(2) [unfolded queue_ok_def]] queue_item_iff [OF assms(2)]
      unfolding paths_Nil_iff by (metis not_None_eq)
  qed (auto simp: paths_Nil_iff queue_item_iff [OF assms(2)] simp flip: not_Some_eq)
  note new = doc_item_dump [OF assms(3,4)]
  have wr: "queue_ok Y gs \<and> queue_item Y gs = (queue_item Y fs)(work_item_id w \<mapsto> w)"
    if "paths fs (work_item_id w) = []"
    using that assms(1) queue_item_write [OF assms(2) _ new, where gs = gs]
    by (auto simp: put_def paths_Nil_iff)
  show "queue_ok Y gs" "journals gs = journals fs" "leases gs = leases fs"
    "queue_item Y gs = (if queue_item Y fs (work_item_id w) = None then (queue_item Y fs)(work_item_id w \<mapsto> w)
       else queue_item Y fs)" "is_ok r \<longleftrightarrow> queue_item Y fs (work_item_id w) = None"
    using wr assms(1,2) by (auto simp: put_def free [symmetric] is_ok_def split: if_splits)
qed

lemma rewrite_effect:
  assumes "rewrite_entry Y i f fs = (r, gs)" "queue_ok Y fs" "yaml_lossless Y"
    and keeps: "\<And>w u. f w = Inr u \<Longrightarrow> work_item_id w = i \<Longrightarrow>
      validate_work_item u = Inr u \<and> work_item_id u = i \<and> status u = status w"
  obtains (fail) e where "r = Inl e" "gs = fs"
  | (ok) w u where "queue_item Y fs i = Some w" "f w = Inr u" "r = Inr (status w)" "queue_ok Y gs"
      "queue_item Y gs = (queue_item Y fs)(i \<mapsto> u)" "journals gs = journals fs" "leases gs = leases fs"
proof (cases "rbind (locate fs i) (\<lambda>s. rbind (read_entry Y fs s i) (\<lambda>w. rbind (f w) (\<lambda>u. Inr (s, u))))")
  case (Inl e)
  then show thesis using assms(1) by (intro fail) (auto simp: rewrite_entry_def)
next
  case (Inr su)
  then obtain s w u where su: "su = (s, u)" and loc: "locate fs i = Inr s" and rd: "read_entry Y fs s i = Inr w"
    and f: "f w = Inr u"
    by (auto simp: result_simps)
  from rd obtain d where d: "entry_at fs s i = Some d" "load_item Y d = Inr w" by (auto simp: read_entry_Inr)
  with assms(2) have doc: "doc_item Y s i d w"
    using entries_ok_item unfolding queue_ok_def doc_item_def by fastforce
  then have w: "status w = s" "work_item_id w = i" by (simp_all add: doc_item_def)
  with keeps [OF f] have u: "validate_work_item u = Inr u" "work_item_id u = i" "status u = s" by auto
  have new: "doc_item Y s i (safe_dump Y u) u" using doc_item_dump [OF assms(3) u(1)] u by simp
  have gs: "r = Inr s" "gs = perform (WriteEntry s i (safe_dump Y u)) fs"
    using assms(1) Inr su by (simp_all add: rewrite_entry_def)
  have one: "entry_at fs t i = None" if "t \<noteq> s" for t using loc that by (auto simp: locate_iff)
  show thesis
  proof (rule ok)
    show "queue_item Y fs i = Some w" using d doc by (auto simp: queue_item_iff [OF assms(2)])
    show "queue_ok Y gs" "queue_item Y gs = (queue_item Y fs)(i \<mapsto> u)"
      using queue_item_write [OF assms(2) one new, of gs] by (simp_all add: gs)
  qed (use f gs w in simp_all)
qed

lemma bind_keeps:
  assumes "(if \<not> external_receipt_required w then Inl e
     else validate_work_item (w\<lparr>external_evidence_refs := refs, updated_at := now\<rparr>)) = Inr u"
  shows "validate_work_item u = Inr u \<and> work_item_id u = work_item_id w \<and> status u = status w"
  using assms by (auto split: if_splits dest: validate_work_item_same)

lemma refresh_keeps:
  assumes "(if status w \<noteq> BLOCKED_TECHNICAL then Inl e
     else validate_work_item (c\<lparr>status := status w, external_evidence_refs := refs,
       created_at := cr, updated_at := now\<rparr>)) = Inr u" "work_item_id w = work_item_id c"
  shows "validate_work_item u = Inr u \<and> work_item_id u = work_item_id c \<and> status u = status w"
  using assms by (auto split: if_splits dest: validate_work_item_same)

text \<open>Neither rewriting operation changes the status of any item.\<close>

definition same_statuses :: "'doc yaml_codec \<Rightarrow> 'doc queue_fs \<Rightarrow> 'doc queue_fs \<Rightarrow> bool" where
  "same_statuses Y fs gs \<longleftrightarrow> queue_ok Y gs \<and> journals gs = journals fs \<and> leases gs = leases fs \<and>
     (\<forall>j. map_option status (queue_item Y gs j) = map_option status (queue_item Y fs j))"

lemma bind_effect:
  assumes "bind_external_evidence P Y i receipt now fs = (r, gs)" "queue_ok Y fs" "yaml_lossless Y"
  shows "same_statuses Y fs gs"
proof (cases rule: rewrite_effect [OF assms(1)[unfolded bind_external_evidence_def] assms(2,3),
    consumes 0, case_names keeps fail ok])
  case (keeps w u)
  then show ?case using bind_keeps by blast
next
  case (ok w u)
  then show ?thesis using bind_keeps [OF ok(2)] by (simp add: same_statuses_def)
qed (use assms(2) in \<open>simp add: same_statuses_def\<close>)

lemma refresh_effect:
  assumes "refresh_blocked_from_authority Y c now fs = (r, gs)" "queue_ok Y fs" "yaml_lossless Y"
  shows "same_statuses Y fs gs"
proof (cases rule: rewrite_effect [OF assms(1)[unfolded refresh_blocked_from_authority_def] assms(2,3),
    consumes 0, case_names keeps fail ok])
  case (keeps w u)
  then show ?case using refresh_keeps by blast
next
  case (ok w u)
  have "work_item_id w = work_item_id c"
    using ok(1) by (auto simp: queue_item_iff [OF assms(2)] doc_item_def)
  with ok show ?thesis using refresh_keeps [OF ok(2)] by (simp add: same_statuses_def)
qed (use assms(2) in \<open>simp add: same_statuses_def\<close>)

section \<open>Claims and recovery\<close>

lemma queue_ok_entries: "entries gs = entries fs \<Longrightarrow> queue_ok Y gs = queue_ok Y fs"
  by (simp add: queue_ok_def)

lemma queue_item_entries: "entries gs = entries fs \<Longrightarrow> queue_item Y gs = queue_item Y fs"
  by (rule queue_item_cong) simp

lemma release_expired_Inr:
  assumes "release_expired Y i now fs = Inr gs"
  obtains w where "queue_item Y fs i = Some w" "status w = QUEUED" "entries gs = entries fs"
    "journals gs = journals fs" "\<forall>j. j \<noteq> i \<longrightarrow> lease_at gs j = lease_at fs j"
    "\<forall>l. lease_at fs i = Some l \<longrightarrow> dt_less now (expires_at l) = Inr False"
proof -
  from assms obtain w where w: "load Y fs i = Inr w" "status w = QUEUED"
    by (auto simp: release_expired_def result_simps split: if_splits)
  show thesis
  proof (cases "lease_at fs i")
    case None
    with assms w show thesis by (intro that [of w]) (auto simp: release_expired_def queue_item_Some)
  next
    case (Some l)
    with assms w have "dt_less now (expires_at l) = Inr False" "gs = perform (UnlinkLease i) fs"
      by (auto simp: release_expired_def result_simps validate_lease_def split: if_splits)
    with Some w show thesis by (intro that [of w]) (auto simp: queue_item_Some)
  qed
qed

lemma claim_running_cases:
  assumes "claim_running Y i lease now fs = (r, gs)" "queue_ok Y fs" "yaml_lossless Y"
  obtains (fail) e where "r = Inl e" "entries gs = entries fs" "journals gs = journals fs"
      "\<forall>j. j \<noteq> i \<longrightarrow> lease_at gs j = lease_at fs j"
  | (ok) w where "r = Inr lease" "queue_item Y fs i = Some w" "queue_ok Y gs"
      "queue_item Y gs = (queue_item Y fs)(i \<mapsto> moved w RUNNING now)"
      "journals gs = AList.delete i (journals fs)" "lease_at gs = (lease_at fs)(i \<mapsto> lease)"
proof -
  define fs2 where "fs2 = fs\<lparr>leases := AList.update i lease (leases fs)\<rparr>"
  obtain r3 gs3 where tr: "transition_owned Y i RUNNING now fs2 = (r3, gs3)" by fastforce
  have same: "entries fs2 = entries fs" "journals fs2 = journals fs"
    "lease_at fs2 = (lease_at fs)(i \<mapsto> lease)"
    by (simp_all add: fs2_def update_conv')
  have ok2: "queue_ok Y fs2" using assms(2) queue_ok_entries [OF same(1)] by simp
  note run = assms(1) [unfolded claim_running_def, folded fs2_def, unfolded tr]
  from tr ok2 assms(3) show thesis
  proof (cases rule: transition_owned_cases)
    case (fail e)
    with run have gs: "r = Inl e" "gs = (if map_option lease_id (lease_at fs2 i) = Some (lease_id lease)
        then perform (UnlinkLease i) fs2 else fs2)"
      by auto
    show thesis
      by (rule that(1) [OF gs(1)]) (auto simp: gs(2) same)
  next
    case (ok w)
    with run have "r = Inr lease" "gs = gs3" by auto
    with ok show thesis
      by (intro that(2)) (simp_all add: same queue_item_entries [OF same(1)])
  qed
qed

lemma claim_cases:
  assumes "claim P Y i owner process fresh now secs fs = (r, gs)" "queue_ok Y fs" "yaml_lossless Y"
  obtains (fail) e where "r = Inl e" "entries gs = entries fs" "journals gs = journals fs"
      "\<forall>j. j \<noteq> i \<longrightarrow> lease_at gs j = lease_at fs j"
  | (ok) w lease where "r = Inr lease" "lease = \<lparr>ql_work_item_id = i, owner_id = strip P owner,
        owner_process_identity = map_option (strip P) process, lease_id = fresh, claimed_at = now,
        expires_at = add_seconds now secs, generation = 1\<rparr>"
      "queue_item Y fs i = Some w" "status w = QUEUED" "queue_ok Y gs"
      "queue_item Y gs = (queue_item Y fs)(i \<mapsto> moved w RUNNING now)"
      "journals gs = AList.delete i (journals fs)" "lease_at gs = (lease_at fs)(i \<mapsto> lease)"
      "\<forall>l. lease_at fs i = Some l \<longrightarrow> dt_less now (expires_at l) = Inr False"
proof (cases "\<not> (secs < 30 \<or> 14400 < secs) \<and> is_ok (release_expired Y i now fs)")
  case False
  then have "\<exists>e. (r, gs) = (Inl e, fs)"
    using assms(1) by (auto simp: claim_def is_ok_def split: if_splits sum.splits)
  then show thesis using fail by blast
next
  case True
  then obtain fs1 where fs1: "release_expired Y i now fs = Inr fs1"
    by (auto simp: is_ok_def split: sum.splits)
  then obtain w where w: "queue_item Y fs i = Some w" "status w = QUEUED" "entries fs1 = entries fs"
    "journals fs1 = journals fs" "\<forall>j. j \<noteq> i \<longrightarrow> lease_at fs1 j = lease_at fs j"
    "\<forall>l. lease_at fs i = Some l \<longrightarrow> dt_less now (expires_at l) = Inr False"
    by (rule release_expired_Inr)
  define lease where "lease = \<lparr>ql_work_item_id = i, owner_id = strip P owner, owner_process_identity = map_option (strip P) process,
    lease_id = fresh, claimed_at = now, expires_at = add_seconds now secs, generation = 1\<rparr>"
  have run: "(r, gs) = (if queue_lease_fields_ok lease then claim_running Y i lease now fs1
      else (Inl (ValidationError ''QueueLease''), fs1))"
    using assms(1) True fs1 by (simp add: claim_def validate_lease_def lease_def split: if_splits)
  show thesis
  proof (cases "queue_lease_fields_ok lease")
    case False
    with run have "r = Inl (ValidationError ''QueueLease'')" "gs = fs1" by auto
    with w show thesis by (intro fail) auto
  next
    case True
    with run have cr: "claim_running Y i lease now fs1 = (r, gs)" by simp
    have ok1: "queue_ok Y fs1" using assms(2) queue_ok_entries [OF w(3)] by simp
    from cr ok1 assms(3) show thesis
    proof (cases rule: claim_running_cases)
      case (fail e)
      with w show thesis by (intro that(1)) auto
    next
      case (ok v)
      have "v = w" using ok(2) w(1) by (simp add: queue_item_entries [OF w(3)])
      moreover have "lease_at gs = (lease_at fs)(i \<mapsto> lease)" using ok(6) w(5) by (auto simp: fun_eq_iff)
      ultimately show thesis
        using ok w by (intro that(2) [OF ok(1) lease_def w(1,2)]) (simp_all add: queue_item_entries [OF w(3)])
    qed
  qed
qed

text \<open>
  C13: a successful claim moves exactly one queued item to running, records the caller's
  lease over at most an expired one, and makes every later claim of the item fail without
  effect until the item leaves \<open>RUNNING\<close>.
\<close>

theorem claim_exclusive:
  assumes "yaml_lossless Y" "queue_ok Y fs" "quiescent fs"
    and "claim P Y i owner process fresh now secs fs = (Inr l, gs)"
  shows "queue_ok Y gs \<and> quiescent gs \<and> lease_at gs = (lease_at fs)(i \<mapsto> l) \<and> lease_id l = fresh \<and> owner_id l = strip P owner \<and>
    (\<exists>w. queue_item Y fs i = Some w \<and> status w = QUEUED \<and>
       queue_item Y gs = (queue_item Y fs)(i \<mapsto> w\<lparr>status := RUNNING, updated_at := Some now\<rparr>)) \<and>
    (\<forall>old. lease_at fs i = Some old \<longrightarrow> dt_less now (expires_at old) = Inr False) \<and>
    (\<forall>owner' process' fresh' now' secs' r hs.
       claim P Y i owner' process' fresh' now' secs' gs = (r, hs) \<longrightarrow> \<not> is_ok r \<and> hs = gs)"
  using assms(4,2,1)
proof (cases rule: claim_cases)
  case (ok w lease)
  have "queue_item Y gs i = Some (moved w RUNNING now)" using ok(6) by simp
  then have "load Y gs i = Inr (moved w RUNNING now)" by (simp add: queue_item_Some)
  then have later: "\<not> is_ok r \<and> hs = gs" if "claim P Y i owner' process' fresh' now' secs' gs = (r, hs)"
    for owner' process' fresh' now' secs' r hs
    using that by (auto simp: claim_def release_expired_def is_ok_def split: if_splits)
  have "quiescent gs" using assms(3) ok(7) by (rule delete_Nil_iff)
  then show ?thesis using ok later by (auto simp: moved_def)
qed simp

theorem claim_exclusive_witness:
  "\<exists>l gs. claim sample_platform plain_codec ''V3-A-001'' ''controller'' None sample_lease_id sample_now 60 (sample_queue QUEUED) =
       (Inr l, gs) \<and> lease_at gs ''V3-A-001'' = Some l \<and>
     \<not> is_ok (fst (claim sample_platform plain_codec ''V3-A-001'' ''rival'' None sample_lease_id sample_now 900 gs))"
proof -
  let ?c = "claim sample_platform plain_codec ''V3-A-001'' ''controller'' None sample_lease_id sample_now 60 (sample_queue QUEUED)"
  have "is_ok (fst ?c)" by code_simp
  then obtain l gs where run: "?c = (Inr l, gs)"
    by (cases ?c) (auto simp: is_ok_def split: sum.splits)
  obtain r hs where rival: "claim sample_platform plain_codec ''V3-A-001'' ''rival'' None sample_lease_id sample_now 900 gs = (r, hs)"
    by fastforce
  show ?thesis
    using claim_exclusive [OF plain_lossless sample_queue_ok run] run rival by auto
qed

text \<open>
  A lease is renewed only by the holder of its identifier, before it expires and while
  the item runs; the renewal changes nothing but the expiry and the generation, and a
  refused renewal changes nothing.
\<close>

theorem renew_only_holder:
  assumes "renew Y i lid now secs fs = (r, gs)"
  shows "case r of
     Inl e \<Rightarrow> gs = fs
   | Inr l' \<Rightarrow> (\<exists>l w. lease_at fs i = Some l \<and> lease_id l = lid \<and> dt_less now (expires_at l) = Inr True \<and>
       queue_item Y fs i = Some w \<and> status w = RUNNING \<and>
       l' = l\<lparr>expires_at := add_seconds now secs, generation := generation l + 1\<rparr> \<and>
       lease_at gs = (lease_at fs)(i \<mapsto> l') \<and> entries gs = entries fs \<and> journals gs = journals fs)"
proof (cases r)
  case (Inl e)
  then show ?thesis using assms by (auto simp: renew_def split: sum.splits)
next
  case (Inr l')
  then obtain w l where "load Y fs i = Inr w" "status w = RUNNING" "lease_at fs i = Some l"
    "lease_id l = lid" "dt_less now (expires_at l) = Inr True"
    "l' = l\<lparr>expires_at := add_seconds now secs, generation := generation l + 1\<rparr>"
    "gs = fs\<lparr>leases := AList.update i l' (leases fs)\<rparr>"
    using assms
    by (auto simp: renew_def result_simps validate_lease_def split: sum.splits if_splits option.splits)
  with Inr show ?thesis by (auto simp: queue_item_Some update_conv')
qed

theorem renew_only_holder_witness:
  "snd (renew plain_codec ''V3-A-001'' sample_lease_id sample_now 60 (sample_queue RUNNING)) = sample_queue RUNNING"
proof -
  obtain r gs where run: "renew plain_codec ''V3-A-001'' sample_lease_id sample_now 60 (sample_queue RUNNING) = (r, gs)"
    by fastforce
  have "\<not> is_ok (fst (renew plain_codec ''V3-A-001'' sample_lease_id sample_now 60 (sample_queue RUNNING)))"
    by code_simp
  then show ?thesis
    using renew_only_holder [OF run] run by (auto simp: is_ok_def split: sum.splits)
qed

lemma items_ids:
  assumes "items Y fs [s] = Inr ws" "queue_ok Y fs"
  shows "map work_item_id ws = glob_entries fs s" "distinct (map work_item_id ws)"
proof -
  from assms(1) have rd: "traverse (read_entry Y fs s) (glob_entries fs s) = Inr ws"
    and d: "distinct (map work_item_id ws)"
    by (auto simp: items_def read_directory_def result_simps split: if_splits)
  show "distinct (map work_item_id ws)" by (fact d)
  have id: "work_item_id w = i" if "read_entry Y fs s i = Inr w" for i w
  proof -
    from that obtain d where "entry_at fs s i = Some d" "load_item Y d = Inr w" by (auto simp: read_entry_Inr)
    then show ?thesis using entries_ok_item [OF assms(2) [unfolded queue_ok_def]] by (fastforce simp: doc_item_def)
  qed
  from rd have "list_all2 (\<lambda>i w. read_entry Y fs s i = Inr w) (glob_entries fs s) ws" by (simp add: traverse_Inr_iff)
  then show "map work_item_id ws = glob_entries fs s"
    by (induction rule: list_all2_induct) (auto dest: id)
qed

lemma running_in_glob:
  assumes "queue_ok Y fs" "queue_item Y fs i = Some w"
  shows "i \<in> set (glob_entries fs (status w))"
proof -
  from assms obtain d where d: "entry_at fs (status w) i = Some d" "doc_item Y (status w) i d w"
    by (auto simp: queue_item_iff doc_item_def)
  then have "(status w, i) \<in> set (map fst (entries fs))" by (force dest: map_of_SomeD)
  then show ?thesis using valid_id_prefix [OF d(2)] by (force simp: glob_entries_def)
qed

text \<open>The fate of one item in a recovery: blocked if it was abandoned, untouched otherwise.\<close>

definition recovery_fate ::
  "'doc yaml_codec \<Rightarrow> (nat \<Rightarrow> pystr option) \<Rightarrow> datetime \<Rightarrow> 'doc queue_fs \<Rightarrow> 'doc queue_fs \<Rightarrow> pystr \<Rightarrow> bool \<Rightarrow> bool" where
  "recovery_fate Y proc now fs gs i b \<longleftrightarrow>
     (if b then \<exists>w. queue_item Y fs i = Some w \<and> status w = RUNNING \<and>
           abandoned proc now (lease_at fs i) = Inr True \<and>
           queue_item Y gs i = Some (moved w BLOCKED_TECHNICAL now) \<and> lease_at gs i = None
      else queue_item Y gs i = queue_item Y fs i \<and> lease_at gs i = lease_at fs i \<and>
        (\<forall>w. queue_item Y fs i = Some w \<longrightarrow> status w = RUNNING \<longrightarrow> abandoned proc now (lease_at fs i) = Inr False))"

lemma recover_one_effect:
  assumes "recover_one Y proc now i fs = (Inr x, gs)" "queue_ok Y fs" "yaml_lossless Y"
  shows "queue_ok Y gs" "x \<in> {None, Some i}" "recovery_fate Y proc now fs gs i (x = Some i)"
    "j \<noteq> i \<Longrightarrow> queue_item Y gs j = queue_item Y fs j \<and> lease_at gs j = lease_at fs j"
    "quiescent fs \<Longrightarrow> quiescent gs"
proof -
  obtain w where w: "load Y fs i = Inr w"
    using assms(1) by (auto simp: recover_one_def split: sum.splits)
  consider (running) "status w = RUNNING" "abandoned proc now (lease_at fs i) = Inr True"
    | (other) "status w \<noteq> RUNNING \<or> abandoned proc now (lease_at fs i) = Inr False" "x = None" "gs = fs"
    using assms(1) w by (auto simp: recover_one_def split: sum.splits if_splits bool.splits)
  then have all: "queue_ok Y gs \<and> x \<in> {None, Some i} \<and> recovery_fate Y proc now fs gs i (x = Some i) \<and>
    (\<forall>j. j \<noteq> i \<longrightarrow> queue_item Y gs j = queue_item Y fs j \<and> lease_at gs j = lease_at fs j) \<and>
    (quiescent fs \<longrightarrow> quiescent gs)"
  proof cases
    case running
    with assms(1) w obtain r where tr: "transition_owned Y i BLOCKED_TECHNICAL now fs = (Inr r, gs)" "x = Some i"
      by (auto simp: recover_one_def split: sum.splits prod.splits)
    from tr(1) assms(2,3) show ?thesis
    proof (cases rule: transition_owned_cases)
      case (ok v)
      have "v = w" using ok(2) w by (simp add: queue_item_Some)
      with ok running tr(2) show ?thesis by (auto simp: recovery_fate_def intro: delete_Nil_iff)
    qed simp
  next
    case other
    with w assms(2) show ?thesis by (auto simp: recovery_fate_def queue_item_Some)
  qed
  then show "queue_ok Y gs" "x \<in> {None, Some i}" "recovery_fate Y proc now fs gs i (x = Some i)"
    "j \<noteq> i \<Longrightarrow> queue_item Y gs j = queue_item Y fs j \<and> lease_at gs j = lease_at fs j"
    "quiescent fs \<Longrightarrow> quiescent gs"
    by blast+
qed

lemma recover_run:
  assumes "run_each (recover_one Y proc now) ks fs = (Inr rs, gs)" "queue_ok Y fs" "yaml_lossless Y"
    "quiescent fs" "distinct ks"
  shows "queue_ok Y gs \<and> quiescent gs \<and> set rs \<subseteq> insert None (Some ` set ks) \<and>
    (\<forall>i. i \<notin> set ks \<longrightarrow> queue_item Y gs i = queue_item Y fs i \<and> lease_at gs i = lease_at fs i) \<and>
    (\<forall>k\<in>set ks. recovery_fate Y proc now fs gs k (Some k \<in> set rs))"
  using assms
proof (induction ks arbitrary: fs rs)
  case (Cons k ks)
  from Cons.prems(1) obtain x fs1 rs' where one: "recover_one Y proc now k fs = (Inr x, fs1)"
    and rest: "run_each (recover_one Y proc now) ks fs1 = (Inr rs', gs)" and rs: "rs = x # rs'"
    by (auto split: prod.splits sum.splits)
  note eff = recover_one_effect [OF one Cons.prems(2,3)]
  from Cons.IH [OF rest eff(1) Cons.prems(3) eff(5) [OF Cons.prems(4)]] Cons.prems(5)
  have IH: "queue_ok Y gs" "quiescent gs" "set rs' \<subseteq> insert None (Some ` set ks)"
    "\<And>i. i \<notin> set ks \<Longrightarrow> queue_item Y gs i = queue_item Y fs1 i \<and> lease_at gs i = lease_at fs1 i"
    "\<And>j. j \<in> set ks \<Longrightarrow> recovery_fate Y proc now fs1 gs j (Some j \<in> set rs')"
    by auto
  have k: "k \<notin> set ks" using Cons.prems(5) by simp
  have "recovery_fate Y proc now fs gs k (Some k \<in> set rs)"
    using eff(2,3) IH(3) IH(4) [OF k] k rs by (auto simp: recovery_fate_def)
  moreover have "recovery_fate Y proc now fs gs j (Some j \<in> set rs)" if "j \<in> set ks" for j
  proof -
    have "j \<noteq> k" using that k by auto
    then have "(Some j \<in> set rs) = (Some j \<in> set rs')" using eff(2) rs by auto
    then show ?thesis using IH(5) [OF that] eff(4) [OF \<open>j \<noteq> k\<close>] by (auto simp: recovery_fate_def split: if_splits)
  qed
  ultimately show ?case using IH eff(2,4) rs by auto
qed simp

text \<open>
  What makes a claim abandoned: no lease, or a lease that has expired or whose owner is known
  to be dead.
\<close>

lemma abandoned_Inr:
  assumes "abandoned proc now lease = Inr b"
  shows "b \<longleftrightarrow> lease = None \<or>
    (\<exists>l. lease = Some l \<and> (dt_less now (expires_at l) = Inr False \<or> lease_owner_is_alive proc l = Some False))"
  using assms by (auto simp: abandoned_def result_simps validate_lease_def split: option.splits if_splits)

text \<open>
  C15: recovery of abandoned claims is exact. After a successful run the reported items are
  exactly those that were running without a lease, under an expired one or under one whose owner
  is known to be dead; they are now blocked and have no lease, and all others, with their leases,
  are as they were. So every item that still runs has a lease that has not expired and whose
  owner is not known to be dead.
\<close>

theorem recover_exact:
  assumes "yaml_lossless Y" "queue_ok Y fs" "quiescent fs"
    and "recover_expired_claims Y proc now fs = (Inr ids, gs)"
  shows "queue_ok Y gs \<and> quiescent gs \<and>
    (\<forall>i w. queue_item Y gs i = Some w \<longrightarrow> status w = RUNNING \<longrightarrow>
       (\<exists>l. lease_at gs i = Some l \<and> dt_less now (expires_at l) = Inr True \<and>
          lease_owner_is_alive proc l \<noteq> Some False)) \<and>
    (\<forall>i. i \<in> set ids \<longleftrightarrow> (\<exists>w. queue_item Y fs i = Some w \<and> status w = RUNNING \<and>
       (lease_at fs i = None \<or> (\<exists>l. lease_at fs i = Some l \<and>
          (dt_less now (expires_at l) = Inr False \<or> lease_owner_is_alive proc l = Some False))))) \<and>
    (\<forall>i. if i \<in> set ids
       then \<exists>w. queue_item Y fs i = Some w \<and> status w = RUNNING \<and>
         queue_item Y gs i = Some (w\<lparr>status := BLOCKED_TECHNICAL, updated_at := Some now\<rparr>) \<and> lease_at gs i = None
       else queue_item Y gs i = queue_item Y fs i \<and> lease_at gs i = lease_at fs i)"
proof -
  from assms(4) obtain ws rs where ws: "items Y fs [RUNNING] = Inr ws"
    and run: "run_each (recover_one Y proc now) (map work_item_id ws) fs = (Inr rs, gs)"
    and ids: "ids = List.map_filter id rs"
    by (auto simp: recover_expired_claims_def split: sum.splits prod.splits)
  note glob = items_ids [OF ws assms(2)]
  from recover_run [OF run assms(2,1,3) glob(2)]
  have r: "queue_ok Y gs" "quiescent gs" "set rs \<subseteq> insert None (Some ` set (map work_item_id ws))"
    "\<And>i. i \<notin> set (map work_item_id ws) \<Longrightarrow> queue_item Y gs i = queue_item Y fs i \<and> lease_at gs i = lease_at fs i"
    "\<And>k. k \<in> set (map work_item_id ws) \<Longrightarrow> recovery_fate Y proc now fs gs k (Some k \<in> set rs)"
    by auto
  have in_ids: "i \<in> set ids \<longleftrightarrow> Some i \<in> set rs" for i by (auto simp: ids set_map_filter)
  have covered: "i \<in> set (map work_item_id ws)" if "queue_item Y fs i = Some w" "status w = RUNNING" for i w
    using running_in_glob [OF assms(2) that(1)] that(2) glob(1) by simp
  have fate: "recovery_fate Y proc now fs gs i (i \<in> set ids)" for i
  proof (cases "i \<in> set (map work_item_id ws)")
    case False
    then have "i \<notin> set ids" using r(3) by (auto simp: in_ids)
    then show ?thesis using r(4) [OF False] covered False unfolding recovery_fate_def by auto
  qed (use r(5) in_ids in simp)
  have "\<exists>l. lease_at gs i = Some l \<and> dt_less now (expires_at l) = Inr True \<and> lease_owner_is_alive proc l \<noteq> Some False"
    if "queue_item Y gs i = Some w" "status w = RUNNING" for i w
  proof -
    have "abandoned proc now (lease_at gs i) = Inr False"
      using fate [of i] that by (auto simp: recovery_fate_def split: if_splits)
    then show ?thesis by (auto simp: abandoned_def result_simps validate_lease_def split: option.splits if_splits)
  qed
  moreover have "i \<in> set ids \<longleftrightarrow> (\<exists>w. queue_item Y fs i = Some w \<and> status w = RUNNING \<and>
      (lease_at fs i = None \<or> (\<exists>l. lease_at fs i = Some l \<and>
         (dt_less now (expires_at l) = Inr False \<or> lease_owner_is_alive proc l = Some False))))" for i
    using fate [of i] unfolding recovery_fate_def by (metis abandoned_Inr)
  moreover have "if i \<in> set ids
      then \<exists>w. queue_item Y fs i = Some w \<and> status w = RUNNING \<and>
        queue_item Y gs i = Some (w\<lparr>status := BLOCKED_TECHNICAL, updated_at := Some now\<rparr>) \<and> lease_at gs i = None
      else queue_item Y gs i = queue_item Y fs i \<and> lease_at gs i = lease_at fs i" for i
    using fate [of i] unfolding recovery_fate_def moved_def by (auto split: if_splits)
  ultimately show ?thesis using r(1,2) by blast
qed

theorem recover_exact_witness:
  "\<exists>gs. recover_expired_claims plain_codec (\<lambda>_. None) sample_now (sample_queue RUNNING) = (Inr [''V3-A-001''], gs) \<and>
     map_option status (queue_item plain_codec gs ''V3-A-001'') = Some BLOCKED_TECHNICAL"
proof -
  have "fst (recover_expired_claims plain_codec (\<lambda>_. None) sample_now (sample_queue RUNNING)) = Inr [''V3-A-001'']"
    by code_simp
  then obtain gs where run: "recover_expired_claims plain_codec (\<lambda>_. None) sample_now (sample_queue RUNNING) = (Inr [''V3-A-001''], gs)"
    by (cases "recover_expired_claims plain_codec (\<lambda>_. None) sample_now (sample_queue RUNNING)") auto
  have "\<exists>w. queue_item plain_codec gs ''V3-A-001'' =
      Some (w\<lparr>status := BLOCKED_TECHNICAL, updated_at := Some sample_now\<rparr>)"
    using recover_exact [OF plain_lossless sample_queue_ok run] by (metis insertCI list.set_intros(1))
  then show ?thesis using run by auto
qed

section \<open>Histories of the queue\<close>

text \<open>
  The interface a controller relies on: a store of statuses with an invariant and steps,
  each of which keeps every item and moves it along the transition table.
\<close>

locale status_store =
  fixes inv :: "'s \<Rightarrow> bool" and status_of :: "'s \<Rightarrow> pystr \<rightharpoonup> WorkStatus" and step :: "'s \<Rightarrow> 's \<Rightarrow> bool"
  assumes step_inv: "inv s \<Longrightarrow> step s t \<Longrightarrow> inv t"
    and step_status: "inv s \<Longrightarrow> step s t \<Longrightarrow> status_of s i = Some a \<Longrightarrow>
      \<exists>b. status_of t i = Some b \<and> status_step\<^sup>*\<^sup>* a b"
begin

lemma run_inv: "step\<^sup>*\<^sup>* s t \<Longrightarrow> inv s \<Longrightarrow> inv t"
  by (induction rule: rtranclp_induct) (auto intro: step_inv)

lemma run_status:
  assumes "step\<^sup>*\<^sup>* s t" "inv s" "status_of s i = Some a"
  shows "\<exists>b. status_of t i = Some b \<and> status_step\<^sup>*\<^sup>* a b"
  using assms
proof (induction rule: rtranclp_induct)
  case (step t u)
  then obtain b where "status_of t i = Some b" "status_step\<^sup>*\<^sup>* a b" by blast
  then show ?case
    using step_status [OF run_inv [OF step.hyps(1) step.prems(1)] step.hyps(2)] by (meson rtranclp_trans)
qed auto

lemma final_stays:
  assumes "step\<^sup>*\<^sup>* s t" "inv s" "status_of s i = Some a" "a \<in> set terminal_statuses"
  shows "status_of t i = Some a"
proof -
  obtain b where b: "status_of t i = Some b" "status_step\<^sup>*\<^sup>* a b" using run_status [OF assms(1-3)] by blast
  have none: "\<not> status_step a c" for c using assms(4) terminal_iff [of a] by simp
  have "b = a" by (rule converse_rtranclpE [OF b(2)]) (use none in auto)
  with b show ?thesis by simp
qed

end

definition keeps_items :: "'doc yaml_codec \<Rightarrow> 'doc queue_fs \<Rightarrow> 'doc queue_fs \<Rightarrow> bool" where
  "keeps_items Y fs gs \<longleftrightarrow> queue_ok Y gs \<and> quiescent gs \<and>
     (\<forall>i w. queue_item Y fs i = Some w \<longrightarrow>
        (\<exists>v. queue_item Y gs i = Some v \<and> status_step\<^sup>*\<^sup>* (status w) (status v)))"

lemma keeps_refl: "queue_ok Y fs \<Longrightarrow> quiescent fs \<Longrightarrow> keeps_items Y fs fs"
  by (auto simp: keeps_items_def)

lemma keeps_trans: "keeps_items Y fs gs \<Longrightarrow> keeps_items Y gs hs \<Longrightarrow> keeps_items Y fs hs"
  unfolding keeps_items_def by (meson rtranclp_trans)

lemma keeps_same_entries:
  assumes "queue_ok Y fs" "quiescent fs" "entries gs = entries fs" "journals gs = journals fs"
  shows "keeps_items Y fs gs"
  using assms(1,2,4) unfolding keeps_items_def quiescent_def
    queue_ok_entries [OF assms(3)] queue_item_entries [OF assms(3)] by auto

lemma keeps_upd:
  assumes "queue_item Y fs i = Some w" "status_step (status w) (status v)" "queue_ok Y gs" "quiescent gs"
    "queue_item Y gs = (queue_item Y fs)(i \<mapsto> v)"
  shows "keeps_items Y fs gs"
proof -
  have "\<exists>v'. queue_item Y gs j = Some v' \<and> status_step\<^sup>*\<^sup>* (status u) (status v')"
    if "queue_item Y fs j = Some u" for j u
    using that assms(1,2) by (cases "j = i") (auto simp: assms(5))
  then show ?thesis using assms(3,4) by (simp add: keeps_items_def)
qed

lemma same_statuses_keeps:
  assumes "same_statuses Y fs gs" "quiescent fs"
  shows "keeps_items Y fs gs"
proof -
  have "\<exists>v. queue_item Y gs i = Some v \<and> status v = status w" if "queue_item Y fs i = Some w" for i w
  proof -
    have "map_option status (queue_item Y gs i) = Some (status w)"
      using assms(1) that by (simp add: same_statuses_def)
    then show ?thesis by auto
  qed
  moreover have "queue_ok Y gs" "quiescent gs" using assms by (simp_all add: same_statuses_def quiescent_def)
  ultimately show ?thesis unfolding keeps_items_def by (metis rtranclp.rtrancl_refl)
qed

lemma transition_keeps:
  assumes "transition_owned Y i target now fs = (r, gs)" "queue_ok Y fs" "quiescent fs" "yaml_lossless Y"
  shows "keeps_items Y fs gs"
  using assms(1,2,4)
proof (cases rule: transition_owned_cases)
  case (ok w)
  then show ?thesis
    using assms(3) by (intro keeps_upd [OF ok(2) _ ok(4) _ ok(5)]) (auto intro: delete_Nil_iff)
qed (use assms keeps_refl in auto)

lemma run_each_keeps:
  assumes "run_each f ks fs = (r, gs)" "queue_ok Y fs" "quiescent fs"
    and "\<And>k fs r gs. f k fs = (r, gs) \<Longrightarrow> queue_ok Y fs \<Longrightarrow> quiescent fs \<Longrightarrow> keeps_items Y fs gs"
  shows "keeps_items Y fs gs"
  using assms(1-3)
proof (induction ks arbitrary: fs r)
  case (Cons k ks)
  obtain r1 fs1 where one: "f k fs = (r1, fs1)" by fastforce
  have first: "keeps_items Y fs fs1" by (rule assms(4) [OF one Cons.prems(2,3)])
  show ?case
  proof (cases r1)
    case (Inl e)
    with Cons.prems(1) one first show ?thesis by simp
  next
    case (Inr x)
    with Cons.prems(1) one obtain r2 where "run_each f ks fs1 = (r2, gs)"
      by (auto split: prod.splits sum.splits)
    then have "keeps_items Y fs1 gs" using Cons.IH first by (auto simp: keeps_items_def)
    with first show ?thesis by (rule keeps_trans)
  qed
qed (use keeps_refl in auto)

lemma recover_one_keeps:
  assumes "recover_one Y proc now k fs = (r, gs)" "queue_ok Y fs" "quiescent fs" "yaml_lossless Y"
  shows "keeps_items Y fs gs"
proof -
  have "gs = fs \<or> (\<exists>r'. transition_owned Y k BLOCKED_TECHNICAL now fs = (r', gs))"
    using assms(1) by (auto simp: recover_one_def split: sum.splits if_splits bool.splits prod.splits)
  then show ?thesis using transition_keeps keeps_refl assms(2-4) by metis
qed

text \<open>The operations a controller can run on the queue, whatever their outcome.\<close>

inductive queue_step :: "'doc yaml_codec \<Rightarrow> 'doc queue_fs \<Rightarrow> 'doc queue_fs \<Rightarrow> bool" for Y where
  put: "validate_work_item w = Inr w \<Longrightarrow> put Y w fs = (r, gs) \<Longrightarrow> queue_step Y fs gs"
| bind: "bind_external_evidence P Y i receipt now fs = (r, gs) \<Longrightarrow> queue_step Y fs gs"
| refresh: "refresh_blocked_from_authority Y c now fs = (r, gs) \<Longrightarrow> queue_step Y fs gs"
| transition: "transition Y i target now fs = (r, gs) \<Longrightarrow> queue_step Y fs gs"
| claim: "claim P Y i owner process fresh now secs fs = (r', gs) \<Longrightarrow> queue_step Y fs gs"
| renew: "renew Y i lid now secs fs = (r', gs) \<Longrightarrow> queue_step Y fs gs"
| recover: "recover_interrupted Y proc now fs = (r'', gs) \<Longrightarrow> queue_step Y fs gs"
| reconcile: "reconcile_transactions Y fs = (r'', gs) \<Longrightarrow> queue_step Y fs gs"

lemma queue_step_keeps:
  assumes "queue_step Y fs gs" "queue_ok Y fs" "quiescent fs" "yaml_lossless Y"
  shows "keeps_items Y fs gs"
  using assms(1)
proof cases
  case (put w r)
  note eff = put_effect [OF put(2) assms(2,4) put(1)]
  show ?thesis using eff assms(3) by (auto simp: keeps_items_def quiescent_def)
next
  case (bind P i receipt now r)
  then show ?thesis using bind_effect same_statuses_keeps assms(2-4) by blast
next
  case (refresh c now r)
  then show ?thesis using refresh_effect same_statuses_keeps assms(2-4) by blast
next
  case (transition i target now r)
  then show ?thesis using transition_keeps assms(2-4) unfolding transition_def by blast
next
  case (claim P i owner process fresh now secs r)
  from claim assms(2,4) show ?thesis
  proof (cases rule: claim_cases)
    case (fail e)
    then show ?thesis using keeps_same_entries assms(2,3) by blast
  next
    case (ok w lease)
    then have "status_step (status w) (status (moved w RUNNING now))" by (simp add: status_step_iff)
    then show ?thesis
      using ok assms(3) by (intro keeps_upd [OF ok(3) _ ok(5) _ ok(6)]) (auto intro: delete_Nil_iff)
  qed
next
  case (renew i lid now secs r)
  then have "entries gs = entries fs \<and> journals gs = journals fs"
    by (auto simp: renew_def split: sum.splits)
  then show ?thesis using keeps_same_entries assms(2,3) by blast
next
  case (recover proc now r)
  show ?thesis
  proof (cases "items Y fs [RUNNING]")
    case (Inl e)
    with recover show ?thesis
      using keeps_refl assms(2,3) by (auto simp: recover_interrupted_def recover_expired_claims_def)
  next
    case (Inr ws)
    with recover obtain r' where "run_each (recover_one Y proc now) (map work_item_id ws) fs = (r', gs)"
      by (auto simp: recover_interrupted_def recover_expired_claims_def split: sum.splits prod.splits)
    then show ?thesis using run_each_keeps recover_one_keeps assms(2-4) by metis
  qed
next
  case (reconcile r)
  then show ?thesis using keeps_refl reconcile_none assms(2,3) by (metis prod.inject)
qed

interpretation queue: status_store
  "\<lambda>fs. yaml_lossless Y \<and> queue_ok Y fs \<and> quiescent fs"
  "\<lambda>fs i. map_option status (queue_item Y fs i)" "queue_step Y" for Y
proof
  fix fs gs :: "'a queue_fs" and i a
  assume ok: "yaml_lossless Y \<and> queue_ok Y fs \<and> quiescent fs" and step: "queue_step Y fs gs"
  then have keep: "keeps_items Y fs gs" using queue_step_keeps by blast
  then show "yaml_lossless Y \<and> queue_ok Y gs \<and> quiescent gs" using ok by (simp add: keeps_items_def)
  show "\<exists>b. map_option status (queue_item Y gs i) = Some b \<and> status_step\<^sup>*\<^sup>* a b"
    if "map_option status (queue_item Y fs i) = Some a"
    using that keep by (fastforce simp: keeps_items_def)
qed

lemma initialize_ok: "queue_ok Y initialize" "quiescent initialize"
  by (simp_all add: initialize_def queue_ok_def entries_ok_def quiescent_def)

text \<open>
  C5: whatever operations run, in any order and with any outcome, the queue stays well
  formed from its initialisation on; every item it ever held it still holds, at a status
  the transition table leads to from the earlier one, and an item in a final status never
  leaves it.
\<close>

theorem queue_histories:
  assumes "yaml_lossless Y" "(queue_step Y)\<^sup>*\<^sup>* initialize fs" "(queue_step Y)\<^sup>*\<^sup>* fs gs"
  shows "queue_ok Y gs \<and>
    (\<forall>i w. queue_item Y fs i = Some w \<longrightarrow>
       (\<exists>v. queue_item Y gs i = Some v \<and> status_step\<^sup>*\<^sup>* (status w) (status v) \<and>
          (status w \<in> set terminal_statuses \<longrightarrow> status v = status w)))"
proof -
  have inv: "yaml_lossless Y \<and> queue_ok Y fs \<and> quiescent fs"
    using queue.run_inv [OF assms(2)] assms(1) initialize_ok by blast
  have "queue_ok Y gs" using queue.run_inv [OF assms(3) inv] by blast
  moreover have "\<exists>v. queue_item Y gs i = Some v \<and> status_step\<^sup>*\<^sup>* (status w) (status v) \<and>
      (status w \<in> set terminal_statuses \<longrightarrow> status v = status w)" if "queue_item Y fs i = Some w" for i w
    using queue.run_status [OF assms(3) inv, of i "status w"] queue.final_stays [OF assms(3) inv, of i "status w"] that
    by auto
  ultimately show ?thesis by blast
qed

theorem queue_histories_witness:
  "\<exists>gs. (queue_step plain_codec)\<^sup>*\<^sup>* initialize gs \<and> queue_ok plain_codec gs \<and> entries gs \<noteq> []"
proof -
  have valid: "validate_work_item (queued_item QUEUED) = Inr (queued_item QUEUED)" by code_simp
  define gs where "gs = snd (put plain_codec (queued_item QUEUED) initialize)"
  have "entries gs \<noteq> []" unfolding gs_def by code_simp
  moreover have "queue_step plain_codec initialize gs"
    using valid unfolding gs_def by (intro queue_step.put [where r = "fst (put plain_codec (queued_item QUEUED) initialize)"]) auto
  ultimately show ?thesis
    using queue_histories [OF plain_lossless rtranclp.rtrancl_refl] by blast
qed

end
