(* ===== verification/Milestones.thy ===== *)
theory Milestones
  imports Maturity "HOL-Library.AList"
begin

text \<open>
  Milestones and their runtime (\<^verbatim>\<open>tcfactory/v3/milestones.py\<close> and
  \<^verbatim>\<open>tcfactory/v3/milestone_runtime.py\<close>): the roadmap with its rule against unbounded
  completion criteria, the immutable completion evidence of work items, and the progression
  from one active milestone to the next with its write-ahead transaction. A file holds a JSON
  document under its resolved path; reading validated records back is the parameter
  \<open>record_codec\<close>.
\<close>

section \<open>The roadmap\<close>

datatype MilestoneType = TRUST | ENGINEERING | COMMERCIAL

datatype MilestoneStatus = PROPOSED | ACTIVE | WAITING_EXTERNAL | PAUSED | COMPLETED | CANCELLED

record Milestone =
  ml_id :: pystr
  ml_type :: MilestoneType
  ml_status :: MilestoneStatus
  entry_criteria :: "pystr list"
  exit_criteria :: "pystr list"
  required_evidence :: "pystr list"
  ml_forbidden_claims :: "pystr list"

text \<open>The words of a text, its maximal runs of lower-case letters and digits after \<open>lower\<close>.\<close>

fun words_of :: "pystr \<Rightarrow> pystr list" where
  "words_of [] = []"
| "words_of (c # cs) =
     (if is_lower c \<or> is_digit c
      then (case cs of
          d # _ \<Rightarrow> if is_lower d \<or> is_digit d
            then (case words_of cs of w # ws \<Rightarrow> (c # w) # ws | [] \<Rightarrow> [[c]]) else [c] # words_of cs
        | [] \<Rightarrow> [[c]])
      else words_of cs)"

definition any_word :: "pystr list \<Rightarrow> pystr list \<Rightarrow> bool" where
  "any_word vocabulary ws \<longleftrightarrow> list_ex (\<lambda>w. w \<in> set vocabulary) ws"

definition terminal_criterion :: "pystr list \<Rightarrow> bool" where
  "terminal_criterion = any_word [''complete'', ''completed'', ''done'', ''finish'', ''finished'', ''ship'', ''shipped'',
     ''delivered'', ''resolved'', ''closed'', ''ready'', ''satisfied'']"

definition universal_criterion :: "pystr list \<Rightarrow> bool" where
  "universal_criterion ws \<longleftrightarrow> any_word [''all'', ''every'', ''entire'', ''whole'', ''everything''] ws \<or>
     contains [''100'', ''percent''] ws \<or> contains [''zero'', ''remaining''] ws \<or> contains [''no'', ''remaining''] ws"

definition global_criterion :: "pystr list \<Rightarrow> bool" where
  "global_criterion = any_word [''product'', ''system'', ''roadmap'', ''repository'', ''codebase'', ''backlog'',
     ''requirement'', ''requirements'', ''feature'', ''features'']"

definition task_criterion :: "pystr list \<Rightarrow> bool" where
  "task_criterion ws \<longleftrightarrow> any_word [''task'', ''tasks''] ws \<or> contains [''work'', ''item''] ws \<or> contains [''work'', ''items''] ws"

definition whole_is_complete :: "pystr list \<Rightarrow> bool" where
  "whole_is_complete ws \<longleftrightarrow>
     list_ex (\<lambda>s. list_ex (\<lambda>v. contains [s, v] ws \<or> contains [s, ''is'', v] ws)
       [''complete'', ''completed'', ''done'', ''finished'', ''ready''])
     [''product'', ''system'', ''roadmap'', ''repository'', ''codebase'']"

definition unbounded_criterion :: "(pystr \<Rightarrow> pystr) \<Rightarrow> pystr \<Rightarrow> pystr \<Rightarrow> bool" where
  "unbounded_criterion lower milestone_id criterion \<longleftrightarrow>
     (let ws = words_of (lower criterion);
          milestone_bound = contains (join '' '' (words_of (lower milestone_id))) (join '' '' ws)
      in terminal_criterion ws \<and>
        (any_word [''everything''] ws \<or> global_criterion ws \<and> universal_criterion ws \<or>
         global_criterion ws \<and> whole_is_complete ws \<or> universal_criterion ws \<and> task_criterion ws \<and> \<not> milestone_bound))"

definition validate_milestone :: "(pystr \<Rightarrow> pystr) \<Rightarrow> Milestone \<Rightarrow> Milestone result" where
  "validate_milestone lower m =
     (if \<not> (is_milestone_id (ml_id m) \<and> exit_criteria m \<noteq> [] \<and> required_evidence m \<noteq> [])
      then Inl (ValidationError ''Milestone'')
      else raise_first [(list_ex (unbounded_criterion lower (ml_id m)) (exit_criteria m),
        ''unbounded global completion criterion is forbidden (all-product-tasks)'')] m)"

definition validate_roadmap :: "(pystr \<Rightarrow> pystr) \<Rightarrow> Milestone list \<Rightarrow> Milestone list result" where
  "validate_roadmap lower ms =
     (if ms = [] then Inl (ValidationError ''MilestoneRoadmap'')
      else rbind (traverse (validate_milestone lower) ms) (\<lambda>_.
        raise_first [(\<not> distinct (map ml_id ms), ''milestone IDs must be unique'')] ms))"

definition milestone_named :: "Milestone list \<Rightarrow> pystr \<Rightarrow> Milestone result" where
  "milestone_named ms i = (case List.find (\<lambda>m. ml_id m = i) ms of None \<Rightarrow> Inl (KeyError i) | Some m \<Rightarrow> Inr m)"

section \<open>Records of the runtime\<close>

fun milestone_status_value :: "MilestoneStatus \<Rightarrow> pystr" where
  "milestone_status_value MilestoneStatus.PROPOSED = ''PROPOSED''"
| "milestone_status_value ACTIVE = ''ACTIVE''"
| "milestone_status_value MilestoneStatus.WAITING_EXTERNAL = ''WAITING_EXTERNAL''"
| "milestone_status_value PAUSED = ''PAUSED''"
| "milestone_status_value MilestoneStatus.COMPLETED = ''COMPLETED''"
| "milestone_status_value MilestoneStatus.CANCELLED = ''CANCELLED''"

record MilestoneRuntimeState =
  active_milestone :: pystr
  statuses :: "(pystr \<times> MilestoneStatus) list"
  last_completion_digest :: "pystr option"
  ms_updated_at :: datetime

record MilestoneCompletionReceipt =
  mr_milestone_id :: pystr
  next_milestone_id :: "pystr option"
  evidence_digests :: "(pystr \<times> pystr) list"
  mr_source_authority_digest :: pystr
  commercial_authorization_digest :: "pystr option"
  mr_proposals :: "pystr list"
  mr_decision :: MilestoneStatus
  decided_at :: datetime

record MilestoneAdvanceTransaction =
  state_path :: pystr
  receipt_path :: pystr
  state_envelope :: json
  receipt_envelope :: json
  mt_created_at :: datetime

definition dump_state :: "platform \<Rightarrow> MilestoneRuntimeState \<Rightarrow> json" where
  "dump_state P s = JObj
     [(''version'', JInt 3), (''activeMilestone'', JStr (active_milestone s)),
      (''statuses'', JObj (map (\<lambda>(k, v). (k, JStr (milestone_status_value v))) (statuses s))),
      (''lastCompletionDigest'', jopt JStr (last_completion_digest s)),
      (''updatedAt'', JStr (dump_datetime P (ms_updated_at s)))]"

definition dump_receipt :: "platform \<Rightarrow> MilestoneCompletionReceipt \<Rightarrow> json" where
  "dump_receipt P r = JObj
     [(''milestoneId'', JStr (mr_milestone_id r)), (''nextMilestoneId'', jopt JStr (next_milestone_id r)),
      (''evidenceDigests'', JObj (map (\<lambda>(k, v). (k, JStr v)) (evidence_digests r))),
      (''sourceAuthorityDigest'', JStr (mr_source_authority_digest r)),
      (''commercialAuthorizationDigest'', jopt JStr (commercial_authorization_digest r)),
      (''proposals'', JList (map JStr (mr_proposals r))), (''decision'', JStr (milestone_status_value (mr_decision r))),
      (''decidedAt'', JStr (dump_datetime P (decided_at r)))]"

definition dump_transaction :: "platform \<Rightarrow> MilestoneAdvanceTransaction \<Rightarrow> json" where
  "dump_transaction P t = JObj
     [(''statePath'', JStr (state_path t)), (''receiptPath'', JStr (receipt_path t)), (''stateEnvelope'', state_envelope t),
      (''receiptEnvelope'', receipt_envelope t), (''createdAt'', JStr (dump_datetime P (mt_created_at t)))]"

text \<open>The constructor of a receipt strips its texts.\<close>

definition make_receipt :: "platform \<Rightarrow> MilestoneCompletionReceipt \<Rightarrow> MilestoneCompletionReceipt result" where
  "make_receipt P r =
     (let r1 = r\<lparr>evidence_digests := fold (\<lambda>(k, v). AList.update (strip P k) (strip P v)) (evidence_digests r) [],
            mr_source_authority_digest := strip P (mr_source_authority_digest r),
            commercial_authorization_digest := map_option (strip P) (commercial_authorization_digest r),
            mr_proposals := map (strip P) (mr_proposals r)\<rparr>
      in if is_digest (mr_source_authority_digest r1) \<and> pred_option is_digest (commercial_authorization_digest r1) \<and>
            length (mr_proposals r1) \<le> 5
         then Inr r1 else Inl (ValidationError ''MilestoneCompletionReceipt''))"

definition envelope :: "platform \<Rightarrow> json \<Rightarrow> json" where
  "envelope P payload = JObj [(''record'', payload), (''contentDigest'', JStr (digest_json P payload))]"

section \<open>Files\<close>

text \<open>
  A document is written with its keys sorted. Paths are absolute and resolved; writing
  replaces a file atomically.
\<close>

type_synonym documents = "pystr \<rightharpoonup> json"

datatype document_action = WriteDocument pystr json | UnlinkDocument pystr

fun perform_document :: "document_action \<Rightarrow> documents \<Rightarrow> documents" where
  "perform_document (WriteDocument p j) fs = fs(p \<mapsto> sort_keys j)"
| "perform_document (UnlinkDocument p) fs = fs(p := None)"

definition perform_documents :: "document_action list \<Rightarrow> documents \<Rightarrow> documents" where
  "perform_documents as fs = fold perform_document as fs"

definition path_directory :: "pystr \<Rightarrow> pystr" where
  "path_directory p = rev (dropWhile (\<lambda>c. c \<noteq> CHR ''/'') (rev p))"

definition path_name :: "pystr \<Rightarrow> pystr" where
  "path_name p = rev (takeWhile (\<lambda>c. c \<noteq> CHR ''/'') (rev p))"

definition transaction_path :: "pystr \<Rightarrow> pystr" where
  "transaction_path p = path_directory p @ ''.'' @ path_name p @ ''.advance-transaction.json''"

text \<open>\<open>receipt.relative_to(state.parent)\<close> does not raise. A directory ends with its slash here.\<close>

definition beside :: "pystr \<Rightarrow> pystr \<Rightarrow> bool" where
  "beside p receipt \<longleftrightarrow> starts_with (path_directory p) receipt \<or> receipt @ ''/'' = path_directory p"

text \<open>A record read from its envelope, when the digest is that of the record.\<close>

definition read_envelope :: "platform \<Rightarrow> (json \<Rightarrow> 'a result) \<Rightarrow> ('a \<Rightarrow> json) \<Rightarrow> string \<Rightarrow> json \<Rightarrow> 'a result" where
  "read_envelope P parse dump message raw =
     rbind (document_field raw ''record'') (\<lambda>payload. rbind (parse payload) (\<lambda>x.
     rbind (document_field raw ''contentDigest'') (\<lambda>digest.
       if digest \<noteq> JStr (digest_json P (dump x)) then Inl (ValueError message) else Inr x)))"

record record_codec =
  parse_state :: "json \<Rightarrow> MilestoneRuntimeState result"
  parse_transaction :: "json \<Rightarrow> MilestoneAdvanceTransaction result"

section \<open>The runtime\<close>

definition replay_transaction :: "pystr \<Rightarrow> MilestoneAdvanceTransaction \<Rightarrow> document_action list" where
  "replay_transaction p t = [WriteDocument (receipt_path t) (receipt_envelope t), WriteDocument p (state_envelope t),
     UnlinkDocument (transaction_path p)]"

definition reconcile_milestone_advance :: "platform \<Rightarrow> record_codec \<Rightarrow> pystr \<Rightarrow> documents \<Rightarrow> bool result \<times> documents" where
  "reconcile_milestone_advance P C p fs = (case fs (transaction_path p) of
     None \<Rightarrow> (Inr False, fs)
   | Some raw \<Rightarrow>
      (case read_envelope P (parse_transaction C) (dump_transaction P) ''milestone advance transaction digest mismatch'' raw of
         Inl e \<Rightarrow> (Inl e, fs)
       | Inr t \<Rightarrow>
           if state_path t \<noteq> p then (Inl (ValueError ''milestone advance transaction state path mismatch''), fs)
           else if \<not> beside p (receipt_path t)
           then (Inl (ValueError ''milestone advance receipt escapes runtime state root''), fs)
           else (Inr True, perform_documents (replay_transaction p t) fs)))"

definition read_state :: "platform \<Rightarrow> record_codec \<Rightarrow> json \<Rightarrow> MilestoneRuntimeState result" where
  "read_state P C = read_envelope P (parse_state C) (dump_state P) ''milestone runtime state digest mismatch''"

definition load_milestone_state :: "platform \<Rightarrow> record_codec \<Rightarrow> pystr \<Rightarrow> documents \<Rightarrow> MilestoneRuntimeState option result" where
  "load_milestone_state P C p fs = (case fs p of
     None \<Rightarrow> Inr None
   | Some raw \<Rightarrow> rbind (read_state P C raw) (\<lambda>s. Inr (Some s)))"

definition initialize_milestone_state ::
  "platform \<Rightarrow> record_codec \<Rightarrow> Milestone list \<Rightarrow> pystr \<Rightarrow> datetime \<Rightarrow> documents \<Rightarrow> MilestoneRuntimeState result \<times> documents" where
  "initialize_milestone_state P C roadmap p now fs = (case reconcile_milestone_advance P C p fs of
     (Inl e, fs1) \<Rightarrow> (Inl e, fs1)
   | (Inr _, fs1) \<Rightarrow>
      (case fs1 p of
         Some raw \<Rightarrow> (read_state P C raw, fs1)
       | None \<Rightarrow>
          (case map ml_id (filter (\<lambda>m. ml_status m = ACTIVE) roadmap) of
             [i] \<Rightarrow>
               (let s = \<lparr>active_milestone = i, statuses = fold (\<lambda>m. AList.update (ml_id m) (ml_status m)) roadmap [],
                      last_completion_digest = None, ms_updated_at = now\<rparr>
                in (Inr s, perform_document (WriteDocument p (envelope P (dump_state P s))) fs1))
           | _ \<Rightarrow> (Inl (ValueError ''milestone roadmap must have exactly one ACTIVE milestone''), fs1))))"

text \<open>The milestone after a given one in the order of the roadmap.\<close>

fun following :: "pystr \<Rightarrow> pystr list \<Rightarrow> pystr option result" where
  "following i [] = Inl (ValueError ''is not in list'')"
| "following i (k # ks) = (if k = i then Inr (case ks of [] \<Rightarrow> None | n # _ \<Rightarrow> Some n) else following i ks)"

definition active_entries :: "(pystr \<times> MilestoneStatus) list \<Rightarrow> pystr list" where
  "active_entries d = map fst (filter (\<lambda>(k, v). v = ACTIVE) d)"

definition advanced_statuses :: "MilestoneRuntimeState \<Rightarrow> pystr option \<Rightarrow> (pystr \<times> MilestoneStatus) list" where
  "advanced_statuses s next_milestone =
     (let d = AList.update (active_milestone s) MilestoneStatus.COMPLETED (statuses s)
      in case next_milestone of None \<Rightarrow> d | Some n \<Rightarrow> AList.update n ACTIVE d)"

record advance_request =
  aq_evidence_digests :: "(pystr \<times> pystr) list"
  expected_evidence_ids :: "pystr list"
  aq_source_authority_digest :: pystr
  aq_commercial_authorization_digest :: "pystr option"
  aq_proposals :: "pystr list"

definition check_advance_request :: "advance_request \<Rightarrow> unit result" where
  "check_advance_request q = raise_first
     [(aq_evidence_digests q = [], ''milestone cannot advance without work-item evidence''),
      (list_ex (\<lambda>(k, v). \<not> starts_with ''sha256:'' v) (aq_evidence_digests q), ''milestone evidence digest is invalid''),
      (set (map fst (aq_evidence_digests q)) \<noteq> set (expected_evidence_ids q),
       ''milestone evidence must bind exactly every active work item'')] ()"

text \<open>The next state and the actions that install it, from the current state.\<close>

definition plan_advance ::
  "platform \<Rightarrow> Milestone list \<Rightarrow> pystr \<Rightarrow> pystr \<Rightarrow> advance_request \<Rightarrow> datetime \<Rightarrow> MilestoneRuntimeState \<Rightarrow> documents \<Rightarrow>
   (MilestoneRuntimeState \<times> document_action list) result" where
  "plan_advance P roadmap p receipt q now s fs =
     (if map_of (statuses s) (active_milestone s) \<noteq> Some ACTIVE
      then Inl (ValueError ''milestone runtime state has no active completion target'')
      else if active_entries (statuses s) \<noteq> [active_milestone s]
      then Inl (ValueError ''milestone runtime state must have exactly one ACTIVE milestone'')
      else rbind (following (active_milestone s) (map ml_id roadmap)) (\<lambda>next_milestone.
        rbind (make_receipt P \<lparr>mr_milestone_id = active_milestone s, next_milestone_id = next_milestone,
            evidence_digests = aq_evidence_digests q, mr_source_authority_digest = aq_source_authority_digest q,
            commercial_authorization_digest = aq_commercial_authorization_digest q, mr_proposals = aq_proposals q,
            mr_decision = MilestoneStatus.COMPLETED, decided_at = now\<rparr>) (\<lambda>r.
        let d = advanced_statuses s next_milestone
        in if length (active_entries d) \<noteq> 1
           then Inl (ValueError ''milestone advance must leave exactly one ACTIVE milestone'')
           else
             (let s1 = \<lparr>active_milestone = (case next_milestone of None \<Rightarrow> active_milestone s | Some n \<Rightarrow> n), statuses = d,
                    last_completion_digest = Some (digest_json P (dump_receipt P r)), ms_updated_at = now\<rparr>;
                  t = \<lparr>state_path = p, receipt_path = receipt, state_envelope = envelope P (dump_state P s1),
                    receipt_envelope = envelope P (dump_receipt P r), mt_created_at = now\<rparr>
              in if fs receipt \<noteq> None then Inl (ValueError ''milestone completion receipt is immutable'')
                 else Inr (s1, WriteDocument (transaction_path p) (envelope P (dump_transaction P t)) # replay_transaction p t)))))"

definition advance_milestone_state ::
  "platform \<Rightarrow> record_codec \<Rightarrow> Milestone list \<Rightarrow> pystr \<Rightarrow> pystr \<Rightarrow> advance_request \<Rightarrow> datetime \<Rightarrow> documents \<Rightarrow>
   MilestoneRuntimeState result \<times> documents" where
  "advance_milestone_state P C roadmap p receipt q now fs = (case check_advance_request q of
     Inl e \<Rightarrow> (Inl e, fs)
   | Inr _ \<Rightarrow>
      (case initialize_milestone_state P C roadmap p now fs of
         (Inl e, fs1) \<Rightarrow> (Inl e, fs1)
       | (Inr s, fs1) \<Rightarrow>
          (case plan_advance P roadmap p receipt q now s fs1 of
             Inl e \<Rightarrow> (Inl e, fs1)
           | Inr (s1, actions) \<Rightarrow> (Inr s1, perform_documents actions fs1))))"

section \<open>Completion evidence of work items\<close>

datatype ExecutionEvidenceMode = SIMULATION | CONTROLLED_VALIDATION | LIVE_VALIDATION | EXTERNAL_VALIDATION

fun evidence_mode_value :: "ExecutionEvidenceMode \<Rightarrow> pystr" where
  "evidence_mode_value SIMULATION = ''SIMULATION''"
| "evidence_mode_value CONTROLLED_VALIDATION = ''CONTROLLED_VALIDATION''"
| "evidence_mode_value LIVE_VALIDATION = ''LIVE_VALIDATION''"
| "evidence_mode_value EXTERNAL_VALIDATION = ''EXTERNAL_VALIDATION''"

record WorkItemCompletionEvidence =
  we_work_item_id :: pystr
  we_milestone_id :: pystr
  we_candidate_sha :: pystr
  we_base_sha :: pystr
  we_candidate_tree_sha :: pystr
  we_source_authority_digest :: pystr
  we_evidence_mode :: ExecutionEvidenceMode
  we_checkpoint_digest :: pystr
  we_checkpoint_path :: "pystr option"
  we_candidate_manifest_digest :: "pystr option"
  we_candidate_manifest_path :: "pystr option"
  we_independent_review_artifacts :: "(pystr \<times> pystr) list"
  we_machine_policy_receipt_digest :: "pystr option"
  we_machine_policy_receipt_path :: "pystr option"
  we_release_authorization_envelope_digest :: "pystr option"
  we_release_authorization_envelope_path :: "pystr option"
  we_external_receipt_refs :: "pystr list"
  we_semantic_evidence_refs :: "(SemanticEvidence \<times> pystr list) list"
  we_semantic_artifact_bindings :: "(pystr \<times> pystr) list"
  we_created_at :: datetime

definition complete_bindings :: "WorkItemCompletionEvidence \<Rightarrow> WorkItemCompletionEvidence result" where
  "complete_bindings e =
     (if \<not> (is_git_sha (we_candidate_sha e) \<and> is_git_sha (we_base_sha e) \<and> is_git_sha (we_candidate_tree_sha e) \<and>
          is_digest (we_source_authority_digest e) \<and> is_digest (we_checkpoint_digest e) \<and>
          pred_option is_digest (we_candidate_manifest_digest e) \<and> pred_option is_digest (we_machine_policy_receipt_digest e) \<and>
          pred_option is_digest (we_release_authorization_envelope_digest e))
      then Inl (ValidationError ''WorkItemCompletionEvidence'')
      else raise_first
        [((we_candidate_manifest_path e = None) \<noteq> (we_candidate_manifest_digest e = None),
          ''candidate manifest path/digest binding is incomplete''),
         ((we_machine_policy_receipt_path e = None) \<noteq> (we_machine_policy_receipt_digest e = None),
          ''machine-policy receipt path/digest binding is incomplete''),
         ((we_release_authorization_envelope_path e = None) \<noteq> (we_release_authorization_envelope_digest e = None),
          ''release authorization envelope binding is incomplete''),
         (list_ex (\<lambda>(semantic, ds). ds = [] \<or> \<not> distinct ds \<or> list_ex (\<lambda>d. \<not> is_digest d) ds) (we_semantic_evidence_refs e),
          ''evidence digests must be nonempty, unique and valid''),
         (list_ex (\<lambda>(k, d). \<not> is_digest d) (we_semantic_artifact_bindings e),
          ''semantic artifact binding contains an invalid digest'')] e)"

definition dump_evidence :: "platform \<Rightarrow> WorkItemCompletionEvidence \<Rightarrow> json" where
  "dump_evidence P e = JObj
     [(''workItemId'', JStr (we_work_item_id e)), (''milestoneId'', JStr (we_milestone_id e)),
      (''candidateSha'', JStr (we_candidate_sha e)), (''baseSha'', JStr (we_base_sha e)),
      (''candidateTreeSha'', JStr (we_candidate_tree_sha e)), (''sourceAuthorityDigest'', JStr (we_source_authority_digest e)),
      (''evidenceMode'', JStr (evidence_mode_value (we_evidence_mode e))), (''checkpointDigest'', JStr (we_checkpoint_digest e)),
      (''checkpointPath'', jopt JStr (we_checkpoint_path e)),
      (''candidateManifestDigest'', jopt JStr (we_candidate_manifest_digest e)),
      (''candidateManifestPath'', jopt JStr (we_candidate_manifest_path e)),
      (''independentReviewArtifacts'', JObj (map (\<lambda>(k, v). (k, JStr v)) (we_independent_review_artifacts e))),
      (''machinePolicyReceiptDigest'', jopt JStr (we_machine_policy_receipt_digest e)),
      (''machinePolicyReceiptPath'', jopt JStr (we_machine_policy_receipt_path e)),
      (''releaseAuthorizationEnvelopeDigest'', jopt JStr (we_release_authorization_envelope_digest e)),
      (''releaseAuthorizationEnvelopePath'', jopt JStr (we_release_authorization_envelope_path e)),
      (''externalReceiptRefs'', JList (map JStr (we_external_receipt_refs e))),
      (''semanticEvidenceRefs'', JObj (map (\<lambda>(k, ds). (semantic_value k, JList (map JStr ds))) (we_semantic_evidence_refs e))),
      (''semanticArtifactBindings'', JObj (map (\<lambda>(k, v). (k, JStr v)) (we_semantic_artifact_bindings e))),
      (''createdAt'', JStr (dump_datetime P (we_created_at e)))]"

text \<open>
  \<open>root / name\<close>: an absolute second part replaces the folder. Documents are known by this text,
  so two names of one file would be two documents here.
\<close>

definition join_path :: "pystr \<Rightarrow> pystr \<Rightarrow> pystr" where
  "join_path folder name = (if starts_with ''/'' name then name else folder @ ''/'' @ name)"

definition write_work_item_completion_evidence ::
  "platform \<Rightarrow> pystr \<Rightarrow> WorkItemCompletionEvidence \<Rightarrow> documents \<Rightarrow> pystr result \<times> documents" where
  "write_work_item_completion_evidence P folder e fs =
     (let p = join_path folder (we_work_item_id e @ ''.json''); doc = envelope P (dump_evidence P e)
      in case fs p of
        Some observed \<Rightarrow>
          (if sort_keys observed \<noteq> sort_keys doc then Inl (ValueError ''work-item completion evidence is immutable'') else Inr p, fs)
      | None \<Rightarrow> (Inr p, perform_document (WriteDocument p doc) fs))"

definition load_work_item_completion_evidence ::
  "platform \<Rightarrow> (json \<Rightarrow> WorkItemCompletionEvidence result) \<Rightarrow> pystr \<Rightarrow> pystr \<Rightarrow> documents \<Rightarrow>
   (WorkItemCompletionEvidence \<times> pystr) option result" where
  "load_work_item_completion_evidence P parse folder i fs = (case fs (join_path folder (i @ ''.json'')) of
     None \<Rightarrow> Inr None
   | Some raw \<Rightarrow> rbind (read_envelope P parse (dump_evidence P) ''work-item completion evidence digest mismatch'' raw)
       (\<lambda>e. Inr (Some (e, digest_json P (dump_evidence P e)))))"

section \<open>Crash recovery\<close>

text \<open>
  What the runtime relies on of pydantic: a record dumped at a time \<open>now\<close>, read back after its
  keys were sorted, is the record with its dictionaries sorted. It is stated for all records and
  used only for those the runtime has validated, whose texts are stripped already.
\<close>

definition codec_roundtrip :: "platform \<Rightarrow> record_codec \<Rightarrow> datetime \<Rightarrow> bool" where
  "codec_roundtrip P C now \<longleftrightarrow>
     (\<forall>s. ms_updated_at s = now \<longrightarrow> parse_state C (sort_keys (dump_state P s)) = Inr (s\<lparr>statuses := sort_key fst (statuses s)\<rparr>)) \<and>
     (\<forall>t. mt_created_at t = now \<longrightarrow> parse_transaction C (sort_keys (dump_transaction P t)) =
        Inr (t\<lparr>state_envelope := sort_keys (state_envelope t), receipt_envelope := sort_keys (receipt_envelope t)\<rparr>))"

lemma digest_sort_keys: "digest_json P (sort_keys j) = digest_json P j"
  by (simp add: digest_json_def canonical_json_bytes_def)

lemma sort_keys_object: "sort_keys (JObj [(''record'', j), (''contentDigest'', d)]) = JObj [(''contentDigest'', sort_keys d), (''record'', sort_keys j)]"
  by code_simp

lemma path_split: "path_directory p @ path_name p = p"
  by (metis path_directory_def path_name_def rev_append rev_rev_ident takeWhile_dropWhile_id)

lemma transaction_path_neq [simp]: "transaction_path p \<noteq> p" "p \<noteq> transaction_path p"
proof -
  have "length (transaction_path p) > length (path_directory p @ path_name p)" by (simp add: transaction_path_def)
  then show "transaction_path p \<noteq> p" "p \<noteq> transaction_path p" unfolding path_split by auto
qed

lemma reconcile_clears:
  assumes "reconcile_milestone_advance P C p fs = (Inr b, gs)"
  shows "gs (transaction_path p) = None"
  using assms
  by (auto simp: reconcile_milestone_advance_def replay_transaction_def perform_documents_def
      split: option.splits sum.splits if_splits)

lemma initialize_clears:
  assumes "initialize_milestone_state P C roadmap p now fs = (Inr s, gs)"
  shows "gs (transaction_path p) = None"
proof -
  obtain b fs1 where r: "reconcile_milestone_advance P C p fs = (Inr b, fs1)"
    using assms by (auto simp: initialize_milestone_state_def split: prod.splits sum.splits)
  then show ?thesis
    using assms reconcile_clears [OF r] by (auto simp: initialize_milestone_state_def Let_def split: option.splits list.splits)
qed

lemma plan_advance_Inr:
  assumes "plan_advance P roadmap p receipt q now s fs = Inr (s1, actions)"
  obtains next_milestone r where "following (active_milestone s) (map ml_id roadmap) = Inr next_milestone"
    "map_of (statuses s) (active_milestone s) = Some ACTIVE" "active_entries (statuses s) = [active_milestone s]"
    "s1 = \<lparr>active_milestone = (case next_milestone of None \<Rightarrow> active_milestone s | Some n \<Rightarrow> n),
       statuses = advanced_statuses s next_milestone, last_completion_digest = Some (digest_json P (dump_receipt P r)), ms_updated_at = now\<rparr>"
    "length (active_entries (advanced_statuses s next_milestone)) = 1" "fs receipt = None"
    "actions = WriteDocument (transaction_path p) (envelope P (dump_transaction P \<lparr>state_path = p, receipt_path = receipt,
         state_envelope = envelope P (dump_state P s1), receipt_envelope = envelope P (dump_receipt P r), mt_created_at = now\<rparr>)) #
       replay_transaction p \<lparr>state_path = p, receipt_path = receipt, state_envelope = envelope P (dump_state P s1),
         receipt_envelope = envelope P (dump_receipt P r), mt_created_at = now\<rparr>"
  using assms by (auto simp: plan_advance_def Let_def rbind_Inr_iff split: if_splits)

lemma advance_Inr:
  assumes "advance_milestone_state P C roadmap p receipt q now fs = (Inr s1, gs)"
  obtains s fs1 actions where "initialize_milestone_state P C roadmap p now fs = (Inr s, fs1)"
    "plan_advance P roadmap p receipt q now s fs1 = Inr (s1, actions)" "gs = perform_documents actions fs1"
  using assms by (auto simp: advance_milestone_state_def split: prod.splits sum.splits)

lemma read_envelope_dumped:
  assumes "parse (sort_keys j) = Inr x" "sort_keys (dump x) = sort_keys j"
  shows "read_envelope P parse dump m (sort_keys (envelope P j)) = Inr x"
proof -
  have "digest_json P (dump x) = digest_json P j" by (simp add: digest_json_def canonical_json_bytes_def assms(2))
  then show ?thesis
    using assms(1) unfolding envelope_def sort_keys_object by (simp add: read_envelope_def document_field_def jget_def)
qed

lemma reconcile_replays:
  assumes laws: "codec_roundtrip P C (mt_created_at t)" and beside: "beside (state_path t) (receipt_path t)" and p: "p = state_path t"
    and doc: "fs (transaction_path p) = Some (sort_keys (envelope P (dump_transaction P t)))"
  shows "reconcile_milestone_advance P C p fs = (Inr True, perform_documents (replay_transaction p t) fs)"
proof -
  define t1 where "t1 = t\<lparr>state_envelope := sort_keys (state_envelope t), receipt_envelope := sort_keys (receipt_envelope t)\<rparr>"
  have "parse_transaction C (sort_keys (dump_transaction P t)) = Inr t1"
    using laws by (simp add: codec_roundtrip_def t1_def)
  moreover have "sort_keys (dump_transaction P t1) = sort_keys (dump_transaction P t)"
    by (simp add: dump_transaction_def t1_def)
  ultimately have "read_envelope P (parse_transaction C) (dump_transaction P) m (sort_keys (envelope P (dump_transaction P t))) = Inr t1" for m
    by (rule read_envelope_dumped)
  moreover have "perform_documents (replay_transaction p t1) fs = perform_documents (replay_transaction p t) fs"
    by (simp add: replay_transaction_def perform_documents_def t1_def)
  ultimately show ?thesis
    using beside doc by (simp add: reconcile_milestone_advance_def p t1_def)
qed

lemma perform_documents_simps [simp]:
  "perform_documents [] fs = fs" "perform_documents (a # as) fs = perform_documents as (perform_document a fs)"
  by (simp_all add: perform_documents_def)

text \<open>
  C4: advancing a milestone is atomic under crashes. However many of the four file actions of
  a successful advance were performed before a crash, the next reconciliation leaves the files
  as they were before it, when no action was performed, and otherwise exactly as the complete
  advance leaves them; nothing is half done and no transaction is left. The receipt is written
  beside the state file, as the controller calls it, under a name of its own.
\<close>

theorem milestone_advance_atomic:
  assumes adv: "advance_milestone_state P C roadmap p receipt q now fs = (Inr s1, gs)"
    and laws: "codec_roundtrip P C now" "beside p receipt" "receipt \<noteq> p" "receipt \<noteq> transaction_path p"
  shows "\<exists>s fs1 actions. initialize_milestone_state P C roadmap p now fs = (Inr s, fs1) \<and>
    plan_advance P roadmap p receipt q now s fs1 = Inr (s1, actions) \<and> length actions = 4 \<and>
    (\<forall>n\<le>4. reconcile_milestone_advance P C p (perform_documents (take n actions) fs1) =
       (Inr (n \<in> {1, 2, 3}), if n = 0 then fs1 else gs))"
proof -
  from adv obtain s fs1 actions where init: "initialize_milestone_state P C roadmap p now fs = (Inr s, fs1)"
    and plan: "plan_advance P roadmap p receipt q now s fs1 = Inr (s1, actions)" and gs: "gs = perform_documents actions fs1"
    by (rule advance_Inr)
  from plan obtain r t where t: "t = \<lparr>state_path = p, receipt_path = receipt, state_envelope = envelope P (dump_state P s1),
         receipt_envelope = envelope P (dump_receipt P r), mt_created_at = now\<rparr>"
    and actions: "actions = WriteDocument (transaction_path p) (envelope P (dump_transaction P t)) # replay_transaction p t"
    by (rule plan_advance_Inr) blast
  have none: "fs1 (transaction_path p) = None" by (rule initialize_clears [OF init])
  have replay: "reconcile_milestone_advance P C p hs = (Inr True, perform_documents (replay_transaction p t) hs)"
    if "hs (transaction_path p) = Some (sort_keys (envelope P (dump_transaction P t)))" for hs
    using that laws by (intro reconcile_replays) (simp_all add: t)
  have final: "gs (transaction_path p) = None" by (simp add: gs actions replay_transaction_def)
  have "reconcile_milestone_advance P C p (perform_documents (take n actions) fs1) = (Inr (n \<in> {1, 2, 3}), if n = 0 then fs1 else gs)"
    if bound: "n \<le> 4" for n
  proof -
    consider "n = 0" | "n = 1" | "n = 2" | "n = 3" | "n = 4" using bound by linarith
    then show ?thesis
    proof cases
      case 1
      then show ?thesis using none by (simp add: reconcile_milestone_advance_def)
    next
      case 5
      then have "take n actions = actions" by (simp add: actions replay_transaction_def)
      then show ?thesis using final 5 by (simp add: reconcile_milestone_advance_def gs [symmetric])
    qed (use laws in \<open>simp_all add: actions replay_transaction_def numeral_eq_Suc, simp_all add: replay gs actions
        replay_transaction_def t fun_upd_twist\<close>)
  qed
  moreover have "length actions = 4" by (simp add: actions replay_transaction_def)
  ultimately show ?thesis using init plan by blast
qed

section \<open>Progression\<close>

lemma active_entries_update:
  assumes "map_of d k = Some ACTIVE" "v \<noteq> ACTIVE"
  shows "active_entries (AList.update k v d) = remove1 k (active_entries d)"
  using assms by (induction d) (auto simp: active_entries_def split: if_splits)

lemma active_entries_activate: "n \<in> set (active_entries (AList.update n ACTIVE d))"
  by (induction d) (auto simp: active_entries_def)

lemma advanced_statuses_map:
  "map_of (advanced_statuses s (Some n)) = (map_of (statuses s))(active_milestone s \<mapsto> MilestoneStatus.COMPLETED, n \<mapsto> ACTIVE)"
  by (simp add: advanced_statuses_def update_conv')

lemma insort_map_values: "insort_key fst (k, f v) (map (\<lambda>(k, v). (k, f v)) d) = map (\<lambda>(k, v). (k, f v)) (insort_key fst (k, v) d)"
  by (induction d) auto

lemma sort_map_values: "sort_key fst (map (\<lambda>(k, v). (k, f v)) d) = map (\<lambda>(k, v). (k, f v)) (sort_key fst d)"
  by (induction d) (auto simp: insort_map_values)

lemma map_of_sorted: "distinct (map fst d) \<Longrightarrow> map_of (sort_key fst d) = map_of d"
  by (intro map_of_inject_set [THEN iffD2]) (simp_all add: distinct_map)

text \<open>
  C34: what an advance does. A successful advance starts from a state with exactly one active
  milestone, completes it, activates the one that follows it in the roadmap and changes no
  other status; again exactly that one is active, and the new state is what loading the state
  file returns.
\<close>

theorem milestone_advance_moves:
  assumes adv: "advance_milestone_state P C roadmap p receipt q now fs = (Inr s1, gs)"
    and laws: "codec_roundtrip P C now" "receipt \<noteq> p"
  shows "\<exists>s fs1 n. initialize_milestone_state P C roadmap p now fs = (Inr s, fs1) \<and>
    active_entries (statuses s) = [active_milestone s] \<and>
    following (active_milestone s) (map ml_id roadmap) = Inr (Some n) \<and> active_milestone s1 = n \<and>
    active_entries (statuses s1) = [n] \<and>
    map_of (statuses s1) = (map_of (statuses s))(active_milestone s \<mapsto> MilestoneStatus.COMPLETED, n \<mapsto> ACTIVE) \<and>
    load_milestone_state P C p gs = Inr (Some (s1\<lparr>statuses := sort_key fst (statuses s1)\<rparr>))"
proof -
  from adv obtain s fs1 actions where init: "initialize_milestone_state P C roadmap p now fs = (Inr s, fs1)"
    and plan: "plan_advance P roadmap p receipt q now s fs1 = Inr (s1, actions)" and gs: "gs = perform_documents actions fs1"
    by (rule advance_Inr)
  from plan obtain next_milestone r where f: "following (active_milestone s) (map ml_id roadmap) = Inr next_milestone"
    and act: "map_of (statuses s) (active_milestone s) = Some ACTIVE" "active_entries (statuses s) = [active_milestone s]"
    and s1: "s1 = \<lparr>active_milestone = (case next_milestone of None \<Rightarrow> active_milestone s | Some n \<Rightarrow> n),
       statuses = advanced_statuses s next_milestone, last_completion_digest = Some (digest_json P (dump_receipt P r)), ms_updated_at = now\<rparr>"
    and one: "length (active_entries (advanced_statuses s next_milestone)) = 1"
    and actions: "actions = WriteDocument (transaction_path p) (envelope P (dump_transaction P \<lparr>state_path = p, receipt_path = receipt,
         state_envelope = envelope P (dump_state P s1), receipt_envelope = envelope P (dump_receipt P r), mt_created_at = now\<rparr>)) #
       replay_transaction p \<lparr>state_path = p, receipt_path = receipt, state_envelope = envelope P (dump_state P s1),
         receipt_envelope = envelope P (dump_receipt P r), mt_created_at = now\<rparr>"
    by (rule plan_advance_Inr)
  have "active_entries (AList.update (active_milestone s) MilestoneStatus.COMPLETED (statuses s)) = []"
    using active_entries_update [OF act(1), of MilestoneStatus.COMPLETED] act(2) by simp
  then obtain n where n: "next_milestone = Some n" using one by (cases next_milestone) (auto simp: advanced_statuses_def)
  have "n \<in> set (active_entries (statuses s1))"
    by (simp add: s1 n advanced_statuses_def active_entries_activate)
  then have "active_entries (statuses s1) = [n]" using one by (auto simp: s1 n length_Suc_conv)
  moreover have "gs p = Some (sort_keys (envelope P (dump_state P s1)))"
    using laws(2) by (simp add: gs actions replay_transaction_def)
  moreover have "read_state P C (sort_keys (envelope P (dump_state P s1))) = Inr (s1\<lparr>statuses := sort_key fst (statuses s1)\<rparr>)"
    unfolding read_state_def
  proof (rule read_envelope_dumped)
    show "parse_state C (sort_keys (dump_state P s1)) = Inr (s1\<lparr>statuses := sort_key fst (statuses s1)\<rparr>)"
      using laws(1) by (simp add: codec_roundtrip_def s1)
    have "sort_keys (JObj (map (\<lambda>(k, v). (k, JStr (milestone_status_value v))) (sort_key fst d))) =
        sort_keys (JObj (map (\<lambda>(k, v). (k, JStr (milestone_status_value v))) d))" for d
      by (simp add: sort_map_values case_prod_beta comp_def del: map_map) (simp add: sort_map_values [symmetric] case_prod_beta comp_def sort_key_id_if_sorted)
    then show "sort_keys (dump_state P (s1\<lparr>statuses := sort_key fst (statuses s1)\<rparr>)) = sort_keys (dump_state P s1)"
      by (simp add: dump_state_def)
  qed
  ultimately show ?thesis
    using init act f n by (auto simp: s1 advanced_statuses_map load_milestone_state_def)
qed

text \<open>
  C36: the last milestone cannot be completed. When no milestone follows the active one in the
  roadmap, every advance raises and leaves the files as they were or as the initialisation, which every
  advance begins with, left them, whatever evidence it is given.
\<close>

theorem final_milestone_never_completes:
  assumes init: "initialize_milestone_state P C roadmap p now fs = (Inr s, fs1)"
    and last: "following (active_milestone s) (map ml_id roadmap) = Inr None"
  shows "\<exists>e hs. advance_milestone_state P C roadmap p receipt q now fs = (Inl e, hs) \<and> hs \<in> {fs, fs1}"
proof -
  have "plan_advance P roadmap p receipt q now s fs1 \<noteq> Inr (s1, actions)" for s1 actions
  proof
    assume "plan_advance P roadmap p receipt q now s fs1 = Inr (s1, actions)"
    then obtain r where "map_of (statuses s) (active_milestone s) = Some ACTIVE" "active_entries (statuses s) = [active_milestone s]"
      "length (active_entries (advanced_statuses s None)) = 1"
      by (rule plan_advance_Inr) (use last in auto)
    then show False
      using active_entries_update [of "statuses s" "active_milestone s" MilestoneStatus.COMPLETED] by (simp add: advanced_statuses_def)
  qed
  then obtain e where "plan_advance P roadmap p receipt q now s fs1 = Inl e"
    by (cases "plan_advance P roadmap p receipt q now s fs1") auto
  then show ?thesis using init by (auto simp: advance_milestone_state_def split: sum.split)
qed

section \<open>Evidence is immutable\<close>

definition write_evidences :: "platform \<Rightarrow> pystr \<Rightarrow> WorkItemCompletionEvidence list \<Rightarrow> documents \<Rightarrow> documents" where
  "write_evidences P folder es fs = fold (\<lambda>e fs. snd (write_work_item_completion_evidence P folder e fs)) es fs"

lemma write_evidence_extends: "fs \<subseteq>\<^sub>m snd (write_work_item_completion_evidence P folder e fs)"
  by (auto simp: write_work_item_completion_evidence_def Let_def map_le_def split: option.split)

lemma write_evidences_extend: "fs \<subseteq>\<^sub>m write_evidences P folder es fs"
proof (induction es arbitrary: fs)
  case (Cons e es)
  then show ?case
    using map_le_trans [OF write_evidence_extends [of fs P folder e]] by (simp add: write_evidences_def)
qed (simp add: write_evidences_def)

text \<open>
  C35: completion evidence is immutable. Once evidence of a work item was written, it is what
  loading that work item returns after any further sequence of writes of whatever evidence,
  and writing different evidence of the same work item raises and changes nothing.
\<close>

theorem completion_evidence_immutable:
  assumes wrote: "write_work_item_completion_evidence P folder e fs = (Inr p, gs)"
    and files: "\<forall>j. fs p = Some j \<longrightarrow> sort_keys j = j"
    and codec: "parse (sort_keys (dump_evidence P e)) = Inr e1" "sort_keys (dump_evidence P e1) = sort_keys (dump_evidence P e)"
  shows "load_work_item_completion_evidence P parse folder (we_work_item_id e) (write_evidences P folder es gs) =
      Inr (Some (e1, digest_json P (dump_evidence P e))) \<and>
    (\<forall>e2. we_work_item_id e2 = we_work_item_id e \<longrightarrow> sort_keys (dump_evidence P e2) \<noteq> sort_keys (dump_evidence P e) \<longrightarrow>
      write_work_item_completion_evidence P folder e2 (write_evidences P folder es gs) =
      (Inl (ValueError ''work-item completion evidence is immutable''), write_evidences P folder es gs))"
proof -
  have p: "p = join_path folder (we_work_item_id e @ ''.json'')"
    and "gs p = Some (sort_keys (envelope P (dump_evidence P e)))"
    using wrote files by (auto simp: write_work_item_completion_evidence_def Let_def split: option.splits if_splits)
  then have doc: "write_evidences P folder es gs p = Some (sort_keys (envelope P (dump_evidence P e)))"
    using write_evidences_extend [of gs P folder es] by (auto simp: map_le_def dom_def)
  have "digest_json P (dump_evidence P e1) = digest_json P (dump_evidence P e)"
    by (simp add: digest_json_def canonical_json_bytes_def codec(2))
  then have "load_work_item_completion_evidence P parse folder (we_work_item_id e) (write_evidences P folder es gs) =
      Inr (Some (e1, digest_json P (dump_evidence P e)))"
    using doc read_envelope_dumped [where parse = parse and dump = "dump_evidence P", OF codec]
    by (simp add: load_work_item_completion_evidence_def p [symmetric] rbind_def)
  moreover have "write_work_item_completion_evidence P folder e2 (write_evidences P folder es gs) =
      (Inl (ValueError ''work-item completion evidence is immutable''), write_evidences P folder es gs)"
    if "we_work_item_id e2 = we_work_item_id e" "sort_keys (dump_evidence P e2) \<noteq> sort_keys (dump_evidence P e)" for e2
  proof -
    have "sort_keys (envelope P (dump_evidence P e)) \<noteq> sort_keys (envelope P (dump_evidence P e2))"
      using that(2) unfolding envelope_def sort_keys_object by simp
    then show ?thesis
      using doc by (simp add: write_work_item_completion_evidence_def that(1) p [symmetric] Let_def)
  qed
  ultimately show ?thesis by blast
qed

section \<open>A sample roadmap\<close>

definition status_of_json :: "json \<Rightarrow> MilestoneStatus" where
  "status_of_json j = (if j = JStr ''ACTIVE'' then ACTIVE else if j = JStr ''COMPLETED'' then MilestoneStatus.COMPLETED
     else if j = JStr ''WAITING_EXTERNAL'' then MilestoneStatus.WAITING_EXTERNAL else if j = JStr ''PAUSED'' then PAUSED
     else if j = JStr ''CANCELLED'' then MilestoneStatus.CANCELLED else MilestoneStatus.PROPOSED)"

lemma status_of_json_value [simp]: "status_of_json (JStr (milestone_status_value v)) = v"
  by (cases v) (simp_all add: status_of_json_def)

definition text_of :: "json option \<Rightarrow> pystr" where
  "text_of j = (case j of Some (JStr s) \<Rightarrow> s | _ \<Rightarrow> [])"

definition sample_record_codec :: "datetime \<Rightarrow> record_codec" where
  "sample_record_codec now = \<lparr>
     parse_state = (\<lambda>j. case j of
       JObj d \<Rightarrow> Inr \<lparr>active_milestone = text_of (jget d ''activeMilestone''),
         statuses = (case jget d ''statuses'' of Some (JObj kvs) \<Rightarrow> map (\<lambda>(k, v). (k, status_of_json v)) kvs | _ \<Rightarrow> []),
         last_completion_digest = (case jget d ''lastCompletionDigest'' of Some (JStr x) \<Rightarrow> Some x | _ \<Rightarrow> None),
         ms_updated_at = now\<rparr>
     | _ \<Rightarrow> Inl (ValidationError ''MilestoneRuntimeState'')),
     parse_transaction = (\<lambda>j. case j of
       JObj d \<Rightarrow> Inr \<lparr>state_path = text_of (jget d ''statePath''), receipt_path = text_of (jget d ''receiptPath''),
         state_envelope = the (jget d ''stateEnvelope''), receipt_envelope = the (jget d ''receiptEnvelope''), mt_created_at = now\<rparr>
     | _ \<Rightarrow> Inl (ValidationError ''MilestoneAdvanceTransaction''))\<rparr>"

lemma sample_record_codec_roundtrip: "codec_roundtrip P (sample_record_codec now) now"
proof -
  have *: "map (\<lambda>(k, v). (k, status_of_json v)) (sort_key fst (map (\<lambda>(k, v). (k, sort_keys v))
      (map (\<lambda>(k, v). (k, JStr (milestone_status_value v))) d))) = sort_key fst d" for d
    by (simp add: sort_map_values case_prod_beta comp_def del: map_map) (simp add: comp_def case_prod_beta)
  have "parse_state (sample_record_codec now) (sort_keys (dump_state P s)) = Inr (s\<lparr>statuses := sort_key fst (statuses s)\<rparr>)"
    if "ms_updated_at s = now" for s
    using that *
    by (cases s) (auto simp: sample_record_codec_def dump_state_def jget_def text_of_def jopt_def split: option.split)
  moreover have "parse_transaction (sample_record_codec now) (sort_keys (dump_transaction P t)) =
      Inr (t\<lparr>state_envelope := sort_keys (state_envelope t), receipt_envelope := sort_keys (receipt_envelope t)\<rparr>)"
    if "mt_created_at t = now" for t
    using that by (cases t) (simp add: sample_record_codec_def dump_transaction_def jget_def text_of_def)
  ultimately show ?thesis by (simp add: codec_roundtrip_def)
qed

definition sample_roadmap :: "Milestone list" where
  "sample_roadmap = map (\<lambda>(i, st). \<lparr>ml_id = i, ml_type = ENGINEERING, ml_status = st, entry_criteria = [], exit_criteria = [''shown''],
     required_evidence = [''receipt''], ml_forbidden_claims = []\<rparr>) [(''M0_A'', ACTIVE), (''M1_B'', MilestoneStatus.PROPOSED)]"

definition evidence_digest0 :: pystr where
  "evidence_digest0 = ''sha256:'' @ replicate 64 CHR ''0''"

definition sample_advance :: advance_request where
  "sample_advance = \<lparr>aq_evidence_digests = [(''V3-A-001'', evidence_digest0)], expected_evidence_ids = [''V3-A-001''],
     aq_source_authority_digest = evidence_digest0, aq_commercial_authorization_digest = None, aq_proposals = []\<rparr>"

abbreviation sample_advance_run where
  "sample_advance_run \<equiv> advance_milestone_state sample_platform (sample_record_codec (Datetime 0 (Some 0))) sample_roadmap ''/s/state.json''
     ''/s/r.json'' sample_advance (Datetime 0 (Some 0)) Map.empty"

lemma sample_advance_succeeds: "\<exists>s gs. sample_advance_run = (Inr s, gs)"
proof -
  have "is_digest evidence_digest0" "starts_with ''sha256:'' evidence_digest0" by code_simp+
  then show ?thesis
    by (simp add: advance_milestone_state_def check_advance_request_def sample_advance_def raise_first_def
        initialize_milestone_state_def reconcile_milestone_advance_def sample_roadmap_def plan_advance_def make_receipt_def
        sample_platform_def Let_def active_entries_def advanced_statuses_def)
qed

theorem milestone_advance_atomic_witness:
  "\<exists>s gs fs1 actions. sample_advance_run = (Inr s, gs) \<and> length actions = 4 \<and>
     (\<forall>n\<in>{1, 2, 3, 4}. snd (reconcile_milestone_advance sample_platform (sample_record_codec (Datetime 0 (Some 0))) ''/s/state.json''
        (perform_documents (take n actions) fs1)) = gs)"
proof -
  obtain s gs where run: "sample_advance_run = (Inr s, gs)" using sample_advance_succeeds by blast
  have paths: "beside ''/s/state.json'' ''/s/r.json''" "''/s/r.json'' \<noteq> ''/s/state.json''"
    "''/s/r.json'' \<noteq> transaction_path ''/s/state.json''" by code_simp+
  from milestone_advance_atomic [OF run sample_record_codec_roundtrip paths] obtain fs1 actions where len: "length actions = 4"
    and crash: "\<forall>n\<le>4. reconcile_milestone_advance sample_platform (sample_record_codec (Datetime 0 (Some 0))) ''/s/state.json''
       (perform_documents (take n actions) fs1) = (Inr (n \<in> {1, 2, 3}), if n = 0 then fs1 else gs)" by blast
  have "\<forall>n\<in>{1, 2, 3, 4}. snd (reconcile_milestone_advance sample_platform (sample_record_codec (Datetime 0 (Some 0))) ''/s/state.json''
      (perform_documents (take n actions) fs1)) = gs"
  proof
    fix n :: nat assume "n \<in> {1, 2, 3, 4}"
    then have "n \<le> 4" "n \<noteq> 0" by auto
    then show "snd (reconcile_milestone_advance sample_platform (sample_record_codec (Datetime 0 (Some 0))) ''/s/state.json''
      (perform_documents (take n actions) fs1)) = gs" using crash by simp
  qed
  then show ?thesis using run len by blast
qed

theorem milestone_advance_moves_witness:
  "\<exists>s gs. sample_advance_run = (Inr s, gs) \<and> active_entries (statuses s) = [active_milestone s]"
proof -
  obtain s gs where run: "sample_advance_run = (Inr s, gs)" using sample_advance_succeeds by blast
  show ?thesis using run milestone_advance_moves [OF run sample_record_codec_roundtrip] by auto
qed

theorem final_milestone_never_completes_witness:
  "\<exists>e hs. advance_milestone_state sample_platform (sample_record_codec (Datetime 0 (Some 0))) [hd sample_roadmap] ''/s/state.json''
     ''/s/r.json'' sample_advance (Datetime 0 (Some 0)) Map.empty = (Inl e, hs)"
proof -
  have "\<exists>s fs1. initialize_milestone_state sample_platform (sample_record_codec (Datetime 0 (Some 0))) [hd sample_roadmap] ''/s/state.json''
      (Datetime 0 (Some 0)) Map.empty = (Inr s, fs1) \<and> following (active_milestone s) (map ml_id [hd sample_roadmap]) = Inr None"
    by (simp add: initialize_milestone_state_def reconcile_milestone_advance_def sample_roadmap_def Let_def)
  then show ?thesis using final_milestone_never_completes by blast
qed

definition sample_evidence :: WorkItemCompletionEvidence where
  "sample_evidence = \<lparr>we_work_item_id = ''V3-A-001'', we_milestone_id = ''M0_A'', we_candidate_sha = replicate 40 CHR ''0'',
     we_base_sha = replicate 40 CHR ''0'', we_candidate_tree_sha = replicate 40 CHR ''0'',
     we_source_authority_digest = evidence_digest0, we_evidence_mode = LIVE_VALIDATION, we_checkpoint_digest = evidence_digest0,
     we_checkpoint_path = None, we_candidate_manifest_digest = None, we_candidate_manifest_path = None,
     we_independent_review_artifacts = [], we_machine_policy_receipt_digest = None, we_machine_policy_receipt_path = None,
     we_release_authorization_envelope_digest = None, we_release_authorization_envelope_path = None,
     we_external_receipt_refs = [''R-1''], we_semantic_evidence_refs = [], we_semantic_artifact_bindings = [],
     we_created_at = Datetime 0 (Some 0)\<rparr>"

theorem completion_evidence_immutable_witness:
  "\<exists>gs. write_work_item_completion_evidence sample_platform ''/e'' sample_evidence Map.empty = (Inr ''/e/V3-A-001.json'', gs) \<and>
     load_work_item_completion_evidence sample_platform (\<lambda>_. Inr sample_evidence) ''/e'' ''V3-A-001''
       (write_evidences sample_platform ''/e'' [sample_evidence\<lparr>we_milestone_id := ''M1_B''\<rparr>] gs) =
     Inr (Some (sample_evidence, digest_json sample_platform (dump_evidence sample_platform sample_evidence)))"
proof -
  have path: "join_path ''/e'' (we_work_item_id sample_evidence @ ''.json'') = ''/e/V3-A-001.json''" by code_simp
  then have wrote: "write_work_item_completion_evidence sample_platform ''/e'' sample_evidence Map.empty = (Inr ''/e/V3-A-001.json'',
      perform_document (WriteDocument ''/e/V3-A-001.json'' (envelope sample_platform (dump_evidence sample_platform sample_evidence))) Map.empty)"
    by (simp add: write_work_item_completion_evidence_def Let_def)
  have "we_work_item_id sample_evidence = ''V3-A-001''" by (simp add: sample_evidence_def)
  then show ?thesis
    using wrote completion_evidence_immutable [OF wrote, where parse = "\<lambda>_. Inr sample_evidence" and ?e1.0 = sample_evidence
        and es = "[sample_evidence\<lparr>we_milestone_id := ''M1_B''\<rparr>]"] by simp
qed

end
