(* ===== verification/V31_Contracts.thy ===== *)
theory V31_Contracts
  imports Maturity
begin

text \<open>
  The V3.1 contracts of \<^verbatim>\<open>tcfactory/v3/contracts_v31.py\<close> that the policy gates and the external
  actions rest on: their vocabularies, the machine-policy receipt and its revocation list,
  source freshness receipts, native benchmarks and decision-value results, each with its
  validators and the JSON it is dumped to. All texts are stripped before they are validated;
  a record here holds the stripped texts.
\<close>

section \<open>Vocabularies\<close>

datatype FreshnessState = FRESH | STALE | RECHECK_REQUIRED | UNKNOWN

datatype NativeSubstituteDisposition = NATIVE_SUFFICIENT | INCREMENTAL_VALUE | NOT_COMPARABLE | UNKNOWN

datatype DecisionValueDisposition = NATIVE_WORKFLOW_SUFFICIENT | NO_INCREMENTAL_DECISION_VALUE
  | TECHNICALLY_VALID_BUT_NOT_ECONOMIC | INCREMENTAL_DECISION_VALUE_DEMONSTRATED | EXTERNAL_EVIDENCE_REQUIRED | UNKNOWN

datatype TechnicalState = NOT_EVALUATED | FAILED | PASSED

datatype EpistemicState = UNKNOWN | CONTROLLED | EXTERNALLY_VERIFIED

datatype ValueState = NOT_EVALUATED | REJECTED | NATIVE_SUFFICIENT | INCREMENTAL_VALUE

datatype CommercialState = NOT_EVALUATED | NATIVE_ADVANTAGE_UNPROVEN | PILOT_ELIGIBLE | COMMERCIALLY_SUPPORTED | WITHDRAWN

datatype PolicyDecision = PASS | DENY | UNKNOWN

datatype GateResult = PASS | FAIL | UNKNOWN

fun freshness_value :: "FreshnessState \<Rightarrow> pystr" where
  "freshness_value FRESH = ''FRESH''"
| "freshness_value STALE = ''STALE''"
| "freshness_value RECHECK_REQUIRED = ''RECHECK_REQUIRED''"
| "freshness_value FreshnessState.UNKNOWN = ''UNKNOWN''"

fun native_disposition_value :: "NativeSubstituteDisposition \<Rightarrow> pystr" where
  "native_disposition_value NativeSubstituteDisposition.NATIVE_SUFFICIENT = ''NATIVE_SUFFICIENT''"
| "native_disposition_value NativeSubstituteDisposition.INCREMENTAL_VALUE = ''INCREMENTAL_VALUE''"
| "native_disposition_value NOT_COMPARABLE = ''NOT_COMPARABLE''"
| "native_disposition_value NativeSubstituteDisposition.UNKNOWN = ''UNKNOWN''"

fun value_disposition_value :: "DecisionValueDisposition \<Rightarrow> pystr" where
  "value_disposition_value NATIVE_WORKFLOW_SUFFICIENT = ''NATIVE_WORKFLOW_SUFFICIENT''"
| "value_disposition_value NO_INCREMENTAL_DECISION_VALUE = ''NO_INCREMENTAL_DECISION_VALUE''"
| "value_disposition_value TECHNICALLY_VALID_BUT_NOT_ECONOMIC = ''TECHNICALLY_VALID_BUT_NOT_ECONOMIC''"
| "value_disposition_value INCREMENTAL_DECISION_VALUE_DEMONSTRATED = ''INCREMENTAL_DECISION_VALUE_DEMONSTRATED''"
| "value_disposition_value EXTERNAL_EVIDENCE_REQUIRED = ''EXTERNAL_EVIDENCE_REQUIRED''"
| "value_disposition_value DecisionValueDisposition.UNKNOWN = ''UNKNOWN''"

fun technical_state_value :: "TechnicalState \<Rightarrow> pystr" where
  "technical_state_value TechnicalState.NOT_EVALUATED = ''NOT_EVALUATED''"
| "technical_state_value TechnicalState.FAILED = ''FAILED''"
| "technical_state_value PASSED = ''PASSED''"

fun epistemic_value :: "EpistemicState \<Rightarrow> pystr" where
  "epistemic_value EpistemicState.UNKNOWN = ''UNKNOWN''"
| "epistemic_value EpistemicState.CONTROLLED = ''CONTROLLED''"
| "epistemic_value EXTERNALLY_VERIFIED = ''EXTERNALLY_VERIFIED''"

fun value_state_value :: "ValueState \<Rightarrow> pystr" where
  "value_state_value ValueState.NOT_EVALUATED = ''NOT_EVALUATED''"
| "value_state_value REJECTED = ''REJECTED''"
| "value_state_value ValueState.NATIVE_SUFFICIENT = ''NATIVE_SUFFICIENT''"
| "value_state_value ValueState.INCREMENTAL_VALUE = ''INCREMENTAL_VALUE''"

fun commercial_value :: "CommercialState \<Rightarrow> pystr" where
  "commercial_value CommercialState.NOT_EVALUATED = ''NOT_EVALUATED''"
| "commercial_value CommercialState.NATIVE_ADVANTAGE_UNPROVEN = ''NATIVE_ADVANTAGE_UNPROVEN''"
| "commercial_value PILOT_ELIGIBLE = ''PILOT_ELIGIBLE''"
| "commercial_value CommercialState.COMMERCIALLY_SUPPORTED = ''COMMERCIALLY_SUPPORTED''"
| "commercial_value CommercialState.WITHDRAWN = ''WITHDRAWN''"

fun policy_decision_value :: "PolicyDecision \<Rightarrow> pystr" where
  "policy_decision_value PolicyDecision.PASS = ''PASS''"
| "policy_decision_value DENY = ''DENY''"
| "policy_decision_value PolicyDecision.UNKNOWN = ''UNKNOWN''"

fun gate_result_value :: "GateResult \<Rightarrow> pystr" where
  "gate_result_value GateResult.PASS = ''PASS''"
| "gate_result_value GateResult.FAIL = ''FAIL''"
| "gate_result_value GateResult.UNKNOWN = ''UNKNOWN''"

fun risk_value :: "RiskTier \<Rightarrow> pystr" where
  "risk_value MECHANICAL = ''MECHANICAL''"
| "risk_value STANDARD = ''STANDARD''"
| "risk_value INTEGRATION = ''INTEGRATION''"
| "risk_value TRUST_CORE = ''TRUST_CORE''"
| "risk_value RiskTier.EXTERNAL = ''EXTERNAL''"

section \<open>Constrained texts\<close>

text \<open>\<^verbatim>\<open>^[A-Z0-9][A-Z0-9._:-]{2,127}$\<close> and its lower-case form for source generations.\<close>

definition is_v31_identifier :: "pystr \<Rightarrow> bool" where
  "is_v31_identifier s \<longleftrightarrow> 3 \<le> length s \<and> length s \<le> 128 \<and> (is_upper (hd s) \<or> is_digit (hd s)) \<and>
     list_all (\<lambda>c. is_upper c \<or> is_digit c \<or> c \<in> {CHR ''.'', CHR ''_'', CHR '':'', CHR ''-''}) (tl s)"

definition is_source_generation :: "pystr \<Rightarrow> bool" where
  "is_source_generation s \<longleftrightarrow> 3 \<le> length s \<and> length s \<le> 128 \<and> (is_lower (hd s) \<or> is_digit (hd s)) \<and>
     list_all (\<lambda>c. is_lower c \<or> is_digit c \<or> c \<in> {CHR ''.'', CHR ''_'', CHR '':'', CHR ''-''}) (tl s)"

text \<open>\<^verbatim>\<open>^[^/].*$\<close> with at most 512 characters; the dot does not match a line feed.\<close>

definition is_relative_path :: "pystr \<Rightarrow> bool" where
  "is_relative_path s \<longleftrightarrow> s \<noteq> [] \<and> py_len s \<le> 512 \<and> hd s \<noteq> CHR ''/'' \<and> CHR 0x0A \<notin> set (tl s)"

definition sized :: "int \<Rightarrow> int \<Rightarrow> pystr \<Rightarrow> bool" where
  "sized a b s \<longleftrightarrow> a \<le> int (py_len s) \<and> int (py_len s) \<le> b"

definition counted :: "int \<Rightarrow> int \<Rightarrow> 'a list \<Rightarrow> bool" where
  "counted a b xs \<longleftrightarrow> a \<le> int (length xs) \<and> int (length xs) \<le> b"

definition require_forward_time :: "datetime \<Rightarrow> datetime \<Rightarrow> int \<Rightarrow> unit result" where
  "require_forward_time issued expires maximum_seconds =
     (if instant expires \<le> instant issued \<or> instant expires - instant issued > maximum_seconds * 1000000
      then Inl (ValueError ''expiry must be positive and bounded'') else Inr ())"

definition require_unique :: "pystr list \<Rightarrow> string \<Rightarrow> unit result" where
  "require_unique vs label = (if distinct vs then Inr () else Inl (ValueError (label @ '' must be unique'')))"

fun require_all_unique :: "(pystr list \<times> string) list \<Rightarrow> unit result" where
  "require_all_unique [] = Inr ()"
| "require_all_unique ((vs, label) # rest) = rbind (require_unique vs label) (\<lambda>_. require_all_unique rest)"

definition require_relative_path :: "pystr \<Rightarrow> unit result" where
  "require_relative_path v =
     (if CHR 0x5C \<in> set v \<or> list_ex (\<lambda>part. part \<in> {[], ''.'', ''..''}) (split_on CHR ''/'' v)
      then Inl (ValueError ''path must be a normalized repository-relative POSIX path'') else Inr ())"

section \<open>The machine-policy receipt\<close>

record MachinePolicyReceiptV31 =
  pr_receipt_id :: pystr
  pr_policy_id :: pystr
  pr_policy_version :: pystr
  pr_issuer_id :: pystr
  pr_issuer_key_id :: pystr
  pr_issued_at :: datetime
  pr_expires_at :: datetime
  pr_revocation_epoch :: int
  pr_nonce :: pystr
  pr_request_digest :: pystr
  pr_work_item_id :: pystr
  pr_milestone_id :: pystr
  pr_lane :: Lane
  pr_risk_tier :: RiskTier
  pr_candidate_sha :: pystr
  pr_candidate_tree_sha :: pystr
  pr_base_sha :: pystr
  pr_source_generation_id :: pystr
  pr_source_generation_digest :: pystr
  pr_context_manifest_digest :: pystr
  pr_task_packet_digest :: pystr
  pr_candidate_manifest_digest :: pystr
  pr_checkpoint_digest :: pystr
  pr_required_gate_results :: "(pystr \<times> GateResult) list"
  pr_private_gate_suite_id :: pystr
  pr_private_gate_runner_digest :: pystr
  pr_independent_oracle_ids :: "pystr list"
  pr_raw_evidence_artifact_hashes :: "pystr list"
  pr_native_substitute_disposition :: NativeSubstituteDisposition
  pr_decision_value_disposition :: DecisionValueDisposition
  pr_engineering_maturity_ceiling :: TechnicalState
  pr_commercial_maturity_ceiling :: CommercialState
  pr_allowed_claims :: "pystr list"
  pr_forbidden_claims :: "pystr list"
  pr_publication_scope :: "pystr list"
  pr_decision :: PolicyDecision
  pr_signature_algorithm :: pystr
  pr_signature :: pystr

definition policy_receipt_fields_ok :: "MachinePolicyReceiptV31 \<Rightarrow> bool" where
  "policy_receipt_fields_ok r \<longleftrightarrow>
     list_all is_v31_identifier [pr_receipt_id r, pr_policy_id r, pr_issuer_id r, pr_issuer_key_id r, pr_private_gate_suite_id r] \<and>
     sized 1 64 (pr_policy_version r) \<and> is_aware (pr_issued_at r) \<and> is_aware (pr_expires_at r) \<and> pr_revocation_epoch r \<ge> 1 \<and>
     sized 16 256 (pr_nonce r) \<and> is_work_item_id (pr_work_item_id r) \<and> is_milestone_id (pr_milestone_id r) \<and>
     list_all is_git_sha [pr_candidate_sha r, pr_candidate_tree_sha r, pr_base_sha r] \<and>
     is_source_generation (pr_source_generation_id r) \<and>
     list_all is_digest [pr_request_digest r, pr_source_generation_digest r, pr_context_manifest_digest r,
       pr_task_packet_digest r, pr_candidate_manifest_digest r, pr_checkpoint_digest r, pr_private_gate_runner_digest r] \<and>
     counted 1 64 (pr_required_gate_results r) \<and> list_all (is_v31_identifier \<circ> fst) (pr_required_gate_results r) \<and>
     counted 1 32 (pr_independent_oracle_ids r) \<and> list_all is_v31_identifier (pr_independent_oracle_ids r) \<and>
     counted 1 128 (pr_raw_evidence_artifact_hashes r) \<and> list_all is_digest (pr_raw_evidence_artifact_hashes r) \<and>
     counted 1 64 (pr_allowed_claims r) \<and> list_all is_v31_identifier (pr_allowed_claims r) \<and>
     counted 0 64 (pr_forbidden_claims r) \<and> list_all is_v31_identifier (pr_forbidden_claims r) \<and>
     counted 1 64 (pr_publication_scope r) \<and> list_all is_relative_path (pr_publication_scope r) \<and>
     pr_signature_algorithm r = ''ed25519'' \<and> sized 32 1024 (pr_signature r)"

definition validate_policy_receipt :: "MachinePolicyReceiptV31 \<Rightarrow> MachinePolicyReceiptV31 result" where
  "validate_policy_receipt r =
     (if \<not> policy_receipt_fields_ok r then Inl (ValidationError ''MachinePolicyReceiptV31'')
      else rbind (require_forward_time (pr_issued_at r) (pr_expires_at r) 86400) (\<lambda>_.
        rbind (require_all_unique
          [(pr_independent_oracle_ids r, ''independent oracle IDs''), (pr_raw_evidence_artifact_hashes r, ''raw evidence hashes''),
           (pr_allowed_claims r, ''allowed claims''), (pr_forbidden_claims r, ''forbidden claims''),
           (pr_publication_scope r, ''publication scope'')]) (\<lambda>_.
        rbind (raise_first
          [(list_ex (\<lambda>c. c \<in> set (pr_forbidden_claims r)) (pr_allowed_claims r), ''allowed and forbidden claims overlap''),
           ((pr_decision r = PolicyDecision.PASS) \<noteq> list_all (\<lambda>(k, g). g = GateResult.PASS) (pr_required_gate_results r),
            ''policy PASS requires every named gate to PASS'')] ()) (\<lambda>_.
        rbind (traverse require_relative_path (pr_publication_scope r)) (\<lambda>_.
        raise_first
          [(pr_commercial_maturity_ceiling r = CommercialState.COMMERCIALLY_SUPPORTED \<and>
              pr_decision_value_disposition r \<noteq> INCREMENTAL_DECISION_VALUE_DEMONSTRATED,
            ''commercial support requires demonstrated incremental decision value'')] r)))))"

definition dump_policy_receipt :: "platform \<Rightarrow> MachinePolicyReceiptV31 \<Rightarrow> json" where
  "dump_policy_receipt P r = JObj
     [(''schemaVersion'', JStr ''3.1''), (''receiptId'', JStr (pr_receipt_id r)), (''policyId'', JStr (pr_policy_id r)),
      (''policyVersion'', JStr (pr_policy_version r)), (''issuerId'', JStr (pr_issuer_id r)),
      (''issuerKeyId'', JStr (pr_issuer_key_id r)), (''issuedAt'', JStr (dump_datetime P (pr_issued_at r))),
      (''expiresAt'', JStr (dump_datetime P (pr_expires_at r))), (''revocationEpoch'', JInt (pr_revocation_epoch r)),
      (''nonce'', JStr (pr_nonce r)), (''requestDigest'', JStr (pr_request_digest r)),
      (''workItemId'', JStr (pr_work_item_id r)), (''milestoneId'', JStr (pr_milestone_id r)),
      (''lane'', JStr (lane_value (pr_lane r))), (''riskTier'', JStr (risk_value (pr_risk_tier r))),
      (''candidateSha'', JStr (pr_candidate_sha r)), (''candidateTreeSha'', JStr (pr_candidate_tree_sha r)),
      (''baseSha'', JStr (pr_base_sha r)), (''sourceGenerationId'', JStr (pr_source_generation_id r)),
      (''sourceGenerationDigest'', JStr (pr_source_generation_digest r)),
      (''contextManifestDigest'', JStr (pr_context_manifest_digest r)), (''taskPacketDigest'', JStr (pr_task_packet_digest r)),
      (''candidateManifestDigest'', JStr (pr_candidate_manifest_digest r)), (''checkpointDigest'', JStr (pr_checkpoint_digest r)),
      (''requiredGateResults'', JObj (map (\<lambda>(k, g). (k, JStr (gate_result_value g))) (pr_required_gate_results r))),
      (''privateGateSuiteId'', JStr (pr_private_gate_suite_id r)),
      (''privateGateRunnerDigest'', JStr (pr_private_gate_runner_digest r)),
      (''independentOracleIds'', JList (map JStr (pr_independent_oracle_ids r))),
      (''rawEvidenceArtifactHashes'', JList (map JStr (pr_raw_evidence_artifact_hashes r))),
      (''nativeSubstituteDisposition'', JStr (native_disposition_value (pr_native_substitute_disposition r))),
      (''decisionValueDisposition'', JStr (value_disposition_value (pr_decision_value_disposition r))),
      (''engineeringMaturityCeiling'', JStr (technical_state_value (pr_engineering_maturity_ceiling r))),
      (''commercialMaturityCeiling'', JStr (commercial_value (pr_commercial_maturity_ceiling r))),
      (''allowedClaims'', JList (map JStr (pr_allowed_claims r))), (''forbiddenClaims'', JList (map JStr (pr_forbidden_claims r))),
      (''publicationScope'', JList (map JStr (pr_publication_scope r))), (''decision'', JStr (policy_decision_value (pr_decision r))),
      (''signatureAlgorithm'', JStr (pr_signature_algorithm r)), (''signature'', JStr (pr_signature r))]"

record MachinePolicyRevocationListV31 =
  rv_policy_id :: pystr
  rv_policy_version :: pystr
  rv_issuer_id :: pystr
  rv_issuer_key_id :: pystr
  rv_revocation_epoch :: int
  rv_previous_list_digest :: "pystr option"
  rv_issued_at :: datetime
  rv_expires_at :: datetime
  rv_revoked_receipt_ids :: "pystr list"
  rv_revoked_nonces :: "pystr list"
  rv_revoked_key_ids :: "pystr list"
  rv_signature_algorithm :: pystr
  rv_signature :: pystr

definition validate_policy_revocations :: "MachinePolicyRevocationListV31 \<Rightarrow> MachinePolicyRevocationListV31 result" where
  "validate_policy_revocations v =
     (if \<not> (list_all is_v31_identifier [rv_policy_id v, rv_issuer_id v, rv_issuer_key_id v] \<and> sized 1 64 (rv_policy_version v) \<and>
          rv_revocation_epoch v \<ge> 1 \<and> pred_option is_digest (rv_previous_list_digest v) \<and>
          is_aware (rv_issued_at v) \<and> is_aware (rv_expires_at v) \<and>
          counted 0 10000 (rv_revoked_receipt_ids v) \<and> list_all is_v31_identifier (rv_revoked_receipt_ids v) \<and>
          counted 0 10000 (rv_revoked_nonces v) \<and>
          counted 0 1000 (rv_revoked_key_ids v) \<and> list_all is_v31_identifier (rv_revoked_key_ids v) \<and>
          rv_signature_algorithm v = ''ed25519'' \<and> sized 32 1024 (rv_signature v))
      then Inl (ValidationError ''MachinePolicyRevocationListV31'')
      else rbind (require_forward_time (rv_issued_at v) (rv_expires_at v) (30 * 86400)) (\<lambda>_.
        rbind (require_all_unique
          [(rv_revoked_receipt_ids v, ''revoked receipt IDs''), (rv_revoked_nonces v, ''revoked nonces''),
           (rv_revoked_key_ids v, ''revoked key IDs'')]) (\<lambda>_. Inr v)))"

lemma validate_policy_receipt_id: "validate_policy_receipt r = Inr r' \<Longrightarrow> r' = r"
  by (auto simp: validate_policy_receipt_def result_simps split: if_splits)

lemma valid_policy_receipt_pass:
  "validate_policy_receipt r = Inr r' \<Longrightarrow> pr_decision r = PolicyDecision.PASS \<Longrightarrow>
   \<forall>(k, g)\<in>set (pr_required_gate_results r). g = GateResult.PASS"
  by (auto simp: validate_policy_receipt_def result_simps list_all_iff split: if_splits)

end
