(* ===== verification/External_Actions.thy ===== *)
theory External_Actions
  imports V31_Contracts
begin

text \<open>
  Consequential external actions (\<^verbatim>\<open>tcfactory/v3/external_actions.py\<close>): installed templates,
  requests, deliveries and their validators, the durable journal that keeps an action from
  being sent twice, and the adapter that sends one exact, authorized payload. The verifiers
  and the backend are arguments. The journal is a directory of files; every operation is the
  list of the file-system steps it makes, one byte of a write at a time, so that a crash may
  cut it anywhere.
\<close>

section \<open>ASCII JSON\<close>

text \<open>
  \<^verbatim>\<open>json.dumps(value, sort_keys=True, separators=(",", ":"))\<close>: every code point outside the
  printable ASCII range is escaped.
\<close>

fun utf8_points :: "pystr \<Rightarrow> int list" where
  "utf8_points [] = []"
| "utf8_points (c # cs) =
     (let n = of_char c in
      if n < 128 then n # utf8_points cs
      else if n < 224
      then (case cs of a # r \<Rightarrow> ((n - 192) * 64 + (of_char a - 128)) # utf8_points r | _ \<Rightarrow> [])
      else if n < 240
      then (case cs of a # b # r \<Rightarrow> ((n - 224) * 4096 + (of_char a - 128) * 64 + (of_char b - 128)) # utf8_points r | _ \<Rightarrow> [])
      else (case cs of a # b # d # r \<Rightarrow>
          ((n - 240) * 262144 + (of_char a - 128) * 4096 + (of_char b - 128) * 64 + (of_char d - 128)) # utf8_points r
        | _ \<Rightarrow> []))"

definition u_escape :: "int \<Rightarrow> pystr" where
  "u_escape n = [CHR 0x5C, CHR ''u''] @ map (\<lambda>k. digit_char (nat (n div k mod 16))) [4096, 256, 16, 1]"

definition ascii_point :: "int \<Rightarrow> pystr" where
  "ascii_point n =
     (if n < 127 then escape_char (char_of n)
      else if n < 65536 then u_escape n
      else u_escape (0xD800 + (n - 65536) div 1024) @ u_escape (0xDC00 + (n - 65536) mod 1024))"

definition ascii_quote :: "pystr \<Rightarrow> pystr" where
  "ascii_quote s = CHR 0x22 # concat (map ascii_point (utf8_points s)) @ [CHR 0x22]"

fun render_ascii :: "platform \<Rightarrow> json \<Rightarrow> pystr" where
  "render_ascii P (JStr s) = ascii_quote s"
| "render_ascii P (JList xs) = CHR ''['' # join '','' (map (render_ascii P) xs) @ '']''"
| "render_ascii P (JObj kvs) =
     CHR ''{'' # join '','' (map (\<lambda>(k, v). ascii_quote k @ '':'' @ render_ascii P v) kvs) @ ''}''"
| "render_ascii P j = render P j"

definition ascii_json :: "platform \<Rightarrow> json \<Rightarrow> pybytes" where
  "ascii_json P j = render_ascii P (sort_keys j)"

definition external_action_digest :: "platform \<Rightarrow> json \<Rightarrow> pystr" where
  "external_action_digest P j = sha256_digest P (ascii_json P j)"

section \<open>Vocabularies and templates\<close>

datatype ExternalActionChannel = EMAIL | CRM | CALENDAR

datatype ExternalActionStatus = SENT | WAITING_EXTERNAL_CHANNEL

datatype ExternalActionReason = DELIVERED | ADAPTER_NOT_INSTALLED | VERIFIER_NOT_INSTALLED | BACKEND_NOT_INSTALLED
  | POLICY_VERIFIER_NOT_INSTALLED | JOURNAL_NOT_INSTALLED | MACHINE_POLICY_UNVERIFIED | MACHINE_POLICY_EXPIRED
  | POLICY_ARTIFACT_UNVERIFIED | IDEMPOTENCY_PENDING | CHANNEL_UNAVAILABLE

fun channel_value :: "ExternalActionChannel \<Rightarrow> pystr" where
  "channel_value EMAIL = ''EMAIL''"
| "channel_value CRM = ''CRM''"
| "channel_value CALENDAR = ''CALENDAR''"

fun action_status_value :: "ExternalActionStatus \<Rightarrow> pystr" where
  "action_status_value SENT = ''SENT''"
| "action_status_value WAITING_EXTERNAL_CHANNEL = ''WAITING_EXTERNAL_CHANNEL''"

fun action_reason_value :: "ExternalActionReason \<Rightarrow> pystr" where
  "action_reason_value DELIVERED = ''DELIVERED''"
| "action_reason_value ADAPTER_NOT_INSTALLED = ''ADAPTER_NOT_INSTALLED''"
| "action_reason_value VERIFIER_NOT_INSTALLED = ''VERIFIER_NOT_INSTALLED''"
| "action_reason_value BACKEND_NOT_INSTALLED = ''BACKEND_NOT_INSTALLED''"
| "action_reason_value POLICY_VERIFIER_NOT_INSTALLED = ''POLICY_VERIFIER_NOT_INSTALLED''"
| "action_reason_value JOURNAL_NOT_INSTALLED = ''JOURNAL_NOT_INSTALLED''"
| "action_reason_value MACHINE_POLICY_UNVERIFIED = ''MACHINE_POLICY_UNVERIFIED''"
| "action_reason_value MACHINE_POLICY_EXPIRED = ''MACHINE_POLICY_EXPIRED''"
| "action_reason_value POLICY_ARTIFACT_UNVERIFIED = ''POLICY_ARTIFACT_UNVERIFIED''"
| "action_reason_value IDEMPOTENCY_PENDING = ''IDEMPOTENCY_PENDING''"
| "action_reason_value CHANNEL_UNAVAILABLE = ''CHANNEL_UNAVAILABLE''"

definition word_char :: "char \<Rightarrow> bool" where
  "word_char c \<longleftrightarrow> is_alnum c \<or> c = CHR ''_''"

definition is_variable_name :: "pystr \<Rightarrow> bool" where
  "is_variable_name s \<longleftrightarrow> s \<noteq> [] \<and> (is_upper (hd s) \<or> is_lower (hd s)) \<and> list_all word_char (tl s)"

text \<open>
  What \<open>Formatter().parse\<close> makes of a template whose fields are simple identifiers: a doubled
  brace is a literal one, a field is a name in braces, possibly with an empty format
  specification. \<open>None\<close> is every template the code rejects, whether the parser raises or a
  field is not simple.
\<close>

datatype piece = Literal char | Field pystr

function template_pieces :: "pystr \<Rightarrow> piece list option" where
  "template_pieces [] = Some []"
| "template_pieces (c # cs) =
     (if c = CHR ''{''
      then (case cs of
          [] \<Rightarrow> None
        | d # ds \<Rightarrow>
            if d = CHR ''{'' then map_option ((#) (Literal d)) (template_pieces ds)
            else
              (let name = takeWhile word_char cs; rest = dropWhile word_char cs
               in if \<not> is_variable_name name then None
                  else if starts_with ''}'' rest then map_option ((#) (Field name)) (template_pieces (drop 1 rest))
                  else if starts_with '':}'' rest then map_option ((#) (Field name)) (template_pieces (drop 2 rest))
                  else None))
      else if c = CHR ''}''
      then (case cs of
          [] \<Rightarrow> None
        | d # ds \<Rightarrow> if d = CHR ''}'' then map_option ((#) (Literal d)) (template_pieces ds) else None)
      else map_option ((#) (Literal c)) (template_pieces cs))"
  by pat_completeness auto
termination
proof (relation "measure length", goal_cases)
  case (3 c cs d ds name rest)
  then show ?case using length_dropWhile_le [of word_char cs] by simp
next
  case (4 c cs d ds name rest)
  then show ?case using length_dropWhile_le [of word_char cs] by simp
qed simp_all

definition template_fields :: "pystr \<Rightarrow> pystr list option" where
  "template_fields t = map_option (\<lambda>ps. concat (map (\<lambda>p. case p of Field f \<Rightarrow> [f] | Literal _ \<Rightarrow> []) ps)) (template_pieces t)"

definition format_map :: "pystr \<Rightarrow> (pystr \<times> pystr) list \<Rightarrow> pystr result" where
  "format_map t vars = (case template_pieces t of
     None \<Rightarrow> Inl (ValueError ''format string'')
   | Some ps \<Rightarrow> rbind (traverse (\<lambda>p. case p of Literal c \<Rightarrow> Inr [c]
         | Field f \<Rightarrow> (case map_of vars f of None \<Rightarrow> Inl (KeyError f) | Some v \<Rightarrow> Inr v)) ps) (\<lambda>xs. Inr (concat xs)))"

section \<open>Records\<close>

record ExternalActionTemplate =
  et_template_id :: pystr
  et_channel :: ExternalActionChannel
  et_subject_template :: pystr
  et_body_template :: pystr
  et_variable_names :: "pystr list"

definition validate_template :: "ExternalActionTemplate \<Rightarrow> ExternalActionTemplate result" where
  "validate_template t =
     (if \<not> (is_v31_identifier (et_template_id t) \<and> sized 1 500 (et_subject_template t) \<and> sized 1 16000 (et_body_template t) \<and>
          counted 0 64 (et_variable_names t))
      then Inl (ValidationError ''ExternalActionTemplate'')
      else rbind (raise_first
        [(\<not> distinct (et_variable_names t), ''template variable names must be unique''),
         (list_ex (\<lambda>v. \<not> is_variable_name v) (et_variable_names t), ''template variable names must be simple identifiers'')] ()) (\<lambda>_.
        case (template_fields (et_subject_template t), template_fields (et_body_template t)) of
          (Some fs, Some gs) \<Rightarrow> raise_first
            [(set fs \<union> set gs \<noteq> set (et_variable_names t), ''installed template fields must exactly match variable names'')] t
        | _ \<Rightarrow> Inl (ValueError ''external action template is invalid'')))"

text \<open>\<^verbatim>\<open>^CREDREF:[A-Z0-9][A-Z0-9._/-]{2,127}$\<close>.\<close>

definition is_credential_reference :: "pystr \<Rightarrow> bool" where
  "is_credential_reference s \<longleftrightarrow> starts_with ''CREDREF:'' s \<and> 11 \<le> length s \<and> length s \<le> 136 \<and>
     (let r = drop 8 s in (is_upper (hd r) \<or> is_digit (hd r)) \<and>
        list_all (\<lambda>c. is_upper c \<or> is_digit c \<or> c \<in> {CHR ''.'', CHR ''_'', CHR ''/'', CHR ''-''}) (tl r))"

record ExternalActionInstallation =
  ei_machine_policy_receipt :: MachinePolicyReceiptV31
  ei_independent_verifier_receipt_digest :: pystr
  ei_credential_reference :: pystr
  ei_backend_id :: pystr
  ei_recipient_allowlist :: "pystr list"
  ei_legal_policy_id :: pystr
  ei_legal_policy_digest :: pystr
  ei_safety_policy_id :: pystr
  ei_safety_policy_digest :: pystr
  ei_machine_policy_scope :: "pystr list"
  ei_channel :: ExternalActionChannel
  ei_template :: ExternalActionTemplate

definition validate_installation :: "ExternalActionInstallation \<Rightarrow> ExternalActionInstallation result" where
  "validate_installation i =
     (if \<not> (list_all is_digest [ei_independent_verifier_receipt_digest i, ei_legal_policy_digest i, ei_safety_policy_digest i] \<and>
          is_credential_reference (ei_credential_reference i) \<and>
          list_all is_v31_identifier [ei_backend_id i, ei_legal_policy_id i, ei_safety_policy_id i] \<and>
          counted 1 256 (ei_recipient_allowlist i) \<and> counted 1 64 (ei_machine_policy_scope i))
      then Inl (ValidationError ''ExternalActionInstallation'')
      else rbind (raise_first
        [(\<not> distinct (ei_recipient_allowlist i), ''recipient allowlist entries must be unique''),
         (list_ex (\<lambda>v. \<not> sized 1 320 v) (ei_recipient_allowlist i), ''recipient allowlist contains an invalid entry'')] ()) (\<lambda>_.
        rbind (validate_policy_receipt (ei_machine_policy_receipt i)) (\<lambda>r.
        raise_first
          [(pr_decision r \<noteq> PolicyDecision.PASS, ''external action requires a PASS machine-policy receipt''),
           (pr_allowed_claims r \<noteq> [''EXTERNAL_ACTION''] \<or> pr_forbidden_claims r \<noteq> [],
            ''machine-policy receipt claims must equal EXTERNAL_ACTION''),
           (pr_publication_scope r \<noteq> ei_machine_policy_scope i, ''machine-policy receipt scope does not equal action scope''),
           (et_channel (ei_template i) \<noteq> ei_channel i, ''installed template channel mismatch'')] i)))"

record ExternalActionRequest =
  er_action_id :: pystr
  er_work_item_id :: pystr
  er_candidate_sha :: pystr
  er_channel :: ExternalActionChannel
  er_recipient :: pystr
  er_template_id :: pystr
  er_variables :: "(pystr \<times> pystr) list"
  er_machine_policy_receipt_id :: pystr
  er_machine_policy_receipt_digest :: pystr
  er_requested_at :: datetime

definition validate_action_request :: "ExternalActionRequest \<Rightarrow> ExternalActionRequest result" where
  "validate_action_request q =
     (if \<not> (is_v31_identifier (er_action_id q) \<and> is_work_item_id (er_work_item_id q) \<and> is_git_sha (er_candidate_sha q) \<and>
          sized 1 320 (er_recipient q) \<and> is_v31_identifier (er_template_id q) \<and> counted 0 64 (er_variables q) \<and>
          sized 1 128 (er_machine_policy_receipt_id q) \<and> is_digest (er_machine_policy_receipt_digest q) \<and>
          is_aware (er_requested_at q))
      then Inl (ValidationError ''ExternalActionRequest'')
      else raise_first
        [(list_ex (\<lambda>(k, v). \<not> is_variable_name k) (er_variables q), ''action variable names must be simple identifiers''),
         (list_ex (\<lambda>(k, v). \<not> sized 0 16000 v) (er_variables q), ''action variable exceeds the size limit'')] q)"

record ExternalActionPayload =
  ep_action_id :: pystr
  ep_action_digest :: pystr
  ep_backend_id :: pystr
  ep_channel :: ExternalActionChannel
  ep_recipient :: pystr
  ep_subject :: pystr
  ep_body :: pystr
  ep_credential_reference :: pystr
  ep_idempotency_key :: pystr
  ep_delivery_generation_id :: pystr

definition is_generation :: "pystr \<Rightarrow> bool" where
  "is_generation s \<longleftrightarrow> length s = 32 \<and> list_all is_hex s"

text \<open>The constructor strips the rendered texts.\<close>

definition make_payload :: "platform \<Rightarrow> ExternalActionPayload \<Rightarrow> ExternalActionPayload result" where
  "make_payload P p0 =
     (let p = p0\<lparr>ep_subject := strip P (ep_subject p0), ep_body := strip P (ep_body p0)\<rparr>
      in if is_digest (ep_action_digest p) \<and> sized 1 500 (ep_subject p) \<and> sized 1 16000 (ep_body p) \<and>
            is_digest (ep_idempotency_key p) \<and> is_generation (ep_delivery_generation_id p)
         then Inr p else Inl (ValidationError ''ExternalActionPayload''))"

record ExternalDeliveryReceipt =
  ed_backend_id :: pystr
  ed_backend_delivery_id :: pystr
  ed_action_digest :: pystr
  ed_payload_digest :: pystr
  ed_idempotency_key :: pystr
  ed_delivery_generation_id :: pystr
  ed_delivered_at :: datetime
  ed_delivery_digest :: pystr

definition delivery_fields :: "platform \<Rightarrow> ExternalDeliveryReceipt \<Rightarrow> (pystr \<times> json) list" where
  "delivery_fields P d =
     [(''schemaVersion'', JStr ''3.1''), (''backendId'', JStr (ed_backend_id d)),
      (''backendDeliveryId'', JStr (ed_backend_delivery_id d)), (''actionDigest'', JStr (ed_action_digest d)),
      (''payloadDigest'', JStr (ed_payload_digest d)), (''idempotencyKey'', JStr (ed_idempotency_key d)),
      (''deliveryGenerationId'', JStr (ed_delivery_generation_id d)),
      (''deliveredAt'', JStr (dump_datetime P (ed_delivered_at d)))]"

definition validate_delivery :: "platform \<Rightarrow> ExternalDeliveryReceipt \<Rightarrow> ExternalDeliveryReceipt result" where
  "validate_delivery P d =
     (if \<not> (sized 1 256 (ed_backend_delivery_id d) \<and>
          list_all is_digest [ed_action_digest d, ed_payload_digest d, ed_idempotency_key d, ed_delivery_digest d] \<and>
          is_generation (ed_delivery_generation_id d) \<and> is_aware (ed_delivered_at d))
      then Inl (ValidationError ''ExternalDeliveryReceipt'')
      else raise_first [(ed_delivery_digest d \<noteq> external_action_digest P (JObj (delivery_fields P d)),
        ''external delivery digest does not bind its receipt'')] d)"

record ExternalActionOutcome =
  eo_action_id :: pystr
  eo_work_item_id :: pystr
  eo_candidate_sha :: pystr
  eo_request :: ExternalActionRequest
  eo_request_digest :: pystr
  eo_status :: ExternalActionStatus
  eo_reason :: ExternalActionReason
  eo_delivery_receipt :: "ExternalDeliveryReceipt option"

definition validate_action_outcome :: "ExternalActionOutcome \<Rightarrow> ExternalActionOutcome result" where
  "validate_action_outcome o1 =
     (if \<not> (is_work_item_id (eo_work_item_id o1) \<and> is_git_sha (eo_candidate_sha o1) \<and> is_digest (eo_request_digest o1))
      then Inl (ValidationError ''ExternalActionOutcome'')
      else
        (let q = eo_request o1; sent = (eo_status o1 = SENT)
         in raise_first
          [(er_action_id q \<noteq> eo_action_id o1 \<or> er_work_item_id q \<noteq> eo_work_item_id o1 \<or> er_candidate_sha q \<noteq> eo_candidate_sha o1,
            ''external action outcome request identity mismatch''),
           (sent \<noteq> (eo_delivery_receipt o1 \<noteq> None), ''only SENT outcomes may contain a delivery receipt''),
           (sent \<noteq> (eo_reason o1 = DELIVERED), ''delivery reason/status mismatch''),
           (case eo_delivery_receipt o1 of None \<Rightarrow> False
            | Some d \<Rightarrow> sent \<and> (ed_action_digest d \<noteq> eo_request_digest o1 \<or> ed_idempotency_key d \<noteq> eo_request_digest o1 \<or>
                instant (ed_delivered_at d) < instant (er_requested_at q)),
            ''delivery is not bound to the exact action request'')] o1))"

section \<open>Documents and digests\<close>

definition request_fields :: "platform \<Rightarrow> ExternalActionRequest \<Rightarrow> (pystr \<times> json) list" where
  "request_fields P q =
     [(''schemaVersion'', JStr ''3.1''), (''actionId'', JStr (er_action_id q)), (''workItemId'', JStr (er_work_item_id q)),
      (''candidateSha'', JStr (er_candidate_sha q)), (''channel'', JStr (channel_value (er_channel q))),
      (''recipient'', JStr (er_recipient q)), (''templateId'', JStr (er_template_id q)),
      (''variables'', JObj (map (\<lambda>(k, v). (k, JStr v)) (er_variables q))),
      (''requestedAt'', JStr (dump_datetime P (er_requested_at q)))]"

definition dump_request :: "platform \<Rightarrow> ExternalActionRequest \<Rightarrow> json" where
  "dump_request P q = JObj (request_fields P q @
     [(''machinePolicyReceiptId'', JStr (er_machine_policy_receipt_id q)),
      (''machinePolicyReceiptDigest'', JStr (er_machine_policy_receipt_digest q))])"

definition dump_payload :: "ExternalActionPayload \<Rightarrow> json" where
  "dump_payload p = JObj
     [(''schemaVersion'', JStr ''3.1''), (''actionId'', JStr (ep_action_id p)), (''actionDigest'', JStr (ep_action_digest p)),
      (''backendId'', JStr (ep_backend_id p)), (''channel'', JStr (channel_value (ep_channel p))),
      (''recipient'', JStr (ep_recipient p)), (''subject'', JStr (ep_subject p)), (''body'', JStr (ep_body p)),
      (''credentialReference'', JStr (ep_credential_reference p)), (''idempotencyKey'', JStr (ep_idempotency_key p)),
      (''deliveryGenerationId'', JStr (ep_delivery_generation_id p))]"

definition dump_delivery :: "platform \<Rightarrow> ExternalDeliveryReceipt \<Rightarrow> json" where
  "dump_delivery P d = JObj (delivery_fields P d @ [(''deliveryDigest'', JStr (ed_delivery_digest d))])"

definition dump_action_outcome :: "platform \<Rightarrow> ExternalActionOutcome \<Rightarrow> json" where
  "dump_action_outcome P o1 = JObj
     [(''schemaVersion'', JStr ''3.1''), (''actionId'', JStr (eo_action_id o1)), (''workItemId'', JStr (eo_work_item_id o1)),
      (''candidateSha'', JStr (eo_candidate_sha o1)), (''request'', dump_request P (eo_request o1)),
      (''requestDigest'', JStr (eo_request_digest o1)), (''status'', JStr (action_status_value (eo_status o1))),
      (''reason'', JStr (action_reason_value (eo_reason o1))),
      (''deliveryReceipt'', jopt (dump_delivery P) (eo_delivery_receipt o1)), (''unrelatedLanesMayContinue'', JBool True)]"

definition dump_template :: "ExternalActionTemplate \<Rightarrow> json" where
  "dump_template t = JObj
     [(''schemaVersion'', JStr ''3.1''), (''templateId'', JStr (et_template_id t)),
      (''channel'', JStr (channel_value (et_channel t))), (''subjectTemplate'', JStr (et_subject_template t)),
      (''bodyTemplate'', JStr (et_body_template t)), (''variableNames'', JList (map JStr (et_variable_names t)))]"

definition external_action_authorization_digest ::
  "platform \<Rightarrow> ExternalActionRequest \<Rightarrow> ExternalActionInstallation \<Rightarrow> pystr" where
  "external_action_authorization_digest P q i = external_action_digest P (JObj
     [(''action'', JObj (request_fields P q)),
      (''installation'', JObj
        [(''independentVerifierReceiptDigest'', JStr (ei_independent_verifier_receipt_digest i)),
         (''credentialReference'', JStr (ei_credential_reference i)), (''backendId'', JStr (ei_backend_id i)),
         (''recipientAllowlist'', JList (map JStr (ei_recipient_allowlist i))),
         (''legalPolicyId'', JStr (ei_legal_policy_id i)), (''legalPolicyDigest'', JStr (ei_legal_policy_digest i)),
         (''safetyPolicyId'', JStr (ei_safety_policy_id i)), (''safetyPolicyDigest'', JStr (ei_safety_policy_digest i)),
         (''machinePolicyScope'', JList (map JStr (ei_machine_policy_scope i))),
         (''channel'', JStr (channel_value (ei_channel i))), (''template'', dump_template (ei_template i))])])"

definition waiting :: "ExternalActionRequest \<Rightarrow> pystr \<Rightarrow> ExternalActionReason \<Rightarrow> ExternalActionOutcome result" where
  "waiting q request_digest reason = validate_action_outcome
     \<lparr>eo_action_id = er_action_id q, eo_work_item_id = er_work_item_id q, eo_candidate_sha = er_candidate_sha q,
      eo_request = q, eo_request_digest = request_digest, eo_status = WAITING_EXTERNAL_CHANNEL, eo_reason = reason,
      eo_delivery_receipt = None\<rparr>"

section \<open>The journal\<close>

text \<open>
  A file of the journal holds bytes. \<open>SendPayload\<close> is the call of the backend; all other steps
  change the directory. A write appends one byte at a time.
\<close>

type_synonym journal = "pystr \<rightharpoonup> pybytes"

datatype journal_step = CreateEntry pystr | AppendEntry pystr char | TruncateEntry pystr
  | ReplaceEntry pystr pybytes | SendPayload ExternalActionPayload

fun perform_step :: "journal_step \<Rightarrow> journal \<Rightarrow> journal" where
  "perform_step (CreateEntry n) fs = fs(n \<mapsto> [])"
| "perform_step (AppendEntry n c) fs = fs(n := map_option (\<lambda>b. b @ [c]) (fs n))"
| "perform_step (TruncateEntry n) fs = fs(n := map_option (\<lambda>_. []) (fs n))"
| "perform_step (ReplaceEntry n b) fs = fs(n \<mapsto> b)"
| "perform_step (SendPayload _) fs = fs"

definition perform_steps :: "journal_step list \<Rightarrow> journal \<Rightarrow> journal" where
  "perform_steps ss fs = fold perform_step ss fs"

definition write_all :: "pystr \<Rightarrow> pybytes \<Rightarrow> journal_step list" where
  "write_all n b = map (AppendEntry n) b"

definition sends :: "journal_step list \<Rightarrow> ExternalActionPayload list" where
  "sends ss = concat (map (\<lambda>s. case s of SendPayload p \<Rightarrow> [p] | _ \<Rightarrow> []) ss)"

definition journal_name :: "pystr \<Rightarrow> pystr result" where
  "journal_name d = (if \<not> is_digest d then Inl (RuntimeError ''external action journal digest is invalid'')
     else Inr (removeprefix ''sha256:'' d @ ''.json''))"

definition response_name :: "pystr \<Rightarrow> pystr result" where
  "response_name d = rbind (journal_name d) (\<lambda>n. Inr (''response-'' @ n))"

definition read_journal :: "pybytes \<Rightarrow> pybytes result" where
  "read_journal b = (if int (length b) > 1048576 then Inl (RuntimeError ''external action journal record is unsafe'') else Inr b)"

definition decode_entry :: "platform \<Rightarrow> pybytes \<Rightarrow> string \<Rightarrow> json result" where
  "decode_entry P b label = (case loads P b of None \<Rightarrow> Inl (RuntimeError (label @ '' is corrupt'')) | Some j \<Rightarrow> Inr j)"

text \<open>\<open>isinstance\<close> tests of JSON values.\<close>

definition is_dict :: "json \<Rightarrow> bool" where
  "is_dict j = (case j of JObj _ \<Rightarrow> True | _ \<Rightarrow> False)"

definition as_str :: "json \<Rightarrow> pystr option" where
  "as_str j = (case j of JStr s \<Rightarrow> Some s | _ \<Rightarrow> None)"

definition decode_record :: "platform \<Rightarrow> pybytes \<Rightarrow> string \<Rightarrow> json result" where
  "decode_record P b label = rbind (decode_entry P b label) (\<lambda>j.
     if is_dict j then Inr j else Inl (RuntimeError (label @ '' is invalid'')))"

datatype JournalDisposition = RESERVED | PENDING | RECOVERED

record JournalResult =
  jr_disposition :: JournalDisposition
  jr_generation :: pystr
  jr_outcome :: "ExternalActionOutcome option"

definition pending_entry :: "pystr \<Rightarrow> pystr \<Rightarrow> json" where
  "pending_entry d g = JObj [(''state'', JStr ''PENDING''), (''actionDigest'', JStr d), (''deliveryGenerationId'', JStr g)]"

definition sent_entry :: "platform \<Rightarrow> pystr \<Rightarrow> pystr \<Rightarrow> ExternalActionOutcome \<Rightarrow> json" where
  "sent_entry P d g o1 = JObj [(''state'', JStr ''SENT''), (''actionDigest'', JStr d), (''deliveryGenerationId'', JStr g),
     (''outcome'', dump_action_outcome P o1)]"

text \<open>What a reservation makes of the record that already exists.\<close>

definition existing_reservation ::
  "(json \<Rightarrow> ExternalActionOutcome result) \<Rightarrow> pystr \<Rightarrow> json \<Rightarrow> JournalResult result" where
  "existing_reservation parse d entry =
     rbind (document_field entry ''actionDigest'') (\<lambda>a.
     if a \<noteq> JStr d then Inl (RuntimeError ''external action journal digest mismatch'')
     else rbind (document_field entry ''deliveryGenerationId'') (\<lambda>gj.
       case as_str gj of
         None \<Rightarrow> Inl (RuntimeError ''external action journal generation is invalid'')
       | Some g \<Rightarrow>
          (if \<not> is_generation g then Inl (RuntimeError ''external action journal generation is invalid'')
           else rbind (document_field entry ''state'') (\<lambda>state. rbind (document_field entry ''outcome'') (\<lambda>out.
             if state = JStr ''PENDING'' then Inr \<lparr>jr_disposition = PENDING, jr_generation = g, jr_outcome = None\<rparr>
             else if state \<noteq> JStr ''SENT'' \<or> \<not> is_dict out
             then Inl (RuntimeError ''external action journal state is invalid'')
             else (case parse out of
                 Inl _ \<Rightarrow> Inl (RuntimeError ''external action journal outcome is invalid'')
               | Inr o1 \<Rightarrow>
                   if eo_request_digest o1 \<noteq> d then Inl (RuntimeError ''journal outcome action binding mismatch'')
                   else if map_option ed_delivery_generation_id (eo_delivery_receipt o1) \<noteq> Some g
                   then Inl (RuntimeError ''journal outcome delivery generation mismatch'')
                   else Inr \<lparr>jr_disposition = RECOVERED, jr_generation = g, jr_outcome = Some o1\<rparr>))))))"

definition reserve ::
  "platform \<Rightarrow> (json \<Rightarrow> ExternalActionOutcome result) \<Rightarrow> pystr \<Rightarrow> pystr \<Rightarrow> journal \<Rightarrow> JournalResult result \<times> journal_step list" where
  "reserve P parse d generation fs = (case journal_name d of
     Inl e \<Rightarrow> (Inl e, [])
   | Inr n \<Rightarrow>
      (case fs n of
         Some b \<Rightarrow> (rbind (read_journal b) (\<lambda>b. rbind (decode_entry P b ''external action journal record'') (existing_reservation parse d)), [])
       | None \<Rightarrow> (Inr \<lparr>jr_disposition = RESERVED, jr_generation = generation, jr_outcome = None\<rparr>,
            CreateEntry n # write_all n (ascii_json P (pending_entry d generation)))))"

definition commit :: "platform \<Rightarrow> pystr \<Rightarrow> ExternalActionOutcome \<Rightarrow> journal \<Rightarrow> unit result \<times> journal_step list" where
  "commit P d o1 fs =
     (if eo_request_digest o1 \<noteq> d \<or> eo_status o1 \<noteq> SENT
      then (Inl (RuntimeError ''journal commit outcome is not a bound SENT result''), [])
      else case journal_name d of
        Inl e \<Rightarrow> (Inl e, [])
      | Inr n \<Rightarrow>
         (case fs n of
            None \<Rightarrow> (Inl (RuntimeError ''external action journal reservation is missing''), [])
          | Some b \<Rightarrow>
             (case rbind (read_journal b) (\<lambda>b. rbind (decode_entry P b ''external action journal record'') (\<lambda>entry.
                 rbind (document_field entry ''deliveryGenerationId'') (\<lambda>g. rbind (document_field entry ''state'') (\<lambda>state.
                 rbind (document_field entry ''actionDigest'') (\<lambda>a.
                   case as_str g of
                     None \<Rightarrow> Inl (RuntimeError ''journal commit delivery generation mismatch'')
                   | Some generation \<Rightarrow>
                       if state \<noteq> JStr ''PENDING'' \<or> a \<noteq> JStr d \<or>
                         map_option ed_delivery_generation_id (eo_delivery_receipt o1) \<noteq> Some generation
                       then Inl (RuntimeError ''journal commit delivery generation mismatch'') else Inr generation))))) of
                Inl e \<Rightarrow> (Inl e, [])
              | Inr generation \<Rightarrow>
                  (Inr (), TruncateEntry n # write_all n (ascii_json P (sent_entry P d generation o1))))))"

section \<open>Consumption of responses\<close>

datatype ResponseDisposition = RESERVED | RECOVERABLE

record ExternalResponseConsumption =
  rc_disposition :: ResponseDisposition
  rc_response_receipt_id :: pystr
  rc_response_nonce :: pystr
  rc_response_digest :: pystr
  rc_delivery_generation_id :: pystr

definition response_entry :: "string \<Rightarrow> pystr \<Rightarrow> pystr \<Rightarrow> pystr \<Rightarrow> pystr \<Rightarrow> pystr \<Rightarrow> json" where
  "response_entry state d g i nonce digest = JObj
     [(''state'', JStr state), (''actionDigest'', JStr d), (''deliveryGenerationId'', JStr g),
      (''responseReceiptId'', JStr i), (''responseNonce'', JStr nonce), (''responseDigest'', JStr digest)]"

definition reserve_response_consumption ::
  "platform \<Rightarrow> ExternalActionOutcome \<Rightarrow> pystr \<Rightarrow> pystr \<Rightarrow> pystr \<Rightarrow> journal \<Rightarrow> ExternalResponseConsumption result \<times> journal_step list" where
  "reserve_response_consumption P o1 i nonce digest fs =
     (case (eo_status o1, eo_delivery_receipt o1) of
        (SENT, Some delivery) \<Rightarrow>
         (let d = eo_request_digest o1; g = ed_delivery_generation_id delivery;
              mine = response_entry ''PENDING_TERMINAL_TRANSITION'' d g i nonce digest;
              taken = (\<lambda>disposition. \<lparr>rc_disposition = disposition, rc_response_receipt_id = i, rc_response_nonce = nonce,
                rc_response_digest = digest, rc_delivery_generation_id = g\<rparr>)
          in case rbind (journal_name d) (\<lambda>n. case fs n of
                None \<Rightarrow> Inl (RuntimeError ''external action journal record is unsafe'')
              | Some b \<Rightarrow> rbind (read_journal b) (\<lambda>b. rbind (decode_record P b ''external action journal record'') (\<lambda>entry.
                  rbind (document_field entry ''state'') (\<lambda>state. rbind (document_field entry ''actionDigest'') (\<lambda>a.
                  rbind (document_field entry ''deliveryGenerationId'') (\<lambda>gj. rbind (document_field entry ''outcome'') (\<lambda>out.
                    if state \<noteq> JStr ''SENT'' \<or> a \<noteq> JStr d \<or> gj \<noteq> JStr g \<or> sort_keys out \<noteq> sort_keys (dump_action_outcome P o1)
                    then Inl (RuntimeError ''response consumption action generation mismatch'')
                    else response_name d))))))) of
              Inl e \<Rightarrow> (Inl e, [])
            | Inr n \<Rightarrow>
                (case fs n of
                   None \<Rightarrow> (Inr (taken RESERVED), CreateEntry n # write_all n (ascii_json P mine))
                 | Some b \<Rightarrow>
                    (rbind (read_journal b) (\<lambda>b. rbind (decode_record P b ''external response consumption record'') (\<lambda>existing.
                      if sort_keys existing \<noteq> sort_keys mine
                      then Inl (RuntimeError ''delivery generation was already consumed by another response'')
                      else Inr (taken RECOVERABLE))), [])))
      | _ \<Rightarrow> (Inl (RuntimeError ''response consumption requires a SENT action''), []))"

definition commit_response_consumption ::
  "platform \<Rightarrow> ExternalActionOutcome \<Rightarrow> ExternalResponseConsumption \<Rightarrow> journal \<Rightarrow> unit result \<times> journal_step list" where
  "commit_response_consumption P o1 c fs = (case eo_delivery_receipt o1 of
     None \<Rightarrow> (Inl (RuntimeError ''response consumption omitted delivery''), [])
   | Some delivery \<Rightarrow>
      (let entry = (\<lambda>state. response_entry state (eo_request_digest o1) (ed_delivery_generation_id delivery)
             (rc_response_receipt_id c) (rc_response_nonce c) (rc_response_digest c))
       in case response_name (eo_request_digest o1) of
          Inl e \<Rightarrow> (Inl e, [])
        | Inr n \<Rightarrow>
           (case fs n of
              None \<Rightarrow> (Inl (RuntimeError ''external action journal record is unsafe''), [])
            | Some b \<Rightarrow>
               (case rbind (read_journal b) (\<lambda>b. decode_record P b ''external response consumption record'') of
                  Inl e \<Rightarrow> (Inl e, [])
                | Inr current \<Rightarrow>
                    if sort_keys current \<noteq> sort_keys (entry ''PENDING_TERMINAL_TRANSITION'')
                    then (Inl (RuntimeError ''external response consumption cannot be committed''), [])
                    else (Inr (), [ReplaceEntry n (ascii_json P (entry ''APPLIED''))])))))"

section \<open>The adapter\<close>

record ExternalActionBackend =
  backend_id :: pystr
  is_available :: "ExternalActionChannel \<Rightarrow> pystr \<Rightarrow> bool result"
  send :: "ExternalActionPayload \<Rightarrow> ExternalDeliveryReceipt result"

record ExternalActionAdapter =
  installation :: "ExternalActionInstallation option"
  verifier :: "(MachinePolicyReceiptV31 \<Rightarrow> datetime \<Rightarrow> pystr result) option"
  policy_verifier :: "(pystr \<Rightarrow> pystr \<Rightarrow> bool result) option"
  backend :: "ExternalActionBackend option"
  journal_installed :: bool

definition policies_verified :: "(pystr \<Rightarrow> pystr \<Rightarrow> bool result) \<Rightarrow> ExternalActionInstallation \<Rightarrow> bool" where
  "policies_verified verify i \<longleftrightarrow>
     verify (ei_legal_policy_id i) (ei_legal_policy_digest i) = Inr True \<and>
     verify (ei_safety_policy_id i) (ei_safety_policy_digest i) = Inr True"

definition binding_checks :: "platform \<Rightarrow> ExternalActionBackend \<Rightarrow> ExternalActionInstallation \<Rightarrow> ExternalActionRequest \<Rightarrow> (bool \<times> string) list" where
  "binding_checks P b i q =
     (let r = ei_machine_policy_receipt i
      in [(er_machine_policy_receipt_id q \<noteq> pr_receipt_id r \<or>
             er_machine_policy_receipt_digest q \<noteq> external_action_digest P (dump_policy_receipt P r) \<or>
             er_work_item_id q \<noteq> pr_work_item_id r \<or> er_candidate_sha q \<noteq> pr_candidate_sha r,
           ''external action machine-policy binding mismatch''),
          (er_channel q \<noteq> ei_channel i, ''external action channel is not installed''),
          (er_recipient q \<notin> set (ei_recipient_allowlist i), ''external action recipient is not allowlisted''),
          (er_template_id q \<noteq> et_template_id (ei_template i), ''external action template is not installed''),
          (set (map fst (er_variables q)) \<noteq> set (et_variable_names (ei_template i)),
           ''external action variables do not match the template''),
          (backend_id b \<noteq> ei_backend_id i, ''external action backend identity mismatch''),
          (pr_request_digest r \<noteq> external_action_authorization_digest P q i,
           ''machine-policy receipt is not bound to the exact external action'')])"

definition policy_error :: "(bool \<times> string) list \<Rightarrow> unit result" where
  "policy_error cs = (case first_failure cs of Some msg \<Rightarrow> Inl (RuntimeError msg) | None \<Rightarrow> Inr ())"

text \<open>
  Everything before the journal: \<open>Inl\<close> an outcome is an early return, \<open>Inr\<close> the installation
  and the backend with which the action goes on.
\<close>

definition admit ::
  "platform \<Rightarrow> ExternalActionAdapter \<Rightarrow> ExternalActionRequest \<Rightarrow> datetime \<Rightarrow>
   (ExternalActionOutcome + (ExternalActionInstallation \<times> ExternalActionBackend)) result" where
  "admit P a q now =
     (if \<not> is_aware now then Inl (RuntimeError ''external action time must be timezone-aware'')
      else
        (let wait = (\<lambda>d reason. rbind (waiting q d reason) (\<lambda>o1. Inr (Inl o1)));
             provisional = external_action_digest P (dump_request P q)
         in case (installation a, verifier a, policy_verifier a, backend a) of
            (None, _) \<Rightarrow> wait provisional ADAPTER_NOT_INSTALLED
          | (Some i, None, _) \<Rightarrow> wait provisional VERIFIER_NOT_INSTALLED
          | (Some i, Some v, None, _) \<Rightarrow> wait provisional POLICY_VERIFIER_NOT_INSTALLED
          | (Some i, Some v, Some pv, None) \<Rightarrow> wait provisional BACKEND_NOT_INSTALLED
          | (Some i, Some v, Some pv, Some b) \<Rightarrow>
             (let r = ei_machine_policy_receipt i; d = external_action_authorization_digest P q i
              in if \<not> journal_installed a then wait provisional JOURNAL_NOT_INSTALLED
                 else if instant (pr_expires_at r) \<le> instant now then wait provisional MACHINE_POLICY_EXPIRED
                 else if v r now \<noteq> Inr (ei_independent_verifier_receipt_digest i) then wait provisional MACHINE_POLICY_UNVERIFIED
                 else if \<not> policies_verified pv i then wait provisional POLICY_ARTIFACT_UNVERIFIED
                 else rbind (policy_error (binding_checks P b i q)) (\<lambda>_.
                   rbind (is_available b (ei_channel i) (ei_credential_reference i)) (\<lambda>available.
                   if \<not> available then wait d CHANNEL_UNAVAILABLE else Inr (Inr (i, b)))))))"

definition render_payload ::
  "platform \<Rightarrow> ExternalActionInstallation \<Rightarrow> ExternalActionRequest \<Rightarrow> pystr \<Rightarrow> pystr \<Rightarrow> ExternalActionPayload result" where
  "render_payload P i q d generation =
     rbind (format_map (et_subject_template (ei_template i)) (er_variables q)) (\<lambda>subject.
     rbind (format_map (et_body_template (ei_template i)) (er_variables q)) (\<lambda>body.
     make_payload P \<lparr>ep_action_id = er_action_id q, ep_action_digest = d, ep_backend_id = ei_backend_id i,
       ep_channel = er_channel q, ep_recipient = er_recipient q, ep_subject = subject, ep_body = body,
       ep_credential_reference = ei_credential_reference i, ep_idempotency_key = d, ep_delivery_generation_id = generation\<rparr>))"

definition sent_outcome :: "ExternalActionRequest \<Rightarrow> pystr \<Rightarrow> ExternalDeliveryReceipt \<Rightarrow> ExternalActionOutcome result" where
  "sent_outcome q d delivery = validate_action_outcome
     \<lparr>eo_action_id = er_action_id q, eo_work_item_id = er_work_item_id q, eo_candidate_sha = er_candidate_sha q,
      eo_request = q, eo_request_digest = d, eo_status = SENT, eo_reason = DELIVERED, eo_delivery_receipt = Some delivery\<rparr>"

text \<open>
  What a delivery must be to become an outcome. The receipt is validated again, which strips its
  texts.
\<close>

definition strip_delivery :: "platform \<Rightarrow> ExternalDeliveryReceipt \<Rightarrow> ExternalDeliveryReceipt" where
  "strip_delivery P d = d\<lparr>ed_backend_id := strip P (ed_backend_id d), ed_backend_delivery_id := strip P (ed_backend_delivery_id d),
     ed_action_digest := strip P (ed_action_digest d), ed_payload_digest := strip P (ed_payload_digest d),
     ed_idempotency_key := strip P (ed_idempotency_key d), ed_delivery_generation_id := strip P (ed_delivery_generation_id d),
     ed_delivery_digest := strip P (ed_delivery_digest d)\<rparr>"

definition accept_delivery ::
  "platform \<Rightarrow> ExternalActionInstallation \<Rightarrow> ExternalActionRequest \<Rightarrow> pystr \<Rightarrow> ExternalActionPayload \<Rightarrow> ExternalDeliveryReceipt \<Rightarrow>
   ExternalActionOutcome result" where
  "accept_delivery P i q d payload returned =
     (let delivery = strip_delivery P returned
      in case validate_delivery P delivery of
        Inl _ \<Rightarrow> Inl (RuntimeError ''backend delivery receipt is invalid'')
      | Inr _ \<Rightarrow>
          if ed_idempotency_key delivery \<noteq> d \<or> ed_action_digest delivery \<noteq> d \<or>
            ed_payload_digest delivery \<noteq> external_action_digest P (dump_payload payload) \<or>
            ed_backend_id delivery \<noteq> ei_backend_id i \<or> ed_delivery_generation_id delivery \<noteq> ep_delivery_generation_id payload
          then Inl (RuntimeError ''backend delivery receipt idempotency mismatch'')
          else sent_outcome q d delivery)"

definition deliver ::
  "platform \<Rightarrow> (json \<Rightarrow> ExternalActionOutcome result) \<Rightarrow> ExternalActionInstallation \<Rightarrow> ExternalActionBackend \<Rightarrow>
   ExternalActionRequest \<Rightarrow> pystr \<Rightarrow> journal \<Rightarrow> ExternalActionOutcome result \<times> journal_step list" where
  "deliver P parse i b q token fs =
     (let d = external_action_authorization_digest P q i
      in case reserve P parse d token fs of
         (Inl e, ss) \<Rightarrow> (Inl e, ss)
       | (Inr jr, ss) \<Rightarrow>
          (case jr_disposition jr of
             RECOVERED \<Rightarrow> (case jr_outcome jr of
                 None \<Rightarrow> (Inl (RuntimeError ''journal recovery omitted its outcome''), ss)
               | Some o1 \<Rightarrow> (Inr o1, ss))
           | PENDING \<Rightarrow> (waiting q d IDEMPOTENCY_PENDING, ss)
           | JournalDisposition.RESERVED \<Rightarrow>
              (case render_payload P i q d (jr_generation jr) of
                 Inl e \<Rightarrow> (Inl e, ss)
               | Inr payload \<Rightarrow>
                  (case send b payload of
                     Inl _ \<Rightarrow> (waiting q d IDEMPOTENCY_PENDING, ss @ [SendPayload payload])
                   | Inr delivery \<Rightarrow>
                      (case accept_delivery P i q d payload delivery of
                         Inl e \<Rightarrow> (Inl e, ss @ [SendPayload payload])
                       | Inr o1 \<Rightarrow>
                          (case commit P d o1 (perform_steps (ss @ [SendPayload payload]) fs) of
                             (r, cs) \<Rightarrow> (rbind r (\<lambda>_. Inr o1), ss @ SendPayload payload # cs)))))))"

definition execute ::
  "platform \<Rightarrow> (json \<Rightarrow> ExternalActionOutcome result) \<Rightarrow> ExternalActionAdapter \<Rightarrow> ExternalActionRequest \<Rightarrow> datetime \<Rightarrow>
   pystr \<Rightarrow> journal \<Rightarrow> ExternalActionOutcome result \<times> journal_step list" where
  "execute P parse a q now token fs = (case admit P a q now of
     Inl e \<Rightarrow> (Inl e, [])
   | Inr (Inl o1) \<Rightarrow> (Inr o1, [])
   | Inr (Inr (i, b)) \<Rightarrow> deliver P parse i b q token fs)"

section \<open>Histories\<close>

text \<open>
  One controller or several in any order; every operation is cut after \<open>reached\<close> of its steps
  when the controller crashes there, and complete when \<open>reached\<close> is large enough.
\<close>

datatype journal_event =
    Execute ExternalActionAdapter ExternalActionRequest datetime pystr nat
  | ReserveResponse ExternalActionOutcome pystr pystr pystr nat
  | CommitResponse ExternalActionOutcome ExternalResponseConsumption nat

definition event_steps :: "platform \<Rightarrow> (json \<Rightarrow> ExternalActionOutcome result) \<Rightarrow> journal_event \<Rightarrow> journal \<Rightarrow> journal_step list" where
  "event_steps P parse ev fs = (case ev of
     Execute a q now token reached \<Rightarrow> take reached (snd (execute P parse a q now token fs))
   | ReserveResponse o1 i nonce digest reached \<Rightarrow> take reached (snd (reserve_response_consumption P o1 i nonce digest fs))
   | CommitResponse o1 c reached \<Rightarrow> take reached (snd (commit_response_consumption P o1 c fs)))"

fun run_events :: "platform \<Rightarrow> (json \<Rightarrow> ExternalActionOutcome result) \<Rightarrow> journal_event list \<Rightarrow> journal \<Rightarrow> journal \<times> ExternalActionPayload list" where
  "run_events P parse [] fs = (fs, [])"
| "run_events P parse (ev # evs) fs =
     (let ss = event_steps P parse ev fs; (gs, later) = run_events P parse evs (perform_steps ss fs)
      in (gs, sends ss @ later))"

section \<open>What the operations do to the journal\<close>

lemma perform_steps_simps [simp]:
  "perform_steps [] fs = fs" "perform_steps (s # ss) fs = perform_steps ss (perform_step s fs)"
  "perform_steps (ss @ ts) fs = perform_steps ts (perform_steps ss fs)"
  by (simp_all add: perform_steps_def)

lemma sends_simps [simp]:
  "sends [] = []" "sends (CreateEntry n # ss) = sends ss" "sends (AppendEntry n c # ss) = sends ss"
  "sends (TruncateEntry n # ss) = sends ss" "sends (ReplaceEntry n b # ss) = sends ss"
  "sends (SendPayload p # ss) = p # sends ss" "sends (ss @ ts) = sends ss @ sends ts"
  by (simp_all add: sends_def)

lemma sends_write_all [simp]: "sends (write_all n b) = []"
  by (induction b) (simp_all add: write_all_def)

lemma take_write_all: "take k (write_all n b) = write_all n (take k b)"
  by (simp add: write_all_def take_map)

lemma perform_write_all: "perform_steps (write_all n b) fs = fs(n := map_option (\<lambda>x. x @ b) (fs n))"
proof (induction b arbitrary: fs)
  case (Cons c b)
  then show ?case by (cases "fs n") (auto simp: write_all_def)
qed (simp add: write_all_def option.map_ident)

lemma perform_step_dom: "dom fs \<subseteq> dom (perform_step s fs)"
  by (cases s) auto

lemma perform_steps_dom: "dom fs \<subseteq> dom (perform_steps ss fs)"
proof (induction ss arbitrary: fs)
  case (Cons s ss)
  then show ?case using perform_step_dom [of fs s] by (simp, blast)
qed simp

lemma created_in_dom: "CreateEntry n \<in> set ss \<Longrightarrow> n \<in> dom (perform_steps ss fs)"
proof (induction ss arbitrary: fs)
  case (Cons s ss)
  then show ?case using perform_steps_dom [of "perform_step s fs" ss] by (cases "s = CreateEntry n") auto
qed simp

lemma reserve_cases:
  obtains (fresh) n where "journal_name d = Inr n" "fs n = None"
      "reserve P parse d token fs = (Inr \<lparr>jr_disposition = JournalDisposition.RESERVED, jr_generation = token, jr_outcome = None\<rparr>,
         CreateEntry n # write_all n (ascii_json P (pending_entry d token)))"
  | (known) r where "reserve P parse d token fs = (r, [])" "\<And>jr. r = Inr jr \<Longrightarrow> jr_disposition jr \<noteq> JournalDisposition.RESERVED"
proof (cases "journal_name d")
  case (Inr n)
  show ?thesis
  proof (cases "fs n")
    case None
    with Inr show ?thesis by (intro fresh) (simp_all add: reserve_def)
  next
    case (Some b)
    have "jr_disposition jr \<noteq> JournalDisposition.RESERVED" if "existing_reservation parse d entry = Inr jr" for entry jr
      using that unfolding existing_reservation_def
      by (auto simp: rbind_def split: if_split_asm option.split_asm sum.split_asm)
    with Inr Some show ?thesis by (intro known) (auto simp: reserve_def result_simps)
  qed
qed (auto intro: known simp: reserve_def)

lemma render_payload_digest: "render_payload P i q d token = Inr p \<Longrightarrow> ep_action_digest p = d"
  by (auto simp: render_payload_def make_payload_def Let_def result_simps split: if_splits)

lemma sends_commit: "commit P d o1 fs = (r, cs) \<Longrightarrow> sends cs = []"
  by (auto simp: commit_def split: sum.split_asm option.split_asm if_split_asm)

text \<open>An execution does nothing, reserves, or reserves and sends one payload.\<close>

lemma execute_cases:
  obtains (nothing) "snd (execute P parse a q now token fs) = []"
  | (steps) i b n tail where "admit P a q now = Inr (Inr (i, b))"
      "journal_name (external_action_authorization_digest P q i) = Inr n" "fs n = None"
      "snd (execute P parse a q now token fs) =
         CreateEntry n # write_all n (ascii_json P (pending_entry (external_action_authorization_digest P q i) token)) @ tail"
      "tail = [] \<or> (\<exists>p more. tail = SendPayload p # more \<and> sends more = [] \<and>
         render_payload P i q (external_action_authorization_digest P q i) token = Inr p)"
proof (cases "admit P a q now")
  case (Inr ad)
  show ?thesis
  proof (cases ad)
    case (Inr ib)
    obtain i b where ib: "ib = (i, b)" by force
    let ?d = "external_action_authorization_digest P q i"
    have ex: "execute P parse a q now token fs = deliver P parse i b q token fs"
      using \<open>admit P a q now = Inr ad\<close> Inr ib by (simp add: execute_def)
    show ?thesis
    proof (rule reserve_cases [of ?d fs P parse token])
      fix n assume fresh: "journal_name ?d = Inr n" "fs n = None"
        "reserve P parse ?d token fs = (Inr \<lparr>jr_disposition = JournalDisposition.RESERVED, jr_generation = token, jr_outcome = None\<rparr>,
           CreateEntry n # write_all n (ascii_json P (pending_entry ?d token)))"
      show thesis
      proof (cases "render_payload P i q ?d token")
        case (Inl e)
        with fresh ex show thesis using \<open>admit P a q now = Inr ad\<close> \<open>ad = Inr ib\<close> ib
          by (intro steps [of i b n "[]"]) (auto simp: deliver_def Let_def)
      next
        case (Inr p)
        have "\<exists>more. snd (deliver P parse i b q token fs) =
            CreateEntry n # write_all n (ascii_json P (pending_entry ?d token)) @ SendPayload p # more \<and> sends more = []"
        proof (cases "send b p")
          case sent: (Inr delivery)
          show ?thesis
          proof (cases "accept_delivery P i q ?d p delivery")
            case accepted: (Inr o1)
            show ?thesis
              using fresh Inr sent accepted
              by (cases "commit P ?d o1 (perform_steps (CreateEntry n # write_all n (ascii_json P (pending_entry ?d token)) @ [SendPayload p]) fs)")
                (auto simp: deliver_def Let_def dest: sends_commit)
          qed (use fresh Inr sent in \<open>simp add: deliver_def Let_def\<close>)
        qed (use fresh Inr in \<open>simp add: deliver_def Let_def\<close>)
        then obtain more where more: "snd (deliver P parse i b q token fs) =
            CreateEntry n # write_all n (ascii_json P (pending_entry ?d token)) @ SendPayload p # more" "sends more = []" by blast
        show thesis
          by (rule steps [of i b n "SendPayload p # more"])
            (use fresh ex more \<open>admit P a q now = Inr ad\<close> \<open>ad = Inr ib\<close> ib Inr in simp_all)
      qed
    next
      fix r assume "reserve P parse ?d token fs = (r, [])" "\<And>jr. r = Inr jr \<Longrightarrow> jr_disposition jr \<noteq> JournalDisposition.RESERVED"
      then have "snd (execute P parse a q now token fs) = []"
        using ex by (cases r) (auto simp: deliver_def Let_def split: JournalDisposition.splits option.splits)
      then show thesis by (rule nothing)
    qed
  next
    case (Inl o1)
    show ?thesis by (rule nothing) (use \<open>admit P a q now = Inr ad\<close> Inl in \<open>simp add: execute_def\<close>)
  qed
next
  case (Inl e)
  show ?thesis by (rule nothing) (use Inl in \<open>simp add: execute_def\<close>)
qed

section \<open>An action is sent at most once\<close>

lemma sends_take: "sends ss = [] \<Longrightarrow> sends (take k ss) = []"
  by (metis append_is_Nil_conv append_take_drop_id sends_simps(7))

lemma sends_reserve_response [simp]: "sends (snd (reserve_response_consumption P o1 i nonce digest fs)) = []"
  by (auto simp: reserve_response_consumption_def Let_def split: ExternalActionStatus.split option.split sum.split)

lemma sends_commit_response [simp]: "sends (snd (commit_response_consumption P o1 c fs)) = []"
  by (auto simp: commit_response_consumption_def Let_def split: option.split sum.split)

text \<open>An event that sends creates the entry of the action first, where there was none.\<close>

lemma event_sends:
  assumes "sends (event_steps P parse ev fs) \<noteq> []"
  obtains a q now token reached i b n p where "ev = Execute a q now token reached" "admit P a q now = Inr (Inr (i, b))"
    "sends (event_steps P parse ev fs) = [p]" "journal_name (ep_action_digest p) = Inr n" "fs n = None"
    "CreateEntry n \<in> set (event_steps P parse ev fs)"
    "render_payload P i q (external_action_authorization_digest P q i) token = Inr p"
proof (cases ev)
  case ev: (Execute a q now token reached)
  show ?thesis
  proof (cases rule: execute_cases [of P parse a q now token fs])
    case nothing
    then show ?thesis using assms ev by (simp add: event_steps_def)
  next
    case (steps i b n tail)
    let ?w = "write_all n (ascii_json P (pending_entry (external_action_authorization_digest P q i) token))"
    have st: "event_steps P parse ev fs = take reached (CreateEntry n # ?w @ tail)"
      using steps(4) ev by (simp add: event_steps_def)
    from steps(5) show ?thesis
    proof
      assume "tail = []"
      then show ?thesis using assms unfolding st by (auto simp: sends_take)
    next
      assume "\<exists>p more. tail = SendPayload p # more \<and> sends more = [] \<and>
         render_payload P i q (external_action_authorization_digest P q i) token = Inr p"
      then obtain p more where p: "tail = SendPayload p # more" "sends more = []"
        "render_payload P i q (external_action_authorization_digest P q i) token = Inr p" by blast
      have reached: "reached > length (CreateEntry n # ?w)"
      proof (rule ccontr)
        assume "\<not> reached > length (CreateEntry n # ?w)"
        then have "event_steps P parse ev fs = take reached (CreateEntry n # ?w)"
          unfolding st append_Cons [symmetric] take_append by simp
        then show False using assms by (simp add: sends_take)
      qed
      then obtain k where k: "reached = Suc (length (CreateEntry n # ?w) + k)" by (auto dest: less_imp_Suc_add)
      then have "event_steps P parse ev fs = (CreateEntry n # ?w) @ SendPayload p # take k more"
        unfolding st p(1) by simp
      moreover have "journal_name (ep_action_digest p) = Inr n" using steps(2) render_payload_digest [OF p(3)] by simp
      ultimately show ?thesis
        using ev steps p by (intro that [of a q now token reached i b p n]) (simp_all add: sends_take)
    qed
  qed
qed (use assms in \<open>simp_all add: event_steps_def sends_take\<close>)

lemma sends_bounded:
  "length (filter (\<lambda>p. ep_action_digest p = d) (snd (run_events P parse evs fs))) \<le>
     (if \<exists>n. journal_name d = Inr n \<and> fs n \<noteq> None then 0 else 1)"
proof (induction evs arbitrary: fs)
  case (Cons ev evs)
  define ss where "ss = event_steps P parse ev fs"
  obtain gs later where rest: "run_events P parse evs (perform_steps ss fs) = (gs, later)" by force
  have run: "snd (run_events P parse (ev # evs) fs) = sends ss @ later"
    by (simp add: ss_def [symmetric] rest)
  have IH: "length (filter (\<lambda>p. ep_action_digest p = d) later) \<le>
      (if \<exists>n. journal_name d = Inr n \<and> perform_steps ss fs n \<noteq> None then 0 else 1)"
    using Cons.IH [of "perform_steps ss fs"] rest by simp
  have grow: "\<exists>n. journal_name d = Inr n \<and> perform_steps ss fs n \<noteq> None" if "\<exists>n. journal_name d = Inr n \<and> fs n \<noteq> None"
    using that perform_steps_dom [of fs ss] by (metis domIff subsetD)
  show ?case
  proof (cases "filter (\<lambda>p. ep_action_digest p = d) (sends ss) = []")
    case True
    have "length (filter (\<lambda>p. ep_action_digest p = d) (snd (run_events P parse (ev # evs) fs))) =
        length (filter (\<lambda>p. ep_action_digest p = d) later)"
      using True run by simp
    with IH grow show ?thesis by (auto split: if_splits)
  next
    case False
    then have "sends (event_steps P parse ev fs) \<noteq> []" by (auto simp: ss_def)
    then obtain n p where p: "sends ss = [p]" "journal_name (ep_action_digest p) = Inr n" "fs n = None" "CreateEntry n \<in> set ss"
      by (rule event_sends) (auto simp: ss_def)
    from False p(1) have d: "ep_action_digest p = d" by (auto split: if_splits)
    have "perform_steps ss fs n \<noteq> None" using created_in_dom [OF p(4)] by auto
    with IH p(2) d have "filter (\<lambda>p. ep_action_digest p = d) later = []" by (auto split: if_splits)
    then show ?thesis using run p d by auto
  qed
qed simp

text \<open>
  C2: a consequential action is sent at most once. In any history of executions and response
  operations by any adapters, requests, verifiers and backends, each cut by a crash after any
  step or not, at most one payload of an action leaves the controller, and none when the
  journal already had an entry of the action.
\<close>

theorem at_most_one_send:
  "length (filter (\<lambda>p. ep_action_digest p = d) (snd (run_events P parse evs fs))) \<le>
     (if \<exists>n. journal_name d = Inr n \<and> fs n \<noteq> None then 0 else 1)"
  by (rule sends_bounded)

section \<open>Only authorized payloads are sent\<close>

lemma first_failure_None: "first_failure cs = None \<longleftrightarrow> list_all (\<lambda>(c, m). \<not> c) cs"
  by (induction cs rule: first_failure.induct) auto

lemma policy_error_Inr: "policy_error cs = Inr u \<longleftrightarrow> list_all (\<lambda>(c, m). \<not> c) cs"
  by (auto simp: policy_error_def first_failure_None [symmetric] split: option.splits)

lemma admit_InrE:
  assumes "admit P a q now = Inr (Inr (i, b))"
  obtains v pv where "installation a = Some i" "verifier a = Some v" "policy_verifier a = Some pv" "backend a = Some b"
    "v (ei_machine_policy_receipt i) now = Inr (ei_independent_verifier_receipt_digest i)" "policies_verified pv i"
    "instant now < instant (pr_expires_at (ei_machine_policy_receipt i))"
    "policy_error (binding_checks P b i q) = Inr ()"
  using assms
  by (auto simp: admit_def Let_def rbind_def split: if_split_asm option.split_asm sum.split_asm)

lemma run_events_sent:
  assumes "p \<in> set (snd (run_events P parse evs fs))"
  shows "\<exists>a q now token reached i b. Execute a q now token reached \<in> set evs \<and> admit P a q now = Inr (Inr (i, b)) \<and>
    render_payload P i q (external_action_authorization_digest P q i) token = Inr p"
  using assms
proof (induction evs arbitrary: fs)
  case (Cons ev evs)
  let ?ss = "event_steps P parse ev fs"
  obtain gs later where rest: "run_events P parse evs (perform_steps ?ss fs) = (gs, later)" by force
  with Cons.prems consider "p \<in> set (sends ?ss)" | "p \<in> set later" by auto
  then show ?case
  proof cases
    case 1
    then have "sends ?ss \<noteq> []" by auto
    then obtain a q now token reached i b p1 where "ev = Execute a q now token reached" "admit P a q now = Inr (Inr (i, b))"
      "sends ?ss = [p1]" "render_payload P i q (external_action_authorization_digest P q i) token = Inr p1"
      by (rule event_sends)
    moreover from this 1 have "p1 = p" by simp
    ultimately show ?thesis by (metis list.set_intros(1))
  next
    case 2
    then show ?thesis using Cons.IH [of "perform_steps ?ss fs"] rest by fastforce
  qed
qed simp

text \<open>
  C3: nothing leaves the controller that was not authorized exactly. Every payload sent in any
  history comes from an execution whose installation was complete, whose receipt was verified,
  unexpired and bound by its request digest to this very action and installation, whose legal
  and safety policies were verified, and whose recipient is on the installed list; its texts
  are the installed templates with the variables of the request, and its key is the digest
  the receipt authorizes.
\<close>

theorem sent_payload_authorized:
  assumes "p \<in> set (snd (run_events P parse evs fs))"
  shows "\<exists>a q now token reached i v pv subject body. Execute a q now token reached \<in> set evs \<and>
    installation a = Some i \<and> verifier a = Some v \<and> policy_verifier a = Some pv \<and>
    v (ei_machine_policy_receipt i) now = Inr (ei_independent_verifier_receipt_digest i) \<and> policies_verified pv i \<and>
    instant now < instant (pr_expires_at (ei_machine_policy_receipt i)) \<and>
    pr_request_digest (ei_machine_policy_receipt i) = external_action_authorization_digest P q i \<and>
    ep_action_digest p = pr_request_digest (ei_machine_policy_receipt i) \<and>
    ep_idempotency_key p = ep_action_digest p \<and> ep_backend_id p = ei_backend_id i \<and>
    ep_credential_reference p = ei_credential_reference i \<and> ep_channel p = ei_channel i \<and>
    ep_recipient p = er_recipient q \<and> er_recipient q \<in> set (ei_recipient_allowlist i) \<and>
    er_work_item_id q = pr_work_item_id (ei_machine_policy_receipt i) \<and>
    er_candidate_sha q = pr_candidate_sha (ei_machine_policy_receipt i) \<and>
    format_map (et_subject_template (ei_template i)) (er_variables q) = Inr subject \<and> ep_subject p = strip P subject \<and>
    format_map (et_body_template (ei_template i)) (er_variables q) = Inr body \<and> ep_body p = strip P body"
proof -
  obtain a q now token reached i b where ev: "Execute a q now token reached \<in> set evs" "admit P a q now = Inr (Inr (i, b))"
    and p: "render_payload P i q (external_action_authorization_digest P q i) token = Inr p"
    using run_events_sent [OF assms] by blast
  from ev(2) obtain v pv where "installation a = Some i" "verifier a = Some v" "policy_verifier a = Some pv"
    "v (ei_machine_policy_receipt i) now = Inr (ei_independent_verifier_receipt_digest i)" "policies_verified pv i"
    "instant now < instant (pr_expires_at (ei_machine_policy_receipt i))"
    and checks: "policy_error (binding_checks P b i q) = Inr ()" by (rule admit_InrE)
  moreover from checks have "er_channel q = ei_channel i" "er_recipient q \<in> set (ei_recipient_allowlist i)"
    "pr_request_digest (ei_machine_policy_receipt i) = external_action_authorization_digest P q i"
    "er_work_item_id q = pr_work_item_id (ei_machine_policy_receipt i)" "er_candidate_sha q = pr_candidate_sha (ei_machine_policy_receipt i)"
    by (simp_all add: policy_error_Inr binding_checks_def Let_def)
  moreover obtain subject body where "format_map (et_subject_template (ei_template i)) (er_variables q) = Inr subject"
    "format_map (et_body_template (ei_template i)) (er_variables q) = Inr body"
    "ep_subject p = strip P subject" "ep_body p = strip P body" "ep_action_digest p = external_action_authorization_digest P q i"
    "ep_idempotency_key p = external_action_authorization_digest P q i" "ep_backend_id p = ei_backend_id i"
    "ep_credential_reference p = ei_credential_reference i" "ep_channel p = er_channel q" "ep_recipient p = er_recipient q"
    using p by (auto simp: render_payload_def make_payload_def Let_def result_simps split: if_split_asm)
  ultimately show ?thesis using ev(1)
    by (intro exI [of _ a] exI [of _ q] exI [of _ now] exI [of _ token] exI [of _ reached] exI [of _ i] exI [of _ v] exI [of _ pv]
        exI [of _ subject] exI [of _ body]) simp
qed

section \<open>Recovery and stranded actions\<close>

text \<open>
  What reading the journal relies on: a document is short enough for the reader, and the JSON
  decoder returns what was written.
\<close>

definition readable :: "platform \<Rightarrow> json \<Rightarrow> bool" where
  "readable P j \<longleftrightarrow> int (length (ascii_json P j)) \<le> 1048576 \<and> loads P (ascii_json P j) = Some (sort_keys j)"

lemma read_readable: "readable P j \<Longrightarrow> read_journal (ascii_json P j) = Inr (ascii_json P j) \<and>
    decode_entry P (ascii_json P j) label = Inr (sort_keys j)"
  by (simp add: readable_def read_journal_def decode_entry_def)

lemma sort_keys_sent_entry: "sort_keys (sent_entry P d g o1) =
    JObj [(''actionDigest'', JStr d), (''deliveryGenerationId'', JStr g), (''outcome'', sort_keys (dump_action_outcome P o1)), (''state'', JStr ''SENT'')]"
  by (simp add: sent_entry_def)

lemma sort_keys_pending_entry: "sort_keys (pending_entry d g) =
    JObj [(''actionDigest'', JStr d), (''deliveryGenerationId'', JStr g), (''state'', JStr ''PENDING'')]"
  by (simp add: pending_entry_def)

lemma reserve_pending:
  assumes "readable P (pending_entry d g)" "is_generation g" "journal_name d = Inr n" "fs n = Some (ascii_json P (pending_entry d g))"
  shows "reserve P parse d token fs = (Inr \<lparr>jr_disposition = PENDING, jr_generation = g, jr_outcome = None\<rparr>, [])"
  using assms(2-) read_readable [OF assms(1)]
  by (simp add: reserve_def sort_keys_pending_entry existing_reservation_def document_field_def jget_def as_str_def)

lemma reserve_sent:
  assumes "readable P (sent_entry P d g o1)" "is_generation g" "journal_name d = Inr n" "fs n = Some (ascii_json P (sent_entry P d g o1))"
    "parse (sort_keys (dump_action_outcome P o1)) = Inr o1" "eo_request_digest o1 = d"
    "map_option ed_delivery_generation_id (eo_delivery_receipt o1) = Some g"
  shows "reserve P parse d token fs = (Inr \<lparr>jr_disposition = RECOVERED, jr_generation = g, jr_outcome = Some o1\<rparr>, [])"
proof -
  have "is_dict (sort_keys (dump_action_outcome P o1))" by (simp add: is_dict_def dump_action_outcome_def)
  then show ?thesis
    using assms(2-) read_readable [OF assms(1)]
    by (simp add: reserve_def sort_keys_sent_entry existing_reservation_def document_field_def jget_def as_str_def)
qed

lemma waiting_status: "waiting q d reason = Inr o1 \<Longrightarrow> eo_status o1 = WAITING_EXTERNAL_CHANNEL"
  by (auto simp: waiting_def validate_action_outcome_def result_simps Let_def split: if_split_asm)

lemma accept_delivery_Inr:
  assumes "accept_delivery P i q d p delivery = Inr o1"
  shows "eo_request_digest o1 = d" "eo_delivery_receipt o1 = Some (strip_delivery P delivery)"
    "ed_delivery_generation_id (strip_delivery P delivery) = ep_delivery_generation_id p" "eo_status o1 = SENT"
  using assms
  by (auto simp: accept_delivery_def sent_outcome_def validate_action_outcome_def result_simps Let_def
      split: if_split_asm sum.split_asm)

lemma render_payload_generation:
  "render_payload P i q d token = Inr p \<Longrightarrow> ep_delivery_generation_id p = token \<and> is_generation token"
  by (auto simp: render_payload_def make_payload_def Let_def result_simps split: if_splits)

lemma commit_Inr:
  assumes "commit P d o1 fs = (Inr u, cs)" "journal_name d = Inr n" "eo_delivery_receipt o1 = Some delivery"
  shows "cs = TruncateEntry n # write_all n (ascii_json P (sent_entry P d (ed_delivery_generation_id delivery) o1))"
  using assms by (auto simp: commit_def result_simps split: if_split_asm sum.split_asm option.split_asm)

lemma reserve_outcome:
  assumes "reserve P parse d token fs = (Inr jr, ss)" "jr_outcome jr = Some o1"
  shows "eo_request_digest o1 = d"
proof -
  have "eo_request_digest o1 = d" if "existing_reservation parse d entry = Inr jr" for entry
    using that assms(2) unfolding existing_reservation_def
    by (auto simp: rbind_def split: if_split_asm option.split_asm sum.split_asm)
  then show ?thesis
    using assms by (auto simp: reserve_def result_simps split: sum.split_asm option.split_asm)
qed

text \<open>How a delivery comes to a \<open>SENT\<close> outcome: recovered, or sent now and committed.\<close>

lemma deliver_sent:
  assumes run: "deliver P parse i b q token fs = (Inr o1, ss)" and sent: "eo_status o1 = SENT"
  obtains (recovered) jr where "ss = []" "jr_disposition jr = RECOVERED" "jr_outcome jr = Some o1"
      "\<And>t. reserve P parse (external_action_authorization_digest P q i) t fs = (Inr jr, [])"
  | (committed) n where "journal_name (external_action_authorization_digest P q i) = Inr n" "is_generation token"
      "perform_steps ss fs n = Some (ascii_json P (sent_entry P (external_action_authorization_digest P q i) token o1))"
      "map_option ed_delivery_generation_id (eo_delivery_receipt o1) = Some token"
      "eo_request_digest o1 = external_action_authorization_digest P q i"
proof -
  let ?d = "external_action_authorization_digest P q i"
  show thesis
  proof (rule reserve_cases [of ?d fs P parse token])
    fix n assume fresh: "journal_name ?d = Inr n" "fs n = None"
      "reserve P parse ?d token fs = (Inr \<lparr>jr_disposition = JournalDisposition.RESERVED, jr_generation = token, jr_outcome = None\<rparr>,
         CreateEntry n # write_all n (ascii_json P (pending_entry ?d token)))"
    have notwait: "waiting q ?d IDEMPOTENCY_PENDING \<noteq> Inr o1" using waiting_status sent by fastforce
    from run fresh notwait obtain p delivery u cs where p: "render_payload P i q ?d token = Inr p" "send b p = Inr delivery"
      "accept_delivery P i q ?d p delivery = Inr o1"
      and commit: "commit P ?d o1 (perform_steps (CreateEntry n # write_all n (ascii_json P (pending_entry ?d token)) @ [SendPayload p]) fs) = (Inr u, cs)"
      and ss: "ss = CreateEntry n # write_all n (ascii_json P (pending_entry ?d token)) @ SendPayload p # cs"
      by (auto simp: deliver_def Let_def result_simps split: sum.split_asm prod.split_asm)
    have "cs = TruncateEntry n # write_all n (ascii_json P (sent_entry P ?d token o1))"
      using commit_Inr [OF commit fresh(1) accept_delivery_Inr(2) [OF p(3)]] accept_delivery_Inr(3) [OF p(3)]
        render_payload_generation [OF p(1)] by simp
    then have "perform_steps ss fs n = Some (ascii_json P (sent_entry P ?d token o1))"
      by (simp add: ss perform_write_all)
    then show thesis
      using fresh accept_delivery_Inr [OF p(3)] render_payload_generation [OF p(1)] by (intro committed [of n]) simp_all
  next
    fix r assume known: "reserve P parse ?d token fs = (r, [])" "\<And>jr. r = Inr jr \<Longrightarrow> jr_disposition jr \<noteq> JournalDisposition.RESERVED"
    have notwait: "waiting q ?d IDEMPOTENCY_PENDING \<noteq> Inr o1" using waiting_status sent by fastforce
    obtain jr where jr: "r = Inr jr" "ss = []" "jr_disposition jr = RECOVERED" "jr_outcome jr = Some o1"
      using run known notwait
      by (cases r) (auto simp: deliver_def Let_def split: JournalDisposition.split_asm option.split_asm)
    have "reserve P parse ?d t fs = (Inr jr, [])" for t
      using known(1) jr(1) by (auto simp: reserve_def split: sum.split_asm option.split_asm)
    then show thesis using jr by (intro recovered [of jr]) simp_all
  qed
qed

text \<open>
  C33: an action whose payload cannot be built is stranded. The adapter reserves the journal
  entry before it renders and validates the payload. When the rendered texts are refused, the
  execution raises with nothing sent, the entry stays pending, every later execution of the
  action waits for a delivery that was never attempted, and no history ever sends it.
\<close>

theorem refused_payload_strands_action:
  assumes admit: "admit P a q now = Inr (Inr (i, b))" and d: "d = external_action_authorization_digest P q i"
    and new: "journal_name d = Inr n" "fs n = None"
    and refused: "render_payload P i q d token = Inl e"
    and journal: "readable P (pending_entry d token)" "is_generation token"
    and again: "admit P a2 q2 now2 = Inr (Inr (i2, b2))" "external_action_authorization_digest P q2 i2 = d"
  shows "\<exists>gs. fst (execute P parse a q now token fs) = Inl e \<and> sends (snd (execute P parse a q now token fs)) = [] \<and>
    gs = perform_steps (snd (execute P parse a q now token fs)) fs \<and>
    execute P parse a2 q2 now2 token2 gs = (waiting q2 d IDEMPOTENCY_PENDING, []) \<and>
    filter (\<lambda>p. ep_action_digest p = d) (snd (run_events P parse evs gs)) = []"
proof -
  define gs where "gs = perform_steps (CreateEntry n # write_all n (ascii_json P (pending_entry d token))) fs"
  have "reserve P parse d token fs = (Inr \<lparr>jr_disposition = JournalDisposition.RESERVED, jr_generation = token, jr_outcome = None\<rparr>,
      CreateEntry n # write_all n (ascii_json P (pending_entry d token)))"
    using new by (simp add: reserve_def)
  then have run: "execute P parse a q now token fs = (Inl e, CreateEntry n # write_all n (ascii_json P (pending_entry d token)))"
    using admit d refused by (simp add: execute_def deliver_def Let_def)
  have entry: "gs n = Some (ascii_json P (pending_entry d token))" by (simp add: gs_def perform_write_all)
  have "reserve P parse d token2 gs = (Inr \<lparr>jr_disposition = PENDING, jr_generation = token, jr_outcome = None\<rparr>, [])"
    by (rule reserve_pending) (use journal new entry in simp_all)
  then have "execute P parse a2 q2 now2 token2 gs = (waiting q2 d IDEMPOTENCY_PENDING, [])"
    using again by (simp add: execute_def deliver_def Let_def)
  moreover have "filter (\<lambda>p. ep_action_digest p = d) (snd (run_events P parse evs gs)) = []"
    using sends_bounded [of d P parse evs gs] new(1) entry by simp
  ultimately show ?thesis using run by (simp add: gs_def)
qed

section \<open>A delivery consumes one response\<close>

fun touches :: "journal_step \<Rightarrow> pystr option" where
  "touches (CreateEntry n) = Some n"
| "touches (AppendEntry n c) = Some n"
| "touches (TruncateEntry n) = Some n"
| "touches (ReplaceEntry n b) = Some n"
| "touches (SendPayload p) = None"

lemma perform_steps_other: "(\<And>s. s \<in> set ss \<Longrightarrow> touches s \<noteq> Some m) \<Longrightarrow> perform_steps ss fs m = fs m"
proof (induction ss arbitrary: fs)
  case (Cons s ss)
  have "perform_step s fs m = fs m" using Cons.prems [of s] by (cases s) auto
  then show ?case using Cons by simp
qed simp

lemma in_write_all: "s \<in> set (write_all n b) \<longleftrightarrow> (\<exists>c\<in>set b. s = AppendEntry n c)"
  by (auto simp: write_all_def)

lemma reserve_touches: "reserve P parse d token fs = (r, ss) \<Longrightarrow> s \<in> set ss \<Longrightarrow> touches s = Some m \<Longrightarrow> journal_name d = Inr m"
  by (auto simp: reserve_def in_write_all split: sum.split_asm option.split_asm)

lemma commit_touches: "commit P d o1 fs = (r, cs) \<Longrightarrow> s \<in> set cs \<Longrightarrow> touches s = Some m \<Longrightarrow> journal_name d = Inr m"
  by (auto simp: commit_def in_write_all split: sum.split_asm option.split_asm if_split_asm)

lemma execute_touches:
  assumes "s \<in> set (snd (execute P parse a q now token fs))" "touches s = Some m"
  shows "\<exists>d. journal_name d = Inr m"
  using assms
  by (auto simp: execute_def deliver_def Let_def dest: reserve_touches commit_touches
      split: sum.split_asm prod.split_asm option.split_asm JournalDisposition.split_asm)

lemma response_name_not_journal_name: "journal_name d = Inr m \<Longrightarrow> response_name d' = Inr m' \<Longrightarrow> m \<noteq> m'"
proof -
  assume m: "journal_name d = Inr m" and m': "response_name d' = Inr m'"
  from m have "is_digest d" by (simp add: journal_name_def split: if_split_asm)
  then obtain h where "d = ''sha256:'' @ h" "length h = 64" "list_all is_hex h" by (rule is_digestE)
  with m have "m = h @ ''.json''" by (simp add: journal_name_def removeprefix_def starts_with_def split: if_split_asm)
  moreover have "\<not> is_hex (CHR ''r'')" by code_simp
  moreover have "hd m' = CHR ''r''" using m' by (auto simp: response_name_def result_simps)
  ultimately show ?thesis using \<open>length h = 64\<close> \<open>list_all is_hex h\<close> by (cases h) auto
qed

lemma sort_keys_response_entry: "sort_keys (response_entry st d g i nonce digest) =
    JObj [(''actionDigest'', JStr d), (''deliveryGenerationId'', JStr g), (''responseDigest'', JStr digest),
      (''responseNonce'', JStr nonce), (''responseReceiptId'', JStr i), (''state'', JStr st)]"
  by (simp add: response_entry_def)

text \<open>The entry of a response that was taken: pending or applied, and the same response.\<close>

definition response_held :: "platform \<Rightarrow> pystr \<Rightarrow> (string \<Rightarrow> json) \<Rightarrow> journal \<Rightarrow> bool" where
  "response_held P n entry fs \<longleftrightarrow>
     (\<exists>b j. fs n = Some b \<and> read_journal b = Inr b \<and> decode_record P b ''external response consumption record'' = Inr j \<and>
        sort_keys j \<in> {sort_keys (entry ''PENDING_TERMINAL_TRANSITION''), sort_keys (entry ''APPLIED'')})"

lemma response_held_readable:
  assumes "readable P (response_entry st d g i nonce digest)" "fs n = Some (ascii_json P (response_entry st d g i nonce digest))"
    "st \<in> {''PENDING_TERMINAL_TRANSITION'', ''APPLIED''}"
  shows "response_held P n (\<lambda>st. response_entry st d g i nonce digest) fs"
  using assms(2,3) read_readable [OF assms(1)]
  by (auto simp: response_held_def decode_record_def sort_keys_response_entry is_dict_def)

lemma reserve_response_Inr:
  assumes "reserve_response_consumption P o1 i nonce digest fs = (Inr c, ss)"
  obtains delivery n where "eo_delivery_receipt o1 = Some delivery" "response_name (eo_request_digest o1) = Inr n"
    "fs n = None \<and> ss = CreateEntry n # write_all n (ascii_json P (response_entry ''PENDING_TERMINAL_TRANSITION'' (eo_request_digest o1)
         (ed_delivery_generation_id delivery) i nonce digest)) \<or>
     ss = [] \<and> rc_disposition c = RECOVERABLE \<and> (\<exists>b j. fs n = Some b \<and> read_journal b = Inr b \<and>
       decode_record P b ''external response consumption record'' = Inr j \<and> sort_keys j = sort_keys (response_entry
         ''PENDING_TERMINAL_TRANSITION'' (eo_request_digest o1) (ed_delivery_generation_id delivery) i nonce digest))"
proof -
  obtain delivery where d: "eo_delivery_receipt o1 = Some delivery" "eo_status o1 = SENT"
    using assms by (auto simp: reserve_response_consumption_def split: ExternalActionStatus.split_asm option.split_asm)
  obtain n where n: "response_name (eo_request_digest o1) = Inr n"
    using assms d by (auto simp: reserve_response_consumption_def Let_def result_simps split: sum.split_asm option.split_asm if_split_asm)
  show thesis
    by (rule that [OF d(1) n], use assms d n in \<open>cases "fs n"\<close>)
      (auto simp: reserve_response_consumption_def Let_def result_simps read_journal_def
        split: sum.split_asm option.split_asm if_split_asm)
qed

lemma reserve_response_touches:
  assumes "s \<in> set (snd (reserve_response_consumption P o1 i nonce digest fs))" "touches s = Some m"
  shows "fs m = None"
  using assms
  by (auto simp: reserve_response_consumption_def Let_def in_write_all
      split: ExternalActionStatus.split_asm sum.split_asm option.split_asm)

lemma response_held_event:
  assumes held: "response_held P n (\<lambda>st. response_entry st d g i nonce digest) fs" and n: "response_name d = Inr n"
    and applied: "readable P (response_entry ''APPLIED'' d g i nonce digest)"
  shows "response_held P n (\<lambda>st. response_entry st d g i nonce digest) (perform_steps (event_steps P parse ev fs) fs)"
proof (cases "\<exists>s\<in>set (event_steps P parse ev fs). touches s = Some n")
  case False
  then have "perform_steps (event_steps P parse ev fs) fs n = fs n" by (intro perform_steps_other) auto
  then show ?thesis using held by (simp add: response_held_def)
next
  case True
  then obtain s where s: "s \<in> set (event_steps P parse ev fs)" "touches s = Some n" by blast
  show ?thesis
  proof (cases ev)
    case (Execute a q now token reached)
    with s have "s \<in> set (snd (execute P parse a q now token fs))" by (auto simp: event_steps_def dest: in_set_takeD)
    from execute_touches [OF this s(2)] n show ?thesis using response_name_not_journal_name by blast
  next
    case (ReserveResponse o1 i1 nonce1 digest1 reached)
    with s have "s \<in> set (snd (reserve_response_consumption P o1 i1 nonce1 digest1 fs))"
      by (auto simp: event_steps_def dest: in_set_takeD)
    from reserve_response_touches [OF this s(2)] held show ?thesis by (simp add: response_held_def)
  next
    case (CommitResponse o1 c reached)
    let ?cs = "snd (commit_response_consumption P o1 c fs)"
    from s CommitResponse have in_cs: "s \<in> set ?cs" "event_steps P parse ev fs = take reached ?cs"
      by (auto simp: event_steps_def dest: in_set_takeD)
    obtain b j where b: "fs n = Some b" "read_journal b = Inr b" "decode_record P b ''external response consumption record'' = Inr j"
      and j: "sort_keys j \<in> {sort_keys (response_entry ''PENDING_TERMINAL_TRANSITION'' d g i nonce digest),
         sort_keys (response_entry ''APPLIED'' d g i nonce digest)}"
      using held by (auto simp: response_held_def)
    have "?cs = [ReplaceEntry n (ascii_json P (response_entry ''APPLIED'' d g i nonce digest))]"
      using in_cs(1) s(2) b j
      by (auto simp: commit_response_consumption_def Let_def sort_keys_response_entry split: option.split_asm sum.split_asm if_split_asm)
    moreover have "event_steps P parse ev fs \<noteq> []" using s by auto
    ultimately have "event_steps P parse ev fs = [ReplaceEntry n (ascii_json P (response_entry ''APPLIED'' d g i nonce digest))]"
      using in_cs(2) by (cases reached) auto
    then show ?thesis using response_held_readable [OF applied] by simp
  qed
qed

lemma response_held_events:
  assumes "response_held P n (\<lambda>st. response_entry st d g i nonce digest) fs" "response_name d = Inr n"
    "readable P (response_entry ''APPLIED'' d g i nonce digest)"
  shows "response_held P n (\<lambda>st. response_entry st d g i nonce digest) (fst (run_events P parse evs fs))"
  using assms(1)
proof (induction evs arbitrary: fs)
  case (Cons ev evs)
  have "response_held P n (\<lambda>st. response_entry st d g i nonce digest) (perform_steps (event_steps P parse ev fs) fs)"
    by (rule response_held_event [OF Cons.prems assms(2,3)])
  from Cons.IH [OF this] show ?case by (simp add: Let_def case_prod_beta)
qed simp

text \<open>
  C32: a delivery is answered by one response only. After a response was reserved for a sent
  action, whatever executions, reservations and commits follow in any order and with any
  crashes, a further reservation for the action succeeds only for the very same receipt,
  nonce, digest and delivery generation, as recoverable and without touching the journal.
\<close>

theorem response_used_once:
  assumes first: "reserve_response_consumption P o1 i nonce digest fs = (Inr c, ss)" and delivery: "eo_delivery_receipt o1 = Some delivery"
    and journal: "\<forall>st\<in>{''PENDING_TERMINAL_TRANSITION'', ''APPLIED''}.
      readable P (response_entry st (eo_request_digest o1) (ed_delivery_generation_id delivery) i nonce digest)"
    and second: "reserve_response_consumption P o2 i2 nonce2 digest2 (fst (run_events P parse evs (perform_steps ss fs))) = (Inr c2, ss2)"
      "eo_request_digest o2 = eo_request_digest o1"
  shows "i2 = i \<and> nonce2 = nonce \<and> digest2 = digest \<and>
    map_option ed_delivery_generation_id (eo_delivery_receipt o2) = Some (ed_delivery_generation_id delivery) \<and>
    rc_disposition c2 = RECOVERABLE \<and> ss2 = []"
proof -
  let ?d = "eo_request_digest o1" and ?g = "ed_delivery_generation_id delivery"
  obtain n where n: "response_name ?d = Inr n"
    and "response_held P n (\<lambda>st. response_entry st ?d ?g i nonce digest) (perform_steps ss fs)"
  proof (rule reserve_response_Inr [OF first])
    fix delivery1 n assume d1: "eo_delivery_receipt o1 = Some delivery1" and n: "response_name ?d = Inr n"
      and entry: "fs n = None \<and> ss = CreateEntry n # write_all n (ascii_json P (response_entry ''PENDING_TERMINAL_TRANSITION'' ?d
         (ed_delivery_generation_id delivery1) i nonce digest)) \<or>
       ss = [] \<and> rc_disposition c = RECOVERABLE \<and> (\<exists>b j. fs n = Some b \<and> read_journal b = Inr b \<and>
         decode_record P b ''external response consumption record'' = Inr j \<and> sort_keys j = sort_keys (response_entry
         ''PENDING_TERMINAL_TRANSITION'' ?d (ed_delivery_generation_id delivery1) i nonce digest))"
    have "response_held P n (\<lambda>st. response_entry st ?d ?g i nonce digest) (perform_steps ss fs)"
      using entry
    proof
      assume "fs n = None \<and> ss = CreateEntry n # write_all n (ascii_json P (response_entry ''PENDING_TERMINAL_TRANSITION'' ?d
         (ed_delivery_generation_id delivery1) i nonce digest))"
      then show ?thesis
        using d1 delivery journal by (intro response_held_readable [of P "''PENDING_TERMINAL_TRANSITION''"]) (simp_all add: perform_write_all)
    qed (use d1 delivery in \<open>auto simp: response_held_def\<close>)
    then show thesis using that n by blast
  qed
  then have "response_held P n (\<lambda>st. response_entry st ?d ?g i nonce digest) (fst (run_events P parse evs (perform_steps ss fs)))"
    using journal by (intro response_held_events) simp_all
  then show ?thesis
    by (rule_tac reserve_response_Inr [OF second(1)])
      (use n second(2) in \<open>auto simp: response_held_def sort_keys_response_entry\<close>)
qed

section \<open>A sent action stays sent\<close>

lemma reserve_response_name:
  assumes "s \<in> set (snd (reserve_response_consumption P o1 i nonce digest fs))" "touches s = Some m"
  shows "\<exists>d. response_name d = Inr m"
  using assms
  by (auto simp: reserve_response_consumption_def Let_def in_write_all result_simps
      split: ExternalActionStatus.split_asm sum.split_asm option.split_asm if_split_asm)

lemma commit_response_name:
  assumes "s \<in> set (snd (commit_response_consumption P o1 c fs))" "touches s = Some m"
  shows "\<exists>d. response_name d = Inr m"
  using assms
  by (auto simp: commit_response_consumption_def Let_def split: option.split_asm sum.split_asm if_split_asm)

text \<open>The journal entry of an action, once it is there, is changed by no further operation.\<close>

lemma execute_keeps_entry:
  assumes "s \<in> set (snd (execute P parse a q now token fs))" "touches s = Some m"
  shows "fs m = None"
proof -
  obtain i b where s: "s \<in> set (snd (deliver P parse i b q token fs))"
    using assms(1) by (auto simp: execute_def split: sum.split_asm)
  show ?thesis
  proof (rule reserve_cases [of "external_action_authorization_digest P q i" fs P parse token])
    fix n assume n: "journal_name (external_action_authorization_digest P q i) = Inr n" "fs n = None"
    have "journal_name (external_action_authorization_digest P q i) = Inr m"
      using s assms(2)
      by (auto simp: deliver_def Let_def dest: reserve_touches commit_touches
          split: sum.split_asm prod.split_asm option.split_asm JournalDisposition.split_asm)
    with n show ?thesis by simp
  next
    fix r assume known: "reserve P parse (external_action_authorization_digest P q i) token fs = (r, [])"
      "\<And>jr. r = Inr jr \<Longrightarrow> jr_disposition jr \<noteq> JournalDisposition.RESERVED"
    then have "snd (deliver P parse i b q token fs) = []"
      by (cases r) (auto simp: deliver_def Let_def split: JournalDisposition.split option.split)
    with s show ?thesis by simp
  qed
qed

lemma entry_kept_event:
  assumes "journal_name d = Inr n" "fs n = Some e"
  shows "perform_steps (event_steps P parse ev fs) fs n = Some e"
proof -
  have "touches s \<noteq> Some n" if s: "s \<in> set (event_steps P parse ev fs)" for s
  proof
    assume t: "touches s = Some n"
    show False
    proof (cases ev)
      case (Execute a q now token reached)
      with s have "s \<in> set (snd (execute P parse a q now token fs))" by (auto simp: event_steps_def dest: in_set_takeD)
      from execute_keeps_entry [OF this t] assms(2) show False by simp
    next
      case (ReserveResponse o1 i nonce digest reached)
      with s have "s \<in> set (snd (reserve_response_consumption P o1 i nonce digest fs))"
        by (auto simp: event_steps_def dest: in_set_takeD)
      from reserve_response_name [OF this t] assms(1) show False using response_name_not_journal_name by blast
    next
      case (CommitResponse o1 c reached)
      with s have "s \<in> set (snd (commit_response_consumption P o1 c fs))" by (auto simp: event_steps_def dest: in_set_takeD)
      from commit_response_name [OF this t] assms(1) show False using response_name_not_journal_name by blast
    qed
  qed
  then show ?thesis using assms(2) by (simp add: perform_steps_other)
qed

lemma entry_kept_events:
  assumes "journal_name d = Inr n" "fs n = Some e"
  shows "fst (run_events P parse evs fs) n = Some e"
  using assms(2)
proof (induction evs arbitrary: fs)
  case (Cons ev evs)
  have "perform_steps (event_steps P parse ev fs) fs n = Some e"
    using assms(1) Cons.prems by (rule entry_kept_event)
  from Cons.IH [where fs = "perform_steps (event_steps P parse ev fs) fs", OF this]
  show ?case by (simp add: Let_def case_prod_beta)
qed simp

lemma reserve_same_entry:
  assumes "journal_name d = Inr n" "fs n = Some e" "gs n = Some e"
  shows "reserve P parse d token gs = reserve P parse d token fs"
  using assms by (simp add: reserve_def)

text \<open>
  C31: a sent action is never sent again but recovered. Once an execution returned a SENT
  outcome, whatever executions and response operations follow, in any order and cut by crashes
  anywhere, every execution of the same action that is then admitted, by any adapter and backend
  and at any time, returns this very outcome without touching the journal or the backend.
\<close>

theorem sent_action_recovered:
  assumes run: "execute P parse a q now token fs = (Inr o1, ss)" and sent: "eo_status o1 = SENT"
    and journal: "readable P (sent_entry P (eo_request_digest o1) token o1)" "parse (sort_keys (dump_action_outcome P o1)) = Inr o1"
    and again: "admit P a2 q2 now2 = Inr (Inr (i2, b2))" "external_action_authorization_digest P q2 i2 = eo_request_digest o1"
  shows "execute P parse a2 q2 now2 token2 (fst (run_events P parse evs (perform_steps ss fs))) = (Inr o1, [])"
proof -
  let ?gs = "perform_steps ss fs" and ?hs = "fst (run_events P parse evs (perform_steps ss fs))"
  have early: "admit P a q now \<noteq> Inr (Inl o1)"
    using sent waiting_status by (fastforce simp: admit_def Let_def result_simps split: if_split_asm option.split_asm)
  then obtain i b where admit: "admit P a q now = Inr (Inr (i, b))" and del: "deliver P parse i b q token fs = (Inr o1, ss)"
    using run by (auto simp: execute_def split: sum.split_asm)
  have "\<exists>jr n e. jr_disposition jr = RECOVERED \<and> jr_outcome jr = Some o1 \<and> journal_name (eo_request_digest o1) = Inr n \<and>
      ?gs n = Some e \<and> reserve P parse (eo_request_digest o1) token2 ?gs = (Inr jr, [])"
  proof (rule deliver_sent [OF del sent])
    fix jr assume jr: "ss = []" "jr_disposition jr = RECOVERED" "jr_outcome jr = Some o1"
      "\<And>t. reserve P parse (external_action_authorization_digest P q i) t fs = (Inr jr, [])"
    have d: "eo_request_digest o1 = external_action_authorization_digest P q i"
      using reserve_outcome [OF jr(4) jr(3)] .
    obtain n e where "journal_name (eo_request_digest o1) = Inr n" "fs n = Some e"
      using jr(4) [of token] jr(3) unfolding d by (auto simp: reserve_def split: sum.split_asm option.split_asm)
    then show ?thesis using jr d by auto
  next
    fix n assume n: "journal_name (external_action_authorization_digest P q i) = Inr n" "is_generation token"
      "perform_steps ss fs n = Some (ascii_json P (sent_entry P (external_action_authorization_digest P q i) token o1))"
      "map_option ed_delivery_generation_id (eo_delivery_receipt o1) = Some token"
      "eo_request_digest o1 = external_action_authorization_digest P q i"
    then have "reserve P parse (eo_request_digest o1) token2 ?gs =
        (Inr \<lparr>jr_disposition = RECOVERED, jr_generation = token, jr_outcome = Some o1\<rparr>, [])"
      using journal by (intro reserve_sent) simp_all
    then show ?thesis using n by auto
  qed
  then obtain jr n e where jr: "jr_disposition jr = RECOVERED" "jr_outcome jr = Some o1" "journal_name (eo_request_digest o1) = Inr n"
    "?gs n = Some e" "reserve P parse (eo_request_digest o1) token2 ?gs = (Inr jr, [])" by blast
  have "?hs n = Some e" using jr(3,4) by (rule entry_kept_events)
  then have "reserve P parse (eo_request_digest o1) token2 ?hs = reserve P parse (eo_request_digest o1) token2 ?gs"
    using jr(3,4) by (intro reserve_same_entry)
  then have "reserve P parse (external_action_authorization_digest P q2 i2) token2 ?hs = (Inr jr, [])"
    using jr(5) by (simp add: again(2))
  then show ?thesis using again(1) jr(1,2) by (simp add: execute_def deliver_def Let_def)
qed

section \<open>A sample action\<close>

definition nil_digest :: pystr where
  "nil_digest = ''sha256:'' @ replicate 64 CHR ''0''"

definition sample_token :: pystr where
  "sample_token = replicate 32 CHR ''a''"

definition sample_policy_receipt :: MachinePolicyReceiptV31 where
  "sample_policy_receipt = \<lparr>pr_receipt_id = ''RECEIPT:1'', pr_policy_id = ''POLICY:1'', pr_policy_version = ''3.1.0'',
     pr_issuer_id = ''VERIFIER:1'', pr_issuer_key_id = ''KEY:1'', pr_issued_at = Datetime 0 (Some 0),
     pr_expires_at = Datetime 100 (Some 0), pr_revocation_epoch = 1, pr_nonce = replicate 16 CHR ''0'',
     pr_request_digest = nil_digest, pr_work_item_id = ''V3-MKT-001'', pr_milestone_id = ''M3_MARKET'', pr_lane = MARKET,
     pr_risk_tier = RiskTier.EXTERNAL, pr_candidate_sha = replicate 40 CHR ''a'', pr_candidate_tree_sha = replicate 40 CHR ''b'',
     pr_base_sha = replicate 40 CHR ''c'', pr_source_generation_id = ''v3.1'', pr_source_generation_digest = nil_digest,
     pr_context_manifest_digest = nil_digest, pr_task_packet_digest = nil_digest, pr_candidate_manifest_digest = nil_digest,
     pr_checkpoint_digest = nil_digest, pr_required_gate_results = [(''GATE'', GateResult.PASS)],
     pr_private_gate_suite_id = ''SUITE'', pr_private_gate_runner_digest = nil_digest, pr_independent_oracle_ids = [''ORACLE''],
     pr_raw_evidence_artifact_hashes = [nil_digest], pr_native_substitute_disposition = NativeSubstituteDisposition.INCREMENTAL_VALUE,
     pr_decision_value_disposition = INCREMENTAL_DECISION_VALUE_DEMONSTRATED, pr_engineering_maturity_ceiling = PASSED,
     pr_commercial_maturity_ceiling = PILOT_ELIGIBLE, pr_allowed_claims = [''EXTERNAL_ACTION''], pr_forbidden_claims = [],
     pr_publication_scope = [''factory''], pr_decision = PolicyDecision.PASS, pr_signature_algorithm = ''ed25519'',
     pr_signature = replicate 64 CHR ''f''\<rparr>"

definition sample_installation :: ExternalActionInstallation where
  "sample_installation = \<lparr>ei_machine_policy_receipt = sample_policy_receipt, ei_independent_verifier_receipt_digest = nil_digest,
     ei_credential_reference = ''CREDREF:MAIL'', ei_backend_id = ''BACKEND'', ei_recipient_allowlist = [''a@b''],
     ei_legal_policy_id = ''LEGAL'', ei_legal_policy_digest = nil_digest, ei_safety_policy_id = ''SAFETY'',
     ei_safety_policy_digest = nil_digest, ei_machine_policy_scope = [''factory''], ei_channel = EMAIL,
     ei_template = \<lparr>et_template_id = ''MAIL'', et_channel = EMAIL, et_subject_template = ''{name}'', et_body_template = ''Dear {name}'',
       et_variable_names = [''name'']\<rparr>\<rparr>"

definition sample_action_request :: "pystr \<Rightarrow> ExternalActionRequest" where
  "sample_action_request name = \<lparr>er_action_id = ''ACTION'', er_work_item_id = ''V3-MKT-001'', er_candidate_sha = replicate 40 CHR ''a'',
     er_channel = EMAIL, er_recipient = ''a@b'', er_template_id = ''MAIL'', er_variables = [(''name'', name)],
     er_machine_policy_receipt_id = ''RECEIPT:1'', er_machine_policy_receipt_digest = nil_digest,
     er_requested_at = Datetime 0 (Some 0)\<rparr>"

definition sample_delivery :: ExternalDeliveryReceipt where
  "sample_delivery = \<lparr>ed_backend_id = ''BACKEND'', ed_backend_delivery_id = ''1'', ed_action_digest = nil_digest,
     ed_payload_digest = nil_digest, ed_idempotency_key = nil_digest, ed_delivery_generation_id = sample_token,
     ed_delivered_at = Datetime 1 (Some 0), ed_delivery_digest = nil_digest\<rparr>"

definition sample_action_adapter :: ExternalActionAdapter where
  "sample_action_adapter = \<lparr>installation = Some sample_installation, verifier = Some (\<lambda>_ _. Inr nil_digest),
     policy_verifier = Some (\<lambda>_ _. Inr True),
     backend = Some \<lparr>backend_id = ''BACKEND'', is_available = (\<lambda>_ _. Inr True), send = (\<lambda>_. Inr sample_delivery)\<rparr>,
     journal_installed = True\<rparr>"

definition sample_outcome :: ExternalActionOutcome where
  "sample_outcome = \<lparr>eo_action_id = ''ACTION'', eo_work_item_id = ''V3-MKT-001'', eo_candidate_sha = replicate 40 CHR ''a'',
     eo_request = sample_action_request ''Ada'', eo_request_digest = nil_digest, eo_status = SENT, eo_reason = DELIVERED,
     eo_delivery_receipt = Some sample_delivery\<rparr>"

definition sample_documents :: "json list" where
  "sample_documents =
     [pending_entry nil_digest sample_token, sent_entry sample_platform nil_digest sample_token sample_outcome,
      response_entry ''PENDING_TERMINAL_TRANSITION'' nil_digest sample_token ''R'' ''N'' nil_digest,
      response_entry ''APPLIED'' nil_digest sample_token ''R'' ''N'' nil_digest]"

definition journal_platform :: platform where
  "journal_platform = sample_platform\<lparr>loads :=
     (\<lambda>b. map_option sort_keys (List.find (\<lambda>j. ascii_json sample_platform j = b) sample_documents))\<rparr>"

lemma sample_documents_lengths:
  "map (\<lambda>j. int (length (ascii_json sample_platform j))) sample_documents = [166, 1365, 321, 301]"
  by code_simp

lemma journal_platform_simps [simp]:
  "dump_datetime journal_platform = dump_datetime sample_platform" "float_repr journal_platform = float_repr sample_platform"
  "strip journal_platform s = s" "external_action_digest journal_platform j = nil_digest"
  by (simp_all add: journal_platform_def sample_platform_def external_action_digest_def sha256_digest_def nil_digest_def)

lemma render_ascii_journal_platform: "render_ascii journal_platform j = render_ascii sample_platform j"
proof (induction j)
  case (JList xs)
  then show ?case by (simp cong: map_cong)
next
  case (JObj kvs)
  then have "map (\<lambda>(k, v). ascii_quote k @ '':'' @ render_ascii journal_platform v) kvs =
      map (\<lambda>(k, v). ascii_quote k @ '':'' @ render_ascii sample_platform v) kvs"
    by (intro map_cong) auto
  then show ?case by (simp only: render_ascii.simps)
qed simp_all

lemma find_distinct: "distinct (map (\<lambda>y. int (length (f y))) xs) \<Longrightarrow> x \<in> set xs \<Longrightarrow> List.find (\<lambda>y. f y = f x) xs = Some x"
  by (induction xs) auto

lemma sample_documents_readable: "j \<in> set sample_documents \<Longrightarrow> readable journal_platform j"
proof -
  assume j: "j \<in> set sample_documents"
  have "int (length (ascii_json sample_platform j)) \<in> set [166, 1365, 321, 301]"
    unfolding sample_documents_lengths [symmetric] using j by auto
  then have "int (length (ascii_json sample_platform j)) \<le> 1048576" by auto
  moreover have "List.find (\<lambda>y. ascii_json sample_platform y = ascii_json sample_platform j) sample_documents = Some j"
    by (rule find_distinct) (use j in \<open>simp_all add: sample_documents_lengths\<close>)
  moreover have "ascii_json journal_platform j = ascii_json sample_platform j"
    by (simp add: ascii_json_def render_ascii_journal_platform)
  ultimately show ?thesis by (simp add: readable_def journal_platform_def)
qed

lemma sample_sent_entry: "sent_entry journal_platform d g o1 = sent_entry sample_platform d g o1"
  by (simp add: sent_entry_def dump_action_outcome_def dump_request_def request_fields_def dump_delivery_def delivery_fields_def
      jopt_def split: option.split)

definition zero_name :: pystr where
  "zero_name = replicate 64 CHR ''0'' @ ''.json''"

lemma journal_name_zero: "journal_name nil_digest = Inr zero_name"
  by code_simp

lemma sample_token_generation: "is_generation sample_token"
  by code_simp

abbreviation sample_parse :: "json \<Rightarrow> ExternalActionOutcome result" where
  "sample_parse \<equiv> (\<lambda>_. Inr sample_outcome)"

lemma sample_admit:
  "instant now < 100 \<Longrightarrow> is_aware now \<Longrightarrow> admit journal_platform sample_action_adapter (sample_action_request name) now =
     Inr (Inr (sample_installation, the (backend sample_action_adapter)))"
  by (simp add: admit_def sample_action_adapter_def sample_installation_def sample_policy_receipt_def sample_action_request_def
      policies_verified_def binding_checks_def policy_error_def external_action_authorization_digest_def Let_def)

lemma sample_send: "send (the (backend sample_action_adapter)) p = Inr sample_delivery"
  by (simp add: sample_action_adapter_def)

lemma sample_authorization [simp]: "external_action_authorization_digest journal_platform q i = nil_digest"
  by (simp add: external_action_authorization_digest_def)

definition sample_payload :: ExternalActionPayload where
  "sample_payload = \<lparr>ep_action_id = ''ACTION'', ep_action_digest = nil_digest, ep_backend_id = ''BACKEND'', ep_channel = EMAIL,
     ep_recipient = ''a@b'', ep_subject = ''Ada'', ep_body = ''Dear Ada'', ep_credential_reference = ''CREDREF:MAIL'',
     ep_idempotency_key = nil_digest, ep_delivery_generation_id = sample_token\<rparr>"

lemma sample_render: "render_payload journal_platform sample_installation (sample_action_request ''Ada'') nil_digest sample_token =
    Inr sample_payload"
proof -
  have "format_map ''{name}'' [(''name'', ''Ada'')] = Inr ''Ada''" "format_map ''Dear {name}'' [(''name'', ''Ada'')] = Inr ''Dear Ada''"
    by code_simp+
  moreover have "is_digest nil_digest" "sized 1 500 ''Ada''" "sized 1 16000 ''Dear Ada''" by code_simp+
  ultimately show ?thesis
    by (simp add: render_payload_def sample_installation_def sample_action_request_def make_payload_def sample_token_generation
        sample_payload_def)
qed

lemma sample_refused: "render_payload journal_platform sample_installation (sample_action_request []) nil_digest sample_token =
    Inl (ValidationError ''ExternalActionPayload'')"
proof -
  have "format_map ''{name}'' [(''name'', [])] = Inr []" "format_map ''Dear {name}'' [(''name'', [])] = Inr ''Dear ''"
    "\<not> sized 1 500 []"
    by code_simp+
  then show ?thesis
    by (simp add: render_payload_def sample_installation_def sample_action_request_def make_payload_def)
qed

lemma sample_accept: "accept_delivery journal_platform sample_installation (sample_action_request ''Ada'') nil_digest sample_payload sample_delivery =
    Inr sample_outcome"
proof -
  have "is_digest nil_digest" "sized 1 256 ''1''" "is_work_item_id ''V3-MKT-001''" "is_git_sha (replicate 40 CHR ''a'')" by code_simp+
  then show ?thesis
    by (simp add: accept_delivery_def strip_delivery_def validate_delivery_def sample_delivery_def sample_token_generation is_aware_def raise_first_def
        sample_payload_def sample_installation_def sent_outcome_def validate_action_outcome_def sample_action_request_def
        sample_outcome_def)
qed

lemma sample_execute:
  assumes "instant now < 100" "is_aware now"
  shows "\<exists>ss. execute journal_platform sample_parse sample_action_adapter (sample_action_request ''Ada'') now sample_token Map.empty =
      (Inr sample_outcome, ss) \<and> sends ss = [sample_payload] \<and>
      perform_steps ss Map.empty = [zero_name \<mapsto> ascii_json journal_platform (sent_entry sample_platform nil_digest sample_token sample_outcome)]"
proof -
  have pending: "readable journal_platform (pending_entry nil_digest sample_token)"
    by (rule sample_documents_readable) (simp add: sample_documents_def)
  have fresh: "reserve journal_platform sample_parse nil_digest sample_token Map.empty =
     (Inr \<lparr>jr_disposition = JournalDisposition.RESERVED, jr_generation = sample_token, jr_outcome = None\<rparr>,
      CreateEntry zero_name # write_all zero_name (ascii_json journal_platform (pending_entry nil_digest sample_token)))"
    by (simp add: reserve_def journal_name_zero)
  have commit: "commit journal_platform nil_digest sample_outcome [zero_name \<mapsto> ascii_json journal_platform (pending_entry nil_digest sample_token)] =
     (Inr (), TruncateEntry zero_name # write_all zero_name (ascii_json journal_platform (sent_entry sample_platform nil_digest sample_token sample_outcome)))"
    using read_readable [OF pending]
    by (simp add: commit_def journal_name_zero sort_keys_pending_entry document_field_def jget_def as_str_def sample_outcome_def
        sample_delivery_def sample_sent_entry)
  show ?thesis
    using fresh sample_render sample_accept commit
    by (simp add: execute_def sample_admit [OF assms] deliver_def Let_def sample_send perform_write_all)
qed

theorem sent_payload_authorized_witness:
  "\<exists>(i :: ExternalActionInstallation) subject. pr_request_digest (ei_machine_policy_receipt i) = ep_action_digest sample_payload \<and>
     ep_recipient sample_payload \<in> set (ei_recipient_allowlist i) \<and> ep_subject sample_payload = strip journal_platform subject"
proof -
  obtain ss where "execute journal_platform sample_parse sample_action_adapter (sample_action_request ''Ada'') (Datetime 5 (Some 0))
      sample_token Map.empty = (Inr sample_outcome, ss)" "sends ss = [sample_payload]"
    using sample_execute [of "Datetime 5 (Some 0)"] by (auto simp: is_aware_def)
  then have "sample_payload \<in> set (snd (run_events journal_platform sample_parse
      [Execute sample_action_adapter (sample_action_request ''Ada'') (Datetime 5 (Some 0)) sample_token (length ss)] Map.empty))"
    by (simp add: event_steps_def Let_def)
  from sent_payload_authorized [OF this] show ?thesis
    by (elim exE conjE) (rule_tac x = i in exI, rule_tac x = subject in exI, simp)
qed

theorem sent_action_recovered_witness:
  "\<exists>ss. execute journal_platform sample_parse sample_action_adapter (sample_action_request ''Ada'') (Datetime 5 (Some 0))
      sample_token Map.empty = (Inr sample_outcome, ss) \<and> sends ss = [sample_payload] \<and>
    (\<forall>evs. execute journal_platform sample_parse sample_action_adapter (sample_action_request ''Ada'') (Datetime 9 (Some 0))
      ''another'' (fst (run_events journal_platform sample_parse evs (perform_steps ss Map.empty))) = (Inr sample_outcome, []))"
proof -
  obtain ss where run: "execute journal_platform sample_parse sample_action_adapter (sample_action_request ''Ada'') (Datetime 5 (Some 0))
      sample_token Map.empty = (Inr sample_outcome, ss)" "sends ss = [sample_payload]"
    using sample_execute [of "Datetime 5 (Some 0)"] by (auto simp: is_aware_def)
  have "readable journal_platform (sent_entry journal_platform nil_digest sample_token sample_outcome)"
    unfolding sample_sent_entry by (rule sample_documents_readable) (simp add: sample_documents_def)
  moreover have "eo_request_digest sample_outcome = nil_digest" "eo_status sample_outcome = SENT" by (simp_all add: sample_outcome_def)
  ultimately have "execute journal_platform sample_parse sample_action_adapter (sample_action_request ''Ada'') (Datetime 9 (Some 0))
      ''another'' (fst (run_events journal_platform sample_parse evs (perform_steps ss Map.empty))) = (Inr sample_outcome, [])" for evs
    by (intro sent_action_recovered [OF run(1) _ _ _ sample_admit]) (simp_all add: is_aware_def)
  with run show ?thesis by blast
qed

theorem refused_payload_strands_action_witness:
  "\<exists>gs. execute journal_platform sample_parse sample_action_adapter (sample_action_request []) (Datetime 9 (Some 0)) sample_token gs =
    (waiting (sample_action_request []) nil_digest IDEMPOTENCY_PENDING, [])"
proof -
  have "readable journal_platform (pending_entry nil_digest sample_token)"
    by (rule sample_documents_readable) (simp add: sample_documents_def)
  then have "\<exists>gs. fst (execute journal_platform sample_parse sample_action_adapter (sample_action_request []) (Datetime 5 (Some 0)) sample_token
        Map.empty) = Inl (ValidationError ''ExternalActionPayload'') \<and>
      sends (snd (execute journal_platform sample_parse sample_action_adapter (sample_action_request []) (Datetime 5 (Some 0)) sample_token
        Map.empty)) = [] \<and>
      gs = perform_steps (snd (execute journal_platform sample_parse sample_action_adapter (sample_action_request []) (Datetime 5 (Some 0))
        sample_token Map.empty)) Map.empty \<and>
      execute journal_platform sample_parse sample_action_adapter (sample_action_request []) (Datetime 9 (Some 0)) sample_token gs =
        (waiting (sample_action_request []) nil_digest IDEMPOTENCY_PENDING, []) \<and>
      filter (\<lambda>p. ep_action_digest p = nil_digest) (snd (run_events journal_platform sample_parse [] gs)) = []"
    by (intro refused_payload_strands_action [OF sample_admit _ journal_name_zero])
      (simp_all add: is_aware_def sample_refused sample_token_generation sample_admit)
  then show ?thesis by blast
qed

theorem response_used_once_witness:
  "\<exists>c ss c2. reserve_response_consumption journal_platform sample_outcome ''R'' ''N'' nil_digest
      [zero_name \<mapsto> ascii_json journal_platform (sent_entry sample_platform nil_digest sample_token sample_outcome)] = (Inr c, ss) \<and>
    reserve_response_consumption journal_platform sample_outcome ''R'' ''N'' nil_digest
      (perform_steps ss [zero_name \<mapsto> ascii_json journal_platform (sent_entry sample_platform nil_digest sample_token sample_outcome)]) =
      (Inr c2, []) \<and> rc_disposition c2 = RECOVERABLE"
proof -
  let ?fs = "[zero_name \<mapsto> ascii_json journal_platform (sent_entry sample_platform nil_digest sample_token sample_outcome)]"
  let ?mine = "response_entry ''PENDING_TERMINAL_TRANSITION'' nil_digest sample_token ''R'' ''N'' nil_digest"
  let ?ss = "CreateEntry (''response-'' @ zero_name) # write_all (''response-'' @ zero_name) (ascii_json journal_platform ?mine)"
  have docs: "readable journal_platform j" if "j \<in> set sample_documents" for j using sample_documents_readable that .
  have o1: "eo_request_digest sample_outcome = nil_digest" "eo_status sample_outcome = SENT"
    "eo_delivery_receipt sample_outcome = Some sample_delivery" "ed_delivery_generation_id sample_delivery = sample_token"
    by (simp_all add: sample_outcome_def sample_delivery_def)
  have sent: "readable journal_platform (sent_entry sample_platform nil_digest sample_token sample_outcome)"
    and mine: "readable journal_platform ?mine" by (rule docs, simp add: sample_documents_def)+
  have names: "''response-'' @ zero_name \<noteq> zero_name" by (metis append_self_conv2 list.distinct(1))
  have dump: "dump_action_outcome journal_platform sample_outcome = dump_action_outcome sample_platform sample_outcome"
    using sample_sent_entry [of "[]" "[]" sample_outcome] by (simp add: sent_entry_def)
  note rules = reserve_response_consumption_def o1 Let_def journal_name_zero response_name_def decode_record_def is_dict_def
    sort_keys_sent_entry document_field_def jget_def dump
  have run: "\<exists>c. reserve_response_consumption journal_platform sample_outcome ''R'' ''N'' nil_digest ?fs = (Inr c, ?ss)"
    using read_readable [OF sent] names by (simp add: rules)
  then obtain c where c: "reserve_response_consumption journal_platform sample_outcome ''R'' ''N'' nil_digest ?fs = (Inr c, ?ss)" by blast
  have "\<exists>c2. reserve_response_consumption journal_platform sample_outcome ''R'' ''N'' nil_digest (perform_steps ?ss ?fs) = (Inr c2, [])"
    using read_readable [OF sent] read_readable [OF mine] names
    by (simp add: rules perform_write_all sort_keys_response_entry)
  then obtain c2 where c2: "reserve_response_consumption journal_platform sample_outcome ''R'' ''N'' nil_digest (perform_steps ?ss ?fs) = (Inr c2, [])"
    by blast
  have "\<forall>st\<in>{''PENDING_TERMINAL_TRANSITION'', ''APPLIED''}. readable journal_platform (response_entry st (eo_request_digest sample_outcome)
      (ed_delivery_generation_id sample_delivery) ''R'' ''N'' nil_digest)"
    using docs by (simp add: o1 sample_documents_def)
  from response_used_once [OF c o1(3) this, where evs = "[]" and parse = sample_parse] c2 have "rc_disposition c2 = RECOVERABLE" by simp
  with c c2 show ?thesis by blast
qed

end
