(* ===== verification/Native_Value.thy ===== *)
theory Native_Value
  imports V31_Contracts
begin

text \<open>
  The native value gate (\<^verbatim>\<open>tcfactory/v3/native_value_gate.py\<close>) with the benchmark, freshness and
  decision-value records it reads and writes (\<^verbatim>\<open>contracts_v31.py\<close>): the deterministic evaluation of
  a candidate against its complete native substitute, and the authorization of a maturity
  transition by an independent machine-policy receipt. The artifact reader, both verifiers and
  the division of floats are arguments.
\<close>

section \<open>Benchmark records\<close>

text \<open>\<open>gt=a, le=b\<close> and \<open>ge=0, le=b\<close> on a float, which NaN fails.\<close>

fun float_in :: "bool \<Rightarrow> rat \<Rightarrow> pyfloat \<Rightarrow> bool" where
  "float_in positive b (Finite x) = ((if positive then 0 < x else 0 \<le> x) \<and> x \<le> b)"
| "float_in positive b _ = False"

record SourceFreshnessReceiptV31 =
  fr_receipt_id :: pystr
  fr_generation_id :: pystr
  fr_generation_digest :: pystr
  fr_source_id :: pystr
  fr_source_digest :: pystr
  fr_observed_at :: datetime
  fr_expires_at :: datetime
  fr_state :: FreshnessState
  fr_conflict_artifact_digests :: "pystr list"
  fr_wedge_work_item_id :: "pystr option"
  fr_issuer_id :: pystr
  fr_issuer_key_id :: pystr
  fr_signature_algorithm :: pystr
  fr_signature :: pystr

definition validate_freshness :: "SourceFreshnessReceiptV31 \<Rightarrow> SourceFreshnessReceiptV31 result" where
  "validate_freshness r =
     (if \<not> (list_all is_v31_identifier [fr_receipt_id r, fr_source_id r, fr_issuer_id r, fr_issuer_key_id r] \<and>
          is_source_generation (fr_generation_id r) \<and> is_digest (fr_generation_digest r) \<and> is_digest (fr_source_digest r) \<and>
          is_aware (fr_observed_at r) \<and> is_aware (fr_expires_at r) \<and> counted 0 32 (fr_conflict_artifact_digests r) \<and>
          list_all is_digest (fr_conflict_artifact_digests r) \<and> pred_option is_work_item_id (fr_wedge_work_item_id r) \<and>
          fr_signature_algorithm r = ''ed25519'' \<and> sized 32 1024 (fr_signature r))
      then Inl (ValidationError ''SourceFreshnessReceiptV31'')
      else rbind (require_forward_time (fr_observed_at r) (fr_expires_at r) (90 * 86400)) (\<lambda>_.
        if fr_state r \<in> {STALE, RECHECK_REQUIRED}
        then raise_first [(fr_conflict_artifact_digests r = [] \<or> fr_wedge_work_item_id r = None,
          ''stale/recheck freshness requires conflict evidence and wedge work'')] r
        else raise_first [(fr_conflict_artifact_digests r \<noteq> [] \<or> fr_wedge_work_item_id r \<noteq> None,
          ''fresh/unknown receipt cannot carry a stale transition'')] r))"

definition dump_freshness :: "platform \<Rightarrow> SourceFreshnessReceiptV31 \<Rightarrow> json" where
  "dump_freshness P r = JObj
     [(''schemaVersion'', JStr ''3.1''), (''receiptId'', JStr (fr_receipt_id r)), (''generationId'', JStr (fr_generation_id r)),
      (''generationDigest'', JStr (fr_generation_digest r)), (''sourceId'', JStr (fr_source_id r)),
      (''sourceDigest'', JStr (fr_source_digest r)), (''observedAt'', JStr (dump_datetime P (fr_observed_at r))),
      (''expiresAt'', JStr (dump_datetime P (fr_expires_at r))), (''state'', JStr (freshness_value (fr_state r))),
      (''conflictArtifactDigests'', JList (map JStr (fr_conflict_artifact_digests r))),
      (''wedgeWorkItemId'', jopt JStr (fr_wedge_work_item_id r)), (''issuerId'', JStr (fr_issuer_id r)),
      (''issuerKeyId'', JStr (fr_issuer_key_id r)), (''signatureAlgorithm'', JStr (fr_signature_algorithm r)),
      (''signature'', JStr (fr_signature r))]"

record NativeToolConfigurationV31 =
  tool_name :: pystr
  tool_version :: pystr
  tool_configuration_digest :: pystr

definition valid_native_tool :: "NativeToolConfigurationV31 \<Rightarrow> bool" where
  "valid_native_tool t \<longleftrightarrow> sized 1 256 (tool_name t) \<and> sized 1 128 (tool_version t) \<and> is_digest (tool_configuration_digest t)"

definition dump_native_tool :: "NativeToolConfigurationV31 \<Rightarrow> json" where
  "dump_native_tool t = JObj
     [(''schemaVersion'', JStr ''3.1''), (''toolName'', JStr (tool_name t)), (''toolVersion'', JStr (tool_version t)),
      (''configurationDigest'', JStr (tool_configuration_digest t))]"

record ApprovedAgentAssistanceV31 =
  aa_system_id :: pystr
  aa_version :: pystr
  aa_configuration_digest :: pystr
  aa_allowed_tasks :: "pystr list"

definition validate_agent_assistance :: "ApprovedAgentAssistanceV31 \<Rightarrow> ApprovedAgentAssistanceV31 result" where
  "validate_agent_assistance a =
     (if \<not> (is_v31_identifier (aa_system_id a) \<and> sized 1 128 (aa_version a) \<and> is_digest (aa_configuration_digest a) \<and>
          counted 1 32 (aa_allowed_tasks a))
      then Inl (ValidationError ''ApprovedAgentAssistanceV31'')
      else rbind (require_unique (aa_allowed_tasks a) ''approved agent-assistance tasks'') (\<lambda>_. Inr a))"

definition dump_agent_assistance :: "ApprovedAgentAssistanceV31 \<Rightarrow> json" where
  "dump_agent_assistance a = JObj
     [(''schemaVersion'', JStr ''3.1''), (''systemId'', JStr (aa_system_id a)), (''version'', JStr (aa_version a)),
      (''configurationDigest'', JStr (aa_configuration_digest a)), (''allowedTasks'', JList (map JStr (aa_allowed_tasks a)))]"

record CostTimeResourceComparisonV31 =
  native_cost :: pyfloat
  traincapsule_cost :: pyfloat
  native_minutes :: pyfloat
  traincapsule_minutes :: pyfloat
  native_resources :: "pystr list"
  traincapsule_resources :: "pystr list"

definition validate_comparison :: "CostTimeResourceComparisonV31 \<Rightarrow> CostTimeResourceComparisonV31 result" where
  "validate_comparison c =
     (if \<not> (float_in False 1000000000 (native_cost c) \<and> float_in False 1000000000 (traincapsule_cost c) \<and>
          float_in True 1000000 (native_minutes c) \<and> float_in True 1000000 (traincapsule_minutes c) \<and>
          counted 1 64 (native_resources c) \<and> counted 1 64 (traincapsule_resources c))
      then Inl (ValidationError ''CostTimeResourceComparisonV31'')
      else rbind (require_all_unique [(native_resources c, ''benchmark resources''), (traincapsule_resources c, ''benchmark resources'')])
        (\<lambda>_. Inr c))"

definition dump_comparison :: "CostTimeResourceComparisonV31 \<Rightarrow> json" where
  "dump_comparison c = JObj
     [(''schemaVersion'', JStr ''3.1''), (''nativeCost'', JFloat (native_cost c)), (''traincapsuleCost'', JFloat (traincapsule_cost c)),
      (''nativeMinutes'', JFloat (native_minutes c)), (''traincapsuleMinutes'', JFloat (traincapsule_minutes c)),
      (''nativeResources'', JList (map JStr (native_resources c))),
      (''traincapsuleResources'', JList (map JStr (traincapsule_resources c)))]"

record BenchmarkReproducibilityV31 =
  repetitions :: int
  matching_decision_count :: int
  command_digests :: "pystr list"
  br_environment_digest :: pystr

definition validate_reproducibility :: "BenchmarkReproducibilityV31 \<Rightarrow> BenchmarkReproducibilityV31 result" where
  "validate_reproducibility r =
     (if \<not> (2 \<le> repetitions r \<and> repetitions r \<le> 1000 \<and> 0 \<le> matching_decision_count r \<and> matching_decision_count r \<le> 1000 \<and>
          counted 1 64 (command_digests r) \<and> list_all is_digest (command_digests r) \<and> is_digest (br_environment_digest r))
      then Inl (ValidationError ''BenchmarkReproducibilityV31'')
      else rbind (require_unique (command_digests r) ''benchmark command digests'') (\<lambda>_.
        raise_first [(matching_decision_count r > repetitions r, ''matching decision count cannot exceed repetitions'')] r))"

definition dump_reproducibility :: "BenchmarkReproducibilityV31 \<Rightarrow> json" where
  "dump_reproducibility r = JObj
     [(''schemaVersion'', JStr ''3.1''), (''repetitions'', JInt (repetitions r)),
      (''matchingDecisionCount'', JInt (matching_decision_count r)), (''commandDigests'', JList (map JStr (command_digests r))),
      (''environmentDigest'', JStr (br_environment_digest r))]"

record NativeSubstituteBenchmarkV31 =
  nb_benchmark_id :: pystr
  nb_work_item_id :: pystr
  nb_case_id :: pystr
  nb_candidate_sha :: pystr
  nb_candidate_tree_sha :: pystr
  nb_environment_digest :: pystr
  nb_baseline_environment_digest :: pystr
  nb_candidate_environment_digest :: pystr
  nb_source_freshness_receipts :: "pystr list"
  nb_native_tools :: "NativeToolConfigurationV31 list"
  nb_agent_assistance :: "ApprovedAgentAssistanceV31 list"
  nb_native_tool :: pystr
  nb_native_tool_version :: pystr
  nb_native_inputs :: "pystr list"
  nb_native_outputs :: "pystr list"
  nb_native_findings :: "pystr list"
  nb_native_operational_decision :: pystr
  nb_incremental_capability :: pystr
  nb_traincapsule_outputs :: "pystr list"
  nb_traincapsule_operational_decision :: pystr
  nb_native_evidence_digests :: "pystr list"
  nb_candidate_evidence_digests :: "pystr list"
  nb_incident_contract_digests :: "pystr list"
  nb_independent_oracle_ids :: "pystr list"
  nb_oracle_identity :: pystr
  nb_issuer_identity :: pystr
  nb_native_effort_minutes :: pyfloat
  nb_candidate_effort_minutes :: pyfloat
  nb_comparison :: CostTimeResourceComparisonV31
  nb_reproducibility :: BenchmarkReproducibilityV31
  nb_limitations :: "pystr list"
  nb_truth_state :: EpistemicState
  nb_raw_artifact_hashes :: "pystr list"
  nb_decision_changed :: bool
  nb_disposition :: NativeSubstituteDisposition

definition benchmark_fields_ok :: "NativeSubstituteBenchmarkV31 \<Rightarrow> bool" where
  "benchmark_fields_ok b \<longleftrightarrow>
     list_all is_v31_identifier [nb_benchmark_id b, nb_case_id b, nb_oracle_identity b, nb_issuer_identity b] \<and>
     is_work_item_id (nb_work_item_id b) \<and> is_git_sha (nb_candidate_sha b) \<and> is_git_sha (nb_candidate_tree_sha b) \<and>
     list_all is_digest [nb_environment_digest b, nb_baseline_environment_digest b, nb_candidate_environment_digest b] \<and>
     list_all (\<lambda>(limit, ds). counted 1 limit ds \<and> list_all is_digest ds)
       [(64, nb_source_freshness_receipts b), (128, nb_native_inputs b), (128, nb_native_outputs b), (128, nb_native_findings b),
        (128, nb_traincapsule_outputs b), (64, nb_native_evidence_digests b), (64, nb_candidate_evidence_digests b),
        (64, nb_incident_contract_digests b), (256, nb_raw_artifact_hashes b)] \<and>
     counted 1 32 (nb_native_tools b) \<and> list_all valid_native_tool (nb_native_tools b) \<and> counted 0 16 (nb_agent_assistance b) \<and>
     list_all (is_ok \<circ> validate_agent_assistance) (nb_agent_assistance b) \<and>
     sized 1 128 (nb_native_tool b) \<and> sized 1 64 (nb_native_tool_version b) \<and> sized 1 4000 (nb_native_operational_decision b) \<and>
     sized 1 4000 (nb_incremental_capability b) \<and> sized 1 4000 (nb_traincapsule_operational_decision b) \<and>
     counted 1 16 (nb_independent_oracle_ids b) \<and> list_all is_v31_identifier (nb_independent_oracle_ids b) \<and>
     float_in True 1000000 (nb_native_effort_minutes b) \<and> float_in True 1000000 (nb_candidate_effort_minutes b) \<and>
     is_ok (validate_comparison (nb_comparison b)) \<and> is_ok (validate_reproducibility (nb_reproducibility b)) \<and>
     counted 0 64 (nb_limitations b)"

definition raw_references :: "NativeSubstituteBenchmarkV31 \<Rightarrow> pystr list" where
  "raw_references b = nb_native_inputs b @ nb_native_outputs b @ nb_native_findings b @ nb_traincapsule_outputs b @
     nb_native_evidence_digests b @ nb_candidate_evidence_digests b @ nb_incident_contract_digests b"

definition validate_benchmark :: "NativeSubstituteBenchmarkV31 \<Rightarrow> NativeSubstituteBenchmarkV31 result" where
  "validate_benchmark b =
     (if \<not> benchmark_fields_ok b then Inl (ValidationError ''NativeSubstituteBenchmarkV31'')
      else rbind (require_all_unique
        [(nb_source_freshness_receipts b, ''source freshness receipts''), (nb_native_inputs b, ''native inputs''),
         (nb_native_outputs b, ''native outputs''), (nb_native_findings b, ''native findings''),
         (nb_traincapsule_outputs b, ''TrainCapsule outputs''), (nb_native_evidence_digests b, ''native evidence digests''),
         (nb_candidate_evidence_digests b, ''candidate evidence digests''),
         (nb_incident_contract_digests b, ''incident-derived contracts''),
         (nb_independent_oracle_ids b, ''independent oracle IDs''), (nb_raw_artifact_hashes b, ''raw artifact hashes'')]) (\<lambda>_.
        raise_first
        [(nb_environment_digest b \<noteq> nb_candidate_environment_digest b, ''environment digest must identify the candidate environment''),
         (tool_name (hd (nb_native_tools b)) \<noteq> nb_native_tool b \<or> tool_version (hd (nb_native_tools b)) \<noteq> nb_native_tool_version b,
          ''primary native tool must match the complete substitute inventory''),
         (nb_oracle_identity b \<notin> set (nb_independent_oracle_ids b), ''oracle identity must be one of the independent oracle IDs''),
         (nb_native_effort_minutes b \<noteq> native_minutes (nb_comparison b), ''native effort must match the cost/time/resource comparison''),
         (nb_candidate_effort_minutes b \<noteq> traincapsule_minutes (nb_comparison b),
          ''candidate effort must match the cost/time/resource comparison''),
         (\<not> set (raw_references b) \<subseteq> set (nb_raw_artifact_hashes b), ''every benchmark evidence reference must bind a raw artifact''),
         (nb_disposition b = NativeSubstituteDisposition.INCREMENTAL_VALUE \<and> \<not> nb_decision_changed b,
          ''incremental value requires a changed operational decision''),
         (nb_disposition b = NativeSubstituteDisposition.NATIVE_SUFFICIENT \<and> nb_decision_changed b,
          ''native sufficiency cannot claim a candidate-caused decision change''),
         (nb_disposition b \<in> {NOT_COMPARABLE, NativeSubstituteDisposition.UNKNOWN} \<and> nb_decision_changed b,
          ''unknown/not-comparable benchmark cannot claim a decision change''),
         ((nb_disposition b = NativeSubstituteDisposition.UNKNOWN) \<noteq> (nb_truth_state b = EpistemicState.UNKNOWN),
          ''UNKNOWN disposition and truth state must agree'')] b))"

definition dump_benchmark :: "NativeSubstituteBenchmarkV31 \<Rightarrow> json" where
  "dump_benchmark b =
     (let text = (\<lambda>v. JStr v); texts = (\<lambda>vs. JList (map JStr vs))
      in JObj
     [(''schemaVersion'', text ''3.1''), (''benchmarkId'', text (nb_benchmark_id b)), (''workItemId'', text (nb_work_item_id b)),
      (''caseId'', text (nb_case_id b)), (''candidateSha'', text (nb_candidate_sha b)),
      (''candidateTreeSha'', text (nb_candidate_tree_sha b)), (''environmentDigest'', text (nb_environment_digest b)),
      (''baselineEnvironmentDigest'', text (nb_baseline_environment_digest b)),
      (''candidateEnvironmentDigest'', text (nb_candidate_environment_digest b)),
      (''sourceFreshnessReceipts'', texts (nb_source_freshness_receipts b)),
      (''nativeToolNamesVersionsConfigs'', JList (map dump_native_tool (nb_native_tools b))),
      (''approvedAgentAssistanceBaseline'', JList (map dump_agent_assistance (nb_agent_assistance b))),
      (''nativeTool'', text (nb_native_tool b)), (''nativeToolVersion'', text (nb_native_tool_version b)),
      (''nativeInputs'', texts (nb_native_inputs b)), (''nativeOutputs'', texts (nb_native_outputs b)),
      (''nativeFindings'', texts (nb_native_findings b)), (''nativeOperationalDecision'', text (nb_native_operational_decision b)),
      (''traincapsuleIncrementalCapability'', text (nb_incremental_capability b)),
      (''traincapsuleOutputs'', texts (nb_traincapsule_outputs b)),
      (''traincapsuleOperationalDecision'', text (nb_traincapsule_operational_decision b)),
      (''nativeEvidenceDigests'', texts (nb_native_evidence_digests b)),
      (''candidateEvidenceDigests'', texts (nb_candidate_evidence_digests b)),
      (''incidentDerivedContractDigests'', texts (nb_incident_contract_digests b)),
      (''independentOracleIds'', texts (nb_independent_oracle_ids b)), (''oracleIdentity'', text (nb_oracle_identity b)),
      (''issuerIdentity'', text (nb_issuer_identity b)), (''nativeEffortMinutes'', JFloat (nb_native_effort_minutes b)),
      (''candidateEffortMinutes'', JFloat (nb_candidate_effort_minutes b)),
      (''costTimeResourceComparison'', dump_comparison (nb_comparison b)),
      (''reproducibility'', dump_reproducibility (nb_reproducibility b)), (''limitations'', texts (nb_limitations b)),
      (''truthState'', text (epistemic_value (nb_truth_state b))), (''rawArtifactHashes'', texts (nb_raw_artifact_hashes b)),
      (''decisionChanged'', JBool (nb_decision_changed b)), (''disposition'', text (native_disposition_value (nb_disposition b)))])"

record DecisionValueResultV31 =
  dv_work_item_id :: pystr
  dv_disposition :: DecisionValueDisposition
  dv_native_benchmark_digest :: pystr
  dv_evidence_refs :: "pystr list"
  dv_original_experiment_cost :: pyfloat
  dv_proposed_experiment_cost :: pyfloat
  dv_original_experiment_minutes :: pyfloat
  dv_proposed_experiment_minutes :: pyfloat
  dv_decision_changed :: bool
  dv_rationale :: pystr
  dv_value_state :: ValueState

definition validate_value_result :: "DecisionValueResultV31 \<Rightarrow> DecisionValueResultV31 result" where
  "validate_value_result v =
     (if \<not> (is_work_item_id (dv_work_item_id v) \<and> is_digest (dv_native_benchmark_digest v) \<and>
          counted 1 64 (dv_evidence_refs v) \<and> list_all is_digest (dv_evidence_refs v) \<and>
          float_in True 1000000000 (dv_original_experiment_cost v) \<and> float_in True 1000000000 (dv_proposed_experiment_cost v) \<and>
          float_in True 1000000 (dv_original_experiment_minutes v) \<and> float_in True 1000000 (dv_proposed_experiment_minutes v) \<and>
          sized 1 4000 (dv_rationale v))
      then Inl (ValidationError ''DecisionValueResultV31'')
      else rbind (require_unique (dv_evidence_refs v) ''value evidence references'') (\<lambda>_.
        raise_first
        [((dv_disposition v = INCREMENTAL_DECISION_VALUE_DEMONSTRATED) \<noteq>
            (dv_decision_changed v \<and> dv_value_state v = ValueState.INCREMENTAL_VALUE),
          ''incremental value disposition, decision change, and state must agree''),
         (dv_disposition v = NATIVE_WORKFLOW_SUFFICIENT \<and> dv_value_state v \<noteq> ValueState.NATIVE_SUFFICIENT,
          ''native sufficiency disposition requires NATIVE_SUFFICIENT value state'')] v))"

definition dump_value_result :: "DecisionValueResultV31 \<Rightarrow> json" where
  "dump_value_result v = JObj
     [(''schemaVersion'', JStr ''3.1''), (''workItemId'', JStr (dv_work_item_id v)), (''evaluated'', JBool True),
      (''disposition'', JStr (value_disposition_value (dv_disposition v))),
      (''nativeBenchmarkDigest'', JStr (dv_native_benchmark_digest v)), (''evidenceRefs'', JList (map JStr (dv_evidence_refs v))),
      (''originalExperimentCost'', JFloat (dv_original_experiment_cost v)),
      (''proposedExperimentCost'', JFloat (dv_proposed_experiment_cost v)),
      (''originalExperimentMinutes'', JFloat (dv_original_experiment_minutes v)),
      (''proposedExperimentMinutes'', JFloat (dv_proposed_experiment_minutes v)),
      (''decisionChanged'', JBool (dv_decision_changed v)), (''rationale'', JStr (dv_rationale v)),
      (''valueState'', JStr (value_state_value (dv_value_state v)))]"

section \<open>The gate\<close>

record NativeValueGatePolicyV31 =
  np_policy_id :: pystr
  np_policy_version :: pystr
  np_native_substitute :: "NativeToolConfigurationV31 list"
  np_agent_assistance :: "ApprovedAgentAssistanceV31 list"
  minimum_repetitions :: int
  maximum_cost_ratio :: pyfloat
  maximum_time_ratio :: pyfloat
  required_allowed_claims :: "pystr list"

text \<open>\<^verbatim>\<open>^[0-9]+\.[0-9]+\.[0-9]+$\<close>.\<close>

definition is_policy_version :: "pystr \<Rightarrow> bool" where
  "is_policy_version s \<longleftrightarrow> (case split_on CHR ''.'' s of
     [a, b, c] \<Rightarrow> list_all (\<lambda>p. p \<noteq> [] \<and> list_all is_digit p) [a, b, c] | _ \<Rightarrow> False)"

definition validate_gate_policy :: "NativeValueGatePolicyV31 \<Rightarrow> NativeValueGatePolicyV31 result" where
  "validate_gate_policy p =
     (if \<not> (is_v31_identifier (np_policy_id p) \<and> is_policy_version (np_policy_version p) \<and> counted 1 32 (np_native_substitute p) \<and>
          list_all valid_native_tool (np_native_substitute p) \<and> counted 0 16 (np_agent_assistance p) \<and>
          list_all (is_ok \<circ> validate_agent_assistance) (np_agent_assistance p) \<and>
          2 \<le> minimum_repetitions p \<and> minimum_repetitions p \<le> 1000 \<and>
          float_in True 1000 (maximum_cost_ratio p) \<and> float_in True 1000 (maximum_time_ratio p) \<and>
          counted 1 64 (required_allowed_claims p))
      then Inl (ValidationError ''NativeValueGatePolicyV31'')
      else raise_first
        [(\<not> distinct (map tool_name (np_native_substitute p)), ''approved substitute tool names must be unique''),
         (\<not> distinct (map aa_system_id (np_agent_assistance p)), ''approved agent-assistance systems must be unique''),
         (\<not> distinct (required_allowed_claims p), ''required allowed claims must be unique'')] p)"

definition canonical_models :: "platform \<Rightarrow> json list \<Rightarrow> pybytes list" where
  "canonical_models P js = sort (map (\<lambda>j. render P (sort_keys j)) js)"

text \<open>What the gate takes from outside: division, exact artifacts, and verified receipts.\<close>

record gate_services =
  float_div :: "pyfloat \<Rightarrow> pyfloat \<Rightarrow> pyfloat"
  read_exact :: "pystr \<Rightarrow> pybytes result"
  verify_freshness :: "SourceFreshnessReceiptV31 \<Rightarrow> datetime \<Rightarrow> unit result"
  verify_receipt :: "MachinePolicyReceiptV31 \<Rightarrow> datetime \<Rightarrow> unit result"

definition ratio :: "gate_services \<Rightarrow> pyfloat \<Rightarrow> pyfloat \<Rightarrow> pyfloat" where
  "ratio G candidate baseline =
     (if baseline = Finite 0 then (if candidate = Finite 0 then Finite 0 else PosInf) else float_div G candidate baseline)"

definition native_disposition :: "NativeSubstituteBenchmarkV31 \<Rightarrow> bool \<Rightarrow> bool \<Rightarrow> NativeSubstituteDisposition" where
  "native_disposition b reproducible changed =
     (if nb_truth_state b = EpistemicState.UNKNOWN \<or> \<not> reproducible then NativeSubstituteDisposition.UNKNOWN
      else if changed then NativeSubstituteDisposition.INCREMENTAL_VALUE else NativeSubstituteDisposition.NATIVE_SUFFICIENT)"

definition decision_value_disposition ::
  "gate_services \<Rightarrow> NativeSubstituteBenchmarkV31 \<Rightarrow> NativeValueGatePolicyV31 \<Rightarrow> bool \<Rightarrow> bool \<Rightarrow> DecisionValueDisposition" where
  "decision_value_disposition G b p reproducible changed =
     (if nb_truth_state b = EpistemicState.UNKNOWN \<or> \<not> reproducible then EXTERNAL_EVIDENCE_REQUIRED
      else if \<not> changed then NATIVE_WORKFLOW_SUFFICIENT
      else
        (let c = nb_comparison b
         in if float_less (maximum_cost_ratio p) (ratio G (traincapsule_cost c) (native_cost c)) \<or>
              float_less (maximum_time_ratio p) (float_div G (traincapsule_minutes c) (native_minutes c))
            then TECHNICALLY_VALID_BUT_NOT_ECONOMIC else INCREMENTAL_DECISION_VALUE_DEMONSTRATED))"

fun value_state_of :: "DecisionValueDisposition \<Rightarrow> ValueState \<times> bool" where
  "value_state_of INCREMENTAL_DECISION_VALUE_DEMONSTRATED = (ValueState.INCREMENTAL_VALUE, True)"
| "value_state_of NATIVE_WORKFLOW_SUFFICIENT = (ValueState.NATIVE_SUFFICIENT, False)"
| "value_state_of NO_INCREMENTAL_DECISION_VALUE = (REJECTED, False)"
| "value_state_of TECHNICALLY_VALID_BUT_NOT_ECONOMIC = (REJECTED, False)"
| "value_state_of _ = (ValueState.NOT_EVALUATED, False)"

fun work_status_of :: "DecisionValueDisposition \<Rightarrow> WorkStatus" where
  "work_status_of NATIVE_WORKFLOW_SUFFICIENT = WorkStatus.NATIVE_SUFFICIENT"
| "work_status_of NO_INCREMENTAL_DECISION_VALUE = REJECTED_VALUE"
| "work_status_of TECHNICALLY_VALID_BUT_NOT_ECONOMIC = REJECTED_VALUE"
| "work_status_of EXTERNAL_EVIDENCE_REQUIRED = WAITING_EXTERNAL"
| "work_status_of _ = PASSED_ENGINEERING"

definition gate_error :: "bool \<Rightarrow> string \<Rightarrow> unit result" where
  "gate_error c message = (if c then Inl (RuntimeError message) else Inr ())"

text \<open>The digests of receipts that are verified, unexpired and fresh.\<close>

definition fresh_digest :: "platform \<Rightarrow> gate_services \<Rightarrow> datetime \<Rightarrow> SourceFreshnessReceiptV31 \<Rightarrow> pystr result" where
  "fresh_digest P G now r =
     rbind (verify_freshness G r now) (\<lambda>_.
     rbind (gate_error (instant (fr_expires_at r) \<le> instant now) ''source freshness receipt is expired'') (\<lambda>_.
     rbind (gate_error (fr_state r \<noteq> FRESH) ''source freshness is not independently FRESH'') (\<lambda>_.
     Inr (digest_json P (dump_freshness P r)))))"

definition check_artifact :: "platform \<Rightarrow> gate_services \<Rightarrow> pystr \<Rightarrow> unit result" where
  "check_artifact P G d =
     rbind (read_exact G d) (\<lambda>raw. gate_error (sha256_digest P raw \<noteq> d) ''benchmark raw artifact digest mismatch'')"

definition benchmark_reproducible :: "NativeSubstituteBenchmarkV31 \<Rightarrow> NativeValueGatePolicyV31 \<Rightarrow> bool" where
  "benchmark_reproducible b p \<longleftrightarrow>
     (let r = nb_reproducibility b
      in br_environment_digest r = nb_environment_digest b \<and> repetitions r \<ge> minimum_repetitions p \<and>
         matching_decision_count r = repetitions r)"

definition benchmark_changed :: "NativeSubstituteBenchmarkV31 \<Rightarrow> bool" where
  "benchmark_changed b \<longleftrightarrow> nb_native_operational_decision b \<noteq> nb_traincapsule_operational_decision b"

definition value_rationale :: "platform \<Rightarrow> NativeSubstituteBenchmarkV31 \<Rightarrow> DecisionValueDisposition \<Rightarrow> bool \<Rightarrow> pystr" where
  "value_rationale P b disposition changed =
     (let c = nb_comparison b
      in ''Native benchmark '' @ nb_benchmark_id b @ '' produced '' @ value_disposition_value disposition @ ''; decisionChanged='' @
         (if changed then ''true'' else ''false'') @ '', nativeCost='' @ float_repr P (native_cost c) @ '', traincapsuleCost='' @
         float_repr P (traincapsule_cost c) @ '', nativeMinutes='' @ float_repr P (native_minutes c) @ '', traincapsuleMinutes='' @
         float_repr P (traincapsule_minutes c) @ ''.'')"

definition evaluate_native_value_candidate ::
  "platform \<Rightarrow> gate_services \<Rightarrow> NativeSubstituteBenchmarkV31 \<Rightarrow> NativeValueGatePolicyV31 \<Rightarrow> pystr \<Rightarrow> pystr \<Rightarrow>
   SourceFreshnessReceiptV31 list \<Rightarrow> datetime \<Rightarrow> DecisionValueResultV31 result" where
  "evaluate_native_value_candidate P G b p sha tree receipts now =
     rbind (gate_error (nb_candidate_sha b \<noteq> sha \<or> nb_candidate_tree_sha b \<noteq> tree)
       ''benchmark candidate identity mismatch'') (\<lambda>_.
     rbind (gate_error (canonical_models P (map dump_native_tool (nb_native_tools b)) \<noteq>
         canonical_models P (map dump_native_tool (np_native_substitute p)))
       ''benchmark does not cover the complete approved substitute'') (\<lambda>_.
     rbind (gate_error (canonical_models P (map dump_agent_assistance (nb_agent_assistance b)) \<noteq>
         canonical_models P (map dump_agent_assistance (np_agent_assistance p)))
       ''benchmark agent-assistance baseline is incomplete'') (\<lambda>_.
     rbind (traverse (fresh_digest P G now) receipts) (\<lambda>digests.
     rbind (gate_error (sort digests \<noteq> sort (nb_source_freshness_receipts b))
       ''source freshness receipts do not match the benchmark'') (\<lambda>_.
     rbind (traverse (check_artifact P G) (nb_raw_artifact_hashes b)) (\<lambda>_.
     let changed = benchmark_changed b; reproducible = benchmark_reproducible b p
     in rbind (gate_error (nb_decision_changed b \<noteq> changed) ''caller-authored decision change does not match evidence'') (\<lambda>_.
        rbind (gate_error (nb_disposition b \<noteq> native_disposition b reproducible changed)
          ''caller-authored native disposition does not match evidence'') (\<lambda>_.
        let disposition = decision_value_disposition G b p reproducible changed; c = nb_comparison b
        in validate_value_result
          \<lparr>dv_work_item_id = nb_work_item_id b, dv_disposition = disposition,
           dv_native_benchmark_digest = digest_json P (dump_benchmark b), dv_evidence_refs = nb_raw_artifact_hashes b,
           dv_original_experiment_cost = native_cost c, dv_proposed_experiment_cost = traincapsule_cost c,
           dv_original_experiment_minutes = native_minutes c, dv_proposed_experiment_minutes = traincapsule_minutes c,
           dv_decision_changed = snd (value_state_of disposition),
           dv_rationale = strip P (value_rationale P b disposition (snd (value_state_of disposition))),
           dv_value_state = fst (value_state_of disposition)\<rparr>))))))))"

record AuthorizedValueTransitionV31 =
  av_work_item_id :: pystr
  av_candidate_sha :: pystr
  av_candidate_tree_sha :: pystr
  av_benchmark_digest :: pystr
  av_value_result_digest :: pystr
  av_machine_receipt_digest :: pystr
  av_resulting_status :: WorkStatus
  av_technical_ceiling :: TechnicalState
  av_commercial_ceiling :: CommercialState
  av_allowed_claims :: "pystr list"
  av_forbidden_claims :: "pystr list"

definition validate_value_transition :: "AuthorizedValueTransitionV31 \<Rightarrow> AuthorizedValueTransitionV31 result" where
  "validate_value_transition t =
     (if is_work_item_id (av_work_item_id t) \<and> is_git_sha (av_candidate_sha t) \<and> is_git_sha (av_candidate_tree_sha t) \<and>
        list_all is_digest [av_benchmark_digest t, av_value_result_digest t, av_machine_receipt_digest t] \<and>
        counted 1 64 (av_allowed_claims t) \<and> counted 0 64 (av_forbidden_claims t)
      then Inr t else Inl (ValidationError ''AuthorizedValueTransitionV31''))"

definition authorization_checks ::
  "NativeSubstituteBenchmarkV31 \<Rightarrow> DecisionValueResultV31 \<Rightarrow> NativeValueGatePolicyV31 \<Rightarrow> MachinePolicyReceiptV31 \<Rightarrow> (bool \<times> string) list" where
  "authorization_checks b v p r =
     [(pr_decision r \<noteq> PolicyDecision.PASS, ''machine policy did not authorize this candidate''),
      (pr_policy_id r \<noteq> np_policy_id p \<or> pr_policy_version r \<noteq> np_policy_version p,
       ''machine receipt policy identity/version mismatch''),
      (pr_work_item_id r \<noteq> nb_work_item_id b \<or> pr_candidate_sha r \<noteq> nb_candidate_sha b \<or>
         pr_candidate_tree_sha r \<noteq> nb_candidate_tree_sha b, ''machine receipt candidate/work-item mismatch''),
      (pr_native_substitute_disposition r \<noteq> nb_disposition b, ''machine receipt native disposition mismatch''),
      (pr_decision_value_disposition r \<noteq> dv_disposition v, ''machine receipt value disposition mismatch''),
      (\<not> set (nb_raw_artifact_hashes b) \<subseteq> set (pr_raw_evidence_artifact_hashes r),
       ''machine receipt does not bind every benchmark artifact''),
      (\<not> set (nb_independent_oracle_ids b) \<subseteq> set (pr_independent_oracle_ids r),
       ''machine receipt does not bind every benchmark oracle''),
      (\<not> set (required_allowed_claims p) \<subseteq> set (pr_allowed_claims r), ''machine receipt omits required bounded claims''),
      (nb_truth_state b \<noteq> EXTERNALLY_VERIFIED \<and> pr_commercial_maturity_ceiling r = CommercialState.COMMERCIALLY_SUPPORTED,
       ''controlled evidence cannot authorize commercial support''),
      (work_status_of (dv_disposition v) = PASSED_ENGINEERING \<and>
         (pr_engineering_maturity_ceiling r \<noteq> PASSED \<or> pr_commercial_maturity_ceiling r = CommercialState.NOT_EVALUATED),
       ''machine receipt maturity ceilings cannot authorize PASSED_ENGINEERING'')]"

definition authorize_value_transition ::
  "platform \<Rightarrow> gate_services \<Rightarrow> NativeSubstituteBenchmarkV31 \<Rightarrow> DecisionValueResultV31 \<Rightarrow> NativeValueGatePolicyV31 \<Rightarrow>
   MachinePolicyReceiptV31 \<Rightarrow> datetime \<Rightarrow> AuthorizedValueTransitionV31 result" where
  "authorize_value_transition P G b v p r now =
     rbind (verify_receipt G r now) (\<lambda>_.
     case first_failure (authorization_checks b v p r) of
       Some message \<Rightarrow> Inl (RuntimeError message)
     | None \<Rightarrow> validate_value_transition
         \<lparr>av_work_item_id = nb_work_item_id b, av_candidate_sha = nb_candidate_sha b, av_candidate_tree_sha = nb_candidate_tree_sha b,
          av_benchmark_digest = digest_json P (dump_benchmark b), av_value_result_digest = digest_json P (dump_value_result v),
          av_machine_receipt_digest = digest_json P (dump_policy_receipt P r), av_resulting_status = work_status_of (dv_disposition v),
          av_technical_ceiling = pr_engineering_maturity_ceiling r, av_commercial_ceiling = pr_commercial_maturity_ceiling r,
          av_allowed_claims = pr_allowed_claims r, av_forbidden_claims = pr_forbidden_claims r\<rparr>)"

section \<open>What an evaluation rests on\<close>

lemma gate_error_Inr [simp]: "gate_error c m = Inr u \<longleftrightarrow> \<not> c"
  by (simp add: gate_error_def)

lemma validate_value_result_id: "validate_value_result v = Inr v' \<Longrightarrow> v' = v"
  by (auto simp: validate_value_result_def result_simps split: if_split_asm)

lemma evaluate_InrE:
  assumes "evaluate_native_value_candidate P G b p sha tree receipts now = Inr v"
  obtains digests units where "nb_candidate_sha b = sha" "nb_candidate_tree_sha b = tree"
    "canonical_models P (map dump_native_tool (nb_native_tools b)) = canonical_models P (map dump_native_tool (np_native_substitute p))"
    "canonical_models P (map dump_agent_assistance (nb_agent_assistance b)) = canonical_models P (map dump_agent_assistance (np_agent_assistance p))"
    "traverse (fresh_digest P G now) receipts = Inr digests" "sort digests = sort (nb_source_freshness_receipts b)"
    "traverse (check_artifact P G) (nb_raw_artifact_hashes b) = Inr units"
    "nb_decision_changed b = benchmark_changed b"
    "nb_disposition b = native_disposition b (benchmark_reproducible b p) (benchmark_changed b)"
    "dv_disposition v = decision_value_disposition G b p (benchmark_reproducible b p) (benchmark_changed b)"
    "dv_decision_changed v = snd (value_state_of (dv_disposition v))" "dv_value_state v = fst (value_state_of (dv_disposition v))"
    "dv_work_item_id v = nb_work_item_id b" "dv_native_benchmark_digest v = digest_json P (dump_benchmark b)"
    "dv_evidence_refs v = nb_raw_artifact_hashes b" "dv_original_experiment_cost v = native_cost (nb_comparison b)"
    "dv_proposed_experiment_cost v = traincapsule_cost (nb_comparison b)" "validate_value_result v = Inr v"
proof -
  from assms obtain digests units v0 where "nb_candidate_sha b = sha" "nb_candidate_tree_sha b = tree"
    "canonical_models P (map dump_native_tool (nb_native_tools b)) = canonical_models P (map dump_native_tool (np_native_substitute p))"
    "canonical_models P (map dump_agent_assistance (nb_agent_assistance b)) = canonical_models P (map dump_agent_assistance (np_agent_assistance p))"
    "traverse (fresh_digest P G now) receipts = Inr digests" "sort digests = sort (nb_source_freshness_receipts b)"
    "traverse (check_artifact P G) (nb_raw_artifact_hashes b) = Inr units"
    "nb_decision_changed b = benchmark_changed b"
    "nb_disposition b = native_disposition b (benchmark_reproducible b p) (benchmark_changed b)"
    and v0: "validate_value_result v0 = Inr v"
    "v0 = (let disposition = decision_value_disposition G b p (benchmark_reproducible b p) (benchmark_changed b); c = nb_comparison b
      in \<lparr>dv_work_item_id = nb_work_item_id b, dv_disposition = disposition,
           dv_native_benchmark_digest = digest_json P (dump_benchmark b), dv_evidence_refs = nb_raw_artifact_hashes b,
           dv_original_experiment_cost = native_cost c, dv_proposed_experiment_cost = traincapsule_cost c,
           dv_original_experiment_minutes = native_minutes c, dv_proposed_experiment_minutes = traincapsule_minutes c,
           dv_decision_changed = snd (value_state_of disposition),
           dv_rationale = strip P (value_rationale P b disposition (snd (value_state_of disposition))),
           dv_value_state = fst (value_state_of disposition)\<rparr>)"
    unfolding evaluate_native_value_candidate_def by (simp add: rbind_Inr_iff Let_def) blast
  moreover have v: "v = v0" by (rule validate_value_result_id [OF v0(1)])
  moreover have "validate_value_result v = Inr v" using v0(1) v by simp
  moreover have "dv_disposition v = decision_value_disposition G b p (benchmark_reproducible b p) (benchmark_changed b)"
    "dv_decision_changed v = snd (value_state_of (dv_disposition v))" "dv_value_state v = fst (value_state_of (dv_disposition v))"
    "dv_work_item_id v = nb_work_item_id b" "dv_native_benchmark_digest v = digest_json P (dump_benchmark b)"
    "dv_evidence_refs v = nb_raw_artifact_hashes b" "dv_original_experiment_cost v = native_cost (nb_comparison b)"
    "dv_proposed_experiment_cost v = traincapsule_cost (nb_comparison b)"
    unfolding v v0(2) by (simp_all add: Let_def)
  ultimately show thesis by (intro that)
qed

text \<open>Two inventories with the same canonical texts are the same multiset of records.\<close>

lemma render_sorted_inj:
  assumes "float_free a" "float_free b" "render P (sort_keys a) = render P (sort_keys b)"
  shows "sort_keys a = sort_keys b"
  using assms canonical_json_bytes_eq_iff [OF assms(1,2), of P] by (simp add: canonical_json_bytes_def)

lemma canonical_models_mset:
  assumes "\<And>x y. sort_keys (f x) = sort_keys (f y) \<Longrightarrow> x = y" "\<And>x. float_free (f x)"
    and "canonical_models P (map f xs) = canonical_models P (map f ys)"
  shows "mset xs = mset ys"
proof -
  have inj: "inj (\<lambda>x. render P (sort_keys (f x)))"
    using assms(1,2) render_sorted_inj by (intro injI) blast
  have "image_mset (\<lambda>x. render P (sort_keys (f x))) (mset xs) = image_mset (\<lambda>x. render P (sort_keys (f x))) (mset ys)"
    using arg_cong [OF assms(3), of mset] by (simp add: canonical_models_def comp_def image_mset.compositionality)
  then show ?thesis using multiset.inj_map [OF inj] by (auto dest: injD)
qed

lemma dump_native_tool_inj: "sort_keys (dump_native_tool x) = sort_keys (dump_native_tool y) \<Longrightarrow> x = y" "float_free (dump_native_tool x)"
  by (cases x; cases y; simp add: dump_native_tool_def) (simp add: dump_native_tool_def)

lemma dump_agent_assistance_inj:
  "sort_keys (dump_agent_assistance x) = sort_keys (dump_agent_assistance y) \<Longrightarrow> x = y" "float_free (dump_agent_assistance x)"
proof -
  have "inj JStr" by (auto intro: injI)
  then show "sort_keys (dump_agent_assistance x) = sort_keys (dump_agent_assistance y) \<Longrightarrow> x = y"
    by (cases x; cases y) (simp add: dump_agent_assistance_def comp_def inj_map_eq_map)
qed (simp add: dump_agent_assistance_def list_all_iff)

lemma traverse_units: "traverse f xs = Inr us \<Longrightarrow> x \<in> set xs \<Longrightarrow> \<exists>u. f x = Inr u"
  by (induction xs arbitrary: us) (auto simp: rbind_Inr_iff)

text \<open>
  C37: a passed candidate is grounded. When a value result computed by the gate is authorized to
  \<open>PASSED_ENGINEERING\<close>, the benchmark is of this candidate, covers exactly the approved native
  tools and agent assistance, every raw artifact was read back with its digest, exactly the
  benchmark's freshness receipts were verified, fresh and unexpired, both operational decisions
  differ reproducibly in every repetition, neither ratio exceeds the policy, and a verified
  receipt of this policy with decision PASS binds all artifacts and oracles of the benchmark.
\<close>

theorem passed_engineering_grounded:
  assumes eval: "evaluate_native_value_candidate P G b p sha tree receipts now = Inr v"
    and auth: "authorize_value_transition P G b v p r later = Inr t" "av_resulting_status t = PASSED_ENGINEERING"
  shows "nb_candidate_sha b = sha \<and> nb_candidate_tree_sha b = tree \<and>
    mset (nb_native_tools b) = mset (np_native_substitute p) \<and> mset (nb_agent_assistance b) = mset (np_agent_assistance p) \<and>
    (\<forall>d\<in>set (nb_raw_artifact_hashes b). \<exists>raw. read_exact G d = Inr raw \<and> sha256_digest P raw = d) \<and>
    (\<forall>f\<in>set receipts. verify_freshness G f now = Inr () \<and> instant now < instant (fr_expires_at f) \<and> fr_state f = FRESH) \<and>
    mset (map (\<lambda>f. digest_json P (dump_freshness P f)) receipts) = mset (nb_source_freshness_receipts b) \<and>
    nb_native_operational_decision b \<noteq> nb_traincapsule_operational_decision b \<and>
    matching_decision_count (nb_reproducibility b) = repetitions (nb_reproducibility b) \<and>
    repetitions (nb_reproducibility b) \<ge> minimum_repetitions p \<and>
    \<not> float_less (maximum_cost_ratio p) (ratio G (traincapsule_cost (nb_comparison b)) (native_cost (nb_comparison b))) \<and>
    \<not> float_less (maximum_time_ratio p) (float_div G (traincapsule_minutes (nb_comparison b)) (native_minutes (nb_comparison b))) \<and>
    verify_receipt G r later = Inr () \<and> pr_decision r = PolicyDecision.PASS \<and> pr_policy_id r = np_policy_id p \<and>
    pr_candidate_sha r = sha \<and> pr_decision_value_disposition r = INCREMENTAL_DECISION_VALUE_DEMONSTRATED \<and>
    set (nb_raw_artifact_hashes b) \<subseteq> set (pr_raw_evidence_artifact_hashes r) \<and>
    set (nb_independent_oracle_ids b) \<subseteq> set (pr_independent_oracle_ids r)"
proof -
  from eval obtain digests units where cand: "nb_candidate_sha b = sha" "nb_candidate_tree_sha b = tree"
    and inventories: "canonical_models P (map dump_native_tool (nb_native_tools b)) = canonical_models P (map dump_native_tool (np_native_substitute p))"
      "canonical_models P (map dump_agent_assistance (nb_agent_assistance b)) = canonical_models P (map dump_agent_assistance (np_agent_assistance p))"
    and fresh: "traverse (fresh_digest P G now) receipts = Inr digests" "sort digests = sort (nb_source_freshness_receipts b)"
    and raw: "traverse (check_artifact P G) (nb_raw_artifact_hashes b) = Inr units"
    and disposition: "dv_disposition v = decision_value_disposition G b p (benchmark_reproducible b p) (benchmark_changed b)"
    by (rule evaluate_InrE)
  have none: "first_failure (authorization_checks b v p r) = None" and receipt: "verify_receipt G r later = Inr ()"
    and t: "av_resulting_status t = work_status_of (dv_disposition v)"
    using auth(1) by (auto simp: authorize_value_transition_def validate_value_transition_def rbind_Inr_iff
        split: option.split_asm if_split_asm)
  have d: "dv_disposition v = INCREMENTAL_DECISION_VALUE_DEMONSTRATED"
    using t auth(2) disposition by (auto simp: decision_value_disposition_def Let_def split: if_split_asm)
  have fresh_each: "verify_freshness G f now = Inr () \<and> instant now < instant (fr_expires_at f) \<and> fr_state f = FRESH \<and>
      fresh_digest P G now f = Inr (digest_json P (dump_freshness P f))" if "f \<in> set receipts" for f
  proof -
    have "verify_freshness G f now = Inr ()" "instant now < instant (fr_expires_at f)" "fr_state f = FRESH"
      using traverse_units [OF fresh(1) that] by (auto simp: fresh_digest_def rbind_Inr_iff)
    then show ?thesis by (simp add: fresh_digest_def gate_error_def)
  qed
  then have "traverse (fresh_digest P G now) receipts = Inr (map (\<lambda>f. digest_json P (dump_freshness P f)) receipts)"
    by (intro traverse_Inr_map) simp
  then have digests: "mset (map (\<lambda>f. digest_json P (dump_freshness P f)) receipts) = mset (nb_source_freshness_receipts b)"
    using fresh by (metis Inr_inject mset_sort)
  have "\<exists>raw. read_exact G d = Inr raw \<and> sha256_digest P raw = d" if "d \<in> set (nb_raw_artifact_hashes b)" for d
    using traverse_units [OF raw that] by (auto simp: check_artifact_def rbind_Inr_iff)
  moreover have "mset (nb_native_tools b) = mset (np_native_substitute p)"
    by (rule canonical_models_mset [OF dump_native_tool_inj inventories(1)])
  moreover have "mset (nb_agent_assistance b) = mset (np_agent_assistance p)"
    by (rule canonical_models_mset [OF dump_agent_assistance_inj inventories(2)])
  moreover have "benchmark_changed b" "benchmark_reproducible b p"
    "\<not> float_less (maximum_cost_ratio p) (ratio G (traincapsule_cost (nb_comparison b)) (native_cost (nb_comparison b)))"
    "\<not> float_less (maximum_time_ratio p) (float_div G (traincapsule_minutes (nb_comparison b)) (native_minutes (nb_comparison b)))"
    using d disposition by (auto simp: decision_value_disposition_def Let_def split: if_split_asm)
  moreover have "pr_decision r = PolicyDecision.PASS" "pr_policy_id r = np_policy_id p" "pr_candidate_sha r = nb_candidate_sha b"
    "pr_decision_value_disposition r = dv_disposition v"
    "set (nb_raw_artifact_hashes b) \<subseteq> set (pr_raw_evidence_artifact_hashes r)"
    "set (nb_independent_oracle_ids b) \<subseteq> set (pr_independent_oracle_ids r)"
    using none [unfolded first_failure_None_iff] by (simp_all add: authorization_checks_def)
  ultimately show ?thesis
    using cand digests receipt d fresh_each by (simp add: benchmark_changed_def benchmark_reproducible_def Let_def)
qed

text \<open>
  C38: the evaluation agrees with the validated benchmark. Of a benchmark that validates, an
  evaluation returns external evidence required exactly when its truth is unknown, native
  sufficiency exactly when the benchmark says so, and otherwise the benchmark says incremental
  value; a benchmark of known truth is only ever evaluated when it is reproducible under the
  policy, and a decision change is reported exactly for demonstrated incremental value.
\<close>

theorem evaluation_matches_benchmark:
  assumes valid: "validate_benchmark b = Inr b" and eval: "evaluate_native_value_candidate P G b p sha tree receipts now = Inr v"
  shows "(dv_disposition v = EXTERNAL_EVIDENCE_REQUIRED) = (nb_truth_state b = EpistemicState.UNKNOWN) \<and>
    (dv_disposition v = NATIVE_WORKFLOW_SUFFICIENT) = (nb_disposition b = NativeSubstituteDisposition.NATIVE_SUFFICIENT) \<and>
    (dv_disposition v \<in> {INCREMENTAL_DECISION_VALUE_DEMONSTRATED, TECHNICALLY_VALID_BUT_NOT_ECONOMIC}) =
      (nb_disposition b = NativeSubstituteDisposition.INCREMENTAL_VALUE) \<and>
    (nb_truth_state b = EpistemicState.UNKNOWN \<or> benchmark_reproducible b p) \<and>
    dv_decision_changed v = (dv_disposition v = INCREMENTAL_DECISION_VALUE_DEMONSTRATED)"
proof -
  have agree: "(nb_disposition b = NativeSubstituteDisposition.UNKNOWN) = (nb_truth_state b = EpistemicState.UNKNOWN)"
    using valid by (auto simp: validate_benchmark_def result_simps split: if_split_asm)
  from eval have "nb_disposition b = native_disposition b (benchmark_reproducible b p) (benchmark_changed b)"
    "dv_disposition v = decision_value_disposition G b p (benchmark_reproducible b p) (benchmark_changed b)"
    "dv_decision_changed v = snd (value_state_of (dv_disposition v))"
    by (rule evaluate_InrE, simp)+
  then show ?thesis
    using agree by (auto simp: native_disposition_def decision_value_disposition_def Let_def split: if_split_asm)
qed

text \<open>
  C39: a comparison with a zero cost is never evaluated. The benchmark admits a zero cost and the
  ratio provides for a zero native cost, but the value result demands positive costs, so the
  evaluation always ends in an error.
\<close>

theorem zero_cost_never_evaluated:
  assumes "native_cost (nb_comparison b) = Finite 0 \<or> traincapsule_cost (nb_comparison b) = Finite 0"
  shows "\<exists>e. evaluate_native_value_candidate P G b p sha tree receipts now = Inl e"
proof (cases "evaluate_native_value_candidate P G b p sha tree receipts now")
  case (Inr v)
  then have "dv_original_experiment_cost v = native_cost (nb_comparison b)" "dv_proposed_experiment_cost v = traincapsule_cost (nb_comparison b)"
    "validate_value_result v = Inr v" by (rule evaluate_InrE, simp)+
  then show ?thesis using assms by (auto simp: validate_value_result_def split: if_split_asm)
qed simp

section \<open>A sample benchmark\<close>

definition gate_digest :: pystr where
  "gate_digest = ''sha256:'' @ replicate 64 CHR ''0''"

fun exact_div :: "pyfloat \<Rightarrow> pyfloat \<Rightarrow> pyfloat" where
  "exact_div (Finite x) (Finite y) = Finite (x / y)"
| "exact_div _ _ = NaN"

definition sample_services :: gate_services where
  "sample_services = \<lparr>float_div = exact_div, read_exact = (\<lambda>_. Inr []), verify_freshness = (\<lambda>_ _. Inr ()), verify_receipt = (\<lambda>_ _. Inr ())\<rparr>"

definition sample_tool :: NativeToolConfigurationV31 where
  "sample_tool = \<lparr>tool_name = ''profiler'', tool_version = ''1'', tool_configuration_digest = gate_digest\<rparr>"

definition sample_freshness :: SourceFreshnessReceiptV31 where
  "sample_freshness = \<lparr>fr_receipt_id = ''FRESH:1'', fr_generation_id = ''v3.1'', fr_generation_digest = gate_digest, fr_source_id = ''SOURCE'',
     fr_source_digest = gate_digest, fr_observed_at = Datetime 0 (Some 0), fr_expires_at = Datetime 100 (Some 0), fr_state = FRESH,
     fr_conflict_artifact_digests = [], fr_wedge_work_item_id = None, fr_issuer_id = ''ISSUER'', fr_issuer_key_id = ''KEY'',
     fr_signature_algorithm = ''ed25519'', fr_signature = replicate 64 CHR ''f''\<rparr>"

definition sample_comparison :: "rat \<Rightarrow> CostTimeResourceComparisonV31" where
  "sample_comparison cost = \<lparr>native_cost = Finite cost, traincapsule_cost = Finite 5, native_minutes = Finite 20, traincapsule_minutes = Finite 10,
     native_resources = [''gpu''], traincapsule_resources = [''cpu'']\<rparr>"

definition sample_benchmark :: "rat \<Rightarrow> NativeSubstituteBenchmarkV31" where
  "sample_benchmark cost = \<lparr>nb_benchmark_id = ''BENCH:1'', nb_work_item_id = ''V3-PRD-001'', nb_case_id = ''CASE:1'',
     nb_candidate_sha = replicate 40 CHR ''a'', nb_candidate_tree_sha = replicate 40 CHR ''b'', nb_environment_digest = gate_digest,
     nb_baseline_environment_digest = gate_digest, nb_candidate_environment_digest = gate_digest,
     nb_source_freshness_receipts = [gate_digest], nb_native_tools = [sample_tool], nb_agent_assistance = [],
     nb_native_tool = ''profiler'', nb_native_tool_version = ''1'', nb_native_inputs = [gate_digest], nb_native_outputs = [gate_digest],
     nb_native_findings = [gate_digest], nb_native_operational_decision = ''run'', nb_incremental_capability = ''stop early'',
     nb_traincapsule_outputs = [gate_digest], nb_traincapsule_operational_decision = ''stop'', nb_native_evidence_digests = [gate_digest],
     nb_candidate_evidence_digests = [gate_digest], nb_incident_contract_digests = [gate_digest],
     nb_independent_oracle_ids = [''ORACLE''], nb_oracle_identity = ''ORACLE'', nb_issuer_identity = ''ISSUER'',
     nb_native_effort_minutes = Finite 20, nb_candidate_effort_minutes = Finite 10, nb_comparison = sample_comparison cost,
     nb_reproducibility = \<lparr>repetitions = 3, matching_decision_count = 3, command_digests = [gate_digest], br_environment_digest = gate_digest\<rparr>,
     nb_limitations = [], nb_truth_state = EpistemicState.CONTROLLED, nb_raw_artifact_hashes = [gate_digest], nb_decision_changed = True,
     nb_disposition = NativeSubstituteDisposition.INCREMENTAL_VALUE\<rparr>"

definition sample_gate_policy :: NativeValueGatePolicyV31 where
  "sample_gate_policy = \<lparr>np_policy_id = ''POLICY:1'', np_policy_version = ''3.1.0'', np_native_substitute = [sample_tool],
     np_agent_assistance = [], minimum_repetitions = 2, maximum_cost_ratio = Finite 1, maximum_time_ratio = Finite 1,
     required_allowed_claims = [''CLAIM'']\<rparr>"

definition sample_gate_receipt :: MachinePolicyReceiptV31 where
  "sample_gate_receipt = \<lparr>pr_receipt_id = ''RECEIPT:2'', pr_policy_id = ''POLICY:1'', pr_policy_version = ''3.1.0'',
     pr_issuer_id = ''VERIFIER:1'', pr_issuer_key_id = ''KEY:1'', pr_issued_at = Datetime 0 (Some 0),
     pr_expires_at = Datetime 100 (Some 0), pr_revocation_epoch = 1, pr_nonce = replicate 16 CHR ''0'',
     pr_request_digest = gate_digest, pr_work_item_id = ''V3-PRD-001'', pr_milestone_id = ''M1_VALUE'', pr_lane = PRODUCT,
     pr_risk_tier = STANDARD, pr_candidate_sha = replicate 40 CHR ''a'', pr_candidate_tree_sha = replicate 40 CHR ''b'',
     pr_base_sha = replicate 40 CHR ''c'', pr_source_generation_id = ''v3.1'', pr_source_generation_digest = gate_digest,
     pr_context_manifest_digest = gate_digest, pr_task_packet_digest = gate_digest, pr_candidate_manifest_digest = gate_digest,
     pr_checkpoint_digest = gate_digest, pr_required_gate_results = [(''GATE'', GateResult.PASS)],
     pr_private_gate_suite_id = ''SUITE'', pr_private_gate_runner_digest = gate_digest, pr_independent_oracle_ids = [''ORACLE''],
     pr_raw_evidence_artifact_hashes = [gate_digest], pr_native_substitute_disposition = NativeSubstituteDisposition.INCREMENTAL_VALUE,
     pr_decision_value_disposition = INCREMENTAL_DECISION_VALUE_DEMONSTRATED, pr_engineering_maturity_ceiling = PASSED,
     pr_commercial_maturity_ceiling = PILOT_ELIGIBLE, pr_allowed_claims = [''CLAIM''], pr_forbidden_claims = [],
     pr_publication_scope = [''factory''], pr_decision = PolicyDecision.PASS, pr_signature_algorithm = ''ed25519'',
     pr_signature = replicate 64 CHR ''f''\<rparr>"

abbreviation sample_evaluation :: "rat \<Rightarrow> DecisionValueResultV31 result" where
  "sample_evaluation cost \<equiv> evaluate_native_value_candidate sample_platform sample_services (sample_benchmark cost) sample_gate_policy
     (replicate 40 CHR ''a'') (replicate 40 CHR ''b'') [sample_freshness] (Datetime 5 (Some 0))"

lemma sample_digest: "digest_json sample_platform j = gate_digest" "sha256_digest sample_platform x = gate_digest"
  by (simp_all add: digest_json_def sha256_digest_def sample_platform_def gate_digest_def)

definition sample_value_result :: DecisionValueResultV31 where
  "sample_value_result = \<lparr>dv_work_item_id = ''V3-PRD-001'', dv_disposition = INCREMENTAL_DECISION_VALUE_DEMONSTRATED,
     dv_native_benchmark_digest = gate_digest, dv_evidence_refs = [gate_digest], dv_original_experiment_cost = Finite 10,
     dv_proposed_experiment_cost = Finite 5, dv_original_experiment_minutes = Finite 20, dv_proposed_experiment_minutes = Finite 10,
     dv_decision_changed = True,
     dv_rationale = value_rationale sample_platform (sample_benchmark 10) INCREMENTAL_DECISION_VALUE_DEMONSTRATED True,
     dv_value_state = ValueState.INCREMENTAL_VALUE\<rparr>"

lemma sample_gate_facts:
  "is_work_item_id ''V3-PRD-001''" "is_digest gate_digest" "is_git_sha (replicate 40 CHR ''a'')" "is_git_sha (replicate 40 CHR ''b'')"
  "sized 1 4000 (value_rationale sample_platform (sample_benchmark 10) INCREMENTAL_DECISION_VALUE_DEMONSTRATED True)"
  by code_simp+

lemma sample_value_valid: "validate_value_result sample_value_result = Inr sample_value_result"
  using sample_gate_facts
  by (simp add: validate_value_result_def sample_value_result_def counted_def require_unique_def raise_first_def)

lemma sample_evaluates: "sample_evaluation 10 = Inr sample_value_result"
proof -
  have "fresh_digest sample_platform sample_services (Datetime 5 (Some 0)) sample_freshness = Inr gate_digest"
    by (simp add: fresh_digest_def sample_services_def sample_freshness_def gate_error_def sample_digest)
  moreover have "check_artifact sample_platform sample_services gate_digest = Inr ()"
    by (simp add: check_artifact_def sample_services_def gate_error_def sample_digest)
  moreover have "benchmark_changed (sample_benchmark 10)" "benchmark_reproducible (sample_benchmark 10) sample_gate_policy"
    by (simp_all add: benchmark_changed_def benchmark_reproducible_def sample_benchmark_def sample_gate_policy_def Let_def)
  moreover have "decision_value_disposition sample_services (sample_benchmark 10) sample_gate_policy True True =
      INCREMENTAL_DECISION_VALUE_DEMONSTRATED"
    by (simp add: decision_value_disposition_def ratio_def sample_services_def sample_benchmark_def sample_comparison_def
        sample_gate_policy_def Let_def)
  moreover have "strip sample_platform x = x" for x by (simp add: sample_platform_def)
  moreover have "nb_candidate_sha (sample_benchmark 10) = replicate 40 CHR ''a''" "nb_candidate_tree_sha (sample_benchmark 10) = replicate 40 CHR ''b''"
    "nb_native_tools (sample_benchmark 10) = np_native_substitute sample_gate_policy" "nb_agent_assistance (sample_benchmark 10) = []"
    "np_agent_assistance sample_gate_policy = []" "nb_source_freshness_receipts (sample_benchmark 10) = [gate_digest]"
    "nb_raw_artifact_hashes (sample_benchmark 10) = [gate_digest]" "nb_decision_changed (sample_benchmark 10)"
    "nb_disposition (sample_benchmark 10) = NativeSubstituteDisposition.INCREMENTAL_VALUE"
    "nb_truth_state (sample_benchmark 10) = EpistemicState.CONTROLLED" "nb_work_item_id (sample_benchmark 10) = ''V3-PRD-001''"
    "nb_comparison (sample_benchmark 10) = sample_comparison 10"
    by (simp_all add: sample_benchmark_def sample_gate_policy_def)
  moreover have "native_cost (sample_comparison 10) = Finite 10" "traincapsule_cost (sample_comparison 10) = Finite 5"
    "native_minutes (sample_comparison 10) = Finite 20" "traincapsule_minutes (sample_comparison 10) = Finite 10"
    by (simp_all add: sample_comparison_def)
  ultimately show ?thesis
    using sample_value_valid
    by (simp add: evaluate_native_value_candidate_def gate_error_def native_disposition_def sample_digest Let_def sample_value_result_def)
qed

lemma sample_authorizes:
  "\<exists>t. authorize_value_transition sample_platform sample_services (sample_benchmark 10) sample_value_result sample_gate_policy
     sample_gate_receipt (Datetime 9 (Some 0)) = Inr t \<and> av_resulting_status t = PASSED_ENGINEERING"
proof -
  have "first_failure (authorization_checks (sample_benchmark 10) sample_value_result sample_gate_policy sample_gate_receipt) = None"
    by (simp add: authorization_checks_def sample_benchmark_def sample_value_result_def sample_gate_policy_def sample_gate_receipt_def)
  then show ?thesis
    using sample_gate_facts
    by (simp add: authorize_value_transition_def sample_services_def validate_value_transition_def sample_digest counted_def
        sample_benchmark_def sample_gate_receipt_def sample_value_result_def)
qed

theorem passed_engineering_grounded_witness:
  "sample_evaluation 10 = Inr sample_value_result \<and> mset (nb_native_tools (sample_benchmark 10)) = mset (np_native_substitute sample_gate_policy)"
proof -
  obtain t where "authorize_value_transition sample_platform sample_services (sample_benchmark 10) sample_value_result sample_gate_policy
     sample_gate_receipt (Datetime 9 (Some 0)) = Inr t" "av_resulting_status t = PASSED_ENGINEERING"
    using sample_authorizes by blast
  from passed_engineering_grounded [OF sample_evaluates this] sample_evaluates show ?thesis by blast
qed

lemma sample_benchmark_valid: "validate_benchmark (sample_benchmark c) = Inr (sample_benchmark c)" if "c \<in> {0, 10}"
  using that by (auto) code_simp+

theorem evaluation_matches_benchmark_witness:
  "sample_evaluation 10 = Inr sample_value_result \<and> dv_disposition sample_value_result \<noteq> EXTERNAL_EVIDENCE_REQUIRED"
proof -
  have "validate_benchmark (sample_benchmark 10) = Inr (sample_benchmark 10)" by (rule sample_benchmark_valid) simp
  from evaluation_matches_benchmark [OF this sample_evaluates] sample_evaluates show ?thesis by (simp add: sample_benchmark_def)
qed

theorem zero_cost_never_evaluated_witness:
  "validate_benchmark (sample_benchmark 0) = Inr (sample_benchmark 0) \<and> (\<exists>e. sample_evaluation 0 = Inl e)"
proof -
  have "native_cost (nb_comparison (sample_benchmark 0)) = Finite 0" by (simp add: sample_benchmark_def sample_comparison_def)
  then show ?thesis using zero_cost_never_evaluated sample_benchmark_valid [of 0] by blast
qed

end
