(* ===== verification/Recovery.thy ===== *)
theory Recovery
  imports Maturity "HOL-Library.Product_Lexorder" "HOL-Library.AList"
begin

text \<open>
  Dispositions and escalation (\<^verbatim>\<open>tcfactory/v3/dispositions.py\<close> and \<^verbatim>\<open>tcfactory/v3/recovery.py\<close>):
  the ledger in which every work item's decisions form one chain, the counter of repeated
  findings, the bounded redesigns after a failed value gate with their content-bound
  proposals, and the finite restart budget of the controller.
\<close>

section \<open>The disposition ledger\<close>

record DispositionRecord =
  dr_record_id :: pystr
  dr_work_item_id :: pystr
  dr_previous :: Disposition
  dr_decision :: Disposition
  dr_rationale :: pystr
  dr_evidence_refs :: "pystr list"
  dr_decided_by :: OwnerType
  dr_decided_at :: datetime

text \<open>\<^verbatim>\<open>^DISP-[A-Z0-9_-]+$\<close>.\<close>

definition is_disposition_id :: "pystr \<Rightarrow> bool" where
  "is_disposition_id s \<longleftrightarrow> starts_with ''DISP-'' s \<and> drop 5 s \<noteq> [] \<and>
     list_all (\<lambda>c. is_upper c \<or> is_digit c \<or> c = CHR ''_'' \<or> c = CHR ''-'') (drop 5 s)"

text \<open>A character below the space, \<open>ord(char) < 32\<close>.\<close>

definition control_char :: "char \<Rightarrow> bool" where
  "control_char c \<longleftrightarrow> (of_char c :: nat) < 32"

definition require_decision_evidence :: "DispositionRecord \<Rightarrow> DispositionRecord result" where
  "require_decision_evidence r =
     (if \<not> (is_disposition_id (dr_record_id r) \<and> is_work_item_id (dr_work_item_id r) \<and> dr_rationale r \<noteq> [] \<and>
          length (dr_evidence_refs r) \<le> 64)
      then Inl (ValidationError ''DispositionRecord'')
      else raise_first
        [(\<not> is_aware (dr_decided_at r), ''disposition decision timestamp must include a timezone''),
         (dr_previous r = dr_decision r, ''disposition decision must change the previous state''),
         (\<not> distinct (dr_evidence_refs r), ''disposition evidence references must be unique''),
         (list_ex (\<lambda>e. all_space e \<or> list_ex control_char e) (dr_evidence_refs r),
          ''disposition evidence references must be non-empty printable strings''),
         (dr_decision r \<in> {STOP, REPLACE} \<and> dr_evidence_refs r = [], ''stop and replace dispositions require evidence'')] r)"

definition ledger_key :: "DispositionRecord \<Rightarrow> int \<times> pystr" where
  "ledger_key r = (instant (dr_decided_at r), dr_record_id r)"

text \<open>The loop over the records with the last decision of every work item.\<close>

fun continues :: "(pystr \<rightharpoonup> Disposition) \<Rightarrow> DispositionRecord list \<Rightarrow> bool" where
  "continues decided [] = True"
| "continues decided (r # rs) =
     ((case decided (dr_work_item_id r) of None \<Rightarrow> True | Some prior \<Rightarrow> dr_previous r = prior) \<and>
      continues (decided(dr_work_item_id r \<mapsto> dr_decision r)) rs)"

definition validate_ledger_history :: "DispositionRecord list \<Rightarrow> DispositionRecord list result" where
  "validate_ledger_history rs =
     rbind (traverse require_decision_evidence rs) (\<lambda>_. raise_first
     [(\<not> distinct (map dr_record_id rs), ''disposition record IDs must be unique''),
      (map ledger_key rs \<noteq> sort (map ledger_key rs), ''disposition records must be in chronological canonical order''),
      (\<not> continues Map.empty rs, ''disposition transition does not continue the prior decision'')] rs)"

section \<open>Repeated findings\<close>

record FindingEscalation =
  fe_fingerprint :: pystr
  fe_count :: int
  fe_blocked :: bool
  fe_status :: WorkStatus
  fe_proposed_dispositions :: "Disposition list"
  fe_machine_policy_review_proposed :: bool

type_synonym finding_counts = "(pystr \<times> int) list"

definition count_of :: "finding_counts \<Rightarrow> pystr \<Rightarrow> int" where
  "count_of counts f = (case map_of counts f of None \<Rightarrow> 0 | Some n \<Rightarrow> n)"

definition record_finding ::
  "platform \<Rightarrow> pystr \<Rightarrow> RetryPolicy \<Rightarrow> finding_counts \<Rightarrow> FindingEscalation result \<times> finding_counts" where
  "record_finding P fingerprint policy counts =
     (if all_space fingerprint then (Inl (ValueError ''finding fingerprint cannot be empty''), counts)
      else
        (let n = count_of counts fingerprint + 1; counts1 = AList.update fingerprint n counts
         in (rbind (repeated_finding_exhausted policy n) (\<lambda>exhausted.
               if n < 1 then Inl (ValidationError ''FindingEscalation'')
               else Inr \<lparr>fe_fingerprint = strip P fingerprint, fe_count = n, fe_blocked = exhausted,
                 fe_status = (if exhausted then BLOCKED_TECHNICAL else RUNNING),
                 fe_proposed_dispositions = (if exhausted then [NARROW, REPLACE] else []),
                 fe_machine_policy_review_proposed = exhausted\<rparr>), counts1)))"

fun record_findings ::
  "platform \<Rightarrow> RetryPolicy \<Rightarrow> pystr list \<Rightarrow> finding_counts \<Rightarrow> FindingEscalation result list \<times> finding_counts" where
  "record_findings P policy [] counts = ([], counts)"
| "record_findings P policy (f # fs) counts =
     (let (e, counts1) = record_finding P f policy counts; (es, counts2) = record_findings P policy fs counts1
      in (e # es, counts2))"

section \<open>Redesigns after a failed value gate\<close>

record ValueRedesignDecision =
  vd_failure_count :: int
  vd_redesigns_remaining :: int
  vd_status :: WorkStatus

definition value_redesign_failure :: "int \<Rightarrow> int \<Rightarrow> bool \<Rightarrow> ValueRedesignDecision result" where
  "value_redesign_failure failure_count max_value_redesigns native_workflow_sufficient =
     (if failure_count \<le> 0 then Inl (ValueError ''value failure count must be positive'')
      else if max_value_redesigns \<le> 0 then Inl (ValueError ''maxValueRedesigns must be positive'')
      else
        (let redesigns_used = max 0 (failure_count - 1); terminal = max_value_redesigns \<le> redesigns_used
         in Inr \<lparr>vd_failure_count = failure_count, vd_redesigns_remaining = max 0 (max_value_redesigns - redesigns_used),
              vd_status = (if terminal then if native_workflow_sufficient then NATIVE_SUFFICIENT else REJECTED_VALUE else READY)\<rparr>))"

record ValueRedesignProposal =
  vp_proposal_id :: pystr
  vp_work_item_id :: pystr
  vp_failure_count :: int
  vp_redesigns_remaining :: int
  vp_target_status :: WorkStatus
  vp_reasons :: "pystr list"
  vp_candidate_sha :: pystr
  vp_source_digest :: pystr
  vp_context_digest :: pystr
  vp_created_at :: datetime

text \<open>\<open>str.upper\<close> of hexadecimal digits.\<close>

definition upper_hex :: "char \<Rightarrow> char" where
  "upper_hex c = (if CHR ''a'' \<le> c \<and> c \<le> CHR ''f'' then char_of (of_char c - 32 :: nat) else c)"

definition proposal_identity ::
  "platform \<Rightarrow> pystr \<Rightarrow> int \<Rightarrow> pystr \<Rightarrow> pystr \<Rightarrow> pystr \<Rightarrow> pystr list \<Rightarrow> pystr" where
  "proposal_identity P item failure_count sha source_digest context_digest reasons =
     map upper_hex (take 24 (hexdigest P (join [CHR 0x0A]
       [item, show_int failure_count, sha, source_digest, context_digest, join ''|'' (sort reasons), []])))"

definition is_proposal_id :: "pystr \<Rightarrow> bool" where
  "is_proposal_id s \<longleftrightarrow> starts_with ''VRP-'' s \<and> length s = 28 \<and>
     list_all (\<lambda>c. is_digit c \<or> (CHR ''A'' \<le> c \<and> c \<le> CHR ''F'')) (drop 4 s)"

text \<open>The constructor strips its texts.\<close>

definition make_proposal :: "platform \<Rightarrow> ValueRedesignProposal \<Rightarrow> ValueRedesignProposal result" where
  "make_proposal P p0 =
     (let p = p0\<lparr>vp_work_item_id := strip P (vp_work_item_id p0), vp_reasons := map (strip P) (vp_reasons p0),
            vp_candidate_sha := strip P (vp_candidate_sha p0), vp_source_digest := strip P (vp_source_digest p0),
            vp_context_digest := strip P (vp_context_digest p0)\<rparr>
      in if is_proposal_id (vp_proposal_id p) \<and> is_work_item_id (vp_work_item_id p) \<and> 1 \<le> vp_failure_count p \<and>
            0 \<le> vp_redesigns_remaining p \<and> vp_reasons p \<noteq> [] \<and> is_git_sha (vp_candidate_sha p) \<and>
            is_digest (vp_source_digest p) \<and> is_digest (vp_context_digest p)
         then Inr p else Inl (ValidationError ''ValueRedesignProposal''))"

definition dump_proposal :: "platform \<Rightarrow> ValueRedesignProposal \<Rightarrow> json" where
  "dump_proposal P p = JObj
     [(''proposalId'', JStr (vp_proposal_id p)), (''workItemId'', JStr (vp_work_item_id p)),
      (''failureCount'', JInt (vp_failure_count p)), (''redesignsRemaining'', JInt (vp_redesigns_remaining p)),
      (''targetStatus'', JStr (status_value (vp_target_status p))), (''reasons'', JList (map JStr (vp_reasons p))),
      (''candidateSha'', JStr (vp_candidate_sha p)), (''sourceDigest'', JStr (vp_source_digest p)),
      (''contextDigest'', JStr (vp_context_digest p)), (''createdAt'', JStr (dump_datetime P (vp_created_at p))),
      (''roadmapMutationAuthorized'', JBool False)]"

text \<open>
  Text files under their paths; a write replaces a file atomically and leaves line ends as they
  are, so that reading gives the text back.
\<close>

type_synonym text_files = "pystr \<rightharpoonup> pybytes"

definition write_value_redesign_proposal ::
  "platform \<Rightarrow> pystr \<Rightarrow> pystr \<Rightarrow> ValueRedesignDecision \<Rightarrow> pystr list \<Rightarrow> pystr \<Rightarrow> pystr \<Rightarrow> pystr \<Rightarrow> datetime \<Rightarrow> text_files \<Rightarrow>
   pystr result \<times> text_files" where
  "write_value_redesign_proposal P folder item d reasons sha source_digest context_digest created fs =
     (case make_proposal P
         \<lparr>vp_proposal_id = ''VRP-'' @ proposal_identity P item (vd_failure_count d) sha source_digest context_digest reasons,
          vp_work_item_id = item, vp_failure_count = vd_failure_count d, vp_redesigns_remaining = vd_redesigns_remaining d,
          vp_target_status = vd_status d, vp_reasons = reasons, vp_candidate_sha = sha, vp_source_digest = source_digest,
          vp_context_digest = context_digest, vp_created_at = created\<rparr> of
        Inl e \<Rightarrow> (Inl e, fs)
      | Inr p \<Rightarrow>
         (let path = folder @ ''/'' @ item @ ''/'' @ vp_proposal_id p @ ''.json'';
              rendered = dumps_indent P (sort_keys (dump_proposal P p)) @ [CHR 0x0A]
          in case fs path of
               Some text \<Rightarrow> (if text \<noteq> rendered then Inl (ValueError ''value redesign proposal identity collision'') else Inr path, fs)
             | None \<Rightarrow> (Inr path, fs(path \<mapsto> rendered))))"

section \<open>The restart budget\<close>

record HardStuckRecord =
  hs_incident_id :: pystr
  hs_restart_count :: int
  hs_max_controller_restarts :: int
  hs_detected_at :: datetime
  hs_reason :: pystr
  hs_recovery_instructions :: "pystr list"

definition recovery_instructions :: "pystr list" where
  "recovery_instructions =
     [''keep the launcher disabled'', ''preserve the bound incident and last healthy checkpoint'',
      ''do not clear or resume this irrecoverable controller incident'',
      ''a later autonomous run requires a new incident identity and must pass the complete startup machine policy independently'']"

definition dump_hard_stuck :: "platform \<Rightarrow> HardStuckRecord \<Rightarrow> json" where
  "dump_hard_stuck P h = JObj
     [(''version'', JInt 3), (''incidentId'', JStr (hs_incident_id h)), (''restartCount'', JInt (hs_restart_count h)),
      (''maxControllerRestarts'', JInt (hs_max_controller_restarts h)),
      (''detectedAt'', JStr (dump_datetime P (hs_detected_at h))), (''reason'', JStr (hs_reason h)),
      (''recoveryInstructions'', JList (map JStr (hs_recovery_instructions h))), (''launcherMustStop'', JBool True)]"

definition enforce_controller_restart_budget ::
  "platform \<Rightarrow> pystr \<Rightarrow> int \<Rightarrow> int \<Rightarrow> datetime \<Rightarrow> pystr \<Rightarrow> pystr \<Rightarrow> text_files \<Rightarrow> HardStuckRecord option result \<times> text_files" where
  "enforce_controller_restart_budget P incident restart_count max_restarts detected hard_stuck_path stop_path fs =
     (if max_restarts \<le> 0 then (Inl (ValueError ''maxControllerRestarts must be positive''), fs)
      else if restart_count \<le> max_restarts then (Inr None, fs)
      else
        (let h = \<lparr>hs_incident_id = strip P incident, hs_restart_count = restart_count, hs_max_controller_restarts = max_restarts,
               hs_detected_at = detected, hs_reason = ''controller restart budget exceeded'',
               hs_recovery_instructions = recovery_instructions\<rparr>
         in if hs_incident_id h = [] then (Inl (ValidationError ''HardStuckRecord''), fs)
            else (Inr (Some h),
              fs(hard_stuck_path \<mapsto> dumps_indent P (dump_hard_stuck P h) @ [CHR 0x0A],
                 stop_path \<mapsto> ''V3 hard stuck: '' @ incident @ [CHR 0x0A]))))"

section \<open>The ledger is one chain per work item\<close>

text \<open>Consecutive decisions of a list.\<close>

fun chained :: "DispositionRecord list \<Rightarrow> bool" where
  "chained (r # s # rs) = (dr_previous s = dr_decision r \<and> chained (s # rs))"
| "chained _ = True"

text \<open>The first decision of a list replaces the given one.\<close>

definition continues_from :: "Disposition option \<Rightarrow> DispositionRecord list \<Rightarrow> bool" where
  "continues_from d rs = (case (d, rs) of (Some prior, r # _) \<Rightarrow> dr_previous r = prior | _ \<Rightarrow> True)"

lemma continues_from_simps [simp]:
  "continues_from None rs" "continues_from d []" "continues_from (Some prior) (r # rs) \<longleftrightarrow> dr_previous r = prior"
  by (auto simp: continues_from_def split: option.splits list.splits)

lemma chained_Cons [simp]: "chained (r # rs) \<longleftrightarrow> continues_from (Some (dr_decision r)) rs \<and> chained rs"
  by (cases rs) auto

lemma continues_iff:
  "continues decided rs \<longleftrightarrow>
     (\<forall>w. continues_from (decided w) (filter (\<lambda>r. dr_work_item_id r = w) rs) \<and>
       chained (filter (\<lambda>r. dr_work_item_id r = w) rs))"
proof (induction rs arbitrary: decided)
  case (Cons r rs)
  let ?of = "\<lambda>w. filter (\<lambda>r. dr_work_item_id r = w) rs" and ?i = "dr_work_item_id r"
  have split: "(\<forall>w. P w) \<longleftrightarrow> P ?i \<and> (\<forall>w. w \<noteq> ?i \<longrightarrow> P w)" for P by metis
  have head: "(case decided ?i of None \<Rightarrow> True | Some prior \<Rightarrow> dr_previous r = prior) \<longleftrightarrow>
      continues_from (decided ?i) (r # ?of ?i)"
    by (cases "decided ?i") auto
  show ?case
    unfolding continues.simps Cons.IH head
    by (subst (1 2) split) auto
qed simp

text \<open>
  C40: a ledger validates exactly when every record does, identifiers are unique, the records
  are sorted by instant and identifier, and the decisions of every work item form one chain in
  which each decision replaces the one before it.
\<close>

theorem ledger_history_iff:
  "validate_ledger_history rs = Inr rs \<longleftrightarrow>
     (\<forall>r\<in>set rs. is_ok (require_decision_evidence r)) \<and> distinct (map dr_record_id rs) \<and> sorted (map ledger_key rs) \<and>
     (\<forall>w. chained (filter (\<lambda>r. dr_work_item_id r = w) rs))"
proof -
  have "is_ok (traverse require_decision_evidence rs) \<longleftrightarrow> (\<forall>r\<in>set rs. is_ok (require_decision_evidence r))"
    by (induction rs) (auto simp: is_ok_iff rbind_Inr_iff)
  moreover have "map ledger_key rs = sort (map ledger_key rs) \<longleftrightarrow> sorted (map ledger_key rs)"
    by (metis sorted_sort sorted_sort_id)
  moreover have "continues Map.empty rs \<longleftrightarrow> (\<forall>w. chained (filter (\<lambda>r. dr_work_item_id r = w) rs))"
    by (simp add: continues_iff)
  ultimately show ?thesis
    by (auto simp: validate_ledger_history_def rbind_Inr_iff raise_first_Inr_iff is_ok_iff)
qed

definition sample_decisions :: "DispositionRecord list" where
  "sample_decisions =
     [\<lparr>dr_record_id = ''DISP-1'', dr_work_item_id = ''V3-A-001'', dr_previous = NOT_REVIEWED, dr_decision = NARROW,
       dr_rationale = ''r'', dr_evidence_refs = [], dr_decided_by = MACHINE_POLICY_AUTHORITY, dr_decided_at = Datetime 1 (Some 0)\<rparr>,
      \<lparr>dr_record_id = ''DISP-2'', dr_work_item_id = ''V3-A-001'', dr_previous = NARROW, dr_decision = STOP,
       dr_rationale = ''r'', dr_evidence_refs = [''e''], dr_decided_by = AI, dr_decided_at = Datetime 2 (Some 0)\<rparr>]"

theorem ledger_history_iff_witness:
  "\<forall>w. chained (filter (\<lambda>r. dr_work_item_id r = w) sample_decisions)"
proof -
  have "validate_ledger_history sample_decisions = Inr sample_decisions" by code_simp
  then show ?thesis unfolding ledger_history_iff by blast
qed

section \<open>Escalation is bounded\<close>

lemma count_of_update [simp]: "count_of (AList.update f n counts) g = (if g = f then n else count_of counts g)"
  by (simp add: count_of_def update_conv')

text \<open>Every occurrence of a finding is counted, whatever the escalations say.\<close>

lemma record_findings_count:
  "list_all (\<lambda>f. \<not> all_space f) fs \<Longrightarrow>
   count_of (snd (record_findings P policy fs counts)) f = count_of counts f + int (count_list fs f)"
  by (induction fs arbitrary: counts) (auto simp: record_finding_def Let_def case_prod_unfold)

text \<open>A finding is blocked exactly from the repetition on that the policy allows last.\<close>

lemma record_finding_blocks_iff:
  assumes "\<not> all_space f" "0 \<le> count_of counts f"
  obtains e where "fst (record_finding P f policy counts) = Inr e" "fe_count e = count_of counts f + 1"
    "fe_blocked e \<longleftrightarrow> max_same_finding_repeats policy \<le> fe_count e"
    "fe_status e = (if fe_blocked e then BLOCKED_TECHNICAL else RUNNING)"
  using assms by (fastforce simp: record_finding_def repeated_finding_exhausted_def Let_def)

text \<open>Redesigns end: an item is ready again for exactly \<open>max_value_redesigns\<close> failures.\<close>

lemma value_redesign_ready_iff:
  assumes "value_redesign_failure failures limit sufficient = Inr d"
  shows "vd_status d = READY \<longleftrightarrow> failures \<le> limit" "vd_status d = READY \<longleftrightarrow> 0 < vd_redesigns_remaining d"
  using assms by (auto simp: value_redesign_failure_def Let_def split: if_splits)

text \<open>The stop file appears only beyond the restart budget.\<close>

lemma restart_budget_stops:
  assumes "enforce_controller_restart_budget P incident n limit t hard stop fs = (r, fs')" "fs' \<noteq> fs"
  shows "limit < n \<and> (\<exists>h. r = Inr (Some h) \<and> hs_restart_count h = n) \<and> fs' stop = Some (''V3 hard stuck: '' @ incident @ [CHR 0x0A])"
  using assms by (auto simp: enforce_controller_restart_budget_def Let_def split: if_splits)

text \<open>Writing a proposal is idempotent and never changes a stored one.\<close>

lemma proposal_write_idempotent:
  assumes "write_value_redesign_proposal P folder item d reasons sha src ctx t fs = (Inr path, fs')"
  shows "write_value_redesign_proposal P folder item d reasons sha src ctx t fs' = (Inr path, fs')" "fs \<subseteq>\<^sub>m fs'"
  using assms
  by (auto simp: write_value_redesign_proposal_def Let_def map_le_def split: sum.splits option.splits if_splits)

end
