(* ===== verification/Product_Models.thy ===== *)
theory Product_Models
  imports Canonical_Json
begin

text \<open>
  The truth records of the product (\<^verbatim>\<open>traincapsule_core/models.py\<close>): identities of
  workloads and environments, evidence artifacts, native findings, incident cases,
  completeness reports and eligibility decisions. A record is what pydantic holds after
  parsing; \<open>validate_...\<close> is the field constraints followed by the model validator, and
  \<open>dump_...\<close> is \<^verbatim>\<open>model_dump(mode="json", by_alias=True)\<close>. Several records carry the digest
  of their own dump, which makes them self-authenticating.
\<close>

section \<open>Vocabulary\<close>

datatype TechnicalResult = PASS | FAIL | UNKNOWN | INVALID_EVIDENCE | INVALID_ORACLE
  | INFRASTRUCTURE_ERROR | POLICY_BLOCKED | EXPIRED

datatype OperationalDecision = APPROVE_WITHIN_ENVELOPE | BLOCK_CHANGE | REQUIRE_MORE_EVIDENCE
  | NO_DECISION | NATIVE_WORKFLOW_SUFFICIENT | TECHNICALLY_VALID_BUT_NOT_ECONOMIC

datatype IdentityStrength = FULLY_VERIFIED | PARTIALLY_VERIFIED | CUSTOMER_ATTESTED | UNVERIFIED
  | CONFLICTING

datatype DataIdentityPolicy = FULL_DIGEST | MANIFEST_DIGEST | CUSTOMER_ATTESTED | UNAVAILABLE

datatype PolicyName = PACK_FIT | LOCAL_EXECUTION_AUTHORITY | PRIVACY_POLICY | EXPORT_POLICY
  | SOURCE_VERSION | ECONOMICS

datatype VerificationOutcome = VERIFIED | DENIED | UNKNOWN

datatype PrivacyClass = PUBLIC | INTERNAL | CONFIDENTIAL | RESTRICTED

datatype EvidenceIntegrity = VALID | CORRUPTED | UNKNOWN

datatype NativeConfidence = DIRECT_OBSERVATION | DERIVED_ALIGNMENT | TOOL_HEURISTIC
  | UNVERIFIED_NARRATIVE

datatype FindingAttribution = NATIVE_TOOL_FOUND | TRAINCAPSULE_DERIVED | HUMAN_PROVIDED
  | EXTERNAL_SYSTEM_PROVIDED | UNKNOWN

datatype CompletenessState = PRESENT_VALID | PRESENT_PARTIAL | PRESENT_CONFLICTING
  | PRESENT_CORRUPTED | MISSING_NOT_CAPTURED | MISSING_POLICY_RESTRICTED
  | MISSING_TECHNICALLY_INACCESSIBLE | MISSING_VERSION_UNSUPPORTED | IDENTITY_UNBOUND
  | NOT_APPLICABLE

datatype EvidenceRole = MANDATORY_FOR_ELIGIBILITY | MANDATORY_FOR_CLAIM | OPTIONAL | SUBSTITUTABLE
  | IRRECOVERABLE_AFTER_INCIDENT

datatype EligibilityOutcome = ELIGIBLE_FOR_QUALIFICATION | NEEDS_MORE_EVIDENCE
  | NATIVE_WORKFLOW_SUFFICIENT | TECHNICALLY_POSSIBLE_BUT_UNECONOMIC | OUTSIDE_SUPPORTED_ENVELOPE
  | POLICY_BLOCKED | UNKNOWN

fun strength_value :: "IdentityStrength \<Rightarrow> pystr" where
  "strength_value FULLY_VERIFIED = ''FULLY_VERIFIED''"
| "strength_value PARTIALLY_VERIFIED = ''PARTIALLY_VERIFIED''"
| "strength_value IdentityStrength.CUSTOMER_ATTESTED = ''CUSTOMER_ATTESTED''"
| "strength_value UNVERIFIED = ''UNVERIFIED''"
| "strength_value CONFLICTING = ''CONFLICTING''"

fun policy_value :: "DataIdentityPolicy \<Rightarrow> pystr" where
  "policy_value FULL_DIGEST = ''FULL_DIGEST''"
| "policy_value MANIFEST_DIGEST = ''MANIFEST_DIGEST''"
| "policy_value DataIdentityPolicy.CUSTOMER_ATTESTED = ''CUSTOMER_ATTESTED''"
| "policy_value UNAVAILABLE = ''UNAVAILABLE''"

fun privacy_value :: "PrivacyClass \<Rightarrow> pystr" where
  "privacy_value PUBLIC = ''PUBLIC''"
| "privacy_value INTERNAL = ''INTERNAL''"
| "privacy_value CONFIDENTIAL = ''CONFIDENTIAL''"
| "privacy_value RESTRICTED = ''RESTRICTED''"

fun integrity_value :: "EvidenceIntegrity \<Rightarrow> pystr" where
  "integrity_value VALID = ''VALID''"
| "integrity_value CORRUPTED = ''CORRUPTED''"
| "integrity_value EvidenceIntegrity.UNKNOWN = ''UNKNOWN''"

fun confidence_value :: "NativeConfidence \<Rightarrow> pystr" where
  "confidence_value DIRECT_OBSERVATION = ''DIRECT_OBSERVATION''"
| "confidence_value DERIVED_ALIGNMENT = ''DERIVED_ALIGNMENT''"
| "confidence_value TOOL_HEURISTIC = ''TOOL_HEURISTIC''"
| "confidence_value UNVERIFIED_NARRATIVE = ''UNVERIFIED_NARRATIVE''"

fun attribution_value :: "FindingAttribution \<Rightarrow> pystr" where
  "attribution_value NATIVE_TOOL_FOUND = ''NATIVE_TOOL_FOUND''"
| "attribution_value TRAINCAPSULE_DERIVED = ''TRAINCAPSULE_DERIVED''"
| "attribution_value HUMAN_PROVIDED = ''HUMAN_PROVIDED''"
| "attribution_value EXTERNAL_SYSTEM_PROVIDED = ''EXTERNAL_SYSTEM_PROVIDED''"
| "attribution_value FindingAttribution.UNKNOWN = ''UNKNOWN''"

fun completeness_value :: "CompletenessState \<Rightarrow> pystr" where
  "completeness_value PRESENT_VALID = ''PRESENT_VALID''"
| "completeness_value PRESENT_PARTIAL = ''PRESENT_PARTIAL''"
| "completeness_value PRESENT_CONFLICTING = ''PRESENT_CONFLICTING''"
| "completeness_value PRESENT_CORRUPTED = ''PRESENT_CORRUPTED''"
| "completeness_value MISSING_NOT_CAPTURED = ''MISSING_NOT_CAPTURED''"
| "completeness_value MISSING_POLICY_RESTRICTED = ''MISSING_POLICY_RESTRICTED''"
| "completeness_value MISSING_TECHNICALLY_INACCESSIBLE = ''MISSING_TECHNICALLY_INACCESSIBLE''"
| "completeness_value MISSING_VERSION_UNSUPPORTED = ''MISSING_VERSION_UNSUPPORTED''"
| "completeness_value IDENTITY_UNBOUND = ''IDENTITY_UNBOUND''"
| "completeness_value NOT_APPLICABLE = ''NOT_APPLICABLE''"

fun role_value :: "EvidenceRole \<Rightarrow> pystr" where
  "role_value MANDATORY_FOR_ELIGIBILITY = ''MANDATORY_FOR_ELIGIBILITY''"
| "role_value MANDATORY_FOR_CLAIM = ''MANDATORY_FOR_CLAIM''"
| "role_value OPTIONAL = ''OPTIONAL''"
| "role_value SUBSTITUTABLE = ''SUBSTITUTABLE''"
| "role_value IRRECOVERABLE_AFTER_INCIDENT = ''IRRECOVERABLE_AFTER_INCIDENT''"

fun technical_value :: "TechnicalResult \<Rightarrow> pystr" where
  "technical_value PASS = ''PASS''"
| "technical_value FAIL = ''FAIL''"
| "technical_value TechnicalResult.UNKNOWN = ''UNKNOWN''"
| "technical_value INVALID_EVIDENCE = ''INVALID_EVIDENCE''"
| "technical_value INVALID_ORACLE = ''INVALID_ORACLE''"
| "technical_value INFRASTRUCTURE_ERROR = ''INFRASTRUCTURE_ERROR''"
| "technical_value TechnicalResult.POLICY_BLOCKED = ''POLICY_BLOCKED''"
| "technical_value EXPIRED = ''EXPIRED''"

fun policy_name_value :: "PolicyName \<Rightarrow> pystr" where
  "policy_name_value PACK_FIT = ''PACK_FIT''"
| "policy_name_value LOCAL_EXECUTION_AUTHORITY = ''LOCAL_EXECUTION_AUTHORITY''"
| "policy_name_value PRIVACY_POLICY = ''PRIVACY_POLICY''"
| "policy_name_value EXPORT_POLICY = ''EXPORT_POLICY''"
| "policy_name_value SOURCE_VERSION = ''SOURCE_VERSION''"
| "policy_name_value ECONOMICS = ''ECONOMICS''"

section \<open>Identifiers\<close>

text \<open>\<^verbatim>\<open>^[A-Za-z0-9][A-Za-z0-9._-]{0,127}$\<close>, as a field pattern and in \<open>safe_identifier\<close>.\<close>

definition identifier_char :: "char \<Rightarrow> bool" where
  "identifier_char c \<longleftrightarrow> is_alnum c \<or> c \<in> {CHR ''.'', CHR ''_'', CHR ''-''}"

definition is_identifier :: "pystr \<Rightarrow> bool" where
  "is_identifier s \<longleftrightarrow> s \<noteq> [] \<and> is_alnum (hd s) \<and> list_all identifier_char (tl s) \<and> length s \<le> 128"

definition safe_identifier :: "pystr \<Rightarrow> pystr result" where
  "safe_identifier s = raise_first [(\<not> is_identifier s, ''identifier contains unsafe characters'')] s"

definition is_cas_uri :: "pystr \<Rightarrow> bool" where
  "is_cas_uri s \<longleftrightarrow> starts_with ''cas://'' s \<and> 6 < length s \<and>
     list_all (\<lambda>c. identifier_char c \<or> c = CHR ''/'') (drop 6 s)"

definition is_currency :: "pystr \<Rightarrow> bool" where
  "is_currency s \<longleftrightarrow> length s = 3 \<and> list_all is_upper s"

text \<open>The constraint \<open>ge=0\<close> on a float, which NaN fails.\<close>

fun float_nonneg :: "pyfloat \<Rightarrow> bool" where
  "float_nonneg (Finite r) = (0 \<le> r)"
| "float_nonneg PosInf = True"
| "float_nonneg NegInf = False"
| "float_nonneg NaN = False"

section \<open>Workloads and environments\<close>

record SourceIdentity =
  repository_digest :: pystr
  dirty_patch_digest :: "pystr option"

record FrameworkIdentity =
  fw_name :: pystr
  fw_version :: pystr

record DistributedIdentity =
  strategy :: pystr
  world_size :: int
  process_groups_digest :: pystr

record DataIdentity =
  data_policy :: DataIdentityPolicy
  manifest_digest :: "pystr option"

definition digest_matches_policy :: "DataIdentity \<Rightarrow> DataIdentity result" where
  "digest_matches_policy d = raise_first
     [(data_policy d \<in> {FULL_DIGEST, MANIFEST_DIGEST} \<and> manifest_digest d = None,
       ''content/manifest identity requires manifestDigest''),
      (data_policy d \<notin> {FULL_DIGEST, MANIFEST_DIGEST} \<and> manifest_digest d \<noteq> None,
       ''attested/unavailable data identity cannot carry a digest'')] d"

record WorkloadIdentity =
  wl_workload_id :: pystr
  wl_identity_strength :: IdentityStrength
  wl_identity_conflict :: bool
  source_identity :: SourceIdentity
  entrypoint :: pystr
  arguments_digest :: pystr
  container_image_digest :: "pystr option"
  dependency_lock_digest :: pystr
  configuration_files_digest :: pystr
  relevant_environment_digest :: pystr
  wl_redaction_policy_version :: pystr
  framework :: FrameworkIdentity
  distributed :: DistributedIdentity
  model_structure_digest :: "pystr option"
  data_identity :: DataIdentity
  checkpoint_policy_digest :: "pystr option"
  wl_privacy_class :: PrivacyClass
  wl_created_at :: datetime

fun strength_of_policy :: "DataIdentityPolicy \<Rightarrow> IdentityStrength" where
  "strength_of_policy FULL_DIGEST = FULLY_VERIFIED"
| "strength_of_policy MANIFEST_DIGEST = PARTIALLY_VERIFIED"
| "strength_of_policy DataIdentityPolicy.CUSTOMER_ATTESTED = IdentityStrength.CUSTOMER_ATTESTED"
| "strength_of_policy UNAVAILABLE = UNVERIFIED"

definition expected_strength :: "bool \<Rightarrow> DataIdentityPolicy \<Rightarrow> IdentityStrength" where
  "expected_strength conflict p = (if conflict then CONFLICTING else strength_of_policy p)"

text \<open>
  The authenticated material: the dump without the identifier, the time of creation and,
  where there is no conflict, the conflict flag.
\<close>

definition workload_material :: "WorkloadIdentity \<Rightarrow> (pystr \<times> json) list" where
  "workload_material w =
     [(''schemaVersion'', JInt 1),
      (''identityStrength'', JStr (strength_value (wl_identity_strength w)))] @
     (if wl_identity_conflict w then [(''identityConflict'', JBool True)] else []) @
     [(''sourceIdentity'', JObj
        [(''repositoryDigest'', JStr (repository_digest (source_identity w))),
         (''dirtyPatchDigest'', jopt JStr (dirty_patch_digest (source_identity w)))]),
      (''entrypoint'', JStr (entrypoint w)),
      (''argumentsDigest'', JStr (arguments_digest w)),
      (''containerImageDigest'', jopt JStr (container_image_digest w)),
      (''dependencyLockDigest'', JStr (dependency_lock_digest w)),
      (''configurationFilesDigest'', JStr (configuration_files_digest w)),
      (''relevantEnvironmentDigest'', JStr (relevant_environment_digest w)),
      (''redactionPolicyVersion'', JStr (wl_redaction_policy_version w)),
      (''framework'', JObj [(''name'', JStr (fw_name (framework w))), (''version'', JStr (fw_version (framework w)))]),
      (''distributed'', JObj
        [(''strategy'', JStr (strategy (distributed w))), (''worldSize'', JInt (world_size (distributed w))),
         (''processGroupsDigest'', JStr (process_groups_digest (distributed w)))]),
      (''modelStructureDigest'', jopt JStr (model_structure_digest w)),
      (''dataIdentity'', JObj
        [(''policy'', JStr (policy_value (data_policy (data_identity w)))),
         (''manifestDigest'', jopt JStr (manifest_digest (data_identity w)))]),
      (''checkpointPolicyDigest'', jopt JStr (checkpoint_policy_digest w)),
      (''privacyClass'', JStr (privacy_value (wl_privacy_class w)))]"

definition dump_workload :: "platform \<Rightarrow> WorkloadIdentity \<Rightarrow> json" where
  "dump_workload P w = JObj
     ([(''workloadId'', JStr (wl_workload_id w)), (''createdAt'', JStr (dump_datetime P (wl_created_at w)))] @
      (if wl_identity_conflict w then [] else [(''identityConflict'', JBool False)]) @ workload_material w)"

definition workload_fields_ok :: "WorkloadIdentity \<Rightarrow> bool" where
  "workload_fields_ok w \<longleftrightarrow>
     is_digest (wl_workload_id w) \<and> is_digest (repository_digest (source_identity w)) \<and>
     pred_option is_digest (dirty_patch_digest (source_identity w)) \<and> entrypoint w \<noteq> [] \<and>
     is_digest (arguments_digest w) \<and> pred_option is_digest (container_image_digest w) \<and>
     is_digest (dependency_lock_digest w) \<and> is_digest (configuration_files_digest w) \<and>
     is_digest (relevant_environment_digest w) \<and> wl_redaction_policy_version w \<noteq> [] \<and>
     fw_name (framework w) \<noteq> [] \<and> fw_version (framework w) \<noteq> [] \<and>
     strategy (distributed w) \<noteq> [] \<and> 1 \<le> world_size (distributed w) \<and> world_size (distributed w) \<le> 131072 \<and>
     is_digest (process_groups_digest (distributed w)) \<and> pred_option is_digest (model_structure_digest w) \<and>
     pred_option is_digest (manifest_digest (data_identity w)) \<and> pred_option is_digest (checkpoint_policy_digest w)"

definition validate_workload :: "platform \<Rightarrow> WorkloadIdentity \<Rightarrow> WorkloadIdentity result" where
  "validate_workload P w =
     (if \<not> workload_fields_ok w then Inl (ValidationError ''WorkloadIdentity'')
      else rbind (digest_matches_policy (data_identity w)) (\<lambda>_. raise_first
        [(wl_identity_strength w \<noteq> expected_strength (wl_identity_conflict w) (data_policy (data_identity w)),
          ''identityStrength does not match workload identity evidence policy''),
         (wl_workload_id w \<noteq> digest_json P (JObj (workload_material w)),
          ''workloadId does not match canonical workload identity material'')] w))"

record GpuIdentity =
  gpu_model :: "pystr option"
  gpu_count :: int
  firmware_digest :: "pystr option"

record EnvironmentIdentity =
  environment_id :: pystr
  en_identity_strength :: IdentityStrength
  en_identity_conflict :: bool
  identity_policy :: DataIdentityPolicy
  identity_evidence_digest :: "pystr option"
  host_kernel :: pystr
  container_runtime :: "pystr option"
  python :: pystr
  packages_digest :: pystr
  pytorch :: pystr
  cuda_runtime :: "pystr option"
  cuda_driver :: "pystr option"
  nccl :: "pystr option"
  gpu :: GpuIdentity
  topology_digest :: "pystr option"
  en_scheduler :: "pystr option"
  launcher :: "pystr option"
  network_class :: "pystr option"
  storage_class :: "pystr option"
  environment_variables_digest :: pystr
  en_redaction_policy_version :: pystr
  materialization_recipe_digest :: "pystr option"
  materialization_recipe_artifact_id :: "pystr option"
  en_created_at :: datetime

definition environment_material :: "EnvironmentIdentity \<Rightarrow> (pystr \<times> json) list" where
  "environment_material e =
     [(''schemaVersion'', JInt 1),
      (''identityStrength'', JStr (strength_value (en_identity_strength e)))] @
     (if en_identity_conflict e then [(''identityConflict'', JBool True)] else []) @
     [(''identityPolicy'', JStr (policy_value (identity_policy e))),
      (''identityEvidenceDigest'', jopt JStr (identity_evidence_digest e)),
      (''hostKernel'', JStr (host_kernel e)),
      (''containerRuntime'', jopt JStr (container_runtime e)),
      (''python'', JStr (python e)),
      (''packagesDigest'', JStr (packages_digest e)),
      (''pytorch'', JStr (pytorch e)),
      (''cudaRuntime'', jopt JStr (cuda_runtime e)),
      (''cudaDriver'', jopt JStr (cuda_driver e)),
      (''nccl'', jopt JStr (nccl e)),
      (''gpu'', JObj [(''model'', jopt JStr (gpu_model (gpu e))), (''count'', JInt (gpu_count (gpu e))),
         (''firmwareDigest'', jopt JStr (firmware_digest (gpu e)))]),
      (''topologyDigest'', jopt JStr (topology_digest e)),
      (''scheduler'', jopt JStr (en_scheduler e)),
      (''launcher'', jopt JStr (launcher e)),
      (''networkClass'', jopt JStr (network_class e)),
      (''storageClass'', jopt JStr (storage_class e)),
      (''environmentVariablesDigest'', JStr (environment_variables_digest e)),
      (''redactionPolicyVersion'', JStr (en_redaction_policy_version e)),
      (''materializationRecipeDigest'', jopt JStr (materialization_recipe_digest e)),
      (''materializationRecipeArtifactId'', jopt JStr (materialization_recipe_artifact_id e))]"

definition dump_environment :: "platform \<Rightarrow> EnvironmentIdentity \<Rightarrow> json" where
  "dump_environment P e = JObj
     ([(''environmentId'', JStr (environment_id e)), (''createdAt'', JStr (dump_datetime P (en_created_at e)))] @
      (if en_identity_conflict e then [] else [(''identityConflict'', JBool False)]) @ environment_material e)"

definition environment_fields_ok :: "EnvironmentIdentity \<Rightarrow> bool" where
  "environment_fields_ok e \<longleftrightarrow>
     is_digest (environment_id e) \<and> pred_option is_digest (identity_evidence_digest e) \<and>
     host_kernel e \<noteq> [] \<and> python e \<noteq> [] \<and> is_digest (packages_digest e) \<and> pytorch e \<noteq> [] \<and>
     0 \<le> gpu_count (gpu e) \<and> gpu_count (gpu e) \<le> 131072 \<and> pred_option is_digest (firmware_digest (gpu e)) \<and>
     pred_option is_digest (topology_digest e) \<and> is_digest (environment_variables_digest e) \<and>
     en_redaction_policy_version e \<noteq> [] \<and> pred_option is_digest (materialization_recipe_digest e) \<and>
     pred_option is_digest (materialization_recipe_artifact_id e)"

definition validate_environment :: "platform \<Rightarrow> EnvironmentIdentity \<Rightarrow> EnvironmentIdentity result" where
  "validate_environment P e =
     (if \<not> environment_fields_ok e then Inl (ValidationError ''EnvironmentIdentity'')
      else raise_first
        [(identity_policy e \<in> {FULL_DIGEST, MANIFEST_DIGEST} \<and> identity_evidence_digest e = None,
          ''verified environment identity requires identityEvidenceDigest''),
         (identity_policy e \<notin> {FULL_DIGEST, MANIFEST_DIGEST} \<and> identity_evidence_digest e \<noteq> None,
          ''attested/unavailable environment identity cannot carry evidence''),
         ((materialization_recipe_digest e = None) \<noteq> (materialization_recipe_artifact_id e = None),
          ''materialization recipe digest and artifact identity must be declared together''),
         (en_identity_strength e \<noteq> expected_strength (en_identity_conflict e) (identity_policy e),
          ''identityStrength does not match environment identity evidence policy''),
         (environment_id e \<noteq> digest_json P (JObj (environment_material e)),
          ''environmentId does not match canonical environment identity material'')] e)"

section \<open>Evidence artifacts and findings\<close>

record EvidenceArtifact =
  artifact_id :: pystr
  ea_case_id :: pystr
  ea_workload_id :: "pystr option"
  ea_baseline_environment_id :: "pystr option"
  ea_candidate_environment_id :: "pystr option"
  ea_kind :: pystr
  source_adapter :: pystr
  source_version :: pystr
  captured_at :: datetime
  content_digest :: pystr
  size_bytes :: int
  compression :: pystr
  encryption :: pystr
  ea_privacy_class :: PrivacyClass
  customer_local_uri :: pystr
  export_policy :: pystr
  provenance :: "(pystr \<times> pystr) list"
  integrity_status :: EvidenceIntegrity
  metadata_digest :: pystr

text \<open>The authenticated material, over the text the time of capture is written as.\<close>

definition artifact_material :: "pystr \<Rightarrow> EvidenceArtifact \<Rightarrow> (pystr \<times> json) list" where
  "artifact_material captured a =
     [(''schemaVersion'', JInt 1), (''artifactId'', JStr (artifact_id a)), (''caseId'', JStr (ea_case_id a)),
      (''workloadId'', jopt JStr (ea_workload_id a)),
      (''baselineEnvironmentId'', jopt JStr (ea_baseline_environment_id a)),
      (''candidateEnvironmentId'', jopt JStr (ea_candidate_environment_id a)),
      (''kind'', JStr (ea_kind a)), (''sourceAdapter'', JStr (source_adapter a)),
      (''sourceVersion'', JStr (source_version a)), (''capturedAt'', JStr captured),
      (''contentDigest'', JStr (content_digest a)), (''sizeBytes'', JInt (size_bytes a)),
      (''compression'', JStr (compression a)), (''encryption'', JStr (encryption a)),
      (''privacyClass'', JStr (privacy_value (ea_privacy_class a))),
      (''customerLocalUri'', JStr (customer_local_uri a)), (''exportPolicy'', JStr (export_policy a)),
      (''provenance'', JObj (map (\<lambda>(k, v). (k, JStr v)) (provenance a))),
      (''integrityStatus'', JStr (integrity_value (integrity_status a)))]"

definition dump_artifact :: "platform \<Rightarrow> EvidenceArtifact \<Rightarrow> json" where
  "dump_artifact P a = JObj (artifact_material (dump_datetime P (captured_at a)) a @
     [(''metadataDigest'', JStr (metadata_digest a))])"

definition cas_uri :: "pystr \<Rightarrow> pystr \<Rightarrow> pystr" where
  "cas_uri case_id digest_hex = ''cas://'' @ case_id @ ''/sha256/'' @ digest_hex"

definition artifact_fields_ok :: "EvidenceArtifact \<Rightarrow> bool" where
  "artifact_fields_ok a \<longleftrightarrow>
     is_digest (artifact_id a) \<and> is_identifier (ea_case_id a) \<and> pred_option is_digest (ea_workload_id a) \<and>
     pred_option is_digest (ea_baseline_environment_id a) \<and> pred_option is_digest (ea_candidate_environment_id a) \<and>
     ea_kind a \<noteq> [] \<and> source_adapter a \<noteq> [] \<and> source_version a \<noteq> [] \<and> is_digest (content_digest a) \<and>
     0 \<le> size_bytes a \<and> is_cas_uri (customer_local_uri a) \<and> export_policy a \<noteq> [] \<and> is_digest (metadata_digest a)"

definition validate_artifact :: "platform \<Rightarrow> EvidenceArtifact \<Rightarrow> EvidenceArtifact result" where
  "validate_artifact P a =
     (if \<not> artifact_fields_ok a then Inl (ValidationError ''EvidenceArtifact'')
      else raise_first
        [(artifact_id a \<noteq> content_digest a, ''artifactId must equal the raw content digest''),
         (customer_local_uri a \<noteq> cas_uri (ea_case_id a) (removeprefix ''sha256:'' (content_digest a)),
          ''customerLocalUri must be the case-bound URI for contentDigest''),
         (metadata_digest a \<noteq> digest_json P (JObj (artifact_material (dump_datetime P (captured_at a)) a)),
          ''metadataDigest does not authenticate artifact metadata'')] a)"

record NativeFinding =
  finding_id :: pystr
  attribution :: FindingAttribution
  native_system :: pystr
  native_version :: pystr
  observation :: pystr
  nf_evidence_refs :: "pystr list"
  confidence_class :: NativeConfidence
  nf_limitations :: "pystr list"
  customer_decision_contribution :: pystr

definition finding_material :: "NativeFinding \<Rightarrow> (pystr \<times> json) list" where
  "finding_material f =
     [(''schemaVersion'', JInt 1), (''attribution'', JStr (attribution_value (attribution f))),
      (''nativeSystem'', JStr (native_system f)), (''nativeVersion'', JStr (native_version f)),
      (''observation'', JStr (observation f)), (''evidenceRefs'', JList (map JStr (nf_evidence_refs f))),
      (''confidenceClass'', JStr (confidence_value (confidence_class f))),
      (''limitations'', JList (map JStr (nf_limitations f))),
      (''customerDecisionContribution'', JStr (customer_decision_contribution f))]"

definition dump_finding :: "NativeFinding \<Rightarrow> json" where
  "dump_finding f = JObj ((''findingId'', JStr (finding_id f)) # finding_material f)"

definition finding_fields_ok :: "NativeFinding \<Rightarrow> bool" where
  "finding_fields_ok f \<longleftrightarrow>
     is_digest (finding_id f) \<and> native_system f \<noteq> [] \<and> native_version f \<noteq> [] \<and> observation f \<noteq> [] \<and>
     nf_evidence_refs f \<noteq> [] \<and> list_all is_digest (nf_evidence_refs f) \<and> nf_limitations f \<noteq> [] \<and>
     customer_decision_contribution f \<noteq> []"

definition validate_finding :: "platform \<Rightarrow> NativeFinding \<Rightarrow> NativeFinding result" where
  "validate_finding P f =
     (if \<not> finding_fields_ok f then Inl (ValidationError ''NativeFinding'')
      else raise_first
        [(finding_id f \<noteq> digest_json P (JObj (finding_material f)),
          ''findingId does not authenticate the native finding'')] f)"

section \<open>Cases\<close>

record ExperimentEconomics =
  estimated_cost :: "pyfloat option"
  estimated_duration_seconds :: "int option"
  xe_currency :: "pystr option"
  basis :: pystr

definition validate_experiment_economics :: "ExperimentEconomics \<Rightarrow> ExperimentEconomics result" where
  "validate_experiment_economics x =
     (if \<not> (pred_option float_nonneg (estimated_cost x) \<and> pred_option ((\<le>) 0) (estimated_duration_seconds x) \<and>
            pred_option is_currency (xe_currency x) \<and> basis x \<noteq> [])
      then Inl (ValidationError ''ExperimentEconomics'')
      else raise_first
        [(estimated_cost x \<noteq> None \<and> xe_currency x = None, ''known cost requires an ISO currency'')] x)"

definition dump_experiment_economics :: "ExperimentEconomics \<Rightarrow> json" where
  "dump_experiment_economics x = JObj
     [(''estimatedCost'', jopt JFloat (estimated_cost x)),
      (''estimatedDurationSeconds'', jopt JInt (estimated_duration_seconds x)),
      (''currency'', jopt JStr (xe_currency x)), (''basis'', JStr (basis x))]"

record MachineVerification =
  mv_policy :: PolicyName
  mv_outcome :: VerificationOutcome
  subject_digest :: pystr
  mv_reason :: pystr

record CaseEconomics =
  estimated_original_run_cost :: "pyfloat option"
  estimated_investigation_cost :: "pyfloat option"
  estimated_delay_cost :: "pyfloat option"
  ce_currency :: "pystr option"

definition dump_case_economics :: "CaseEconomics \<Rightarrow> json" where
  "dump_case_economics x = JObj
     [(''estimatedOriginalRunCost'', jopt JFloat (estimated_original_run_cost x)),
      (''estimatedInvestigationCost'', jopt JFloat (estimated_investigation_cost x)),
      (''estimatedDelayCost'', jopt JFloat (estimated_delay_cost x)),
      (''currency'', jopt JStr (ce_currency x))]"

record IncidentCase =
  ic_case_id :: pystr
  decision_owner :: pystr
  decision_type :: pystr
  decision_deadline :: datetime
  incident_summary :: pystr
  ic_baseline_environment_id :: "pystr option"
  ic_candidate_environment_id :: "pystr option"
  ic_workload_id :: "pystr option"
  ic_evidence_refs :: "pystr list"
  ic_native_findings :: "NativeFinding list"
  pack_candidate :: pystr
  ic_economics :: CaseEconomics
  privacy_policy :: pystr
  ic_status :: pystr

definition case_fields_ok :: "IncidentCase \<Rightarrow> bool" where
  "case_fields_ok c \<longleftrightarrow>
     is_identifier (ic_case_id c) \<and> decision_owner c \<noteq> [] \<and> decision_type c \<noteq> [] \<and> incident_summary c \<noteq> [] \<and>
     pred_option is_digest (ic_baseline_environment_id c) \<and> pred_option is_digest (ic_candidate_environment_id c) \<and>
     pred_option is_digest (ic_workload_id c) \<and> list_all is_digest (ic_evidence_refs c) \<and>
     pack_candidate c \<noteq> [] \<and> privacy_policy c \<noteq> [] \<and> ic_status c \<noteq> [] \<and>
     pred_option float_nonneg (estimated_original_run_cost (ic_economics c)) \<and>
     pred_option float_nonneg (estimated_investigation_cost (ic_economics c)) \<and>
     pred_option float_nonneg (estimated_delay_cost (ic_economics c)) \<and>
     pred_option is_currency (ce_currency (ic_economics c))"

definition validate_case :: "platform \<Rightarrow> IncidentCase \<Rightarrow> IncidentCase result" where
  "validate_case P c =
     (if \<not> case_fields_ok c then Inl (ValidationError ''IncidentCase'')
      else rbind (traverse (validate_finding P) (ic_native_findings c)) (\<lambda>_. Inr c))"

definition dump_case :: "platform \<Rightarrow> IncidentCase \<Rightarrow> json" where
  "dump_case P c = JObj
     [(''schemaVersion'', JInt 1), (''caseId'', JStr (ic_case_id c)), (''decisionOwner'', JStr (decision_owner c)),
      (''decisionType'', JStr (decision_type c)), (''decisionDeadline'', JStr (dump_datetime P (decision_deadline c))),
      (''incidentSummary'', JStr (incident_summary c)),
      (''baselineEnvironmentId'', jopt JStr (ic_baseline_environment_id c)),
      (''candidateEnvironmentId'', jopt JStr (ic_candidate_environment_id c)),
      (''workloadId'', jopt JStr (ic_workload_id c)), (''evidenceRefs'', JList (map JStr (ic_evidence_refs c))),
      (''nativeFindings'', JList (map dump_finding (ic_native_findings c))),
      (''packCandidate'', JStr (pack_candidate c)), (''economics'', dump_case_economics (ic_economics c)),
      (''privacyPolicy'', JStr (privacy_policy c)), (''status'', JStr (ic_status c))]"

section \<open>Completeness and eligibility\<close>

record EvidenceRequirement =
  er_kind :: pystr
  er_role :: EvidenceRole
  claim_names :: "pystr list"
  substitutable_by :: "pystr list"
  er_state :: CompletenessState
  artifact_refs :: "pystr list"
  detail :: pystr

definition present_states :: "CompletenessState list" where
  "present_states = [PRESENT_VALID, PRESENT_PARTIAL, PRESENT_CONFLICTING, PRESENT_CORRUPTED]"

definition validate_requirement :: "EvidenceRequirement \<Rightarrow> EvidenceRequirement result" where
  "validate_requirement r =
     (if \<not> (er_kind r \<noteq> [] \<and> list_all is_digest (artifact_refs r) \<and> detail r \<noteq> [])
      then Inl (ValidationError ''EvidenceRequirement'')
      else raise_first
        [(er_state r \<in> set present_states \<and> artifact_refs r = [],
          ''present evidence requires at least one artifactRef''),
         (er_state r \<notin> set present_states \<and> artifact_refs r \<noteq> [],
          ''missing/not-applicable evidence cannot carry artifactRefs''),
         (er_role r = MANDATORY_FOR_CLAIM \<and> claim_names r = [], ''claim-mandatory evidence requires claimNames''),
         (er_role r = SUBSTITUTABLE \<and> substitutable_by r = [],
          ''substitutable evidence requires substitutableBy'')] r)"

record EvidenceCompletenessReport =
  cr_case_id :: pystr
  requirements :: "EvidenceRequirement list"
  cr_technical_result :: TechnicalResult

text \<open>
  The requirements that decide: those mandatory for eligibility, then the substitutable
  ones that are not valid themselves and have no valid substitute.
\<close>

definition has_substitute :: "EvidenceRequirement list \<Rightarrow> EvidenceRequirement \<Rightarrow> bool" where
  "has_substitute rs r = list_ex (\<lambda>n.
     case dict_of (map (\<lambda>q. (er_kind q, q)) rs) n of None \<Rightarrow> False | Some q \<Rightarrow> er_state q = PRESENT_VALID)
     (substitutable_by r)"

definition blocking :: "EvidenceRequirement list \<Rightarrow> EvidenceRequirement list" where
  "blocking rs =
     filter (\<lambda>r. er_role r = MANDATORY_FOR_ELIGIBILITY) rs @
     filter (\<lambda>r. er_role r = SUBSTITUTABLE \<and> er_state r \<noteq> PRESENT_VALID \<and> \<not> has_substitute rs r) rs"

definition expected_result :: "EvidenceRequirement list \<Rightarrow> TechnicalResult" where
  "expected_result rs =
     (if list_ex (\<lambda>r. er_state r \<in> {PRESENT_CORRUPTED, PRESENT_CONFLICTING}) (blocking rs) then INVALID_EVIDENCE
      else if list_all (\<lambda>r. er_state r \<in> {PRESENT_VALID, NOT_APPLICABLE}) (blocking rs) then PASS
      else TechnicalResult.UNKNOWN)"

definition validate_report :: "EvidenceCompletenessReport \<Rightarrow> EvidenceCompletenessReport result" where
  "validate_report c =
     (if \<not> (is_identifier (cr_case_id c) \<and> requirements c \<noteq> [])
      then Inl (ValidationError ''EvidenceCompletenessReport'')
      else rbind (traverse validate_requirement (requirements c)) (\<lambda>_. raise_first
        [(cr_technical_result c \<noteq> expected_result (requirements c),
          ''technicalResult does not match classified evidence requirements'')] c))"

definition dump_requirement :: "EvidenceRequirement \<Rightarrow> json" where
  "dump_requirement r = JObj
     [(''kind'', JStr (er_kind r)), (''role'', JStr (role_value (er_role r))),
      (''claimNames'', JList (map JStr (claim_names r))),
      (''substitutableBy'', JList (map JStr (substitutable_by r))),
      (''state'', JStr (completeness_value (er_state r))),
      (''artifactRefs'', JList (map JStr (artifact_refs r))), (''detail'', JStr (detail r))]"

definition dump_report :: "EvidenceCompletenessReport \<Rightarrow> json" where
  "dump_report c = JObj
     [(''schemaVersion'', JInt 1), (''caseId'', JStr (cr_case_id c)),
      (''requirements'', JList (map dump_requirement (requirements c))),
      (''technicalResult'', JStr (technical_value (cr_technical_result c)))]"

record EligibilityDecision =
  ed_case_id :: pystr
  input_digest :: pystr
  ed_workload_id :: pystr
  ed_baseline_environment_id :: pystr
  ed_candidate_environment_id :: pystr
  ed_evidence_refs :: "pystr list"
  native_baseline_digest :: pystr
  policy_verifications :: "MachineVerification list"
  original_economics :: ExperimentEconomics
  proposed_economics :: ExperimentEconomics
  outcome :: EligibilityOutcome
  ed_identity_strength :: IdentityStrength
  technical_result :: TechnicalResult
  operational_decision :: OperationalDecision
  ed_reasons :: "pystr list"
  unknowns :: "pystr list"
  generated_at :: datetime

definition weak_identity_cannot_approve :: "EligibilityDecision \<Rightarrow> EligibilityDecision result" where
  "weak_identity_cannot_approve d = raise_first
     [(ed_identity_strength d \<noteq> FULLY_VERIFIED \<and> operational_decision d = APPROVE_WITHIN_ENVELOPE,
       ''only FULLY_VERIFIED identity can approve within the envelope'')] d"

section \<open>Digests authenticate records\<close>

text \<open>
  Equal canonical objects with the same keys have equal fields. With a digest that does not
  collide on the two documents at hand, equal identifiers therefore mean equal records.
\<close>

lemma sort_keys_field:
  assumes "sort_keys (JObj a) = sort_keys (JObj b)" "distinct (map fst a)" "distinct (map fst b)"
  shows "map_option sort_keys (map_of a k) = map_option sort_keys (map_of b k)"
proof -
  let ?f = "map (\<lambda>(k, v). (k, sort_keys v))"
  have "sort_key fst (?f a) = sort_key fst (?f b)" using assms(1) by simp
  then have "mset (?f a) = mset (?f b)" by (metis mset_sort)
  then have "set (?f a) = set (?f b)" by (rule mset_eq_setD)
  moreover have "map fst (?f a) = map fst a" "map fst (?f b) = map fst b" by (auto simp: comp_def split_beta)
  ultimately have "map_of (?f a) = map_of (?f b)"
    using assms(2,3) map_of_inject_set by metis
  then have "map_of (?f a) k = map_of (?f b) k" by simp
  then show ?thesis by (simp add: map_of_map)
qed

lemma sort_keys_JObj_iff:
  assumes keys: "map fst a = map fst b" and dist: "distinct (map fst a)"
  shows "sort_keys (JObj a) = sort_keys (JObj b) \<longleftrightarrow> map (sort_keys \<circ> snd) a = map (sort_keys \<circ> snd) b"
proof
  assume eq: "sort_keys (JObj a) = sort_keys (JObj b)"
  show "map (sort_keys \<circ> snd) a = map (sort_keys \<circ> snd) b"
  proof (rule nth_equalityI)
    show len: "length (map (sort_keys \<circ> snd) a) = length (map (sort_keys \<circ> snd) b)"
      using keys by (metis length_map)
    fix i assume i: "i < length (map (sort_keys \<circ> snd) a)"
    have "map_of a (fst (a ! i)) = Some (snd (a ! i))" "map_of b (fst (b ! i)) = Some (snd (b ! i))"
      using i len dist keys by (auto intro!: map_of_is_SomeI)
    moreover have "fst (a ! i) = fst (b ! i)" using i len keys by (metis length_map nth_map)
    ultimately show "map (sort_keys \<circ> snd) a ! i = map (sort_keys \<circ> snd) b ! i"
      using i len sort_keys_field [OF eq dist, of "fst (a ! i)"] dist keys by simp
  qed
next
  assume "map (sort_keys \<circ> snd) a = map (sort_keys \<circ> snd) b"
  moreover have "map (\<lambda>(k, v). (k, sort_keys v)) xs = zip (map fst xs) (map (sort_keys \<circ> snd) xs)"
    for xs :: "(pystr \<times> json) list"
    by (induction xs) auto
  ultimately show "sort_keys (JObj a) = sort_keys (JObj b)" using keys by simp
qed

lemma sort_keys_jopt_JStr [simp]: "sort_keys (jopt JStr v) = jopt JStr v"
  by (simp add: jopt_def split: option.splits)

lemma jopt_JStr_inject [simp]: "jopt JStr u = jopt JStr v \<longleftrightarrow> u = v"
  by (auto simp: jopt_def split: option.splits)

lemma float_free_jopt_JStr [simp]: "float_free (jopt JStr v)"
  by (simp add: jopt_def split: option.splits)

lemma strength_value_inject [simp]: "strength_value s = strength_value s' \<longleftrightarrow> s = s'"
  by (cases s; cases s'; simp)

lemma policy_value_inject [simp]: "policy_value p = policy_value p' \<longleftrightarrow> p = p'"
  by (cases p; cases p'; simp)

lemma privacy_value_inject [simp]: "privacy_value c = privacy_value c' \<longleftrightarrow> c = c'"
  by (cases c; cases c'; simp)

lemma integrity_value_inject [simp]: "integrity_value i = integrity_value i' \<longleftrightarrow> i = i'"
  by (cases i; cases i'; simp)

lemma confidence_value_inject [simp]: "confidence_value f = confidence_value f' \<longleftrightarrow> f = f'"
  by (cases f; cases f'; simp)

lemma attribution_value_inject [simp]: "attribution_value a = attribution_value a' \<longleftrightarrow> a = a'"
  by (cases a; cases a'; simp)

lemmas record_inject = sort_keys_JObj_iff strength_value_inject policy_value_inject privacy_value_inject
  integrity_value_inject confidence_value_inject attribution_value_inject

definition no_collision :: "platform \<Rightarrow> json \<Rightarrow> json \<Rightarrow> bool" where
  "no_collision P a b \<longleftrightarrow>
     (hexdigest P (canonical_json_bytes P a) = hexdigest P (canonical_json_bytes P b) \<longrightarrow>
      canonical_json_bytes P a = canonical_json_bytes P b)"

lemma digest_json_inject:
  assumes "digest_json P a = digest_json P b" "float_free a" "float_free b" "no_collision P a b"
  shows "sort_keys a = sort_keys b"
proof -
  have "canonical_json_bytes P a = canonical_json_bytes P b"
    using assms(1,4) by (simp add: digest_json_def sha256_digest_def no_collision_def)
  then show ?thesis using canonical_json_bytes_eq_iff [OF assms(2,3)] by blast
qed

lemma workload_material_keys:
  "distinct (map fst (workload_material w))" "float_free (JObj (workload_material w))"
  by (simp_all add: workload_material_def)

text \<open>
  A workload identifier authenticates the workload. Two records that validate with the
  same identifier agree in every field except the time of creation, provided SHA-256 does
  not collide on their two canonical documents.
\<close>

theorem workload_id_authenticates:
  assumes "validate_workload P w = Inr w" "validate_workload P v = Inr v" "wl_workload_id w = wl_workload_id v"
    and "no_collision P (JObj (workload_material w)) (JObj (workload_material v))"
  shows "w = v\<lparr>wl_created_at := wl_created_at w\<rparr>"
proof -
  have "digest_json P (JObj (workload_material w)) = digest_json P (JObj (workload_material v))"
    using assms(1-3) by (auto simp: validate_workload_def result_simps split: if_splits)
  then have eq: "sort_keys (JObj (workload_material w)) = sort_keys (JObj (workload_material v))"
    using assms(4) workload_material_keys(2) by (intro digest_json_inject)
  have conflict: "wl_identity_conflict w = wl_identity_conflict v"
    using sort_keys_field [OF eq workload_material_keys(1) workload_material_keys(1), of "''identityConflict''"]
    by (auto simp: workload_material_def split: if_splits)
  have keys: "map fst (workload_material w) = map fst (workload_material v)"
    by (simp add: workload_material_def conflict)
  have "map (sort_keys \<circ> snd) (workload_material w) = map (sort_keys \<circ> snd) (workload_material v)"
    using eq sort_keys_JObj_iff [OF keys workload_material_keys(1)] by blast
  then show ?thesis
    using conflict assms(3)
    by (simp add: workload_material_def record_inject del: sort_keys.simps(2))
qed

definition zero_digest :: pystr where
  "zero_digest = ''sha256:'' @ replicate 64 CHR ''0''"

definition sample_workload :: "datetime \<Rightarrow> WorkloadIdentity" where
  "sample_workload created = \<lparr>wl_workload_id = zero_digest, wl_identity_strength = FULLY_VERIFIED,
     wl_identity_conflict = False,
     source_identity = \<lparr>repository_digest = zero_digest, dirty_patch_digest = None\<rparr>,
     entrypoint = ''train.py'', arguments_digest = zero_digest, container_image_digest = None,
     dependency_lock_digest = zero_digest, configuration_files_digest = zero_digest,
     relevant_environment_digest = zero_digest, wl_redaction_policy_version = ''1'',
     framework = \<lparr>fw_name = ''torch'', fw_version = ''2.4''\<rparr>,
     distributed = \<lparr>strategy = ''ddp'', world_size = 8, process_groups_digest = zero_digest\<rparr>,
     model_structure_digest = None,
     data_identity = \<lparr>data_policy = FULL_DIGEST, manifest_digest = Some zero_digest\<rparr>,
     checkpoint_policy_digest = None, wl_privacy_class = CONFIDENTIAL, wl_created_at = created\<rparr>"

lemma zero_digest_ok [simp]: "is_digest zero_digest"
  by (simp add: zero_digest_def is_digest_def starts_with_def list_all_iff is_hex_def is_digit_def)

lemma sample_digest_json: "digest_json sample_platform j = zero_digest"
  by (simp add: digest_json_def sha256_digest_def sample_platform_def zero_digest_def)

lemma sample_workload_valid: "validate_workload sample_platform (sample_workload t) = Inr (sample_workload t)"
  unfolding validate_workload_def sample_digest_json
  by (simp add: sample_workload_def workload_fields_ok_def digest_matches_policy_def expected_strength_def
      raise_first_Inr_iff result_simps)

theorem workload_id_authenticates_witness:
  "sample_workload (Datetime 0 (Some 0)) =
     (sample_workload (Datetime 5 (Some 0)))\<lparr>wl_created_at := wl_created_at (sample_workload (Datetime 0 (Some 0)))\<rparr>"
proof (rule workload_id_authenticates [OF sample_workload_valid sample_workload_valid])
  show "wl_workload_id (sample_workload (Datetime 0 (Some 0))) = wl_workload_id (sample_workload (Datetime 5 (Some 0)))"
    by (simp add: sample_workload_def)
  show "no_collision sample_platform (JObj (workload_material (sample_workload (Datetime 0 (Some 0)))))
      (JObj (workload_material (sample_workload (Datetime 5 (Some 0)))))"
    by (simp add: no_collision_def workload_material_def sample_workload_def)
qed

lemma environment_material_keys:
  "distinct (map fst (environment_material e))" "float_free (JObj (environment_material e))"
  by (simp_all add: environment_material_def)

text \<open>
  An environment identifier authenticates the environment: two valid records with the
  same identifier agree in every field except the time of creation, provided SHA-256 does
  not collide on their two canonical documents.
\<close>

theorem environment_id_authenticates:
  assumes "validate_environment P e = Inr e" "validate_environment P d = Inr d" "environment_id e = environment_id d"
    and "no_collision P (JObj (environment_material e)) (JObj (environment_material d))"
  shows "e = d\<lparr>en_created_at := en_created_at e\<rparr>"
proof -
  have "digest_json P (JObj (environment_material e)) = digest_json P (JObj (environment_material d))"
    using assms(1-3) by (auto simp: validate_environment_def result_simps split: if_splits)
  then have eq: "sort_keys (JObj (environment_material e)) = sort_keys (JObj (environment_material d))"
    using assms(4) environment_material_keys(2) by (intro digest_json_inject)
  have conflict: "en_identity_conflict e = en_identity_conflict d"
    using sort_keys_field [OF eq environment_material_keys(1) environment_material_keys(1), of "''identityConflict''"]
    by (auto simp: environment_material_def split: if_splits)
  have keys: "map fst (environment_material e) = map fst (environment_material d)"
    by (simp add: environment_material_def conflict)
  have "map (sort_keys \<circ> snd) (environment_material e) = map (sort_keys \<circ> snd) (environment_material d)"
    using eq sort_keys_JObj_iff [OF keys environment_material_keys(1)] by blast
  then show ?thesis
    using conflict assms(3)
    by (simp add: environment_material_def record_inject del: sort_keys.simps(2))
qed

definition sample_environment :: "datetime \<Rightarrow> EnvironmentIdentity" where
  "sample_environment created = \<lparr>environment_id = zero_digest, en_identity_strength = FULLY_VERIFIED,
     en_identity_conflict = False, identity_policy = FULL_DIGEST, identity_evidence_digest = Some zero_digest,
     host_kernel = ''6.8'', container_runtime = None, python = ''3.12'', packages_digest = zero_digest,
     pytorch = ''2.4'', cuda_runtime = None, cuda_driver = None, nccl = None,
     gpu = \<lparr>gpu_model = None, gpu_count = 0, firmware_digest = None\<rparr>, topology_digest = None,
     en_scheduler = None, launcher = None, network_class = None, storage_class = None,
     environment_variables_digest = zero_digest, en_redaction_policy_version = ''1'',
     materialization_recipe_digest = Some zero_digest, materialization_recipe_artifact_id = Some zero_digest,
     en_created_at = created\<rparr>"

lemma sample_environment_valid: "validate_environment sample_platform (sample_environment t) = Inr (sample_environment t)"
  unfolding validate_environment_def sample_digest_json
  by (simp add: sample_environment_def environment_fields_ok_def expected_strength_def raise_first_Inr_iff)

theorem environment_id_authenticates_witness:
  "sample_environment (Datetime 0 (Some 0)) =
     (sample_environment (Datetime 5 (Some 0)))\<lparr>en_created_at := en_created_at (sample_environment (Datetime 0 (Some 0)))\<rparr>"
proof (rule environment_id_authenticates [OF sample_environment_valid sample_environment_valid])
  show "environment_id (sample_environment (Datetime 0 (Some 0))) = environment_id (sample_environment (Datetime 5 (Some 0)))"
    by (simp add: sample_environment_def)
  show "no_collision sample_platform (JObj (environment_material (sample_environment (Datetime 0 (Some 0)))))
      (JObj (environment_material (sample_environment (Datetime 5 (Some 0)))))"
    by (simp add: no_collision_def environment_material_def sample_environment_def)
qed

text \<open>
  The technical result of a completeness report that validates is determined by its
  requirements. It passes exactly when every requirement mandatory for eligibility is valid
  or not applicable, every substitutable one is valid, not applicable, or has a valid
  substitute, and it is invalid exactly when some decisive requirement is corrupted or in
  conflict.
\<close>

theorem report_result_determined:
  assumes "validate_report c = Inr c"
  shows "(cr_technical_result c = PASS \<longleftrightarrow>
      (\<forall>r\<in>set (requirements c).
         (er_role r = MANDATORY_FOR_ELIGIBILITY \<longrightarrow> er_state r \<in> {PRESENT_VALID, NOT_APPLICABLE}) \<and>
         (er_role r = SUBSTITUTABLE \<longrightarrow>
            er_state r \<in> {PRESENT_VALID, NOT_APPLICABLE} \<or> has_substitute (requirements c) r))) \<and>
    (cr_technical_result c = INVALID_EVIDENCE \<longleftrightarrow>
      (\<exists>r\<in>set (blocking (requirements c)). er_state r \<in> {PRESENT_CORRUPTED, PRESENT_CONFLICTING})) \<and>
    cr_technical_result c \<in> {PASS, INVALID_EVIDENCE, TechnicalResult.UNKNOWN}"
proof -
  have res: "cr_technical_result c = expected_result (requirements c)"
    using assms by (auto simp: validate_report_def result_simps split: if_splits)
  have all: "(\<forall>r\<in>set (blocking rs). er_state r \<in> {PRESENT_VALID, NOT_APPLICABLE}) \<longleftrightarrow>
      (\<forall>r\<in>set rs. (er_role r = MANDATORY_FOR_ELIGIBILITY \<longrightarrow> er_state r \<in> {PRESENT_VALID, NOT_APPLICABLE}) \<and>
         (er_role r = SUBSTITUTABLE \<longrightarrow> er_state r \<in> {PRESENT_VALID, NOT_APPLICABLE} \<or> has_substitute rs r))" for rs
    unfolding blocking_def by auto
  show ?thesis
    unfolding res all [symmetric] expected_result_def list_all_iff list_ex_iff by auto
qed

definition sample_requirement :: EvidenceRequirement where
  "sample_requirement = \<lparr>er_kind = ''flight_recorder'', er_role = MANDATORY_FOR_ELIGIBILITY, claim_names = [],
     substitutable_by = [], er_state = PRESENT_VALID, artifact_refs = [zero_digest], detail = ''captured''\<rparr>"

theorem report_result_determined_witness:
  "expected_result [sample_requirement] = PASS"
proof -
  let ?c = "\<lparr>cr_case_id = ''case-1'', requirements = [sample_requirement],
    cr_technical_result = expected_result [sample_requirement]\<rparr>"
  have "validate_report ?c = Inr ?c"
    by (simp add: validate_report_def is_identifier_def is_alnum_def is_lower_def identifier_char_def is_digit_def
        validate_requirement_def sample_requirement_def present_states_def raise_first_Inr_iff result_simps)
  from report_result_determined [OF this] show ?thesis by (simp add: sample_requirement_def)
qed

end
