(* ===== verification/Evidence_Store.thy ===== *)
theory Evidence_Store
  imports Product_Models "HOL-Library.AList"
begin

text \<open>
  The content-addressed evidence store (\<^verbatim>\<open>traincapsule_core/evidence.py\<close>): a case keeps
  raw objects under the hexadecimal digest of their bytes and one metadata document per
  object. The state is the two directories of every case; the metadata documents are an
  abstract type with a codec (the JSON text pydantic and \<open>json.dumps\<close> write and read) and
  a size. Files are regular and the store's own; what the operating system refuses and
  what a concurrent writer could do between two calls is not modelled.
\<close>

section \<open>State and reading\<close>

record store_config =
  max_artifact_bytes :: nat
  max_case_artifacts :: nat

definition validate_store_config :: "store_config \<Rightarrow> store_config result" where
  "validate_store_config c = raise_first
     [(max_artifact_bytes c < 1 \<or> max_case_artifacts c < 1, ''evidence limits must be positive'')] c"

record 'doc store_fs =
  objects :: "((pystr \<times> pystr) \<times> pybytes) list"
  metadata :: "((pystr \<times> pystr) \<times> 'doc) list"

record 'doc artifact_codec =
  render_artifact :: "EvidenceArtifact \<Rightarrow> 'doc"
  parse_artifact :: "'doc \<Rightarrow> EvidenceArtifact option"
  doc_size :: "'doc \<Rightarrow> nat"

abbreviation object_at :: "'doc store_fs \<Rightarrow> pystr \<times> pystr \<Rightarrow> pybytes option" where
  "object_at fs \<equiv> map_of (objects fs)"

abbreviation metadata_at :: "'doc store_fs \<Rightarrow> pystr \<times> pystr \<Rightarrow> 'doc option" where
  "metadata_at fs \<equiv> map_of (metadata fs)"

text \<open>
  The bounded read loop of \<open>_read_regular\<close> and \<open>put_file\<close>: chunks of at most a mebibyte,
  one byte more than the limit at most, until the end of the file or past the limit.
\<close>

function read_chunks :: "nat \<Rightarrow> py_error \<Rightarrow> pybytes \<Rightarrow> pybytes \<Rightarrow> pybytes result" where
  "read_chunks limit too_large rest payload =
     (let n = min 1048576 (limit + 1 - length payload); chunk = take n rest
      in if chunk = [] then Inr payload
         else if limit < length (payload @ chunk) then Inl too_large
         else read_chunks limit too_large (drop n rest) (payload @ chunk))"
  by auto
termination
  by (relation "measure (\<lambda>(limit, too_large, rest, payload). length rest)") auto

declare read_chunks.simps [simp del]

definition read_regular :: "nat \<Rightarrow> pybytes \<Rightarrow> pybytes result" where
  "read_regular limit content =
     (if limit < length content then Inl (EvidenceStoreError ''stored evidence violates type or size policy'')
      else read_chunks limit (EvidenceStoreError ''stored evidence exceeds configured policy'') content [])"

definition read_object :: "store_config \<Rightarrow> 'doc store_fs \<Rightarrow> pystr \<times> pystr \<Rightarrow> pybytes result" where
  "read_object c fs k = (case object_at fs k of
     None \<Rightarrow> Inl (EvidenceStoreError ''stored evidence is unavailable or unsafe'')
   | Some b \<Rightarrow> read_regular (max_artifact_bytes c) b)"

definition read_metadata :: "'doc artifact_codec \<Rightarrow> store_config \<Rightarrow> 'doc store_fs \<Rightarrow> pystr \<times> pystr \<Rightarrow> 'doc result" where
  "read_metadata K c fs k = (case metadata_at fs k of
     None \<Rightarrow> Inl (EvidenceStoreError ''stored evidence is unavailable or unsafe'')
   | Some d \<Rightarrow> if max_artifact_bytes c < doc_size K d
       then Inl (EvidenceStoreError ''stored evidence violates type or size policy'') else Inr d)"

section \<open>Storing\<close>

text \<open>The arguments of \<open>put_bytes\<close> besides the case and the payload.\<close>

record put_request =
  rq_kind :: pystr
  rq_source_adapter :: pystr
  rq_source_version :: pystr
  rq_captured_at :: datetime
  rq_privacy_class :: PrivacyClass
  rq_provenance :: "(pystr \<times> pystr) list"
  rq_workload_id :: "pystr option"
  rq_baseline_environment_id :: "pystr option"
  rq_candidate_environment_id :: "pystr option"

text \<open>
  The metadata record before pydantic sees it: its digest is over the caller's strings and
  the time as \<open>isoformat\<close> writes it.
\<close>

definition raw_artifact :: "platform \<Rightarrow> pystr \<Rightarrow> pybytes \<Rightarrow> put_request \<Rightarrow> EvidenceArtifact" where
  "raw_artifact P case_id payload q =
     (let digest = sha256_digest P payload;
          a = \<lparr>artifact_id = digest, ea_case_id = case_id, ea_workload_id = rq_workload_id q,
            ea_baseline_environment_id = rq_baseline_environment_id q,
            ea_candidate_environment_id = rq_candidate_environment_id q, ea_kind = rq_kind q,
            source_adapter = rq_source_adapter q, source_version = rq_source_version q,
            captured_at = rq_captured_at q, content_digest = digest, size_bytes = int (length payload),
            compression = ''none'', encryption = ''none'', ea_privacy_class = rq_privacy_class q,
            customer_local_uri = cas_uri case_id (removeprefix ''sha256:'' digest),
            export_policy = ''LOCAL_ONLY'', provenance = rq_provenance q,
            integrity_status = VALID, metadata_digest = []\<rparr>
      in a\<lparr>metadata_digest :=
             digest_json P (JObj (artifact_material (isoformat_z P (rq_captured_at q)) a))\<rparr>)"

definition strip_dict :: "platform \<Rightarrow> (pystr \<times> pystr) list \<Rightarrow> (pystr \<times> pystr) list" where
  "strip_dict P d = fold (\<lambda>(k, v) acc. AList.update (strip P k) (strip P v) acc) d []"

text \<open>
  \<open>EvidenceArtifact.model_validate\<close> of that dictionary: strings are stripped and the time
  is parsed before the constraints and the validator run.
\<close>

definition coerce_artifact :: "platform \<Rightarrow> EvidenceArtifact \<Rightarrow> EvidenceArtifact result" where
  "coerce_artifact P a = (case parse_datetime P (isoformat_z P (captured_at a)) of
     None \<Rightarrow> Inl (ValidationError ''EvidenceArtifact'')
   | Some t \<Rightarrow> validate_artifact P
       (a\<lparr>artifact_id := strip P (artifact_id a), ea_case_id := strip P (ea_case_id a),
          ea_workload_id := map_option (strip P) (ea_workload_id a),
          ea_baseline_environment_id := map_option (strip P) (ea_baseline_environment_id a),
          ea_candidate_environment_id := map_option (strip P) (ea_candidate_environment_id a),
          ea_kind := strip P (ea_kind a), source_adapter := strip P (source_adapter a),
          source_version := strip P (source_version a), captured_at := t,
          content_digest := strip P (content_digest a),
          compression := strip P (compression a), encryption := strip P (encryption a),
          customer_local_uri := strip P (customer_local_uri a),
          export_policy := strip P (export_policy a), provenance := strip_dict P (provenance a),
          metadata_digest := strip P (metadata_digest a)\<rparr>))"

text \<open>The metadata documents of a case: \<open>metadata_root.glob("*.json")\<close>.\<close>

definition case_documents :: "'doc store_fs \<Rightarrow> pystr \<Rightarrow> pystr list" where
  "case_documents fs case_id = remdups (map snd (filter (\<lambda>k. fst k = case_id) (map fst (metadata fs))))"

definition case_count :: "'doc store_fs \<Rightarrow> pystr \<Rightarrow> nat" where
  "case_count fs case_id = length (case_documents fs case_id)"

text \<open>The object: kept when its bytes have the digest they are filed under, else written.\<close>

definition store_object ::
  "platform \<Rightarrow> store_config \<Rightarrow> pystr \<times> pystr \<Rightarrow> pybytes \<Rightarrow> 'doc store_fs \<Rightarrow> 'doc store_fs result" where
  "store_object P c k payload fs =
     (if object_at fs k \<noteq> None then
        rbind (read_object c fs k) (\<lambda>old.
          if sha256_digest P old \<noteq> sha256_digest P payload
          then Inl (EvidenceStoreError ''content-address collision or substitution detected'')
          else Inr fs)
      else Inr (fs\<lparr>objects := AList.update k payload (objects fs)\<rparr>))"

definition store_metadata ::
  "'doc artifact_codec \<Rightarrow> store_config \<Rightarrow> pystr \<times> pystr \<Rightarrow> EvidenceArtifact \<Rightarrow> 'doc store_fs \<Rightarrow> 'doc store_fs result" where
  "store_metadata K c k a fs =
     (if metadata_at fs k \<noteq> None then
        rbind (read_metadata K c fs k) (\<lambda>d.
          if d \<noteq> render_artifact K a
          then Inl (EvidenceStoreError ''duplicate digest has conflicting metadata'') else Inr fs)
      else Inr (fs\<lparr>metadata := AList.update k (render_artifact K a) (metadata fs)\<rparr>))"

definition put_bytes ::
  "platform \<Rightarrow> 'doc artifact_codec \<Rightarrow> store_config \<Rightarrow> pystr \<Rightarrow> pybytes \<Rightarrow> put_request \<Rightarrow> 'doc store_fs \<Rightarrow>
   EvidenceArtifact result \<times> 'doc store_fs" where
  "put_bytes P K c case_id payload q fs =
     (if max_artifact_bytes c < length payload
      then (Inl (EvidenceStoreError ''artifact exceeds configured size policy''), fs)
      else case safe_identifier case_id of
        Inl e \<Rightarrow> (Inl e, fs)
      | Inr _ \<Rightarrow>
         (let k = (case_id, removeprefix ''sha256:'' (sha256_digest P payload))
          in if metadata_at fs k = None \<and> max_case_artifacts c \<le> case_count fs case_id
             then (Inl (EvidenceStoreError ''case artifact count exceeds configured policy''), fs)
             else case store_object P c k payload fs of
                 Inl e \<Rightarrow> (Inl e, fs)
               | Inr fs1 \<Rightarrow>
                  (case coerce_artifact P (raw_artifact P case_id payload q) of
                     Inl e \<Rightarrow> (Inl e, fs1)
                   | Inr a \<Rightarrow>
                      (case store_metadata K c k a fs1 of
                         Inl e \<Rightarrow> (Inl e, fs1)
                       | Inr fs2 \<Rightarrow> (Inr a, fs2)))))"

text \<open>\<open>put_file\<close> of a regular file with these bytes.\<close>

definition put_file ::
  "platform \<Rightarrow> 'doc artifact_codec \<Rightarrow> store_config \<Rightarrow> pybytes \<Rightarrow> pystr \<Rightarrow> put_request \<Rightarrow> 'doc store_fs \<Rightarrow>
   EvidenceArtifact result \<times> 'doc store_fs" where
  "put_file P K c content case_id q fs =
     (if max_artifact_bytes c < length content
      then (Inl (EvidenceStoreError ''artifact exceeds configured size policy''), fs)
      else case read_chunks (max_artifact_bytes c) (EvidenceStoreError ''artifact exceeds configured size policy'') content [] of
        Inl e \<Rightarrow> (Inl e, fs)
      | Inr payload \<Rightarrow> put_bytes P K c case_id payload q fs)"

section \<open>Fetching\<close>

definition get_artifact ::
  "platform \<Rightarrow> 'doc artifact_codec \<Rightarrow> store_config \<Rightarrow> pystr \<Rightarrow> pystr \<Rightarrow> 'doc store_fs \<Rightarrow> EvidenceArtifact result" where
  "get_artifact P K c case_id aid fs =
     rbind (safe_identifier case_id) (\<lambda>_.
       let hex = removeprefix ''sha256:'' aid
       in if length hex \<noteq> 64 \<or> \<not> list_all is_hex hex
          then Inl (EvidenceStoreError ''artifact id is not a canonical SHA-256 digest'')
          else case rbind (read_metadata K c fs (case_id, hex)) (\<lambda>d.
                 case parse_artifact K d of
                   None \<Rightarrow> Inl (ValidationError ''EvidenceArtifact'')
                 | Some a \<Rightarrow> validate_artifact P a) of
               Inr a \<Rightarrow> Inr a
             | Inl e \<Rightarrow> if is_value_error e then Inl (EvidenceStoreError ''stored artifact metadata is invalid'')
                 else Inl e)"

definition artifact_bytes :: "platform \<Rightarrow> EvidenceArtifact \<Rightarrow> pybytes" where
  "artifact_bytes P a = canonical_json_bytes P (dump_artifact P a)"

definition get_bytes ::
  "platform \<Rightarrow> 'doc artifact_codec \<Rightarrow> store_config \<Rightarrow> pystr \<Rightarrow> EvidenceArtifact \<Rightarrow> 'doc store_fs \<Rightarrow> pybytes result" where
  "get_bytes P K c case_id a fs =
     (if ea_case_id a \<noteq> case_id then Inl (EvidenceStoreError ''cross-case evidence access is forbidden'')
      else rbind (get_artifact P K c case_id (artifact_id a) fs) (\<lambda>stored.
        if artifact_bytes P stored \<noteq> artifact_bytes P a
        then Inl (EvidenceStoreError ''caller artifact metadata does not match persisted metadata'')
        else rbind (read_object c fs (case_id, removeprefix ''sha256:'' (content_digest a))) (\<lambda>b.
          if sha256_digest P b \<noteq> content_digest a
          then Inl (EvidenceStoreError ''stored evidence digest mismatch'') else Inr b)))"

section \<open>Reading is bounded and complete\<close>

lemma read_chunks_within:
  "length payload + length rest \<le> limit \<Longrightarrow> read_chunks limit too_large rest payload = Inr (payload @ rest)"
proof (induction limit too_large rest payload rule: read_chunks.induct)
  case (1 limit too_large rest payload)
  let ?n = "min 1048576 (limit + 1 - length payload)"
  show ?case
  proof (cases "take ?n rest = []")
    case True
    then have "rest = []" using 1(2) by auto
    then show ?thesis by (simp add: read_chunks.simps)
  next
    case False
    have "length (payload @ take ?n rest) \<le> limit" using 1(2) by auto
    then have ok: "\<not> limit < length (payload @ take ?n rest)" by simp
    have "length (payload @ take ?n rest) + length (drop ?n rest) \<le> limit" using 1(2) by auto
    with 1(1) [OF refl refl False ok]
    have "read_chunks limit too_large (drop ?n rest) (payload @ take ?n rest) = Inr (payload @ rest)"
      by (simp only: append_assoc append_take_drop_id)
    then show ?thesis
      using False ok by (subst read_chunks.simps) (simp only: Let_def if_False)
  qed
qed

lemma read_regular_eq:
  "read_regular limit content =
     (if limit < length content then Inl (EvidenceStoreError ''stored evidence violates type or size policy'')
      else Inr content)"
  by (simp add: read_regular_def read_chunks_within)

lemma put_file_eq:
  "put_file P K c content case_id q fs = put_bytes P K c case_id content q fs"
  by (simp add: put_file_def put_bytes_def read_chunks_within)

lemma read_object_Inr:
  "read_object c fs k = Inr b \<longleftrightarrow> object_at fs k = Some b \<and> length b \<le> max_artifact_bytes c"
  by (auto simp: read_object_def read_regular_eq split: option.splits if_splits)

lemma read_metadata_Inr:
  "read_metadata K c fs k = Inr d \<longleftrightarrow> metadata_at fs k = Some d \<and> doc_size K d \<le> max_artifact_bytes c"
  by (auto simp: read_metadata_def split: option.splits if_splits)

section \<open>Lemmas on storing\<close>

text \<open>
  What is relied on of the platform: stripping leaves strings without white space alone,
  and SHA-256 prints 64 hexadecimal digits. The codec reads back what it wrote.
\<close>

definition platform_ok :: "platform \<Rightarrow> bool" where
  "platform_ok P \<longleftrightarrow>
     (\<forall>s. list_all (\<lambda>c. identifier_char c \<or> c \<in> {CHR '':'', CHR ''/''}) s \<longrightarrow> strip P s = s) \<and>
     (\<forall>b. length (hexdigest P b) = 64 \<and> list_all is_hex (hexdigest P b))"

definition codec_ok :: "'doc artifact_codec \<Rightarrow> bool" where
  "codec_ok K \<longleftrightarrow> (\<forall>a. parse_artifact K (render_artifact K a) = Some a)"

lemma hex_identifier_char: "is_hex c \<Longrightarrow> identifier_char c"
  by (auto simp: is_hex_def identifier_char_def is_alnum_def is_lower_def is_digit_def less_eq_char_def)

lemma digest_hex [simp]: "removeprefix ''sha256:'' (sha256_digest P b) = hexdigest P b"
  unfolding sha256_digest_def by (rule removeprefix_append)

lemma strip_identifier: "platform_ok P \<Longrightarrow> is_identifier s \<Longrightarrow> strip P s = s"
proof -
  assume P: "platform_ok P" and s: "is_identifier s"
  have "list_all identifier_char s"
    using s by (cases s) (auto simp: is_identifier_def identifier_char_def)
  then show ?thesis using P unfolding platform_ok_def by (metis (no_types, lifting) list.pred_mono_strong)
qed

lemma strip_digest: "platform_ok P \<Longrightarrow> strip P (sha256_digest P b) = sha256_digest P b"
proof -
  assume P: "platform_ok P"
  have "list_all is_hex (hexdigest P b)" using P by (simp add: platform_ok_def)
  then have "list_all (\<lambda>c. identifier_char c \<or> c \<in> {CHR '':'', CHR ''/''}) (hexdigest P b)"
    by (rule list.pred_mono_strong) (auto dest: hex_identifier_char)
  then have "list_all (\<lambda>c. identifier_char c \<or> c \<in> {CHR '':'', CHR ''/''}) (sha256_digest P b)"
    by (simp add: sha256_digest_def identifier_char_def is_alnum_def is_lower_def is_digit_def)
  then show ?thesis using P by (simp add: platform_ok_def)
qed

lemma set_case_documents: "hex \<in> set (case_documents fs case_id) \<longleftrightarrow> metadata_at fs (case_id, hex) \<noteq> None"
proof -
  have "hex \<in> set (case_documents fs case_id) \<longleftrightarrow> (case_id, hex) \<in> fst ` set (metadata fs)"
    by (force simp: case_documents_def)
  then show ?thesis by (simp add: map_of_eq_None_iff)
qed

lemma case_count_card: "case_count fs case_id = card {hex. metadata_at fs (case_id, hex) \<noteq> None}"
proof -
  have "{hex. metadata_at fs (case_id, hex) \<noteq> None} = set (case_documents fs case_id)"
    by (auto simp: set_case_documents)
  moreover have "distinct (case_documents fs case_id)" by (simp add: case_documents_def)
  ultimately show ?thesis by (simp add: case_count_def distinct_card)
qed

lemma finite_documents: "finite {hex. metadata_at fs (case_id, hex) \<noteq> None}"
  using set_case_documents [of _ fs case_id] by (metis (mono_tags, lifting) List.finite_set Collect_mem_eq Collect_cong)

lemma store_object_Inr:
  assumes "store_object P c k payload fs = Inr gs" "length payload \<le> max_artifact_bytes c"
  shows "metadata gs = metadata fs" "object_at fs k = Some b \<Longrightarrow> gs = fs"
    "\<exists>b. object_at gs k = Some b \<and> sha256_digest P b = sha256_digest P payload \<and>
       length b \<le> max_artifact_bytes c \<and> (b = payload \<or> object_at fs k = Some b)"
    "object_at fs j = Some b' \<Longrightarrow> object_at gs j = Some b'"
    "j \<noteq> k \<Longrightarrow> object_at gs j = object_at fs j"
  using assms
  by (auto simp: store_object_def result_simps read_object_Inr update_conv' split: if_splits)

lemma store_metadata_Inr:
  assumes "store_metadata K c k a fs = Inr gs"
  shows "objects gs = objects fs" "metadata_at gs k = Some (render_artifact K a)"
    "metadata_at fs j = Some d \<Longrightarrow> metadata_at gs j = Some d"
    "j \<noteq> k \<Longrightarrow> metadata_at gs j = metadata_at fs j"
  using assms
  by (auto simp: store_metadata_def result_simps read_metadata_Inr update_conv' split: if_splits)

lemma coerce_artifact_Inr:
  assumes "coerce_artifact P (raw_artifact P case_id payload q) = Inr a" "platform_ok P" "is_identifier case_id"
  shows "validate_artifact P a = Inr a" "artifact_id a = sha256_digest P payload"
    "content_digest a = sha256_digest P payload" "ea_case_id a = case_id" "size_bytes a = int (length payload)"
proof -
  from assms(1) obtain t where v: "validate_artifact P a = Inr a" and
    a: "artifact_id a = strip P (sha256_digest P payload)" "content_digest a = strip P (sha256_digest P payload)"
    "ea_case_id a = strip P case_id" "size_bytes a = int (length payload)"
    unfolding coerce_artifact_def validate_artifact_def
    by (auto simp: raw_artifact_def Let_def result_simps split: option.splits if_splits)
  show "validate_artifact P a = Inr a" "artifact_id a = sha256_digest P payload"
    "content_digest a = sha256_digest P payload" "ea_case_id a = case_id" "size_bytes a = int (length payload)"
    using v a strip_digest [OF assms(2)] strip_identifier [OF assms(2,3)] by simp_all
qed

lemma put_bytesE:
  assumes "put_bytes P K c case_id payload q fs = (Inr a, gs)"
  obtains fs1 where "length payload \<le> max_artifact_bytes c" "is_identifier case_id"
    "metadata_at fs (case_id, hexdigest P payload) \<noteq> None \<or> case_count fs case_id < max_case_artifacts c"
    "store_object P c (case_id, hexdigest P payload) payload fs = Inr fs1"
    "coerce_artifact P (raw_artifact P case_id payload q) = Inr a"
    "store_metadata K c (case_id, hexdigest P payload) a fs1 = Inr gs"
  using assms
  by (auto simp: put_bytes_def safe_identifier_def Let_def raise_first_def not_less not_le
      split: if_splits sum.splits)

text \<open>A store grows at one key when nothing stored changes and nothing else is added.\<close>

definition grows_at :: "pystr \<times> pystr \<Rightarrow> 'doc store_fs \<Rightarrow> 'doc store_fs \<Rightarrow> bool" where
  "grows_at k fs gs \<longleftrightarrow> object_at fs \<subseteq>\<^sub>m object_at gs \<and> metadata_at fs \<subseteq>\<^sub>m metadata_at gs \<and>
     (\<forall>j. j \<noteq> k \<longrightarrow> object_at gs j = object_at fs j \<and> metadata_at gs j = metadata_at fs j)"

lemma grows_refl: "grows_at k fs fs"
  by (simp add: grows_at_def)

lemma grows_trans: "grows_at k fs gs \<Longrightarrow> grows_at k gs hs \<Longrightarrow> grows_at k fs hs"
  unfolding grows_at_def by (metis map_le_trans)

lemma store_object_grows:
  assumes "store_object P c k payload fs = Inr gs"
  shows "grows_at k fs gs"
  using assms by (auto simp: grows_at_def store_object_def result_simps update_conv' map_le_def split: if_splits)

lemma store_metadata_grows:
  assumes "store_metadata K c k a fs = Inr gs"
  shows "grows_at k fs gs"
  using assms by (auto simp: grows_at_def store_metadata_def result_simps update_conv' map_le_def split: if_splits)

lemma put_bytes_grows:
  assumes "put_bytes P K c case_id payload q fs = (r, gs)"
  shows "grows_at (case_id, hexdigest P payload) fs gs"
proof -
  let ?k = "(case_id, hexdigest P payload)"
  have "gs = fs \<or> (\<exists>fs1. store_object P c ?k payload fs = Inr fs1 \<and>
      (gs = fs1 \<or> (\<exists>a. store_metadata K c ?k a fs1 = Inr gs)))"
    using assms by (auto simp: put_bytes_def Let_def split: if_splits sum.splits)
  then show ?thesis using grows_refl grows_trans store_object_grows store_metadata_grows by metis
qed

lemma grows_object: "grows_at k fs gs \<Longrightarrow> object_at fs j = Some b \<Longrightarrow> object_at gs j = Some b"
  unfolding grows_at_def map_le_def by (metis domI)

lemma grows_metadata: "grows_at k fs gs \<Longrightarrow> metadata_at fs j = Some d \<Longrightarrow> metadata_at gs j = Some d"
  unfolding grows_at_def map_le_def by (metis domI)

lemma grows_keeps_get_bytes:
  assumes "grows_at k fs gs" "get_bytes P K c case_id a fs = Inr b"
  shows "get_bytes P K c case_id a gs = Inr b"
proof -
  have meta: "read_metadata K c gs j = Inr d" if "read_metadata K c fs j = Inr d" for j d
    using that grows_metadata [OF assms(1)] by (simp add: read_metadata_Inr)
  have obj: "read_object c gs j = Inr d" if "read_object c fs j = Inr d" for j d
    using that grows_object [OF assms(1)] by (simp add: read_object_Inr)
  have art: "get_artifact P K c i aid gs = Inr x" if get: "get_artifact P K c i aid fs = Inr x" for i aid x
  proof -
    let ?k = "(i, removeprefix ''sha256:'' aid)"
    from get obtain d where d: "read_metadata K c fs ?k = Inr d"
      by (auto simp: get_artifact_def Let_def result_simps split: if_splits sum.splits)
    have "get_artifact P K c i aid gs = get_artifact P K c i aid fs"
      by (simp only: get_artifact_def Let_def d meta [OF d])
    with get show ?thesis by simp
  qed
  show ?thesis
    using assms(2) by (auto simp: get_bytes_def result_simps split: if_splits dest!: art obj)
qed

section \<open>Sample inputs\<close>

text \<open>A platform with a constant digest, an identity codec and one stored payload.\<close>

definition store_platform :: platform where
  "store_platform = sample_platform\<lparr>parse_datetime := (\<lambda>_. Some (Datetime 0 (Some 0)))\<rparr>"

definition sample_codec :: "nat \<Rightarrow> EvidenceArtifact artifact_codec" where
  "sample_codec n = \<lparr>render_artifact = id, parse_artifact = Some, doc_size = (\<lambda>_. n)\<rparr>"

definition sample_store_config :: store_config where
  "sample_store_config = \<lparr>max_artifact_bytes = 8, max_case_artifacts = 2\<rparr>"

definition sample_request :: put_request where
  "sample_request = \<lparr>rq_kind = ''flight_recorder'', rq_source_adapter = ''pytorch'', rq_source_version = ''2.4'',
     rq_captured_at = Datetime 0 (Some 0), rq_privacy_class = INTERNAL, rq_provenance = [(''host'', ''a'')],
     rq_workload_id = None, rq_baseline_environment_id = None, rq_candidate_environment_id = None\<rparr>"

definition sample_artifact :: EvidenceArtifact where
  "sample_artifact = raw_artifact store_platform ''case-1'' ''data'' sample_request"

definition empty_store :: "EvidenceArtifact store_fs" where
  "empty_store = \<lparr>objects = [], metadata = []\<rparr>"

definition filled_store :: "EvidenceArtifact store_fs" where
  "filled_store = \<lparr>objects = [((''case-1'', replicate 64 CHR ''0''), ''data'')],
     metadata = [((''case-1'', replicate 64 CHR ''0''), sample_artifact)]\<rparr>"

lemma store_platform_ok: "platform_ok store_platform"
  by (simp add: platform_ok_def store_platform_def sample_platform_def list_all_iff is_hex_def is_digit_def)

lemma sample_codec_ok: "codec_ok (sample_codec n)"
  by (simp add: codec_ok_def sample_codec_def)

lemma sample_coerced: "coerce_artifact store_platform sample_artifact = Inr sample_artifact"
  by code_simp

lemma sample_put:
  "put_bytes store_platform (sample_codec n) sample_store_config ''case-1'' ''data'' sample_request empty_store =
     (Inr sample_artifact, filled_store)"
proof -
  have hex: "hexdigest store_platform b = replicate 64 CHR ''0''" for b
    by (simp add: store_platform_def sample_platform_def)
  have "safe_identifier ''case-1'' = Inr ''case-1''" by code_simp
  then show ?thesis
    using sample_coerced
    by (simp add: put_bytes_def Let_def sample_store_config_def case_count_def case_documents_def hex
        store_object_def store_metadata_def empty_store_def filled_store_def sample_artifact_def sample_codec_def)
qed

section \<open>Properties\<close>

lemma put_get_roundtrip_lemma:
  assumes "platform_ok P" "codec_ok K" "put_bytes P K c case_id payload q fs = (Inr a, gs)"
    and "doc_size K (render_artifact K a) \<le> max_artifact_bytes c"
  shows "\<exists>b. get_bytes P K c case_id a gs = Inr b \<and> hexdigest P b = hexdigest P payload \<and>
    (b = payload \<or> object_at fs (case_id, hexdigest P payload) = Some b)"
proof -
  let ?k = "(case_id, hexdigest P payload)"
  from assms(3) obtain fs1 where p: "length payload \<le> max_artifact_bytes c" "is_identifier case_id"
    "store_object P c ?k payload fs = Inr fs1" "coerce_artifact P (raw_artifact P case_id payload q) = Inr a"
    "store_metadata K c ?k a fs1 = Inr gs"
    by (rule put_bytesE)
  note a = coerce_artifact_Inr [OF p(4) assms(1) p(2)]
  obtain b where b: "object_at fs1 ?k = Some b" "sha256_digest P b = sha256_digest P payload"
    "length b \<le> max_artifact_bytes c" "b = payload \<or> object_at fs ?k = Some b"
    using store_object_Inr(3) [OF p(3,1)] by blast
  have "read_metadata K c gs ?k = Inr (render_artifact K a)"
    using store_metadata_Inr(2) [OF p(5)] assms(4) by (simp add: read_metadata_Inr)
  then have "get_artifact P K c case_id (artifact_id a) gs = Inr a"
    using p(2) a assms(1,2)
    by (simp add: get_artifact_def safe_identifier_def raise_first_def Let_def platform_ok_def codec_ok_def)
  moreover have "read_object c gs ?k = Inr b"
    using b store_metadata_Inr(1) [OF p(5)] by (simp add: read_object_Inr)
  ultimately have "get_bytes P K c case_id a gs = Inr b"
    using a b(2) by (simp add: get_bytes_def)
  then show ?thesis using b by (auto simp: sha256_digest_def)
qed

text \<open>
  C17: what is stored is read back. After a successful \<open>put_bytes\<close> the store returns, for
  the artifact it handed out, bytes with the payload's digest, and the payload itself
  unless an object with the same digest but other bytes was there before. The metadata
  document must fit the limit under which it is read.
\<close>

theorem put_get_roundtrip:
  assumes "platform_ok P" "codec_ok K" "put_bytes P K c case_id payload q fs = (Inr a, gs)"
    and "doc_size K (render_artifact K a) \<le> max_artifact_bytes c"
  shows "\<exists>b. get_bytes P K c case_id a gs = Inr b \<and> hexdigest P b = hexdigest P payload \<and>
    (b = payload \<or> object_at fs (case_id, hexdigest P payload) = Some b)"
  using assms by (rule put_get_roundtrip_lemma)

theorem put_get_roundtrip_witness:
  "get_bytes store_platform (sample_codec 8) sample_store_config ''case-1'' sample_artifact filled_store = Inr ''data''"
  using put_get_roundtrip [OF store_platform_ok sample_codec_ok sample_put [of 8]]
  by (auto simp: sample_codec_def sample_store_config_def empty_store_def)

text \<open>
  C18: tampering is detected. Whatever the files of the store hold, bytes are returned only
  for an artifact of the very case, only within the size limit, only when their digest is
  the content digest of the artifact, and only when the stored metadata is a valid record
  with the artifact's canonical bytes.
\<close>

theorem get_bytes_tamper_evident:
  assumes "get_bytes P K c case_id a fs = Inr b"
  shows "sha256_digest P b = content_digest a \<and> ea_case_id a = case_id \<and>
    length b \<le> max_artifact_bytes c \<and>
    object_at fs (case_id, removeprefix ''sha256:'' (content_digest a)) = Some b \<and>
    (\<exists>d stored. metadata_at fs (case_id, removeprefix ''sha256:'' (artifact_id a)) = Some d \<and>
       parse_artifact K d = Some stored \<and> validate_artifact P stored = Inr stored \<and>
       artifact_bytes P stored = artifact_bytes P a)"
proof -
  from assms obtain stored where s: "get_artifact P K c case_id (artifact_id a) fs = Inr stored"
    "artifact_bytes P stored = artifact_bytes P a" "ea_case_id a = case_id"
    "read_object c fs (case_id, removeprefix ''sha256:'' (content_digest a)) = Inr b"
    "sha256_digest P b = content_digest a"
    by (auto simp: get_bytes_def result_simps split: if_splits)
  from s(1) obtain d x where "metadata_at fs (case_id, removeprefix ''sha256:'' (artifact_id a)) = Some d"
    "parse_artifact K d = Some x" "validate_artifact P x = Inr stored"
    by (auto simp: get_artifact_def Let_def result_simps read_metadata_Inr split: if_splits sum.splits option.splits)
  moreover from this(3) have "x = stored" by (auto simp: validate_artifact_def result_simps split: if_splits)
  ultimately show ?thesis using s by (auto simp: read_object_Inr)
qed

theorem get_bytes_tamper_evident_witness:
  "sha256_digest store_platform ''data'' = content_digest sample_artifact"
proof -
  have "get_bytes store_platform (sample_codec 8) sample_store_config ''case-1'' sample_artifact filled_store = Inr ''data''"
    using put_get_roundtrip_lemma [OF store_platform_ok sample_codec_ok sample_put [of 8]]
    by (auto simp: sample_codec_def sample_store_config_def empty_store_def)
  from get_bytes_tamper_evident [OF this] show ?thesis by blast
qed

text \<open>
  A case never holds more artifacts than the configured maximum, and storing in one
  case changes nothing in another.
\<close>

theorem put_bytes_bounded_isolated:
  assumes "put_bytes P K c case_id payload q fs = (r, gs)" "\<forall>i. case_count fs i \<le> max_case_artifacts c"
  shows "(\<forall>i. case_count gs i \<le> max_case_artifacts c) \<and>
    (\<forall>i hex. i \<noteq> case_id \<longrightarrow> object_at gs (i, hex) = object_at fs (i, hex) \<and>
       metadata_at gs (i, hex) = metadata_at fs (i, hex))"
proof -
  let ?k = "(case_id, hexdigest P payload)"
  note grow = put_bytes_grows [OF assms(1)]
  have other: "object_at gs (i, hex) = object_at fs (i, hex) \<and> metadata_at gs (i, hex) = metadata_at fs (i, hex)"
    if "i \<noteq> case_id" for i hex
    using grow that by (auto simp: grows_at_def)
  have "case_count gs i \<le> max_case_artifacts c" for i
  proof (cases "i = case_id \<and> metadata_at fs ?k = None \<and> metadata_at gs ?k \<noteq> None")
    case False
    have "metadata_at gs (i, hex) = metadata_at fs (i, hex)" for hex
    proof (cases "(i, hex) = ?k")
      case True
      then show ?thesis using False grows_metadata [OF grow, of ?k] by (cases "metadata_at fs ?k") auto
    qed (use grow in \<open>simp add: grows_at_def\<close>)
    then have "case_count gs i = case_count fs i" by (simp add: case_count_card)
    then show ?thesis using assms(2) by simp
  next
    case True
    have sub: "{hex. metadata_at gs (i, hex) \<noteq> None} \<subseteq> insert (hexdigest P payload) {hex. metadata_at fs (i, hex) \<noteq> None}"
      using grow True by (auto simp: grows_at_def)
    have "\<exists>a. r = Inr a"
    proof (rule ccontr)
      assume "\<nexists>a. r = Inr a"
      then obtain e where "r = Inl e" by (cases r) auto
      then have "metadata gs = metadata fs"
        using assms(1) by (auto simp: put_bytes_def Let_def store_object_def result_simps split: if_splits sum.splits)
      with True show False by auto
    qed
    then have "case_count fs case_id < max_case_artifacts c"
      using assms(1) True by (auto elim!: put_bytesE)
    moreover have "case_count gs i \<le> Suc (case_count fs i)"
    proof -
      have "card {hex. metadata_at gs (i, hex) \<noteq> None} \<le>
          card (insert (hexdigest P payload) {hex. metadata_at fs (i, hex) \<noteq> None})"
        using finite_documents by (intro card_mono [OF _ sub]) blast
      also have "\<dots> \<le> Suc (card {hex. metadata_at fs (i, hex) \<noteq> None})"
        using card_insert_if [OF finite_documents, of "hexdigest P payload" fs i] by (simp only: split: if_splits) auto
      finally show ?thesis by (simp only: case_count_card)
    qed
    ultimately show ?thesis using True by simp
  qed
  with other show ?thesis by blast
qed

theorem put_bytes_bounded_isolated_witness:
  "case_count filled_store ''case-1'' \<le> max_case_artifacts sample_store_config"
  using put_bytes_bounded_isolated [OF sample_put [of 8]]
  by (simp add: empty_store_def case_count_def case_documents_def)

section \<open>The store as an archive\<close>

text \<open>
  What the importer and the qualification rely on: an archive never forgets. Storing
  returns a reference, fetching the reference gives the value, and no later operation
  changes what a reference fetches.
\<close>

locale archive =
  fixes fetch :: "'r \<Rightarrow> 's \<Rightarrow> 'v option" and put :: "'q \<Rightarrow> 's \<Rightarrow> 'r option \<times> 's"
    and good :: "'q \<Rightarrow> 's \<Rightarrow> 'v \<Rightarrow> bool"
  assumes put_keeps: "fetch r s = Some v \<Longrightarrow> fetch r (snd (put q s)) = Some v"
    and put_fetch: "put q s = (Some r, t) \<Longrightarrow> good q s v \<Longrightarrow> fetch r t = Some v"
begin

lemma puts_keep: "fetch r s = Some v \<Longrightarrow> fetch r (fold (\<lambda>q s. snd (put q s)) qs s) = Some v"
  by (induction qs arbitrary: s) (auto intro: put_keeps)

lemma put_then_puts:
  "put q s = (Some r, t) \<Longrightarrow> good q s v \<Longrightarrow> fetch r (fold (\<lambda>q s. snd (put q s)) qs t) = Some v"
  by (rule puts_keep) (rule put_fetch)

end

definition ok_option :: "'a result \<Rightarrow> 'a option" where
  "ok_option r = (case r of Inl _ \<Rightarrow> None | Inr x \<Rightarrow> Some x)"

lemma ok_option_Some [simp]: "ok_option r = Some x \<longleftrightarrow> r = Inr x"
  by (cases r) (auto simp: ok_option_def)

definition put_ok ::
  "platform \<Rightarrow> 'doc artifact_codec \<Rightarrow> store_config \<Rightarrow> pystr \<times> pybytes \<times> put_request \<Rightarrow> 'doc store_fs \<Rightarrow> pybytes \<Rightarrow> bool" where
  "put_ok P K c = (\<lambda>(case_id, payload, q) fs b.
     platform_ok P \<and> codec_ok K \<and> b = payload \<and>
     (\<forall>old. object_at fs (case_id, hexdigest P payload) = Some old \<longrightarrow> old = payload) \<and>
     (\<forall>a. fst (put_bytes P K c case_id payload q fs) = Inr a \<longrightarrow>
        doc_size K (render_artifact K a) \<le> max_artifact_bytes c))"

interpretation evidence: archive
  "\<lambda>(case_id, a) fs. ok_option (get_bytes P K c case_id a fs)"
  "\<lambda>(case_id, payload, q) fs. (map_option (Pair case_id) (ok_option (fst (put_bytes P K c case_id payload q fs))),
     snd (put_bytes P K c case_id payload q fs))"
  "put_ok P K c" for P K c
proof
  fix r :: "pystr \<times> EvidenceArtifact" and fs :: "'a store_fs" and v and q :: "pystr \<times> pybytes \<times> put_request"
  assume get: "(case r of (case_id, a) \<Rightarrow> \<lambda>fs. ok_option (get_bytes P K c case_id a fs)) fs = Some v"
  obtain i payload rq where q: "q = (i, payload, rq)" by (cases q)
  have "grows_at (i, hexdigest P payload) fs (snd (put_bytes P K c i payload rq fs))"
    by (rule put_bytes_grows [of _ _ _ _ _ _ _ "fst (put_bytes P K c i payload rq fs)"]) simp
  with get show "(case r of (case_id, a) \<Rightarrow> \<lambda>fs. ok_option (get_bytes P K c case_id a fs))
      (snd ((case q of (case_id, payload, q) \<Rightarrow> \<lambda>fs.
        (map_option (Pair case_id) (ok_option (fst (put_bytes P K c case_id payload q fs))),
         snd (put_bytes P K c case_id payload q fs))) fs)) = Some v"
    by (auto simp: q split: prod.splits intro: grows_keeps_get_bytes)
next
  fix r :: "pystr \<times> EvidenceArtifact" and fs t :: "'a store_fs" and v and q :: "pystr \<times> pybytes \<times> put_request"
  assume put: "(case q of (case_id, payload, q) \<Rightarrow> \<lambda>fs.
        (map_option (Pair case_id) (ok_option (fst (put_bytes P K c case_id payload q fs))),
         snd (put_bytes P K c case_id payload q fs))) fs = (Some r, t)"
    and good: "put_ok P K c q fs v"
  obtain i payload rq where q: "q = (i, payload, rq)" by (cases q)
  from put obtain a where r: "r = (i, a)" and run: "put_bytes P K c i payload rq fs = (Inr a, t)"
    by (cases "put_bytes P K c i payload rq fs") (auto simp: q)
  from good run have g: "platform_ok P" "codec_ok K" "v = payload"
    "doc_size K (render_artifact K a) \<le> max_artifact_bytes c"
    "\<And>old. object_at fs (i, hexdigest P payload) = Some old \<Longrightarrow> old = payload"
    by (auto simp: put_ok_def q)
  show "(case r of (case_id, a) \<Rightarrow> \<lambda>fs. ok_option (get_bytes P K c case_id a fs)) t = Some v"
    using put_get_roundtrip_lemma [OF g(1,2) run g(4)] g(3,5) by (auto simp: r)
qed

text \<open>
  Evidence is permanent. After a successful \<open>put_bytes\<close> and any further sequence of
  them, in any case and with any outcome, the artifact still fetches the stored payload.
\<close>

theorem stored_evidence_permanent:
  assumes "platform_ok P" "codec_ok K" "put_bytes P K c case_id payload q fs = (Inr a, gs)"
    and "doc_size K (render_artifact K a) \<le> max_artifact_bytes c"
    and "object_at fs (case_id, hexdigest P payload) \<in> {None, Some payload}"
  shows "get_bytes P K c case_id a
      (fold (\<lambda>(i, b, q) s. snd (put_bytes P K c i b q s)) later gs) = Inr payload"
proof -
  have "put_ok P K c (case_id, payload, q) fs payload"
    using assms by (auto simp: put_ok_def)
  with evidence.put_then_puts [of P K c "(case_id, payload, q)" fs "(case_id, a)" gs payload later] assms(3)
  have "ok_option (get_bytes P K c case_id a (fold (\<lambda>r s. snd ((case r of (i, b, q) \<Rightarrow> \<lambda>fs.
      (map_option (Pair i) (ok_option (fst (put_bytes P K c i b q fs))), snd (put_bytes P K c i b q fs))) s)) later gs))
      = Some payload"
    by simp
  moreover have "(\<lambda>r s. snd ((case r of (i, b, q) \<Rightarrow> \<lambda>fs.
      (map_option (Pair i) (ok_option (fst (put_bytes P K c i b q fs))), snd (put_bytes P K c i b q fs))) s)) =
      (\<lambda>(i, b, q) s. snd (put_bytes P K c i b q s))"
    by (auto simp: fun_eq_iff)
  ultimately show ?thesis by simp
qed

theorem stored_evidence_permanent_witness:
  "get_bytes store_platform (sample_codec 8) sample_store_config ''case-1'' sample_artifact
     (fold (\<lambda>(i, b, q) s. snd (put_bytes store_platform (sample_codec 8) sample_store_config i b q s))
        [(''case-1'', ''other'', sample_request), (''../x'', ''b'', sample_request)] filled_store) = Inr ''data''"
  by (rule stored_evidence_permanent [OF store_platform_ok sample_codec_ok sample_put])
    (simp_all add: sample_codec_def sample_store_config_def empty_store_def)

text \<open>
  C19: the limit that bounds artifacts also bounds the reading of metadata but not its
  writing: a new artifact whose metadata document is larger than the limit is stored, and
  can then not be fetched.
\<close>

theorem oversized_metadata_unreadable:
  assumes "platform_ok P" "put_bytes P K c case_id payload q fs = (Inr a, gs)"
    and "max_artifact_bytes c < doc_size K (render_artifact K a)"
  shows "\<not> is_ok (get_artifact P K c case_id (artifact_id a) gs) \<and> \<not> is_ok (get_bytes P K c case_id a gs)"
proof -
  let ?k = "(case_id, hexdigest P payload)"
  from assms(2) obtain fs1 where p: "is_identifier case_id"
    "coerce_artifact P (raw_artifact P case_id payload q) = Inr a" "store_metadata K c ?k a fs1 = Inr gs"
    by (rule put_bytesE)
  note a = coerce_artifact_Inr [OF p(2) assms(1) p(1)]
  have "read_metadata K c gs ?k = Inl (EvidenceStoreError ''stored evidence violates type or size policy'')"
    using store_metadata_Inr(2) [OF p(3)] assms(3) by (simp add: read_metadata_def)
  then have "get_artifact P K c case_id (artifact_id a) gs =
      Inl (EvidenceStoreError ''stored artifact metadata is invalid'')"
    using p(1) a(2) assms(1)
    by (simp add: get_artifact_def safe_identifier_def raise_first_def Let_def platform_ok_def)
  then show ?thesis using a(4) by (simp add: is_ok_def get_bytes_def)
qed

theorem oversized_metadata_unreadable_witness:
  "\<not> is_ok (get_bytes store_platform (sample_codec 9) sample_store_config ''case-1'' sample_artifact filled_store)"
  using oversized_metadata_unreadable [OF store_platform_ok sample_put [of 9]]
  by (simp add: sample_codec_def sample_store_config_def)

end
