(* ===== verification/Flight_Recorder.thy ===== *)
theory Flight_Recorder
  imports Evidence_Store
begin

text \<open>
  The importer of PyTorch Flight Recorder traces
  (\<^verbatim>\<open>traincapsule_ingest_pytorch/importer.py\<close>): the bounded JSON reader, the lifecycle entries
  reparsed from raw evidence, the import of a trace directory into the evidence store, and
  its reconstruction from stored artifacts. A trace directory is the list of its entries; an
  artifact reader is a function that returns bytes or raises.

  The record \<open>cpython\<close> holds two printers of the standard library whose text the importer
  only stores: \<open>str\<close> of a JSON container or float, and \<^verbatim>\<open>json.dumps(value, sort_keys=True)\<close>.
\<close>

record cpython =
  container_repr :: "json \<Rightarrow> pystr"
  dumps_sorted :: "json \<Rightarrow> pystr"

fun py_str :: "cpython \<Rightarrow> json \<Rightarrow> pystr" where
  "py_str L (JStr s) = s"
| "py_str L (JInt i) = show_int i"
| "py_str L JNull = ''None''"
| "py_str L (JBool b) = (if b then ''True'' else ''False'')"
| "py_str L v = container_repr L v"

definition show_ints :: "int list \<Rightarrow> pystr" where
  "show_ints is = ''['' @ join '', '' (map show_int is) @ '']''"

abbreviation malformed :: "string \<Rightarrow> 'a result" where
  "malformed msg \<equiv> Inl (FlightRecorderImportError MALFORMED_EVIDENCE msg)"

abbreviation blocked :: "string \<Rightarrow> 'a result" where
  "blocked msg \<equiv> Inl (FlightRecorderImportError import_error_code.POLICY_BLOCKED msg)"

section \<open>Bounded JSON\<close>

text \<open>
  The scan before parsing: brackets outside strings are counted, a depth beyond the limit
  refuses the document. The depth may go below zero on text that is not JSON.
\<close>

fun nesting_ok :: "int \<Rightarrow> int \<Rightarrow> bool \<Rightarrow> bool \<Rightarrow> pybytes \<Rightarrow> bool" where
  "nesting_ok max_depth depth in_string escaped [] = True"
| "nesting_ok max_depth depth in_string escaped (b # bs) =
     (if in_string then
        (if escaped then nesting_ok max_depth depth True False bs
         else if b = CHR 0x5C then nesting_ok max_depth depth True True bs
         else nesting_ok max_depth depth (b \<noteq> CHR 0x22) False bs)
      else if b = CHR 0x22 then nesting_ok max_depth depth True escaped bs
      else if b \<in> {CHR 0x5B, CHR 0x7B} then
        \<not> max_depth < depth + 1 \<and> nesting_ok max_depth (depth + 1) False escaped bs
      else nesting_ok max_depth (if b \<in> {CHR 0x5D, CHR 0x7D} then depth - 1 else depth) False escaped bs)"

definition bounded_json_object :: "platform \<Rightarrow> pybytes \<Rightarrow> (pystr \<times> json) list result" where
  "bounded_json_object P payload =
     (if \<not> nesting_ok 64 0 False False payload then blocked ''exceeds JSON nesting policy''
      else case loads P payload of
        None \<Rightarrow> malformed ''is not valid bounded UTF-8 JSON''
      | Some (JObj kvs) \<Rightarrow> Inr kvs
      | Some _ \<Rightarrow> malformed ''must be a JSON object'')"

text \<open>\<open>d.get(a, d.get(b))\<close>.\<close>

definition get_either :: "(pystr \<times> json) list \<Rightarrow> pystr \<Rightarrow> pystr \<Rightarrow> json option" where
  "get_either d a b = (case jget d a of Some v \<Rightarrow> Some v | None \<Rightarrow> jget d b)"

definition nonneg_int :: "json option \<Rightarrow> int option" where
  "nonneg_int v = (case v of Some (JInt i) \<Rightarrow> if i < 0 then None else Some i | _ \<Rightarrow> None)"

definition nonempty_str :: "json option \<Rightarrow> pystr option" where
  "nonempty_str v = (case v of Some (JStr s) \<Rightarrow> if s = [] then None else Some s | _ \<Rightarrow> None)"

definition process_group_of :: "cpython \<Rightarrow> (pystr \<times> json) list \<Rightarrow> pystr" where
  "process_group_of L document =
     py_str L (case get_either document ''processGroup'' ''pg_id'' of Some v \<Rightarrow> v | None \<Rightarrow> JStr ''UNKNOWN'')"

section \<open>Lifecycle entries from raw evidence\<close>

type_synonym reader = "EvidenceArtifact \<Rightarrow> pybytes result"
type_synonym lifecycle_entry = "int \<times> pystr \<times> int \<times> pystr \<times> pystr"

definition lifecycle_fields :: "json \<Rightarrow> (int \<times> pystr \<times> pystr) result" where
  "lifecycle_fields raw = (case raw of
     JObj entry \<Rightarrow>
       (case (nonneg_int (get_either entry ''sequenceId'' ''collective_seq_id''),
              nonempty_str (get_either entry ''collectiveType'' ''profiling_name''), nonempty_str (jget entry ''state'')) of
          (Some sequence, Some collective, Some state) \<Rightarrow> Inr (sequence, collective, state)
        | _ \<Rightarrow> malformed ''raw lifecycle entry has invalid identity/state fields'')
   | _ \<Rightarrow> malformed ''raw lifecycle entry must be an object'')"

definition raw_document :: "platform \<Rightarrow> reader \<Rightarrow> EvidenceArtifact \<Rightarrow> (pystr \<times> json) list result" where
  "raw_document P reader a =
     (if ea_kind a \<noteq> ''PYTORCH_FLIGHT_RECORDER_RAW'' \<or> source_adapter a \<noteq> ''pytorch-flight-recorder''
      then malformed ''native baseline references a non-Flight-Recorder raw artifact''
      else rbind (reader a) (\<lambda>payload.
        if sha256_digest P payload \<noteq> content_digest a then malformed ''raw lifecycle artifact digest mismatch''
        else bounded_json_object P payload))"

fun collect_entries ::
  "platform \<Rightarrow> cpython \<Rightarrow> reader \<Rightarrow> int list \<Rightarrow> EvidenceArtifact list \<Rightarrow> lifecycle_entry list result" where
  "collect_entries P L reader observed [] = Inr []"
| "collect_entries P L reader observed (a # as) =
     rbind (raw_document P reader a) (\<lambda>document.
       case jget document ''entries'' of
         None \<Rightarrow> collect_entries P L reader observed as
       | Some JNull \<Rightarrow> collect_entries P L reader observed as
       | Some (JList raw_entries) \<Rightarrow>
          (case nonneg_int (jget document ''rank'') of
             None \<Rightarrow> malformed ''raw lifecycle rank must be a non-negative integer''
           | Some rank \<Rightarrow>
               if rank \<in> set observed then malformed ''duplicate raw lifecycle rank''
               else rbind (traverse lifecycle_fields raw_entries) (\<lambda>es.
                 rbind (collect_entries P L reader (rank # observed) as) (\<lambda>rest.
                   Inr (map (Pair rank \<circ> Pair (process_group_of L document)) es @ rest))))
       | Some _ \<Rightarrow> malformed ''raw lifecycle entries must be a list'')"

definition verified_lifecycle_entries ::
  "platform \<Rightarrow> cpython \<Rightarrow> EvidenceArtifact list \<Rightarrow> reader \<Rightarrow> lifecycle_entry list result" where
  "verified_lifecycle_entries P L artifacts reader =
     rbind (collect_entries P L reader [] artifacts) (\<lambda>es.
       if es = [] then malformed ''native baseline has no raw lifecycle entries'' else Inr es)"

definition observed_rank :: "platform \<Rightarrow> reader \<Rightarrow> EvidenceArtifact \<Rightarrow> int option result" where
  "observed_rank P reader a =
     rbind (reader a) (\<lambda>payload. rbind (bounded_json_object P payload) (\<lambda>document.
       Inr (if jget document ''entries'' \<in> {None, Some JNull} then None else nonneg_int (jget document ''rank''))))"

text \<open>\<open>states.setdefault((process_group, sequence, collective), {})[rank] = state.casefold()\<close>.\<close>

definition entry_key :: "lifecycle_entry \<Rightarrow> pystr \<times> int \<times> pystr" where
  "entry_key e = (case e of (rank, process_group, sequence, collective, state) \<Rightarrow> (process_group, sequence, collective))"

definition rank_states :: "platform \<Rightarrow> lifecycle_entry list \<Rightarrow> pystr \<times> int \<times> pystr \<Rightarrow> (int \<times> pystr) list" where
  "rank_states P es key = fold (\<lambda>e acc. case e of (rank, process_group, sequence, collective, state) \<Rightarrow>
     if entry_key e = key then AList.update rank (casefold P state) acc else acc) es []"

definition states_disagree :: "platform \<Rightarrow> int list \<Rightarrow> lifecycle_entry list \<Rightarrow> bool" where
  "states_disagree P observed es = list_ex (\<lambda>key.
     let states = rank_states P es key
     in 1 < length (remdups (map snd states)) \<or> set (map fst states) \<noteq> set observed) (remdups (map entry_key es))"

definition lifecycle_disagreement_from_raw ::
  "platform \<Rightarrow> cpython \<Rightarrow> EvidenceArtifact list \<Rightarrow> reader \<Rightarrow> bool result" where
  "lifecycle_disagreement_from_raw P L artifacts reader =
     rbind (verified_lifecycle_entries P L artifacts reader) (\<lambda>es.
     rbind (traverse (observed_rank P reader) artifacts) (\<lambda>ranks.
       Inr (states_disagree P (map the (filter (\<lambda>r. r \<noteq> None) ranks)) es)))"

section \<open>The import record\<close>

record FlightRecorderEntry =
  fe_rank :: int
  fe_process_group :: pystr
  sequence_id :: int
  collective_type :: pystr
  fe_state :: pystr
  tensor_metadata :: "(pystr \<times> json) list option"
  call_stack :: "pystr list"
  unknown_fields :: "(pystr \<times> json) list"

record FlightRecorderImport =
  fi_case_id :: pystr
  fi_source_format :: pystr
  fi_source_format_version :: pystr
  pytorch_version :: pystr
  fi_world_size :: "int option"
  fi_artifacts :: "EvidenceArtifact list"
  fi_binding_artifacts :: "EvidenceArtifact list"
  entries :: "FlightRecorderEntry list"
  fi_native_findings :: "NativeFinding list"
  warnings :: "pystr list"
  fi_missing_ranks :: "int list"
  raw_digests :: "(pystr \<times> pystr) list"
  metadata_unknown_fields :: "(pystr \<times> json) list"
  document_unknown_fields :: "(pystr \<times> (pystr \<times> json) list) list"

text \<open>Pydantic strips the keys of a dictionary; keys that become equal keep the last value.\<close>

definition strip_keys :: "platform \<Rightarrow> (pystr \<times> 'a) list \<Rightarrow> (pystr \<times> 'a) list" where
  "strip_keys P d = fold (\<lambda>(k, v) acc. AList.update (strip P k) v acc) d []"

definition coerce_entry :: "platform \<Rightarrow> FlightRecorderEntry \<Rightarrow> FlightRecorderEntry result" where
  "coerce_entry P e =
     (let c = e\<lparr>fe_process_group := strip P (fe_process_group e), collective_type := strip P (collective_type e),
            fe_state := strip P (fe_state e), tensor_metadata := map_option (strip_keys P) (tensor_metadata e),
            call_stack := map (strip P) (call_stack e), unknown_fields := strip_keys P (unknown_fields e)\<rparr>
      in if fe_rank c < 0 \<or> sequence_id c < 0 \<or> fe_process_group c = [] \<or> collective_type c = [] \<or> fe_state c = []
         then Inl (ValidationError ''FlightRecorderEntry'') else Inr c)"

definition coerce_import :: "platform \<Rightarrow> FlightRecorderImport \<Rightarrow> FlightRecorderImport result" where
  "coerce_import P i =
     (if fi_artifacts i = [] \<or> (case fi_world_size i of None \<Rightarrow> False | Some w \<Rightarrow> w < 1)
      then Inl (ValidationError ''FlightRecorderImport'')
      else Inr (i\<lparr>fi_case_id := strip P (fi_case_id i), fi_source_format := strip P (fi_source_format i),
        fi_source_format_version := strip P (fi_source_format_version i), pytorch_version := strip P (pytorch_version i),
        warnings := map (strip P) (warnings i), raw_digests := strip_dict P (raw_digests i),
        metadata_unknown_fields := strip_keys P (metadata_unknown_fields i),
        document_unknown_fields := strip_keys P (map (\<lambda>(k, d). (k, strip_keys P d)) (document_unknown_fields i))\<rparr>))"

definition dump_entry :: "FlightRecorderEntry \<Rightarrow> json" where
  "dump_entry e = JObj
     [(''rank'', JInt (fe_rank e)), (''processGroup'', JStr (fe_process_group e)), (''sequenceId'', JInt (sequence_id e)),
      (''collectiveType'', JStr (collective_type e)), (''state'', JStr (fe_state e)),
      (''tensorMetadata'', jopt JObj (tensor_metadata e)), (''callStack'', JList (map JStr (call_stack e))),
      (''unknownFields'', JObj (unknown_fields e))]"

definition dump_import :: "platform \<Rightarrow> FlightRecorderImport \<Rightarrow> json" where
  "dump_import P i = JObj
     [(''schemaVersion'', JInt 1), (''caseId'', JStr (fi_case_id i)), (''sourceFormat'', JStr (fi_source_format i)),
      (''sourceFormatVersion'', JStr (fi_source_format_version i)), (''pytorchVersion'', JStr (pytorch_version i)),
      (''worldSize'', jopt JInt (fi_world_size i)), (''artifacts'', JList (map (dump_artifact P) (fi_artifacts i))),
      (''bindingArtifacts'', JList (map (dump_artifact P) (fi_binding_artifacts i))),
      (''entries'', JList (map dump_entry (entries i))), (''nativeFindings'', JList (map dump_finding (fi_native_findings i))),
      (''warnings'', JList (map JStr (warnings i))), (''missingRanks'', JList (map JInt (fi_missing_ranks i))),
      (''rawDigests'', JObj (map (\<lambda>(k, d). (k, JStr d)) (raw_digests i))),
      (''metadataUnknownFields'', JObj (metadata_unknown_fields i)),
      (''documentUnknownFields'', JObj (map (\<lambda>(k, d). (k, JObj d)) (document_unknown_fields i)))]"

text \<open>Equality of two Python dictionaries given as lists of items without repeated keys.\<close>

definition dict_eq :: "('k \<times> 'v) list \<Rightarrow> ('k \<times> 'v) list \<Rightarrow> bool" where
  "dict_eq d e \<longleftrightarrow> list_all (\<lambda>k. map_of d k = map_of e k) (map fst d @ map fst e)"

definition claimed_entry :: "FlightRecorderEntry \<Rightarrow> lifecycle_entry" where
  "claimed_entry e = (fe_rank e, fe_process_group e, sequence_id e, collective_type e, fe_state e)"

definition expected_raw_digests :: "EvidenceArtifact list \<Rightarrow> (pystr \<times> pystr) list" where
  "expected_raw_digests artifacts = fold (\<lambda>a acc. AList.update
     (case map_of (provenance a) ''sourceRelativePath'' of Some path \<Rightarrow> path | None \<Rightarrow> artifact_id a)
     (content_digest a) acc) artifacts []"

definition verify_import_against_raw ::
  "platform \<Rightarrow> cpython \<Rightarrow> FlightRecorderImport \<Rightarrow> reader \<Rightarrow> bool result" where
  "verify_import_against_raw P L imported reader =
     rbind (verified_lifecycle_entries P L (fi_artifacts imported) reader) (\<lambda>es.
       if mset es \<noteq> mset (map claimed_entry (entries imported))
       then malformed ''Flight Recorder import lifecycle entries do not match raw CAS evidence''
       else if \<not> dict_eq (raw_digests imported) (expected_raw_digests (fi_artifacts imported))
       then malformed ''Flight Recorder import raw digest map does not match its artifacts''
       else lifecycle_disagreement_from_raw P L (fi_artifacts imported) reader)"

section \<open>Importing a trace\<close>

record import_limits =
  max_files :: nat
  max_total_bytes :: nat

definition validate_import_limits :: "import_limits \<Rightarrow> import_limits result" where
  "validate_import_limits l = raise_first
     [(max_files l < 1 \<or> max_total_bytes l < 1, ''import limits must be positive'')] l"

datatype trace_entry = Regular pybytes | NotRegular

datatype trace_path = SymlinkPath | MissingPath | NotDirectory | Directory "(pystr \<times> trace_entry) list"

definition read_trace_file :: "nat \<Rightarrow> pybytes \<Rightarrow> pybytes result" where
  "read_trace_file limit content =
     (if limit < length content then blocked ''trace file exceeds remaining size policy''
      else read_chunks limit (FlightRecorderImportError import_error_code.POLICY_BLOCKED ''trace size exceeds policy'')
        content [])"

text \<open>What \<open>import_trace\<close> passes to the store for every file of a trace.\<close>

record trace_binding =
  tb_captured_at :: datetime
  tb_workload_id :: "pystr option"
  tb_baseline_environment_id :: "pystr option"
  tb_candidate_environment_id :: "pystr option"

definition trace_request :: "trace_binding \<Rightarrow> pystr \<Rightarrow> put_request" where
  "trace_request b relative = \<lparr>rq_kind = ''PYTORCH_FLIGHT_RECORDER_RAW'', rq_source_adapter = ''pytorch-flight-recorder'',
     rq_source_version = ''RAW_UNPARSED'', rq_captured_at = tb_captured_at b, rq_privacy_class = CONFIDENTIAL,
     rq_provenance = [(''sourceRelativePath'', relative)], rq_workload_id = tb_workload_id b,
     rq_baseline_environment_id = tb_baseline_environment_id b,
     rq_candidate_environment_id = tb_candidate_environment_id b\<rparr>"

type_synonym stored_file = "EvidenceArtifact \<times> pystr \<times> pybytes"

fun store_files ::
  "platform \<Rightarrow> 'doc artifact_codec \<Rightarrow> store_config \<Rightarrow> pystr \<Rightarrow> trace_binding \<Rightarrow> nat \<Rightarrow> (pystr \<times> pybytes) list \<Rightarrow>
   'doc store_fs \<Rightarrow> stored_file list result \<times> 'doc store_fs" where
  "store_files P K c case_id b remaining [] fs = (Inr [], fs)"
| "store_files P K c case_id b remaining ((relative, content) # files) fs =
     (case read_trace_file remaining content of
        Inl e \<Rightarrow> (Inl e, fs)
      | Inr payload \<Rightarrow>
         (case put_bytes P K c case_id payload (trace_request b relative) fs of
            (Inl e, fs1) \<Rightarrow> (Inl e, fs1)
          | (Inr a, fs1) \<Rightarrow>
             (case store_files P K c case_id b (remaining - length payload) files fs1 of
                (Inl e, fs2) \<Rightarrow> (Inl e, fs2)
              | (Inr stored, fs2) \<Rightarrow> (Inr ((a, relative, payload) # stored), fs2))))"

text \<open>The identity of a trace, from \<open>metadata.json\<close> or from its first document.\<close>

record trace_header =
  th_format :: pystr
  th_version :: pystr
  th_pytorch_version :: pystr
  th_world_size :: "int option"
  th_expected_ranks :: "int list option"
  th_metadata_unknown :: "(pystr \<times> json) list"
  th_documents :: "pystr list"

definition require_int :: "json option \<Rightarrow> int result" where
  "require_int v = (case nonneg_int v of Some i \<Rightarrow> Inr i | None \<Rightarrow> malformed ''must be a non-negative integer'')"

definition require_str :: "json option \<Rightarrow> pystr result" where
  "require_str v = (case nonempty_str v of Some s \<Rightarrow> Inr s | None \<Rightarrow> malformed ''must be a non-empty string'')"

definition CONTROLLED_FORMAT :: pystr where
  "CONTROLLED_FORMAT = ''pytorch-flight-recorder''"

definition REAL_FORMAT :: pystr where
  "REAL_FORMAT = ''pytorch-flight-recorder-json''"

definition SUPPORTED_VERSIONS :: "pystr list" where
  "SUPPORTED_VERSIONS = [''1.0'', ''2.5'']"

definition without_keys :: "pystr list \<Rightarrow> (pystr \<times> json) list \<Rightarrow> (pystr \<times> json) list" where
  "without_keys known d = filter (\<lambda>(k, v). k \<notin> set known) d"

definition controlled_header :: "(pystr \<times> json) list \<Rightarrow> pystr list \<Rightarrow> trace_header result" where
  "controlled_header meta names =
     rbind (require_str (jget meta ''format'')) (\<lambda>source_format.
     rbind (require_str (jget meta ''schemaVersion'')) (\<lambda>version.
     rbind (require_str (jget meta ''pytorchVersion'')) (\<lambda>pytorch.
     rbind (require_int (jget meta ''worldSize'')) (\<lambda>world_size.
       case jget meta ''expectedRanks'' of
         Some (JList raw_expected) \<Rightarrow>
           rbind (traverse (require_int \<circ> Some) raw_expected) (\<lambda>expected.
             if sort expected \<noteq> map int [0..<nat world_size]
             then malformed ''expectedRanks must enumerate worldSize exactly once''
             else Inr \<lparr>th_format = source_format, th_version = version, th_pytorch_version = pytorch,
               th_world_size = Some world_size, th_expected_ranks = Some expected,
               th_metadata_unknown = without_keys [''format'', ''schemaVersion'', ''pytorchVersion'', ''worldSize'',
                 ''expectedRanks''] meta,
               th_documents = filter (\<lambda>name. name \<noteq> ''metadata.json'') names\<rparr>)
       | _ \<Rightarrow> malformed ''metadata.json.expectedRanks must be a list''))))"

definition optional_int :: "json option \<Rightarrow> int option result" where
  "optional_int v = (if v \<in> {None, Some JNull} then Inr None else rbind (require_int v) (\<lambda>i. Inr (Some i)))"

definition real_header :: "(pystr \<times> json) list \<Rightarrow> pystr list \<Rightarrow> trace_header result" where
  "real_header first names =
     rbind (require_str (jget first ''version'')) (\<lambda>version.
     rbind (require_str (jget first ''pytorch_version'')) (\<lambda>pytorch.
     rbind (optional_int (jget first ''world_size'')) (\<lambda>world_size.
       Inr \<lparr>th_format = REAL_FORMAT, th_version = version, th_pytorch_version = pytorch, th_world_size = world_size,
         th_expected_ranks = map_option (\<lambda>w. map int [0..<nat w]) world_size, th_metadata_unknown = [],
         th_documents = sort names\<rparr>)))"

definition read_header :: "platform \<Rightarrow> (pystr \<times> pybytes) list \<Rightarrow> trace_header result" where
  "read_header P payloads =
     (let names = map fst payloads
      in rbind (case map_of payloads ''metadata.json'' of
            Some b \<Rightarrow> rbind (bounded_json_object P b) (\<lambda>meta. controlled_header meta names)
          | None \<Rightarrow> rbind (bounded_json_object P (the (map_of payloads (hd (sort names))))) (\<lambda>first.
              real_header first names)) (\<lambda>h.
           if th_format h \<notin> {CONTROLLED_FORMAT, REAL_FORMAT} \<or> th_version h \<notin> set SUPPORTED_VERSIONS
           then Inl (FlightRecorderImportError UNSUPPORTED_VERSION ''unsupported Flight Recorder format/version'')
           else Inr h))"

definition tensor_of :: "(pystr \<times> json) list \<Rightarrow> (pystr \<times> json) list option result" where
  "tensor_of entry = (case jget entry ''tensorMetadata'' of
     Some (JObj d) \<Rightarrow> Inr (Some d)
   | v \<Rightarrow> if v \<in> {None, Some JNull} then
       (let d = map (\<lambda>k. (k, the (jget entry k))) (filter (\<lambda>k. jget entry k \<noteq> None)
                  [''input_sizes'', ''output_sizes'', ''input_dtypes'', ''output_dtypes''])
        in Inr (if d = [] then None else Some d))
     else Inl (ValidationError ''FlightRecorderEntry''))"

definition frame_text :: "cpython \<Rightarrow> json \<Rightarrow> pystr" where
  "frame_text L v = (case v of JStr s \<Rightarrow> s | _ \<Rightarrow> dumps_sorted L v)"

definition parse_entry :: "platform \<Rightarrow> cpython \<Rightarrow> int \<Rightarrow> pystr \<Rightarrow> json \<Rightarrow> FlightRecorderEntry result" where
  "parse_entry P L rank process_group raw = (case raw of
     JObj entry \<Rightarrow>
       (case (case get_either entry ''callStack'' ''frames'' of None \<Rightarrow> JList [] | Some v \<Rightarrow> v) of
          JList frames \<Rightarrow>
            rbind (require_int (get_either entry ''sequenceId'' ''collective_seq_id'')) (\<lambda>sequence.
            rbind (require_str (get_either entry ''collectiveType'' ''profiling_name'')) (\<lambda>collective.
            rbind (require_str (jget entry ''state'')) (\<lambda>state.
            rbind (tensor_of entry) (\<lambda>tensor.
              coerce_entry P \<lparr>fe_rank = rank, fe_process_group = process_group, sequence_id = sequence,
                collective_type = collective, fe_state = state, tensor_metadata = tensor,
                call_stack = map (frame_text L) frames,
                unknown_fields = without_keys [''sequenceId'', ''collective_seq_id'', ''collectiveType'', ''profiling_name'',
                  ''state'', ''tensorMetadata'', ''input_sizes'', ''output_sizes'', ''input_dtypes'', ''output_dtypes'',
                  ''callStack'', ''frames''] entry\<rparr>))))
        | _ \<Rightarrow> malformed ''stack must be a list'')
   | _ \<Rightarrow> malformed ''entry must be an object'')"

definition matches_header :: "trace_header \<Rightarrow> (pystr \<times> json) list \<Rightarrow> unit result" where
  "matches_header h document =
     (if th_format h = REAL_FORMAT then
        rbind (require_str (jget document ''version'')) (\<lambda>version.
        rbind (require_str (jget document ''pytorch_version'')) (\<lambda>pytorch.
        rbind (optional_int (jget document ''world_size'')) (\<lambda>world_size.
          if version \<noteq> th_version h \<or> pytorch \<noteq> th_pytorch_version h \<or> world_size \<noteq> th_world_size h
          then malformed ''conflicts with the trace version/runtime/world-size identity'' else Inr ())))
      else Inr ())"

text \<open>One document of the trace: its rank, its entries and its unknown fields.\<close>

definition parse_document ::
  "platform \<Rightarrow> cpython \<Rightarrow> trace_header \<Rightarrow> int list \<Rightarrow> pybytes \<Rightarrow>
   (int \<times> FlightRecorderEntry list \<times> (pystr \<times> json) list) result" where
  "parse_document P L h observed payload =
     rbind (bounded_json_object P payload) (\<lambda>document.
     rbind (matches_header h document) (\<lambda>_.
     rbind (require_int (jget document ''rank'')) (\<lambda>rank.
       if (case th_world_size h of None \<Rightarrow> False | Some w \<Rightarrow> w \<le> rank) then malformed ''rank is outside worldSize''
       else if rank \<in> set observed then malformed ''duplicate rank''
       else case jget document ''entries'' of
           Some (JList raw_entries) \<Rightarrow>
             rbind (traverse (parse_entry P L rank (process_group_of L document)) raw_entries) (\<lambda>es.
               Inr (rank, es, without_keys [''rank'', ''processGroup'', ''pg_id'', ''entries'', ''version'',
                 ''pytorch_version'', ''world_size'', ''pg_config''] document))
         | _ \<Rightarrow> malformed ''entries must be a list'')))"

fun parse_documents ::
  "platform \<Rightarrow> cpython \<Rightarrow> trace_header \<Rightarrow> (pystr \<times> pybytes) list \<Rightarrow> int list \<Rightarrow> pystr list \<Rightarrow>
   (int list \<times> FlightRecorderEntry list \<times> (pystr \<times> (pystr \<times> json) list) list) result" where
  "parse_documents P L h payloads observed [] = Inr (observed, [], [])"
| "parse_documents P L h payloads observed (name # names) =
     rbind (parse_document P L h observed (the (map_of payloads name))) (\<lambda>(rank, es, unknown).
     rbind (parse_documents P L h payloads (rank # observed) names) (\<lambda>(ranks, rest, unknowns).
       Inr (ranks, es @ rest, (name, unknown) # unknowns)))"

definition missing_ranks_of :: "trace_header \<Rightarrow> int list \<Rightarrow> int list" where
  "missing_ranks_of h observed = sorted_set (filter (\<lambda>r. r \<notin> set observed)
     (case th_expected_ranks h of None \<Rightarrow> [] | Some rs \<Rightarrow> rs))"

definition trace_warnings :: "trace_header \<Rightarrow> int list \<Rightarrow> pystr list" where
  "trace_warnings h missing =
     (if missing \<noteq> [] then [''expected rank files not captured: '' @ show_ints missing] else []) @
     (if th_expected_ranks h = None then [''expected rank set was not declared; missing ranks are UNKNOWN''] else [])"

definition trace_limitations :: "trace_header \<Rightarrow> int list \<Rightarrow> pystr list" where
  "trace_limitations h missing =
     [''Importer reports native observations; it does not infer root cause.''] @
     (if missing \<noteq> [] then [''Evidence is incomplete because ranks '' @ show_ints missing @ '' were not captured.''] else []) @
     (if th_expected_ranks h = None then [''Completeness across ranks is unknown without a declared world size.''] else [])"

text \<open>
  The finding: its identifier is the digest of the payload before pydantic strips the
  version, so a version with white space around it is refused.
\<close>

definition trace_finding ::
  "platform \<Rightarrow> trace_header \<Rightarrow> int list \<Rightarrow> nat \<Rightarrow> nat \<Rightarrow> pystr list \<Rightarrow> NativeFinding result" where
  "trace_finding P h missing entry_count rank_count digests =
     (let f = \<lparr>finding_id = [], attribution = NATIVE_TOOL_FOUND, native_system = ''PyTorch Flight Recorder'',
            native_version = th_pytorch_version h,
            observation = ''Flight Recorder directly reported '' @ show_nat entry_count @
              '' lifecycle entries across '' @ show_nat rank_count @ '' observed ranks.'',
            nf_evidence_refs = sort digests, confidence_class = DIRECT_OBSERVATION,
            nf_limitations = trace_limitations h missing,
            customer_decision_contribution = ''Preserves native observations and explicit evidence limits.''\<rparr>
      in validate_finding P (f\<lparr>finding_id := digest_json P (JObj (finding_material f)),
           native_version := strip P (native_version f)\<rparr>))"

definition assemble_import ::
  "platform \<Rightarrow> cpython \<Rightarrow> pystr \<Rightarrow> stored_file list \<Rightarrow> FlightRecorderImport result" where
  "assemble_import P L case_id stored =
     (let payloads = map snd stored; digests = map (\<lambda>(a, relative, _). (relative, content_digest a)) stored
      in rbind (read_header P payloads) (\<lambda>h.
         rbind (parse_documents P L h payloads [] (th_documents h)) (\<lambda>(observed, es, unknowns).
           let missing = missing_ranks_of h observed
           in rbind (trace_finding P h missing (length es) (length observed) (map snd digests)) (\<lambda>finding.
              coerce_import P \<lparr>fi_case_id = case_id, fi_source_format = th_format h, fi_source_format_version = th_version h,
                pytorch_version = th_pytorch_version h, fi_world_size = th_world_size h, fi_artifacts = map fst stored,
                fi_binding_artifacts = [], entries = es, fi_native_findings = [finding],
                warnings = trace_warnings h missing, fi_missing_ranks = missing, raw_digests = digests,
                metadata_unknown_fields = th_metadata_unknown h, document_unknown_fields = unknowns\<rparr>))))"

definition import_trace ::
  "platform \<Rightarrow> cpython \<Rightarrow> 'doc artifact_codec \<Rightarrow> import_limits \<Rightarrow> store_config \<Rightarrow> trace_path \<Rightarrow> pystr \<Rightarrow> trace_binding \<Rightarrow>
   'doc store_fs \<Rightarrow> FlightRecorderImport result \<times> 'doc store_fs" where
  "import_trace P L K l c path case_id b fs = (case path of
     SymlinkPath \<Rightarrow> (blocked ''trace directory cannot be a symlink'', fs)
   | MissingPath \<Rightarrow> (Inl (OSError ''No such file or directory''), fs)
   | NotDirectory \<Rightarrow> (malformed ''trace path must be a directory'', fs)
   | Directory children \<Rightarrow>
      (let paths = sort_key fst children
       in if max_files l < length paths then (blocked ''trace file count exceeds policy'', fs)
          else if list_ex (\<lambda>p. snd p = NotRegular) paths
          then (blocked ''trace directory may contain regular files only'', fs)
          else case store_files P K c case_id b (max_total_bytes l)
                 (map (\<lambda>(n, e). (n, case e of Regular b \<Rightarrow> b | NotRegular \<Rightarrow> [])) paths) fs of
              (Inl e, fs1) \<Rightarrow> (Inl e, fs1)
            | (Inr stored, fs1) \<Rightarrow>
                (if paths = [] then malformed ''trace directory is empty'' else assemble_import P L case_id stored, fs1)))"

section \<open>Reconstruction from stored artifacts\<close>

definition default_import_limits :: import_limits where
  "default_import_limits = \<lparr>max_files = 1024, max_total_bytes = 64 * 1024 * 1024\<rparr>"

definition default_store_config :: store_config where
  "default_store_config = \<lparr>max_artifact_bytes = 16 * 1024 * 1024, max_case_artifacts = 256\<rparr>"

text \<open>Two timestamps are equal when they are the same instant, both aware or both naive.\<close>

definition artifact_binding ::
  "EvidenceArtifact \<Rightarrow> pystr \<times> pystr option \<times> pystr option \<times> pystr option \<times> int \<times> bool" where
  "artifact_binding a = (ea_case_id a, ea_workload_id a, ea_baseline_environment_id a, ea_candidate_environment_id a,
     instant (captured_at a), is_aware (captured_at a))"

text \<open>
  The temporary directory the raw payloads are written to. A name is opened with
  \<^verbatim>\<open>O_CREAT | O_EXCL\<close>: the empty name, a repeated one and one beyond 255 bytes are refused by
  the system, a null byte by Python.
\<close>

fun materialize :: "reader \<Rightarrow> (pystr \<times> trace_entry) list \<Rightarrow> EvidenceArtifact list \<Rightarrow> (pystr \<times> trace_entry) list result" where
  "materialize reader files [] = Inr files"
| "materialize reader files (a # as) = (case map_of (provenance a) ''sourceRelativePath'' of
     None \<Rightarrow> blocked ''raw artifact sourceRelativePath is unsafe''
   | Some relative \<Rightarrow>
      if CHR ''/'' \<in> set relative \<or> relative \<in> {''.'', ''..''} then blocked ''raw artifact sourceRelativePath is unsafe''
      else if CHR 0x00 \<in> set relative then Inl (ValueError ''embedded null byte'')
      else if relative = [] \<or> relative \<in> fst ` set files then Inl (OSError ''File exists'')
      else if 255 < length relative then Inl (OSError ''File name too long'')
      else rbind (reader a) (\<lambda>payload. materialize reader (files @ [(relative, Regular payload)]) as))"

definition reimport_from_raw_artifacts ::
  "platform \<Rightarrow> cpython \<Rightarrow> 'doc artifact_codec \<Rightarrow> EvidenceArtifact list \<Rightarrow> reader \<Rightarrow> EvidenceArtifact list \<Rightarrow>
   FlightRecorderImport result" where
  "reimport_from_raw_artifacts P L K artifacts reader bindings = (case artifacts of
     [] \<Rightarrow> malformed ''native import has no raw artifacts''
   | first # _ \<Rightarrow>
       if list_ex (\<lambda>a. artifact_binding a \<noteq> artifact_binding first) artifacts
       then malformed ''raw artifacts do not share exact case, identity, and capture bindings''
       else rbind (materialize reader [] artifacts) (\<lambda>files.
         rbind (fst (import_trace P L K default_import_limits default_store_config (Directory files) (ea_case_id first)
             \<lparr>tb_captured_at = captured_at first, tb_workload_id = ea_workload_id first,
              tb_baseline_environment_id = ea_baseline_environment_id first,
              tb_candidate_environment_id = ea_candidate_environment_id first\<rparr> \<lparr>objects = [], metadata = []\<rparr>))
           (\<lambda>imported. Inr (imported\<lparr>fi_binding_artifacts := bindings\<rparr>))))"

section \<open>The nesting policy is exact\<close>

fun json_depth :: "json \<Rightarrow> nat" where
  "json_depth (JList xs) = Suc (foldr max (map json_depth xs) 0)"
| "json_depth (JObj kvs) = Suc (foldr max (map (\<lambda>(k, v). json_depth v) kvs) 0)"
| "json_depth _ = 0"

definition plain_char :: "char \<Rightarrow> bool" where
  "plain_char c \<longleftrightarrow> c \<notin> {CHR 0x22, CHR 0x5B, CHR 0x7B, CHR 0x5D, CHR 0x7D}"

lemma nesting_plain:
  "list_all plain_char w \<Longrightarrow> nesting_ok m d False e (w @ r) = nesting_ok m d False e r"
  by (induction w) (auto simp: plain_char_def)

lemma plain_show_int: "list_all plain_char (show_int i)"
proof -
  have "plain_char c" if "num_char c" for c
    using that by (auto simp: plain_char_def num_char_def is_digit_def less_eq_char_def)
  then show ?thesis using show_int_chars [of i] by (auto simp: list_all_iff)
qed

lemma digit_not_special: "d < 16 \<Longrightarrow> digit_char d \<noteq> CHR 0x22" "d < 16 \<Longrightarrow> digit_char d \<noteq> CHR 0x5C"
proof -
  have "CHR 0x22 \<notin> set ''0123456789abcdef''" "CHR 0x5C \<notin> set ''0123456789abcdef''" by simp_all
  moreover have "digit_char d \<in> set ''0123456789abcdef''" if "d < 16"
    unfolding digit_char_def using that by (intro nth_mem) simp
  ultimately show "d < 16 \<Longrightarrow> digit_char d \<noteq> CHR 0x22" "d < 16 \<Longrightarrow> digit_char d \<noteq> CHR 0x5C" by metis+
qed

lemma nesting_body:
  "nesting_ok m d True False (escape_body s @ CHR 0x22 # r) = nesting_ok m d False False r"
proof (induction s)
  case (Cons c s)
  show ?case
  proof (cases c rule: escape_char_cases)
    case 1
    then show ?thesis using Cons by (simp add: escape_body_def)
  next
    case (2 x)
    then show ?thesis using Cons by (simp add: escape_body_def)
  next
    case 3
    then have "(of_char c div 16 :: nat) < 16" "(of_char c mod 16 :: nat) < 16" by simp_all
    note digit_not_special [OF this(1)] digit_not_special [OF this(2)]
    with 3 show ?thesis using Cons by (simp add: escape_body_def)
  qed
qed (simp add: escape_body_def)

lemma nesting_quote: "nesting_ok m d False False (quote s @ r) = nesting_ok m d False False r"
  using nesting_body by (simp add: quote_def)

text \<open>Nothing is required of a value without brackets; a container must fit below the limit.\<close>

definition fits :: "int \<Rightarrow> int \<Rightarrow> nat \<Rightarrow> bool" where
  "fits m d k \<longleftrightarrow> k = 0 \<or> d + int k \<le> m"

lemma fits_Suc: "fits m d (Suc k) \<longleftrightarrow> d + 1 \<le> m \<and> fits m (d + 1) k"
  by (auto simp: fits_def)

lemma fits_foldr: "fits m d (foldr max ks 0) \<longleftrightarrow> (\<forall>k\<in>set ks. fits m d k)"
  by (induction ks) (auto simp: fits_def max_def)

lemma nesting_join:
  assumes "\<And>x r. x \<in> set xs \<Longrightarrow> nesting_ok m d False False (f x @ r) \<longleftrightarrow> ok x \<and> nesting_ok m d False False r"
  shows "nesting_ok m d False False (join '','' (map f xs) @ r) \<longleftrightarrow> (\<forall>x\<in>set xs. ok x) \<and> nesting_ok m d False False r"
  using assms
proof (induction xs)
  case (Cons x xs)
  then show ?case by (cases xs) auto
qed simp

lemma nesting_render:
  "float_free j \<Longrightarrow> nesting_ok m d False False (render P j @ r) \<longleftrightarrow>
     fits m d (json_depth j) \<and> nesting_ok m d False False r"
proof (induction j arbitrary: d r)
  case (JList xs)
  have "nesting_ok m (d + 1) False False (join '','' (map (render P) xs) @ CHR '']'' # r) \<longleftrightarrow>
      (\<forall>x\<in>set xs. fits m (d + 1) (json_depth x)) \<and> nesting_ok m (d + 1) False False (CHR '']'' # r)"
    by (rule nesting_join) (use JList in \<open>simp add: list_all_iff\<close>)
  then show ?case by (auto simp: fits_Suc fits_foldr)
next
  case (JObj kvs)
  let ?f = "\<lambda>(k, v). quote k @ '':'' @ render P v"
  have "nesting_ok m (d + 1) False False (?f kv @ r') \<longleftrightarrow>
      fits m (d + 1) (json_depth (snd kv)) \<and> nesting_ok m (d + 1) False False r'" if "kv \<in> set kvs" for kv r'
  proof -
    obtain k v where kv: "kv = (k, v)" by (cases kv)
    have "float_free v" using JObj.prems that by (auto simp: list_all_iff kv)
    then show ?thesis using JObj.IH [of kv v "d + 1" r'] that by (simp add: kv nesting_quote)
  qed
  then have "nesting_ok m (d + 1) False False (join '','' (map ?f kvs) @ CHR ''}'' # r) \<longleftrightarrow>
      (\<forall>kv\<in>set kvs. fits m (d + 1) (json_depth (snd kv))) \<and> nesting_ok m (d + 1) False False (CHR ''}'' # r)"
    by (rule nesting_join)
  then show ?case by (auto simp: fits_Suc fits_foldr)
next
  case (JInt i)
  then show ?case by (simp add: nesting_plain plain_show_int fits_def)
qed (auto simp: nesting_quote fits_def)

lemma json_depth_sort_keys [simp]: "json_depth (sort_keys j) = json_depth j"
proof (induction j)
  case (JObj kvs)
  have max_cong: "foldr max xs 0 = foldr max ys (0 :: nat)" if "set xs = set ys" for xs ys
  proof -
    have "foldr max zs 0 = Max (insert 0 (set zs))" for zs :: "nat list"
    proof (induction zs)
      case (Cons a zs)
      have "insert 0 (set (a # zs)) = insert a (insert 0 (set zs))" by auto
      then show ?case using Cons Max_insert [of "insert 0 (set zs)" a] by (simp only: foldr.simps o_def) simp
    qed simp
    then show ?thesis using that by simp
  qed
  have "set (map (\<lambda>(k, v). json_depth v) (sort_key fst (map (\<lambda>(k, v). (k, sort_keys v)) kvs))) =
      set (map (\<lambda>(k, v). json_depth v) kvs)"
    using JObj by (force simp: image_iff)
  then show ?case using max_cong by auto
qed (auto cong: map_cong)

text \<open>
  The nesting policy is exact. The scan lets the canonical text of a document pass
  exactly when the document is nested at most 64 levels deep, whatever brackets, quotes and
  backslashes its strings contain.
\<close>

theorem nesting_policy_exact:
  assumes "float_free j"
  shows "nesting_ok 64 0 False False (canonical_json_bytes P j) \<longleftrightarrow> json_depth j \<le> 64"
  using nesting_render [of "sort_keys j" 64 0 P "[CHR 0x0A]"] assms
  by (auto simp: canonical_json_bytes_def fits_def float_free_sort_keys)

theorem nesting_policy_exact_witness:
  "nesting_ok 64 0 False False (canonical_json_bytes sample_platform (JList [JStr [CHR 0x22, CHR ''['', CHR 0x5C], JObj []]))"
  using nesting_policy_exact [of "JList [JStr [CHR 0x22, CHR ''['', CHR 0x5C], JObj []]" sample_platform] by simp

section \<open>Lifecycle agreement\<close>

text \<open>The state a rank reported last for a collective, without regard to case.\<close>

definition last_state :: "platform \<Rightarrow> lifecycle_entry list \<Rightarrow> pystr \<times> int \<times> pystr \<Rightarrow> int \<Rightarrow> pystr option" where
  "last_state P es key r =
     map_option (\<lambda>(_, _, _, _, state). casefold P state) (List.find (\<lambda>e. entry_key e = key \<and> fst e = r) (rev es))"

lemma rank_states_snoc:
  "rank_states P (es @ [e]) key =
     (if entry_key e = key then AList.update (fst e) (casefold P (snd (snd (snd (snd e))))) (rank_states P es key)
      else rank_states P es key)"
  by (auto simp: rank_states_def split: prod.splits)

lemma rank_states_last: "map_of (rank_states P es key) r = last_state P es key r"
proof (induction es rule: rev_induct)
  case Nil
  then show ?case by (simp add: rank_states_def last_state_def)
next
  case (snoc e es)
  then show ?case by (auto simp: rank_states_snoc last_state_def update_conv' split: prod.splits)
qed

lemma rank_states_distinct: "distinct (map fst (rank_states P es key))"
proof (induction es rule: rev_induct)
  case (snoc e es)
  then show ?case by (simp add: rank_states_snoc distinct_update)
qed (simp add: rank_states_def)

lemma several_iff: "1 < length (remdups xs) \<longleftrightarrow> (\<exists>x\<in>set xs. \<exists>y\<in>set xs. x \<noteq> y)"
  using card_le_Suc0_iff_eq [of "set xs"] by (auto simp: length_remdups_card_conv not_less [symmetric])

lemma last_state_own:
  assumes "e \<in> set es"
  shows "last_state P es (entry_key e) (fst e) \<noteq> None"
proof -
  have "List.find (\<lambda>x. entry_key x = entry_key e \<and> fst x = fst e) (rev es) \<noteq> None"
    using assms unfolding find_None_iff set_rev by blast
  then show ?thesis by (simp add: last_state_def)
qed

lemma states_disagree_iff:
  "states_disagree P observed es \<longleftrightarrow>
     (\<exists>e\<in>set es. (\<exists>r s. last_state P es (entry_key e) r = Some s \<and> last_state P es (entry_key e) (fst e) \<noteq> Some s) \<or>
        {r. last_state P es (entry_key e) r \<noteq> None} \<noteq> set observed)"
proof -
  have dom: "set (map fst (rank_states P es key)) = {r. last_state P es key r \<noteq> None}" for key
    by (simp add: rank_states_last [symmetric] dom_map_of_conv_image_fst [symmetric] dom_def)
  have ran: "s \<in> set (map snd (rank_states P es key)) \<longleftrightarrow> (\<exists>r. last_state P es key r = Some s)" for key s
    using map_of_eq_Some_iff [OF rank_states_distinct, of P es key] by (force simp: rank_states_last)
  have several: "1 < length (remdups (map snd (rank_states P es (entry_key e)))) \<longleftrightarrow>
      (\<exists>r s. last_state P es (entry_key e) r = Some s \<and> last_state P es (entry_key e) (fst e) \<noteq> Some s)"
    if e: "e \<in> set es" for e
  proof -
    obtain t where "last_state P es (entry_key e) (fst e) = Some t" using last_state_own [OF e, of P] by auto
    then show ?thesis unfolding several_iff Bex_def ran by (metis option.inject)
  qed
  show ?thesis
    unfolding states_disagree_def Let_def list_ex_iff set_remdups set_map dom [unfolded set_map]
    using several by (auto simp: Let_def)
qed

lemma collect_entries_ConsE:
  assumes "collect_entries P L reader observed (a # as) = Inr es"
  obtains document observed' rest where "raw_document P reader a = Inr document"
    "collect_entries P L reader observed' as = Inr rest"
proof (cases "raw_document P reader a")
  case (Inr document)
  show ?thesis
  proof (cases "collect_entries P L reader observed as")
    case r: (Inr rest)
    then show ?thesis using Inr that by blast
  next
    case (Inl e)
    then obtain rank rest where "collect_entries P L reader (rank # observed) as = Inr rest"
      using assms Inr by (auto simp: rbind_Inr_iff split: option.splits json.splits if_splits)
    then show ?thesis using Inr that by blast
  qed
qed (use assms in simp)

lemma collect_entries_documents:
  "collect_entries P L reader observed as = Inr es \<Longrightarrow> a \<in> set as \<Longrightarrow> \<exists>document. raw_document P reader a = Inr document"
  by (induction as arbitrary: observed es) (auto elim!: collect_entries_ConsE simp del: collect_entries.simps(2))

lemma raw_document_observed:
  assumes "raw_document P reader a = Inr document"
  shows "\<exists>r. observed_rank P reader a = Inr r"
proof -
  obtain payload where "reader a = Inr payload" "bounded_json_object P payload = Inr document"
    using assms by (auto simp: raw_document_def rbind_Inr_iff split: if_splits)
  then show ?thesis by (simp add: observed_rank_def)
qed

lemma lifecycle_disagreement_eq:
  assumes "verified_lifecycle_entries P L artifacts reader = Inr es"
  shows "lifecycle_disagreement_from_raw P L artifacts reader = Inr (\<exists>e\<in>set es.
      (\<exists>r s. last_state P es (entry_key e) r = Some s \<and> last_state P es (entry_key e) (fst e) \<noteq> Some s) \<or>
      {r. last_state P es (entry_key e) r \<noteq> None} \<noteq> {r. \<exists>a\<in>set artifacts. observed_rank P reader a = Inr (Some r)})"
proof -
  obtain es' where "collect_entries P L reader [] artifacts = Inr es'"
    using assms by (auto simp: verified_lifecycle_entries_def rbind_Inr_iff)
  then have "\<exists>r. observed_rank P reader a = Inr r" if "a \<in> set artifacts" for a
    using collect_entries_documents raw_document_observed that by blast
  then have rank: "observed_rank P reader a = Inr (projr (observed_rank P reader a))" if "a \<in> set artifacts" for a
    using that by fastforce
  then have "traverse (observed_rank P reader) artifacts = Inr (map (\<lambda>a. projr (observed_rank P reader a)) artifacts)"
    by (intro traverse_Inr_map)
  moreover have "set (map the (filter (\<lambda>r. r \<noteq> None) (map (\<lambda>a. projr (observed_rank P reader a)) artifacts))) =
      {r. \<exists>a\<in>set artifacts. observed_rank P reader a = Inr (Some r)}"
    using rank by (force simp: image_iff)
  ultimately show ?thesis
    using assms by (simp only: lifecycle_disagreement_from_raw_def rbind_simps states_disagree_iff)
qed

lemma constant_on_iff:
  "(\<forall>r. f r = (if p r then Some t else None)) \<longleftrightarrow>
     (\<forall>r s. f r = Some s \<longrightarrow> Some t = Some s) \<and> {r. f r \<noteq> None} = {r. p r}" (is "?A \<longleftrightarrow> ?B \<and> ?C")
proof
  assume ?A
  then show "?B \<and> ?C" by (auto split: if_splits)
next
  assume a: "?B \<and> ?C"
  show ?A
  proof
    fix r
    have "f r \<noteq> None \<longleftrightarrow> p r" using a by blast
    then show "f r = (if p r then Some t else None)" using a by (cases "f r") auto
  qed
qed

text \<open>
  C21: what the recomputed lifecycle verdict means. On raw evidence that verifies it is
  always computed, and it is ``no disagreement'' exactly when, for every collective any
  rank reported, precisely the observed ranks reported it and their last states are equal
  without regard to case.
\<close>

theorem lifecycle_verdict_iff:
  assumes "verified_lifecycle_entries P L artifacts reader = Inr es"
  shows "\<exists>b. lifecycle_disagreement_from_raw P L artifacts reader = Inr b \<and>
    (\<not> b \<longleftrightarrow> (\<forall>e\<in>set es. \<forall>r.
       last_state P es (entry_key e) r =
         (if \<exists>a\<in>set artifacts. observed_rank P reader a = Inr (Some r)
          then last_state P es (entry_key e) (fst e) else None)))"
proof -
  let ?obs = "\<lambda>r. \<exists>a\<in>set artifacts. observed_rank P reader a = Inr (Some r)"
  have "(\<forall>r. last_state P es (entry_key e) r = (if ?obs r then last_state P es (entry_key e) (fst e) else None)) \<longleftrightarrow>
     (\<forall>r s. last_state P es (entry_key e) r = Some s \<longrightarrow> last_state P es (entry_key e) (fst e) = Some s) \<and>
     {r. last_state P es (entry_key e) r \<noteq> None} = {r. ?obs r}" if e: "e \<in> set es" for e
  proof -
    obtain t where t: "last_state P es (entry_key e) (fst e) = Some t" using last_state_own [OF e, of P] by auto
    show ?thesis unfolding t by (rule constant_on_iff)
  qed
  then show ?thesis using lifecycle_disagreement_eq [OF assms] by auto
qed

section \<open>The ranks of an import\<close>

lemma read_trace_file_eq:
  "read_trace_file limit content =
     (if limit < length content then blocked ''trace file exceeds remaining size policy'' else Inr content)"
  by (simp add: read_trace_file_def read_chunks_within)

lemma store_files_payloads:
  "store_files P K c case_id b remaining files fs = (Inr stored, gs) \<Longrightarrow> map snd stored = files"
proof (induction files arbitrary: remaining fs stored)
  case (Cons f files)
  obtain relative content where f: "f = (relative, content)" by (cases f)
  from Cons.prems obtain a fs1 rest where "stored = (a, relative, content) # rest"
    "store_files P K c case_id b (remaining - length content) files fs1 = (Inr rest, gs)"
    by (auto simp: f read_trace_file_eq split: if_splits prod.splits sum.splits)
  then show ?case using Cons.IH f by auto
qed simp

lemma traverse_all: "traverse f xs = Inr ys \<Longrightarrow> (\<And>x y. f x = Inr y \<Longrightarrow> Q y) \<Longrightarrow> \<forall>y\<in>set ys. Q y"
  by (induction xs arbitrary: ys) (auto simp: rbind_Inr_iff)

lemma parse_entry_rank: "parse_entry P L rank pg raw = Inr e \<Longrightarrow> fe_rank e = rank"
  by (auto simp: parse_entry_def coerce_entry_def Let_def rbind_Inr_iff split: json.splits option.splits if_splits)

lemma parse_document_Inr:
  assumes "parse_document P L h observed payload = Inr (rank, es, unknown)"
  shows "rank \<notin> set observed" "0 \<le> rank" "th_world_size h = Some w \<Longrightarrow> rank < w" "\<forall>e\<in>set es. fe_rank e = rank"
proof -
  from assms obtain document raw where d: "require_int (jget document ''rank'') = Inr rank" "rank \<notin> set observed"
    "\<not> (case th_world_size h of None \<Rightarrow> False | Some w \<Rightarrow> w \<le> rank)"
    "traverse (parse_entry P L rank (process_group_of L document)) raw = Inr es"
    by (auto simp: parse_document_def rbind_Inr_iff split: if_splits option.splits json.splits)
  show "rank \<notin> set observed" "th_world_size h = Some w \<Longrightarrow> rank < w" using d by auto
  show "0 \<le> rank" using d(1) by (auto simp: require_int_def nonneg_int_def split: option.splits json.splits if_splits)
  show "\<forall>e\<in>set es. fe_rank e = rank"
    by (rule traverse_all [OF d(4)]) (rule parse_entry_rank)
qed

lemma parse_documents_Inr:
  assumes "parse_documents P L h payloads observed names = Inr (ranks, es, others)" "distinct observed"
  shows "\<exists>new. ranks = new @ observed \<and> distinct ranks \<and> length new = length names \<and>
    (\<forall>r\<in>set new. 0 \<le> r \<and> (\<forall>w. th_world_size h = Some w \<longrightarrow> r < w)) \<and> (\<forall>e\<in>set es. fe_rank e \<in> set new)"
  using assms
proof (induction names arbitrary: observed ranks es others)
  case (Cons name names)
  from Cons.prems(1) obtain rank es1 unknown rest us where
    p: "parse_document P L h observed (the (map_of payloads name)) = Inr (rank, es1, unknown)" and
    ps: "parse_documents P L h payloads (rank # observed) names = Inr (ranks, rest, us)" and es: "es = es1 @ rest"
    by (auto simp: rbind_Inr_iff)
  note d = parse_document_Inr [OF p]
  obtain new where new: "ranks = new @ rank # observed" "distinct ranks" "length new = length names"
    "\<forall>r\<in>set new. 0 \<le> r \<and> (\<forall>w. th_world_size h = Some w \<longrightarrow> r < w)" "\<forall>e\<in>set rest. fe_rank e \<in> set new"
    using Cons.IH [OF ps] Cons.prems(2) d(1) by auto
  show ?case using new d es by (intro exI [of _ "new @ [rank]"]) auto
qed simp

lemma controlled_header_ranks:
  assumes "controlled_header meta names = Inr h"
  obtains w rs where "th_world_size h = Some w" "th_expected_ranks h = Some rs" "sort rs = map int [0..<nat w]"
    "th_documents h = filter (\<lambda>n. n \<noteq> ''metadata.json'') names"
proof (cases "\<exists>raw. jget meta ''expectedRanks'' = Some (JList raw)")
  case True
  then obtain raw where "jget meta ''expectedRanks'' = Some (JList raw)" by blast
  with assms obtain x xa xb w rs where
    "if sort rs \<noteq> map int [0..<nat w] then False
     else \<lparr>th_format = x, th_version = xa, th_pytorch_version = xb, th_world_size = Some w, th_expected_ranks = Some rs,
       th_metadata_unknown = without_keys [''format'', ''schemaVersion'', ''pytorchVersion'', ''worldSize'',
         ''expectedRanks''] meta, th_documents = filter (\<lambda>name. name \<noteq> ''metadata.json'') names\<rparr> = h"
    by (auto simp only: controlled_header_def rbind_Inr_iff option.case json.case if_distrib [of "\<lambda>r. r = Inr h"]
        sum.inject sum.distinct cong: if_cong)
  then show ?thesis by (intro that [of w rs]) (auto split: if_splits)
next
  case False
  show ?thesis
  proof (cases "jget meta ''expectedRanks''")
    case None
    then show ?thesis using assms by (simp add: controlled_header_def rbind_Inr_iff)
  next
    case (Some v)
    then show ?thesis using assms False by (cases v) (simp_all add: controlled_header_def rbind_Inr_iff)
  qed
qed

lemma expected_ranks_of_header:
  assumes "read_header P payloads = Inr h"
  shows "length (th_documents h) = length (filter (\<lambda>p. fst p \<noteq> ''metadata.json'') payloads) \<and>
    (case th_world_size h of None \<Rightarrow> th_expected_ranks h = None
     | Some w \<Rightarrow> \<exists>rs. th_expected_ranks h = Some rs \<and> set rs = {0..<w})"
proof -
  have range: "set (map int [0..<nat w]) = {0..<w}" for w
  proof -
    have "x \<in> int ` {0..<nat w}" if "0 \<le> x" "x < w" for x
      using that by (intro image_eqI [of _ _ "nat x"]) auto
    then show ?thesis by auto
  qed
  show ?thesis
  proof (cases "map_of payloads ''metadata.json''")
    case (Some m)
    then obtain meta where "controlled_header meta (map fst payloads) = Inr h"
      using assms by (auto simp: read_header_def Let_def rbind_Inr_iff split: if_splits)
    then obtain w rs where h: "th_world_size h = Some w" "th_expected_ranks h = Some rs" "sort rs = map int [0..<nat w]"
      "th_documents h = filter (\<lambda>n. n \<noteq> ''metadata.json'') (map fst payloads)"
      by (rule controlled_header_ranks)
    have "set rs = {0..<w}" using range [of w] unfolding h(3) [symmetric] by simp
    then show ?thesis using h by (simp add: filter_map o_def)
  next
    case None
    then obtain first where "real_header first (map fst payloads) = Inr h"
      using assms by (auto simp: read_header_def Let_def rbind_Inr_iff split: if_splits)
    then have "th_expected_ranks h = map_option (\<lambda>w. map int [0..<nat w]) (th_world_size h)"
      "th_documents h = sort (map fst payloads)"
      by (auto simp: real_header_def rbind_Inr_iff)
    moreover have "filter (\<lambda>p. fst p \<noteq> ''metadata.json'') payloads = payloads"
      using None by (force simp: filter_id_conv map_of_eq_None_iff)
    ultimately show ?thesis using range by (auto split: option.splits)
  qed
qed

lemma assemble_import_ranks:
  assumes "assemble_import P L case_id stored = Inr i"
  shows "\<exists>observed. distinct observed \<and>
    length observed = length (filter (\<lambda>p. fst p \<noteq> ''metadata.json'') (map snd stored)) \<and>
    (\<forall>e\<in>set (entries i). fe_rank e \<in> set observed) \<and>
    (case fi_world_size i of None \<Rightarrow> fi_missing_ranks i = [] \<and> (\<forall>r\<in>set observed. 0 \<le> r)
     | Some w \<Rightarrow> 1 \<le> w \<and> set observed \<union> set (fi_missing_ranks i) = {0..<w} \<and>
         set observed \<inter> set (fi_missing_ranks i) = {})"
proof -
  from assms obtain h observed es others where h: "read_header P (map snd stored) = Inr h"
    and docs: "parse_documents P L h (map snd stored) [] (th_documents h) = Inr (observed, es, others)"
    and i: "entries i = es" "fi_world_size i = th_world_size h" "fi_missing_ranks i = missing_ranks_of h observed"
    "\<not> (case fi_world_size i of None \<Rightarrow> False | Some w \<Rightarrow> w < 1)"
    unfolding assemble_import_def coerce_import_def Let_def
    by (auto simp: rbind_Inr_iff split: if_splits)
  have o: "distinct observed" "length observed = length (th_documents h)"
    "\<forall>r\<in>set observed. 0 \<le> r \<and> (\<forall>w. th_world_size h = Some w \<longrightarrow> r < w)" "\<forall>e\<in>set es. fe_rank e \<in> set observed"
    using parse_documents_Inr [OF docs] by auto
  note e = expected_ranks_of_header [OF h]
  show ?thesis
  proof (intro exI [of _ observed] conjI)
    show "length observed = length (filter (\<lambda>p. fst p \<noteq> ''metadata.json'') (map snd stored))"
      using e o(2) by simp
    show "case fi_world_size i of None \<Rightarrow> fi_missing_ranks i = [] \<and> (\<forall>r\<in>set observed. 0 \<le> r)
     | Some w \<Rightarrow> 1 \<le> w \<and> set observed \<union> set (fi_missing_ranks i) = {0..<w} \<and>
         set observed \<inter> set (fi_missing_ranks i) = {}"
      using e o(3) i by (auto simp: missing_ranks_of_def sorted_set_def split: option.splits)
  qed (use o i in auto)
qed

text \<open>
  C22: the rank inventory of an import is exact. There is one observed rank for each
  document of the trace, every entry belongs to one, and when the world size is known the
  observed and the missing ranks partition the ranks below it; when it is not, no rank is
  reported missing.
\<close>

theorem import_rank_inventory:
  assumes "import_trace P L K l c (Directory children) case_id b fs = (Inr i, gs)"
  shows "\<exists>observed. distinct observed \<and>
    length observed = length (filter (\<lambda>p. fst p \<noteq> ''metadata.json'') children) \<and>
    (\<forall>e\<in>set (entries i). fe_rank e \<in> set observed) \<and>
    (case fi_world_size i of None \<Rightarrow> fi_missing_ranks i = [] \<and> (\<forall>r\<in>set observed. 0 \<le> r)
     | Some w \<Rightarrow> 1 \<le> w \<and> set observed \<union> set (fi_missing_ranks i) = {0..<w} \<and>
         set observed \<inter> set (fi_missing_ranks i) = {})"
proof -
  let ?files = "map (\<lambda>(n, e). (n, case e of Regular b \<Rightarrow> b | NotRegular \<Rightarrow> [])) (sort_key fst children)"
  from assms obtain stored where s: "store_files P K c case_id b (max_total_bytes l) ?files fs = (Inr stored, gs)"
    "assemble_import P L case_id stored = Inr i"
    by (auto simp: import_trace_def Let_def split: if_splits prod.splits sum.splits)
  have "length (filter (\<lambda>p. fst p \<noteq> ''metadata.json'') ?files) =
      length (filter (\<lambda>p. fst p \<noteq> ''metadata.json'') (sort_key fst children))"
    by (simp add: filter_map o_def case_prod_beta)
  also have "\<dots> = length (filter (\<lambda>p. fst p \<noteq> ''metadata.json'') children)"
    by (simp add: filter_sort)
  finally show ?thesis
    using assemble_import_ranks [OF s(2)] store_files_payloads [OF s(1)] by simp
qed

section \<open>Reconstruction gives the import back\<close>

text \<open>Writing a timestamp that was read gives the text it was read from.\<close>

definition iso_stable :: "platform \<Rightarrow> bool" where
  "iso_stable P \<longleftrightarrow> (\<forall>d t. parse_datetime P (isoformat_z P d) = Some t \<longrightarrow> isoformat_z P t = isoformat_z P d)"

definition binding_of :: "EvidenceArtifact \<Rightarrow> trace_binding" where
  "binding_of a = \<lparr>tb_captured_at = captured_at a, tb_workload_id = ea_workload_id a,
     tb_baseline_environment_id = ea_baseline_environment_id a, tb_candidate_environment_id = ea_candidate_environment_id a\<rparr>"

definition stripped_binding :: "platform \<Rightarrow> trace_binding \<Rightarrow> bool" where
  "stripped_binding P b \<longleftrightarrow> map_option (strip P) (tb_workload_id b) = tb_workload_id b \<and>
     map_option (strip P) (tb_baseline_environment_id b) = tb_baseline_environment_id b \<and>
     map_option (strip P) (tb_candidate_environment_id b) = tb_candidate_environment_id b"

definition stored_as :: "platform \<Rightarrow> pystr \<Rightarrow> trace_binding \<Rightarrow> pystr \<times> pybytes \<Rightarrow> EvidenceArtifact \<Rightarrow> bool" where
  "stored_as P case_id b f a \<longleftrightarrow>
     coerce_artifact P (raw_artifact P case_id (snd f) (trace_request b (fst f))) = Inr a"

lemma strip_provenance_key: "platform_ok P \<Longrightarrow> strip P ''sourceRelativePath'' = ''sourceRelativePath''"
proof -
  have "is_identifier ''sourceRelativePath''" by code_simp
  then show "platform_ok P \<Longrightarrow> ?thesis" by (rule strip_identifier [rotated])
qed

lemma stored_as_fields:
  assumes "stored_as P case_id b (n, p) a" "platform_ok P" "is_identifier case_id" "stripped_binding P b" "strip P n = n"
  shows "ea_case_id a = case_id" "binding_of a = b\<lparr>tb_captured_at := captured_at a\<rparr>"
    "parse_datetime P (isoformat_z P (tb_captured_at b)) = Some (captured_at a)"
    "map_of (provenance a) ''sourceRelativePath'' = Some n" "ea_kind a = strip P ''PYTORCH_FLIGHT_RECORDER_RAW''"
  using assms strip_identifier [OF assms(2,3)] strip_provenance_key [OF assms(2)]
  unfolding stored_as_def coerce_artifact_def validate_artifact_def raise_first_Inr_iff
  by (auto simp: raw_artifact_def trace_request_def Let_def stripped_binding_def binding_of_def strip_dict_def
      raise_first_Inr_iff split: option.splits if_splits)

lemma stored_as_again:
  assumes "stored_as P case_id b (n, p) a" "platform_ok P" "is_identifier case_id" "stripped_binding P b" "strip P n = n"
    "iso_stable P"
  shows "stored_as P case_id (b\<lparr>tb_captured_at := captured_at a\<rparr>) (n, p) a"
proof -
  note t = stored_as_fields(3) [OF assms(1-5)]
  then have iso: "isoformat_z P (captured_at a) = isoformat_z P (tb_captured_at b)"
    using assms(6) unfolding iso_stable_def by blast
  have "raw_artifact P case_id p (trace_request (b\<lparr>tb_captured_at := captured_at a\<rparr>) n) =
      (raw_artifact P case_id p (trace_request b n))\<lparr>captured_at := captured_at a\<rparr>"
    by (simp add: raw_artifact_def trace_request_def Let_def iso artifact_material_def)
  then show ?thesis
    using assms(1) t iso by (simp add: stored_as_def coerce_artifact_def raw_artifact_def trace_request_def Let_def)
qed

lemma grows_elsewhere:
  "grows_at (i, h) fs gs \<Longrightarrow> h' \<noteq> h \<Longrightarrow>
   object_at gs (i, h') = object_at fs (i, h') \<and> metadata_at gs (i, h') = metadata_at fs (i, h')"
  by (simp add: grows_at_def)

lemma put_bytes_fresh:
  assumes "length p \<le> max_artifact_bytes c" "is_identifier case_id" "case_count fs case_id < max_case_artifacts c"
    "object_at fs (case_id, hexdigest P p) = None" "metadata_at fs (case_id, hexdigest P p) = None"
    "coerce_artifact P (raw_artifact P case_id p q) = Inr a"
  shows "\<exists>gs. put_bytes P K c case_id p q fs = (Inr a, gs) \<and> grows_at (case_id, hexdigest P p) fs gs \<and>
    case_count gs case_id \<le> Suc (case_count fs case_id)"
proof -
  let ?k = "(case_id, hexdigest P p)"
  define gs where "gs = fs\<lparr>objects := AList.update ?k p (objects fs), metadata := AList.update ?k (render_artifact K a) (metadata fs)\<rparr>"
  have run: "put_bytes P K c case_id p q fs = (Inr a, gs)"
    using assms by (simp add: put_bytes_def safe_identifier_def raise_first_def Let_def store_object_def store_metadata_def gs_def)
  have "{hex. metadata_at gs (case_id, hex) \<noteq> None} = insert (hexdigest P p) {hex. metadata_at fs (case_id, hex) \<noteq> None}"
    by (auto simp: gs_def update_conv')
  then have "case_count gs case_id \<le> Suc (case_count fs case_id)"
    using card_insert_if [OF finite_documents, of "hexdigest P p" fs case_id] unfolding case_count_card by auto
  with run put_bytes_grows [OF run] show ?thesis by blast
qed

lemma store_files_fresh:
  assumes "list_all2 (stored_as P case_id b) files as" "is_identifier case_id"
    "distinct (map (hexdigest P \<circ> snd) files)" "\<forall>f\<in>set files. length (snd f) \<le> max_artifact_bytes c"
    "sum_list (map (length \<circ> snd) files) \<le> remaining" "case_count fs case_id + length files \<le> max_case_artifacts c"
    "\<forall>f\<in>set files. object_at fs (case_id, hexdigest P (snd f)) = None \<and> metadata_at fs (case_id, hexdigest P (snd f)) = None"
  shows "\<exists>gs. store_files P K c case_id b remaining files fs = (Inr (zip as files), gs)"
  using assms
proof (induction arbitrary: remaining fs rule: list_all2_induct)
  case (Cons f files a as)
  obtain n p where f: "f = (n, p)" by (cases f)
  obtain fs1 where put: "put_bytes P K c case_id p (trace_request b n) fs = (Inr a, fs1)"
    and grow: "grows_at (case_id, hexdigest P p) fs fs1" and count: "case_count fs1 case_id \<le> Suc (case_count fs case_id)"
    using put_bytes_fresh [of p c case_id fs P "trace_request b n" a K] Cons.prems Cons.hyps(1) by (auto simp: f stored_as_def)
  have "object_at fs1 (case_id, hexdigest P (snd g)) = None \<and> metadata_at fs1 (case_id, hexdigest P (snd g)) = None"
    if "g \<in> set files" for g
  proof -
    have "hexdigest P (snd g) \<noteq> hexdigest P p" using Cons.prems(2) that by (force simp: f)
    from grows_elsewhere [OF grow this] show ?thesis using Cons.prems(6) that by simp
  qed
  moreover have "sum_list (map (length \<circ> snd) files) \<le> remaining - length p" using Cons.prems(4) by (simp add: f o_def)
  ultimately obtain gs where "store_files P K c case_id b (remaining - length p) files fs1 = (Inr (zip as files), gs)"
    using Cons.IH [of "remaining - length p" fs1] Cons.prems count by (auto simp: f o_def)
  then show ?case using put Cons.prems(4) by (auto simp: f read_trace_file_eq)
qed simp

lemma store_files_readable:
  assumes "store_files P K c case_id b remaining files fs = (Inr stored, gs)" "platform_ok P" "codec_ok K"
    "distinct (map (hexdigest P \<circ> snd) files)"
    "\<forall>f\<in>set files. object_at fs (case_id, hexdigest P (snd f)) \<in> {None, Some (snd f)}"
    "\<forall>x\<in>set stored. doc_size K (render_artifact K (fst x)) \<le> max_artifact_bytes c"
  shows "list_all2 (stored_as P case_id b) files (map fst stored) \<and>
    (\<forall>x\<in>set stored. is_identifier case_id \<and> get_bytes P K c case_id (fst x) gs = Inr (snd (snd x))) \<and>
    (\<forall>k h. get_bytes P K c case_id k fs = Inr h \<longrightarrow> get_bytes P K c case_id k gs = Inr h)"
  using assms
proof (induction files arbitrary: remaining fs stored)
  case (Cons f files)
  obtain n p where f: "f = (n, p)" by (cases f)
  from Cons.prems(1) obtain a fs1 rest where put: "put_bytes P K c case_id p (trace_request b n) fs = (Inr a, fs1)"
    and rest: "store_files P K c case_id b (remaining - length p) files fs1 = (Inr rest, gs)"
    and stored: "stored = (a, n, p) # rest"
    by (auto simp: f read_trace_file_eq split: if_splits prod.splits sum.splits)
  note grow = put_bytes_grows [OF put]
  have "object_at fs1 (case_id, hexdigest P (snd g)) \<in> {None, Some (snd g)}" if "g \<in> set files" for g
  proof -
    have "hexdigest P (snd g) \<noteq> hexdigest P p" using Cons.prems(4) that by (force simp: f)
    from grows_elsewhere [OF grow this] show ?thesis using Cons.prems(5) that by simp
  qed
  then have ih: "list_all2 (stored_as P case_id b) files (map fst rest)"
    "\<forall>x\<in>set rest. is_identifier case_id \<and> get_bytes P K c case_id (fst x) gs = Inr (snd (snd x))"
    "\<forall>k h. get_bytes P K c case_id k fs1 = Inr h \<longrightarrow> get_bytes P K c case_id k gs = Inr h"
    using Cons.IH [OF rest Cons.prems(2,3)] Cons.prems(4-6) by (auto simp: stored)
  have id: "is_identifier case_id" and sa: "stored_as P case_id b f a"
    using put by (auto simp: stored_as_def f elim: put_bytesE)
  have "get_bytes P K c case_id a fs1 = Inr p"
    using put_get_roundtrip_lemma [OF Cons.prems(2,3) put] Cons.prems(5,6) by (auto simp: stored f)
  then show ?case using ih id sa grows_keeps_get_bytes [OF grow] by (auto simp: stored)
qed simp

text \<open>A name the operating system can have given to a file, without white space around it.\<close>

definition file_name_ok :: "platform \<Rightarrow> pystr \<Rightarrow> bool" where
  "file_name_ok P n \<longleftrightarrow> n \<noteq> [] \<and> n \<notin> {''.'', ''..''} \<and> CHR ''/'' \<notin> set n \<and> CHR 0x00 \<notin> set n \<and> length n \<le> 255 \<and> strip P n = n"

lemma materialize_files:
  assumes "list_all2 (\<lambda>f a. map_of (provenance a) ''sourceRelativePath'' = Some (fst f) \<and> reader a = Inr (snd f)) files as"
    "\<forall>f\<in>set files. file_name_ok P (fst f)" "distinct (map fst done @ map fst files)"
  shows "materialize reader done as = Inr (done @ map (\<lambda>(n, p). (n, Regular p)) files)"
  using assms
proof (induction arbitrary: "done" rule: list_all2_induct)
  case (Cons f files a as)
  obtain n p where f: "f = (n, p)" by (cases f)
  have "materialize reader (done @ [(n, Regular p)]) as =
      Inr ((done @ [(n, Regular p)]) @ map (\<lambda>(n, p). (n, Regular p)) files)"
    using Cons.IH [of "done @ [(n, Regular p)]"] Cons.prems by (auto simp: f)
  moreover have "file_name_ok P n" "n \<notin> fst ` set done" using Cons.prems by (auto simp: f)
  ultimately show ?case using Cons.hyps(1) by (auto simp: f file_name_ok_def)
qed simp

lemma stored_alike:
  assumes "stored_as P case_id b f a" "stored_as P case_id b g a0" "strip P (fst f) = fst f" "strip P (fst g) = fst g"
    and P: "platform_ok P" "is_identifier case_id" "stripped_binding P b" "iso_stable P"
  shows "ea_case_id a = case_id" "binding_of a = b\<lparr>tb_captured_at := captured_at a0\<rparr>"
    "artifact_binding a = artifact_binding a0" "map_of (provenance a) ''sourceRelativePath'' = Some (fst f)"
    "stored_as P case_id (b\<lparr>tb_captured_at := captured_at a0\<rparr>) f a"
proof -
  have f: "stored_as P case_id b (fst f, snd f) a" and g: "stored_as P case_id b (fst g, snd g) a0"
    using assms(1,2) by simp_all
  note fa = stored_as_fields [OF f P(1-3) assms(3)] and ga = stored_as_fields [OF g P(1-3) assms(4)]
  have t: "captured_at a = captured_at a0" using fa(3) ga(3) by simp
  show "ea_case_id a = case_id" "map_of (provenance a) ''sourceRelativePath'' = Some (fst f)"
    "binding_of a = b\<lparr>tb_captured_at := captured_at a0\<rparr>" using fa t by simp_all
  have "binding_of a = binding_of a0" using fa(2) ga(2) t by simp
  then show "artifact_binding a = artifact_binding a0"
    using fa(1) ga(1) t by (simp add: artifact_binding_def binding_of_def)
  show "stored_as P case_id (b\<lparr>tb_captured_at := captured_at a0\<rparr>) f a"
    using stored_as_again [OF f P(1-3) assms(3) P(4)] t by simp
qed

text \<open>The conditions under which a stored trace can be rebuilt within the default limits.\<close>

definition rebuildable ::
  "platform \<Rightarrow> 'doc artifact_codec \<Rightarrow> store_config \<Rightarrow> 'doc store_fs \<Rightarrow> pystr \<Rightarrow> trace_binding \<Rightarrow> (pystr \<times> pybytes) list \<Rightarrow>
   FlightRecorderImport \<Rightarrow> bool" where
  "rebuildable P K c fs case_id b files i \<longleftrightarrow>
     platform_ok P \<and> codec_ok K \<and> iso_stable P \<and> stripped_binding P b \<and>
     list_all (\<lambda>f. file_name_ok P (fst f)) files \<and> distinct (map fst files) \<and>
     distinct (map (hexdigest P \<circ> snd) files) \<and>
     list_all (\<lambda>f. object_at fs (case_id, hexdigest P (snd f)) \<in> {None, Some (snd f)}) files \<and>
     length files \<le> 256 \<and> list_all (\<lambda>f. length (snd f) \<le> 16777216) files \<and>
     sum_list (map (length \<circ> snd) files) \<le> 67108864 \<and>
     list_all (\<lambda>a. doc_size K (render_artifact K a) \<le> max_artifact_bytes c) (fi_artifacts i)"

lemma import_trace_files:
  assumes "distinct (map fst files)" "length files \<le> max_files l"
  shows "import_trace P L K l c (Directory (map (\<lambda>(n, p). (n, Regular p)) files)) case_id b fs =
    (case store_files P K c case_id b (max_total_bytes l) (sort_key fst files) fs of
       (Inl e, fs1) \<Rightarrow> (Inl e, fs1)
     | (Inr stored, fs1) \<Rightarrow> (if files = [] then malformed ''trace directory is empty''
         else assemble_import P L case_id stored, fs1))"
proof -
  let ?reg = "map (\<lambda>(n, p). (n, Regular p))"
  have sorted: "sort_key fst (?reg fs) = ?reg (sort_key fst fs)" for fs :: "(pystr \<times> pybytes) list"
  proof -
    have ins: "insort_key fst (case x of (n, p) \<Rightarrow> (n, Regular p)) (?reg ys) = ?reg (insort_key fst x ys)" for x ys
      by (induction ys) (auto split: prod.splits)
    show ?thesis by (induction fs) (simp_all add: ins)
  qed
  have contents: "map (\<lambda>(n, e). (n, case e of Regular b \<Rightarrow> b | NotRegular \<Rightarrow> [])) (?reg gs) = gs" for gs
    by (induction gs) auto
  have regular: "list_ex (\<lambda>p. snd p = NotRegular) (?reg gs) = False" for gs
    by (induction gs) auto
  have "sort_key fst files = [] \<longleftrightarrow> files = []" by (metis length_0_conv length_sort)
  then show ?thesis
    unfolding import_trace_def trace_path.case Let_def sorted contents regular if_False
    using assms(2) by (auto split: prod.splits sum.splits)
qed

text \<open>
  C20: an import can be rebuilt from the evidence it stored. Whenever importing a trace
  succeeds, reading back its artifacts and importing them again into an empty store gives
  the very same record: the same artifacts, entries, findings, warnings and digests. The
  trace has to fit the default limits, its files have names without surrounding white space
  and pairwise different digests, and no object with one of the digests but other bytes was
  in the store before.
\<close>

theorem import_reimport_roundtrip:
  assumes run: "import_trace P L K l c (Directory (map (\<lambda>(n, p). (n, Regular p)) files)) case_id b fs = (Inr i, gs)"
    and ok: "rebuildable P K c fs case_id b files i" and size: "length files \<le> max_files l"
  shows "reimport_from_raw_artifacts P L K (fi_artifacts i) (\<lambda>a. get_bytes P K c case_id a gs) [] = Inr i"
proof -
  let ?fl = "sort_key fst files" and ?reader = "\<lambda>a. get_bytes P K c case_id a gs"
  note d = ok [unfolded rebuildable_def list_all_iff]
  obtain stored where st: "store_files P K c case_id b (max_total_bytes l) ?fl fs = (Inr stored, gs)"
    and asm: "assemble_import P L case_id stored = Inr i" and ne: "files \<noteq> []"
    using run size d by (auto simp: import_trace_files split: prod.splits sum.splits if_splits)
  have arts: "fi_artifacts i = map fst stored" "fi_binding_artifacts i = []"
    using asm by (auto simp: assemble_import_def coerce_import_def Let_def rbind_Inr_iff split: if_splits)
  have dist: "distinct (map (hexdigest P \<circ> snd) ?fl)" "distinct (map fst ?fl)"
    using d by (simp_all add: distinct_map)
  have rd: "list_all2 (stored_as P case_id b) ?fl (map fst stored)"
    "\<forall>x\<in>set stored. is_identifier case_id \<and> ?reader (fst x) = Inr (snd (snd x))"
    using store_files_readable [OF st _ _ dist(1)] d arts(1) by auto
  have fl: "map snd stored = ?fl" by (rule store_files_payloads [OF st])
  have sa: "stored_as P case_id b (snd x) (fst x)" if "x \<in> set stored" for x
    using rd(1) that unfolding fl [symmetric] by (simp add: list_all2_map1 list_all2_map2 list_all2_same)
  have name: "file_name_ok P (fst (snd x))" if "x \<in> set stored" for x
    using d that arg_cong [OF fl, of set] by auto
  obtain a0 n0 p0 tail where s0: "stored = (a0, n0, p0) # tail"
    using ne arg_cong [OF fl, of length] by (cases stored) auto
  have nonempty: "?fl \<noteq> []" using fl s0 by auto
  have id: "is_identifier case_id" using rd(2) s0 by auto
  have fields: "ea_case_id (fst x) = case_id" "binding_of (fst x) = b\<lparr>tb_captured_at := captured_at a0\<rparr>"
      "artifact_binding (fst x) = artifact_binding a0" "map_of (provenance (fst x)) ''sourceRelativePath'' = Some (fst (snd x))"
      "stored_as P case_id (b\<lparr>tb_captured_at := captured_at a0\<rparr>) (snd x) (fst x)" if x: "x \<in> set stored" for x
    using stored_alike [of P case_id b "snd x" "fst x" "(n0, p0)" a0] sa [OF x] name [OF x]
      sa [of "(a0, n0, p0)"] name [of "(a0, n0, p0)"] s0 id d by (auto simp: file_name_ok_def)
  have mat: "materialize ?reader [] (map fst stored) = Inr (map (\<lambda>(n, p). (n, Regular p)) ?fl)"
    using materialize_files [of ?reader ?fl "map fst stored" P "[]"] fields(4) rd(2) d dist(2)
    unfolding fl [symmetric] by (simp add: list_all2_map1 list_all2_map2 list_all2_same name)
  have limits: "max_artifact_bytes default_store_config = 16777216" "max_case_artifacts default_store_config = 256"
    "max_files default_import_limits = 1024" "max_total_bytes default_import_limits = 67108864"
    by (simp_all add: default_store_config_def default_import_limits_def)
  have "list_all2 (stored_as P case_id (b\<lparr>tb_captured_at := captured_at a0\<rparr>)) ?fl (map fst stored)"
    using fields(5) unfolding fl [symmetric] by (simp add: list_all2_map1 list_all2_map2 list_all2_same)
  moreover have "sum_list (map (length \<circ> snd) ?fl) \<le> 67108864"
    using d by (simp add: sum_mset_sum_list [symmetric] del: sum_mset_sum_list)
  ultimately obtain hs where again: "store_files P K default_store_config case_id (b\<lparr>tb_captured_at := captured_at a0\<rparr>) 67108864
      ?fl \<lparr>objects = [], metadata = []\<rparr> = (Inr stored, hs)"
    using store_files_fresh [of P case_id "b\<lparr>tb_captured_at := captured_at a0\<rparr>" ?fl "map fst stored" default_store_config
        67108864 "\<lparr>objects = [], metadata = []\<rparr>" K] id dist(1) d zip_map_fst_snd [of stored]
    by (auto simp: limits fl case_count_def case_documents_def)
  have same: "\<not> list_ex (\<lambda>a. artifact_binding a \<noteq> artifact_binding a0) (map fst stored)"
    using fields(3) by (auto simp: list_ex_iff)
  have case0: "ea_case_id a0 = case_id" "binding_of a0 = b\<lparr>tb_captured_at := captured_at a0\<rparr>"
    using fields(1,2) [of "(a0, n0, p0)"] s0 by simp_all
  have "import_trace P L K default_import_limits default_store_config (Directory (map (\<lambda>(n, p). (n, Regular p)) ?fl))
      case_id (binding_of a0) \<lparr>objects = [], metadata = []\<rparr> = (Inr i, hs)"
    using again asm d nonempty
    by (simp add: import_trace_files dist(2) limits case0(2) sort_key_id_if_sorted)
  then show ?thesis
    using same mat arts by (simp add: reimport_from_raw_artifacts_def s0 case0(1) binding_of_def [symmetric])
qed

section \<open>A sample trace\<close>

definition sample_document :: json where
  "sample_document = JObj [(''version'', JStr ''2.5''), (''pytorch_version'', JStr ''2.5.1''), (''world_size'', JInt 2),
     (''rank'', JInt 0), (''entries'', JList [JObj [(''collective_seq_id'', JInt 3), (''profiling_name'', JStr ''all_reduce''),
       (''state'', JStr ''completed'')]])]"

definition trace_platform :: platform where
  "trace_platform = store_platform\<lparr>loads := (\<lambda>_. Some sample_document), isoformat_z := (\<lambda>_. ''t''), dump_datetime := (\<lambda>_. ''t'')\<rparr>"

definition sample_cpython :: cpython where
  "sample_cpython = \<lparr>container_repr = (\<lambda>_. ''{}''), dumps_sorted = (\<lambda>_. ''{}'')\<rparr>"

definition sample_binding :: trace_binding where
  "sample_binding = \<lparr>tb_captured_at = Datetime 0 (Some 0), tb_workload_id = None, tb_baseline_environment_id = None,
     tb_candidate_environment_id = None\<rparr>"

definition trace_artifact :: EvidenceArtifact where
  "trace_artifact = raw_artifact trace_platform ''case-1'' ''data'' (trace_request sample_binding ''r0.json'')"

definition sample_header :: trace_header where
  "sample_header = \<lparr>th_format = REAL_FORMAT, th_version = ''2.5'', th_pytorch_version = ''2.5.1'', th_world_size = Some 2,
     th_expected_ranks = Some [0, 1], th_metadata_unknown = [], th_documents = [''r0.json'']\<rparr>"

definition sample_entry :: FlightRecorderEntry where
  "sample_entry = \<lparr>fe_rank = 0, fe_process_group = ''UNKNOWN'', sequence_id = 3, collective_type = ''all_reduce'',
     fe_state = ''completed'', tensor_metadata = None, call_stack = [], unknown_fields = []\<rparr>"

definition sample_finding :: NativeFinding where
  "sample_finding = projr (trace_finding trace_platform sample_header [1] 1 1 [zero_digest])"

definition sample_import :: FlightRecorderImport where
  "sample_import = \<lparr>fi_case_id = ''case-1'', fi_source_format = REAL_FORMAT, fi_source_format_version = ''2.5'',
     pytorch_version = ''2.5.1'', fi_world_size = Some 2, fi_artifacts = [trace_artifact], fi_binding_artifacts = [],
     entries = [sample_entry], fi_native_findings = [sample_finding], warnings = trace_warnings sample_header [1],
     fi_missing_ranks = [1], raw_digests = [(''r0.json'', zero_digest)], metadata_unknown_fields = [],
     document_unknown_fields = [(''r0.json'', [])]\<rparr>"

definition traced_store :: "EvidenceArtifact store_fs" where
  "traced_store = \<lparr>objects = [((''case-1'', replicate 64 CHR ''0''), ''data'')],
     metadata = [((''case-1'', replicate 64 CHR ''0''), trace_artifact)]\<rparr>"

lemma trace_hexdigest [simp]: "hexdigest trace_platform b = replicate 64 CHR ''0''"
  by (simp add: trace_platform_def store_platform_def sample_platform_def)

lemma trace_artifact_coerced: "coerce_artifact trace_platform trace_artifact = Inr trace_artifact"
  by code_simp

lemma trace_digest_json [simp]: "digest_json trace_platform j = zero_digest"
  by (simp add: digest_json_def sha256_digest_def zero_digest_def)

lemma trace_strip [simp]: "strip trace_platform s = s"
  by (simp add: trace_platform_def store_platform_def sample_platform_def)

lemma sample_header_read: "read_header trace_platform [(''r0.json'', ''data'')] = Inr sample_header"
  by code_simp

lemma sample_parsed:
  "parse_documents trace_platform sample_cpython sample_header [(''r0.json'', ''data'')] [] [''r0.json''] =
     Inr ([0], [sample_entry], [(''r0.json'', [])])"
  by code_simp

lemma sample_finding_ok:
  "trace_finding trace_platform sample_header [1] 1 1 [zero_digest] = Inr sample_finding"
proof -
  have "is_ok (trace_finding trace_platform sample_header [1] 1 1 [zero_digest])"
    unfolding trace_finding_def Let_def validate_finding_def
    by (simp add: finding_fields_ok_def trace_limitations_def sample_header_def raise_first_def)
  then show ?thesis by (auto simp: sample_finding_def is_ok_iff)
qed

lemma sample_header_simps [simp]:
  "th_documents sample_header = [''r0.json'']" "th_format sample_header = REAL_FORMAT" "th_version sample_header = ''2.5''"
  "th_pytorch_version sample_header = ''2.5.1''" "th_world_size sample_header = Some 2" "th_metadata_unknown sample_header = []"
  by (simp_all add: sample_header_def)

lemma sample_import_ok:
  "assemble_import trace_platform sample_cpython ''case-1'' [(trace_artifact, ''r0.json'', ''data'')] = Inr sample_import"
proof -
  have "content_digest trace_artifact = zero_digest" "missing_ranks_of sample_header [0] = [1]" by code_simp+
  then show ?thesis
    using sample_finding_ok sample_header_read sample_parsed
    by (simp add: assemble_import_def Let_def sample_import_def coerce_import_def strip_dict_def strip_keys_def
        map_idI del: parse_documents.simps)
qed

lemma sample_import_run:
  "import_trace trace_platform sample_cpython (sample_codec 8) default_import_limits sample_store_config
     (Directory [(''r0.json'', Regular ''data'')]) ''case-1'' sample_binding empty_store = (Inr sample_import, traced_store)"
proof -
  have "safe_identifier ''case-1'' = Inr ''case-1''" by code_simp
  then have "put_bytes trace_platform (sample_codec 8) sample_store_config ''case-1'' ''data''
      (trace_request sample_binding ''r0.json'') empty_store = (Inr trace_artifact, traced_store)"
    using trace_artifact_coerced
    by (simp add: put_bytes_def Let_def sample_store_config_def case_count_def case_documents_def
        store_object_def store_metadata_def empty_store_def traced_store_def trace_artifact_def sample_codec_def)
  then show ?thesis
    using sample_import_ok by (simp add: import_trace_def Let_def default_import_limits_def read_trace_file_eq)
qed

theorem import_rank_inventory_witness:
  "\<exists>observed. distinct observed \<and> length observed = 1 \<and> set observed \<union> {1} = {0..<2::int}"
  using import_rank_inventory [OF sample_import_run] by (auto simp: sample_import_def)

theorem import_reimport_roundtrip_witness:
  "reimport_from_raw_artifacts trace_platform sample_cpython (sample_codec 8) [trace_artifact]
     (\<lambda>a. get_bytes trace_platform (sample_codec 8) sample_store_config ''case-1'' a traced_store) [] = Inr sample_import"
proof -
  have "platform_ok trace_platform" "iso_stable trace_platform"
    by (simp_all add: platform_ok_def iso_stable_def trace_platform_def store_platform_def sample_platform_def
        list_all_iff is_hex_def is_digit_def)
  then have "rebuildable trace_platform (sample_codec 8) sample_store_config empty_store ''case-1'' sample_binding
      [(''r0.json'', ''data'')] sample_import"
    by (simp add: rebuildable_def sample_codec_ok stripped_binding_def sample_binding_def file_name_ok_def empty_store_def
        sample_import_def sample_codec_def codec_ok_def sample_store_config_def)
  moreover have "length [(''r0.json'', ''data'')] \<le> max_files default_import_limits"
    by (simp add: default_import_limits_def)
  moreover have "import_trace trace_platform sample_cpython (sample_codec 8) default_import_limits sample_store_config
      (Directory (map (\<lambda>(n, p). (n, Regular p)) [(''r0.json'', ''data'')])) ''case-1'' sample_binding empty_store =
      (Inr sample_import, traced_store)"
    using sample_import_run by simp
  ultimately have "reimport_from_raw_artifacts trace_platform sample_cpython (sample_codec 8) (fi_artifacts sample_import)
      (\<lambda>a. get_bytes trace_platform (sample_codec 8) sample_store_config ''case-1'' a traced_store) [] = Inr sample_import"
    by (intro import_reimport_roundtrip)
  moreover have "fi_artifacts sample_import = [trace_artifact]" by (simp add: sample_import_def)
  ultimately show ?thesis by simp
qed

theorem lifecycle_verdict_iff_witness:
  "\<exists>b. lifecycle_disagreement_from_raw trace_platform sample_cpython [trace_artifact] (\<lambda>_. Inr ''data'') = Inr b"
proof -
  have "verified_lifecycle_entries trace_platform sample_cpython [trace_artifact] (\<lambda>_. Inr ''data'') =
      Inr [(0, ''UNKNOWN'', 3, ''all_reduce'', ''completed'')]"
    by code_simp
  from lifecycle_verdict_iff [OF this] show ?thesis by blast
qed

end
