(* ===== verification/Native_Baseline.thy ===== *)
theory Native_Baseline
  imports Redaction Flight_Recorder
begin

text \<open>
  The native baseline and the evidence completeness of a case
  (\<^verbatim>\<open>traincapsule_qualify/models.py\<close> and the generating half of
  \<^verbatim>\<open>traincapsule_qualify/qualify.py\<close>): the record of what the native tool found, its
  validator, its generation from an import, the redaction of findings, and the report of
  which required evidence is present.
\<close>

section \<open>The baseline record\<close>

definition NATIVE_SUFFICIENT_DECISION :: pystr where
  "NATIVE_SUFFICIENT_DECISION =
     ''Native evidence is sufficient to block the candidate: collective lifecycle states disagree.''"

definition NATIVE_DECISION_POLICY :: pystr where
  "NATIVE_DECISION_POLICY = ''traincapsule-native-sufficiency-v1''"

definition NATIVE_BASELINE_POLICY :: pystr where
  "NATIVE_BASELINE_POLICY = ''traincapsule-native-baseline-v1''"

record NativeBaseline =
  nb_case_id :: pystr
  nb_workload_id :: pystr
  nb_baseline_environment_id :: pystr
  nb_candidate_environment_id :: pystr
  tool_name :: pystr
  tool_version :: pystr
  nb_source_format :: pystr
  nb_source_format_version :: pystr
  import_digest :: pystr
  nb_command :: "pystr list"
  configuration :: "(pystr \<times> json) list"
  nb_artifacts :: "EvidenceArtifact list"
  nb_binding_artifacts :: "EvidenceArtifact list"
  nb_findings :: "NativeFinding list"
  nb_limitations :: "pystr list"
  import_warnings :: "pystr list"
  nb_missing_ranks :: "int list"
  elapsed_seconds :: int
  operator_effort_seconds :: int
  decision_reached :: "pystr option"
  decision_evidence_refs :: "pystr list"
  decision_provenance_digest :: "pystr option"
  unresolved_questions :: "pystr list"
  executed_at :: datetime

definition identity_binding :: "EvidenceArtifact \<Rightarrow> pystr option \<times> pystr option \<times> pystr option" where
  "identity_binding a = (ea_workload_id a, ea_baseline_environment_id a, ea_candidate_environment_id a)"

definition decision_digest :: "platform \<Rightarrow> pystr \<Rightarrow> pystr \<Rightarrow> pystr list \<Rightarrow> pystr" where
  "decision_digest P case_id decision refs = digest_json P (JObj
     [(''caseId'', JStr case_id), (''decision'', JStr decision), (''evidenceRefs'', JList (map JStr refs)),
      (''policyVersion'', JStr NATIVE_DECISION_POLICY)])"

definition baseline_fields_ok :: "NativeBaseline \<Rightarrow> bool" where
  "baseline_fields_ok b \<longleftrightarrow>
     is_identifier (nb_case_id b) \<and> is_digest (nb_workload_id b) \<and> is_digest (nb_baseline_environment_id b) \<and>
     is_digest (nb_candidate_environment_id b) \<and> tool_name b \<noteq> [] \<and> tool_version b \<noteq> [] \<and> nb_source_format b \<noteq> [] \<and>
     nb_source_format_version b \<noteq> [] \<and> is_digest (import_digest b) \<and> nb_command b \<noteq> [] \<and> nb_artifacts b \<noteq> [] \<and>
     2 \<le> length (nb_binding_artifacts b) \<and> nb_findings b \<noteq> [] \<and> nb_limitations b \<noteq> [] \<and> 0 \<le> elapsed_seconds b \<and>
     0 \<le> operator_effort_seconds b \<and> list_all is_digest (decision_evidence_refs b) \<and>
     pred_option is_digest (decision_provenance_digest b)"

fun finding_checks :: "pystr list \<Rightarrow> NativeFinding list \<Rightarrow> (bool \<times> string) list" where
  "finding_checks ids [] = []"
| "finding_checks ids (f # fs) =
     (attribution f \<noteq> NATIVE_TOOL_FOUND, ''native baseline findings must be attributed NATIVE_TOOL_FOUND'') #
     (\<not> set (nf_evidence_refs f) \<subseteq> set ids, ''native finding references an artifact outside its baseline'') #
     finding_checks ids fs"

definition decision_checks :: "platform \<Rightarrow> NativeBaseline \<Rightarrow> (bool \<times> string) list" where
  "decision_checks P b = (case decision_reached b of
     None \<Rightarrow>
       [(unresolved_questions b = [], ''unresolved native baseline requires unresolvedQuestions''),
        (decision_evidence_refs b \<noteq> [] \<or> decision_provenance_digest b \<noteq> None,
         ''unreached native decision cannot carry decision provenance'')]
   | Some d \<Rightarrow>
       [(d \<noteq> NATIVE_SUFFICIENT_DECISION, ''native decision must be generated by the supported policy''),
        (decision_evidence_refs b = [] \<or> \<not> set (decision_evidence_refs b) \<subseteq> set (map artifact_id (nb_artifacts b)),
         ''native decision requires bound baseline evidence''),
        (decision_provenance_digest b \<noteq> Some (decision_digest P (nb_case_id b) d (sort (decision_evidence_refs b))),
         ''native decision provenance digest does not match'')])"

definition native_attribution_and_case_binding :: "platform \<Rightarrow> NativeBaseline \<Rightarrow> NativeBaseline result" where
  "native_attribution_and_case_binding P b =
     (let expected = (Some (nb_workload_id b), Some (nb_baseline_environment_id b), Some (nb_candidate_environment_id b))
      in raise_first
        ([(list_ex (\<lambda>a. ea_case_id a \<noteq> nb_case_id b) (nb_artifacts b), ''native baseline contains cross-case artifacts''),
          (list_ex (\<lambda>a. identity_binding a \<noteq> expected) (nb_artifacts b), ''native baseline artifacts are not identity-bound''),
          (list_ex (\<lambda>a. ea_case_id a \<noteq> nb_case_id b \<or> identity_binding a \<noteq> expected) (nb_binding_artifacts b),
           ''native binding artifacts are not identity-bound'')] @
         finding_checks (map artifact_id (nb_artifacts b)) (nb_findings b) @ decision_checks P b) b)"

definition validate_baseline :: "platform \<Rightarrow> NativeBaseline \<Rightarrow> NativeBaseline result" where
  "validate_baseline P b =
     (if \<not> baseline_fields_ok b then Inl (ValidationError ''NativeBaseline'')
      else native_attribution_and_case_binding P b)"

text \<open>The constructor: pydantic strips the strings first.\<close>

definition coerce_baseline :: "platform \<Rightarrow> NativeBaseline \<Rightarrow> NativeBaseline result" where
  "coerce_baseline P b = validate_baseline P (b\<lparr>nb_case_id := strip P (nb_case_id b),
     nb_workload_id := strip P (nb_workload_id b), nb_baseline_environment_id := strip P (nb_baseline_environment_id b),
     nb_candidate_environment_id := strip P (nb_candidate_environment_id b), tool_name := strip P (tool_name b),
     tool_version := strip P (tool_version b), nb_source_format := strip P (nb_source_format b),
     nb_source_format_version := strip P (nb_source_format_version b), import_digest := strip P (import_digest b),
     nb_command := map (strip P) (nb_command b), configuration := strip_keys P (configuration b),
     nb_limitations := map (strip P) (nb_limitations b), import_warnings := map (strip P) (import_warnings b),
     decision_reached := map_option (strip P) (decision_reached b),
     decision_evidence_refs := map (strip P) (decision_evidence_refs b),
     decision_provenance_digest := map_option (strip P) (decision_provenance_digest b),
     unresolved_questions := map (strip P) (unresolved_questions b)\<rparr>)"

definition dump_baseline :: "platform \<Rightarrow> NativeBaseline \<Rightarrow> json" where
  "dump_baseline P b = JObj
     [(''schemaVersion'', JInt 1), (''caseId'', JStr (nb_case_id b)), (''workloadId'', JStr (nb_workload_id b)),
      (''baselineEnvironmentId'', JStr (nb_baseline_environment_id b)),
      (''candidateEnvironmentId'', JStr (nb_candidate_environment_id b)),
      (''generationPolicyVersion'', JStr NATIVE_BASELINE_POLICY), (''toolName'', JStr (tool_name b)),
      (''toolVersion'', JStr (tool_version b)), (''sourceFormat'', JStr (nb_source_format b)),
      (''sourceFormatVersion'', JStr (nb_source_format_version b)), (''importDigest'', JStr (import_digest b)),
      (''command'', JList (map JStr (nb_command b))), (''configuration'', JObj (configuration b)),
      (''artifacts'', JList (map (dump_artifact P) (nb_artifacts b))),
      (''bindingArtifacts'', JList (map (dump_artifact P) (nb_binding_artifacts b))),
      (''findings'', JList (map dump_finding (nb_findings b))), (''limitations'', JList (map JStr (nb_limitations b))),
      (''importWarnings'', JList (map JStr (import_warnings b))), (''missingRanks'', JList (map JInt (nb_missing_ranks b))),
      (''elapsedSeconds'', JInt (elapsed_seconds b)), (''operatorEffortSeconds'', JInt (operator_effort_seconds b)),
      (''decisionReached'', jopt JStr (decision_reached b)), (''decisionPolicyVersion'', JStr NATIVE_DECISION_POLICY),
      (''decisionEvidenceRefs'', JList (map JStr (decision_evidence_refs b))),
      (''decisionProvenanceDigest'', jopt JStr (decision_provenance_digest b)),
      (''unresolvedQuestions'', JList (map JStr (unresolved_questions b))),
      (''executedAt'', JStr (dump_datetime P (executed_at b)))]"

section \<open>Redacted findings\<close>

definition REDACTION_POLICY :: pystr where
  "REDACTION_POLICY = ''traincapsule-redaction-v1''"

definition enum_of :: "('a \<Rightarrow> pystr) \<Rightarrow> 'a list \<Rightarrow> json option \<Rightarrow> 'a option" where
  "enum_of value_of members v = List.find (\<lambda>x. v = Some (JStr (value_of x))) members"

definition str_of :: "json option \<Rightarrow> pystr option" where
  "str_of v = (case v of Some (JStr s) \<Rightarrow> Some s | _ \<Rightarrow> None)"

definition strs_of :: "json option \<Rightarrow> pystr list option" where
  "strs_of v = (case v of
     Some (JList xs) \<Rightarrow> if list_all (\<lambda>x. str_of (Some x) \<noteq> None) xs then Some (map (\<lambda>x. the (str_of (Some x))) xs) else None
   | _ \<Rightarrow> None)"

text \<open>\<open>NativeFinding.model_validate\<close> of a dictionary with the aliases as keys.\<close>

definition finding_of :: "platform \<Rightarrow> (pystr \<times> json) list \<Rightarrow> NativeFinding result" where
  "finding_of P d =
     (case (str_of (jget d ''findingId''), enum_of attribution_value [NATIVE_TOOL_FOUND, TRAINCAPSULE_DERIVED, HUMAN_PROVIDED,
              EXTERNAL_SYSTEM_PROVIDED, FindingAttribution.UNKNOWN] (jget d ''attribution''),
            str_of (jget d ''nativeSystem''), str_of (jget d ''nativeVersion''), str_of (jget d ''observation''),
            strs_of (jget d ''evidenceRefs''),
            enum_of confidence_value [DIRECT_OBSERVATION, DERIVED_ALIGNMENT, TOOL_HEURISTIC, UNVERIFIED_NARRATIVE]
              (jget d ''confidenceClass''),
            strs_of (jget d ''limitations''), str_of (jget d ''customerDecisionContribution'')) of
        (Some i, Some a, Some s, Some v, Some ob, Some refs, Some c, Some ls, Some contribution) \<Rightarrow>
          if jget d ''schemaVersion'' \<noteq> Some (JInt 1) then Inl (ValidationError ''NativeFinding'')
          else validate_finding P \<lparr>finding_id = strip P i, attribution = a, native_system = strip P s, native_version = strip P v,
            observation = strip P ob, nf_evidence_refs = map (strip P) refs, confidence_class = c,
            nf_limitations = map (strip P) ls, customer_decision_contribution = strip P contribution\<rparr>
      | _ \<Rightarrow> Inl (ValidationError ''NativeFinding''))"

definition redacted_native_finding :: "platform \<Rightarrow> (pystr \<Rightarrow> bool) \<Rightarrow> NativeFinding \<Rightarrow> NativeFinding result" where
  "redacted_native_finding P wordy f =
     rbind (redact_sensitive_value wordy REDACTION_POLICY [] (JObj (finding_material f))) (\<lambda>redacted.
       case redacted of
         JObj d \<Rightarrow> finding_of P (d @ [(''findingId'', JStr (digest_json P redacted))])
       | _ \<Rightarrow> Inl (TypeError ''redacted finding''))"

section \<open>Generating the baseline\<close>

fun redact_command :: "(pystr \<Rightarrow> bool) \<Rightarrow> pystr \<Rightarrow> pystr list \<Rightarrow> json list result" where
  "redact_command wordy previous_option [] = Inr []"
| "redact_command wordy previous_option (argument # arguments) =
     (if starts_with ''-'' argument \<and> CHR ''='' \<notin> set argument
      then rbind (redact_command wordy (map (\<lambda>c. if c = CHR ''-'' then CHR ''_'' else c) (dropWhile (\<lambda>c. c = CHR ''-'') argument))
             arguments) (\<lambda>rest. Inr (JStr argument # rest))
      else rbind (redact_sensitive_value wordy REDACTION_POLICY previous_option (JStr argument)) (\<lambda>rendered.
           rbind (redact_command wordy [] arguments) (\<lambda>rest. Inr (rendered # rest))))"

definition json_text :: "json \<Rightarrow> pystr" where
  "json_text v = (case v of JStr s \<Rightarrow> s | _ \<Rightarrow> [])"

record baseline_request =
  br_command :: "pystr list"
  br_configuration :: "(pystr \<times> json) list"
  br_elapsed_seconds :: int
  br_operator_effort_seconds :: int
  br_unresolved_questions :: "pystr list"
  br_executed_at :: datetime

definition generate_native_baseline ::
  "platform \<Rightarrow> cpython \<Rightarrow> (pystr \<Rightarrow> bool) \<Rightarrow> FlightRecorderImport \<Rightarrow> baseline_request \<Rightarrow> reader \<Rightarrow> NativeBaseline result" where
  "generate_native_baseline P L wordy imported q reader =
     rbind (redact_command wordy [] (br_command q)) (\<lambda>redacted_command.
     rbind (traverse (\<lambda>question. redact_sensitive_value wordy REDACTION_POLICY ''unresolved_question'' (JStr question))
              (br_unresolved_questions q)) (\<lambda>redacted_questions.
     rbind (verify_import_against_raw P L imported reader) (\<lambda>disagreement.
       case fi_artifacts imported of
         [] \<Rightarrow> Inl IndexError
       | first # _ \<Rightarrow>
          (case identity_binding first of
             (Some wl, Some be, Some ce) \<Rightarrow>
               (let decision = (if disagreement then Some NATIVE_SUFFICIENT_DECISION else None);
                    refs = (if disagreement then sort (map artifact_id (fi_artifacts imported)) else [])
                in rbind (redact_sensitive_value wordy REDACTION_POLICY [] (JObj (br_configuration q))) (\<lambda>config.
                   rbind (traverse (redacted_native_finding P wordy) (fi_native_findings imported)) (\<lambda>findings.
                     coerce_baseline P \<lparr>nb_case_id = fi_case_id imported, nb_workload_id = wl, nb_baseline_environment_id = be,
                       nb_candidate_environment_id = ce, tool_name = ''PyTorch Flight Recorder'',
                       tool_version = pytorch_version imported, nb_source_format = fi_source_format imported,
                       nb_source_format_version = fi_source_format_version imported,
                       import_digest = digest_json P (dump_import P imported), nb_command = map json_text redacted_command,
                       configuration = (case config of JObj d \<Rightarrow> d | _ \<Rightarrow> []), nb_artifacts = fi_artifacts imported,
                       nb_binding_artifacts = fi_binding_artifacts imported, nb_findings = findings,
                       nb_limitations = sorted_set (concat (map nf_limitations (fi_native_findings imported))),
                       import_warnings = warnings imported, nb_missing_ranks = fi_missing_ranks imported,
                       elapsed_seconds = br_elapsed_seconds q, operator_effort_seconds = br_operator_effort_seconds q,
                       decision_reached = decision, decision_evidence_refs = refs,
                       decision_provenance_digest = map_option (\<lambda>d. decision_digest P (fi_case_id imported) d refs) decision,
                       unresolved_questions = (if disagreement then [] else map json_text redacted_questions),
                       executed_at = br_executed_at q\<rparr>)))
           | _ \<Rightarrow> Inl (ValueError ''native baseline requires workload and environment-bound artifacts'')))))"

end
