(* ===== verification/Preflight.thy ===== *)
theory Preflight
  imports Native_Baseline
begin

text \<open>
  The preflight of a case (\<^verbatim>\<open>traincapsule_qualify/models.py\<close> and the deciding half of
  \<^verbatim>\<open>traincapsule_qualify/qualify.py\<close>): the bound inputs and their validator, the completeness
  of the evidence, the machine-verified policies and \<open>evaluate_preflight\<close>, one definition
  for each of its stages. The main theorem characterises the decisions that approve.
\<close>

section \<open>Inputs\<close>

record PreflightInputs =
  evaluated_at :: datetime
  incident_case :: IncidentCase
  workload_identity :: WorkloadIdentity
  baseline_environment :: EnvironmentIdentity
  candidate_environment :: EnvironmentIdentity
  verified_artifacts :: "EvidenceArtifact list"
  completeness_report :: EvidenceCompletenessReport
  native_baseline :: NativeBaseline
  original_experiment_economics :: ExperimentEconomics
  proposed_experiment_economics :: ExperimentEconomics

definition inputs_binding :: "PreflightInputs \<Rightarrow> pystr \<times> pystr \<times> pystr" where
  "inputs_binding i = (wl_workload_id (workload_identity i), environment_id (baseline_environment i),
     environment_id (candidate_environment i))"

text \<open>The dictionary of verified artifacts by identifier: the last one of an identifier counts.\<close>

definition artifacts_by_id :: "EvidenceArtifact list \<Rightarrow> (pystr \<times> EvidenceArtifact) list" where
  "artifacts_by_id as = fold (\<lambda>a. AList.update (artifact_id a) a) as []"

definition all_records_are_case_and_identity_bound :: "PreflightInputs \<Rightarrow> PreflightInputs result" where
  "all_records_are_case_and_identity_bound i =
     (let c = incident_case i; nb = native_baseline i; (wl, be, ce) = inputs_binding i;
          artifacts = artifacts_by_id (verified_artifacts i); keys = set (map fst artifacts)
      in raise_first
        [(\<not> is_aware (evaluated_at i) \<or> \<not> is_aware (decision_deadline c), ''preflight timestamps must carry timezone offsets''),
         (ic_workload_id c \<noteq> Some wl, ''case workloadId does not match workload identity''),
         (ic_baseline_environment_id c \<noteq> Some be, ''case baselineEnvironmentId does not match baseline identity''),
         (ic_candidate_environment_id c \<noteq> Some ce, ''case candidateEnvironmentId does not match candidate identity''),
         (cr_case_id (completeness_report i) \<noteq> ic_case_id c, ''completeness report belongs to a different case''),
         (nb_case_id nb \<noteq> ic_case_id c, ''native baseline belongs to a different case''),
         ((nb_workload_id nb, nb_baseline_environment_id nb, nb_candidate_environment_id nb) \<noteq> (wl, be, ce),
          ''native baseline does not match preflight identities''),
         (list_ex (\<lambda>(k, a). ea_case_id a \<noteq> ic_case_id c) artifacts, ''verifiedArtifacts contains cross-case evidence''),
         (list_ex (\<lambda>(k, a). identity_binding a \<noteq> (Some wl, Some be, Some ce)) artifacts,
          ''verifiedArtifacts are not bound to preflight identities''),
         (\<not> set (ic_evidence_refs c) \<subseteq> keys, ''case evidenceRefs are not all verified''),
         (list_ex (\<lambda>r. \<not> set (artifact_refs r) \<subseteq> keys) (requirements (completeness_report i)),
          ''completeness report references unverified evidence''),
         (\<not> artifact_id ` set (nb_artifacts nb) \<subseteq> keys, ''native baseline artifacts are not all verified''),
         (\<not> artifact_id ` set (nb_binding_artifacts nb) \<subseteq> keys, ''native binding artifacts are not all verified'')] i)"

definition validate_inputs :: "platform \<Rightarrow> PreflightInputs \<Rightarrow> PreflightInputs result" where
  "validate_inputs P i =
     rbind (validate_case P (incident_case i)) (\<lambda>_.
     rbind (validate_workload P (workload_identity i)) (\<lambda>_.
     rbind (validate_environment P (baseline_environment i)) (\<lambda>_.
     rbind (validate_environment P (candidate_environment i)) (\<lambda>_.
     if verified_artifacts i = [] then Inl (ValidationError ''PreflightInputs'') else
     rbind (traverse (validate_artifact P) (verified_artifacts i)) (\<lambda>_.
     rbind (validate_report (completeness_report i)) (\<lambda>_.
     rbind (traverse (validate_artifact P) (nb_artifacts (native_baseline i) @ nb_binding_artifacts (native_baseline i))) (\<lambda>_.
     rbind (traverse (validate_finding P) (nb_findings (native_baseline i))) (\<lambda>_.
     rbind (validate_baseline P (native_baseline i)) (\<lambda>_.
     rbind (validate_experiment_economics (original_experiment_economics i)) (\<lambda>_.
     rbind (validate_experiment_economics (proposed_experiment_economics i)) (\<lambda>_.
       all_records_are_case_and_identity_bound i)))))))))))"

definition dump_inputs :: "platform \<Rightarrow> PreflightInputs \<Rightarrow> json" where
  "dump_inputs P i = JObj
     [(''schemaVersion'', JInt 1), (''evaluatedAt'', JStr (dump_datetime P (evaluated_at i))),
      (''incidentCase'', dump_case P (incident_case i)), (''workloadIdentity'', dump_workload P (workload_identity i)),
      (''baselineEnvironment'', dump_environment P (baseline_environment i)),
      (''candidateEnvironment'', dump_environment P (candidate_environment i)),
      (''verifiedArtifacts'', JList (map (dump_artifact P) (verified_artifacts i))),
      (''completenessReport'', dump_report (completeness_report i)),
      (''nativeBaseline'', dump_baseline P (native_baseline i)),
      (''originalExperimentEconomics'', dump_experiment_economics (original_experiment_economics i)),
      (''proposedExperimentEconomics'', dump_experiment_economics (proposed_experiment_economics i))]"

section \<open>Completeness\<close>

definition coerce_requirement :: "platform \<Rightarrow> EvidenceRequirement \<Rightarrow> EvidenceRequirement result" where
  "coerce_requirement P r = validate_requirement (r\<lparr>er_kind := strip P (er_kind r), claim_names := map (strip P) (claim_names r),
     substitutable_by := map (strip P) (substitutable_by r), artifact_refs := map (strip P) (artifact_refs r),
     detail := strip P (detail r)\<rparr>)"

record completeness_request =
  cq_requirements :: "(pystr \<times> CompletenessState) list"
  cq_roles :: "(pystr \<times> EvidenceRole) list"
  cq_artifact_refs :: "(pystr \<times> pystr list) list"
  cq_details :: "(pystr \<times> pystr) list"
  cq_claim_names :: "(pystr \<times> pystr list) list"
  cq_substitutable_by :: "(pystr \<times> pystr list) list"

definition get_list :: "(pystr \<times> 'a list) list \<Rightarrow> pystr \<Rightarrow> 'a list" where
  "get_list d k = (case map_of d k of None \<Rightarrow> [] | Some v \<Rightarrow> v)"

definition assess_requirement ::
  "platform \<Rightarrow> completeness_request \<Rightarrow> pystr list \<Rightarrow> pystr \<times> CompletenessState \<Rightarrow> EvidenceRequirement result" where
  "assess_requirement P q verified ks = (case ks of (kind, state) \<Rightarrow>
     (let cited = sort (get_list (cq_artifact_refs q) kind)
      in if \<not> set cited \<subseteq> set verified then Inl (ValueError ''references evidence not verified for this case'')
         else case map_of (cq_roles q) kind of
           None \<Rightarrow> Inl (KeyError kind)
         | Some role \<Rightarrow> coerce_requirement P \<lparr>er_kind = kind, er_role = role,
             claim_names = sort (get_list (cq_claim_names q) kind),
             substitutable_by = sort (get_list (cq_substitutable_by q) kind), er_state = state, artifact_refs = cited,
             detail = (case map_of (cq_details q) kind of None \<Rightarrow> completeness_value state | Some d \<Rightarrow> d)\<rparr>))"

definition assess_completeness ::
  "platform \<Rightarrow> pystr \<Rightarrow> completeness_request \<Rightarrow> EvidenceArtifact list \<Rightarrow> EvidenceCompletenessReport result" where
  "assess_completeness P case_id q artifacts =
     (let verified = map artifact_id (filter (\<lambda>a. ea_case_id a = case_id \<and> integrity_status a = VALID) artifacts)
      in if set (map fst (cq_requirements q)) \<noteq> set (map fst (cq_roles q))
         then Inl (ValueError ''every evidence requirement needs an explicit role'')
         else rbind (traverse (assess_requirement P q verified) (sort_key fst (cq_requirements q))) (\<lambda>ordered.
           validate_report \<lparr>cr_case_id = strip P case_id, requirements = ordered,
             cr_technical_result = expected_result ordered\<rparr>))"

definition pack_states :: "PreflightInputs \<Rightarrow> FlightRecorderImport \<Rightarrow> (pystr \<times> CompletenessState) list" where
  "pack_states i imported =
     [(''flight_recorder_raw'', PRESENT_VALID),
      (''collective_lifecycle'', if entries imported \<noteq> [] then PRESENT_VALID else MISSING_NOT_CAPTURED),
      (''rank_process_group_inventory'',
       if fi_missing_ranks imported \<noteq> [] \<or> fi_world_size imported = None then PRESENT_PARTIAL else PRESENT_VALID),
      (''workload_identity'',
       if wl_identity_strength (workload_identity i) = FULLY_VERIFIED then PRESENT_VALID else IDENTITY_UNBOUND),
      (''environment_identity'',
       if en_identity_strength (baseline_environment i) = FULLY_VERIFIED \<and>
          en_identity_strength (candidate_environment i) = FULLY_VERIFIED then PRESENT_VALID else IDENTITY_UNBOUND)]"

definition pack_request :: "PreflightInputs \<Rightarrow> FlightRecorderImport \<Rightarrow> completeness_request" where
  "pack_request i imported =
     (let states = pack_states i imported;
          evidence = map artifact_id (fi_artifacts imported @ fi_binding_artifacts imported)
      in \<lparr>cq_requirements = states, cq_roles = map (\<lambda>(name, _). (name, MANDATORY_FOR_ELIGIBILITY)) states,
         cq_artifact_refs = map (\<lambda>(name, _). (name, evidence)) (filter (\<lambda>(_, state). state \<in> set present_states) states),
         cq_details = [(''rank_process_group_inventory'',
           if fi_missing_ranks imported \<noteq> [] then ''missing ranks: '' @ show_ints (fi_missing_ranks imported)
           else ''rank/process-group inventory captured'')],
         cq_claim_names = [], cq_substitutable_by = []\<rparr>)"

definition authoritative_completeness ::
  "platform \<Rightarrow> PreflightInputs \<Rightarrow> FlightRecorderImport \<Rightarrow> EvidenceCompletenessReport result" where
  "authoritative_completeness P i imported =
     assess_completeness P (ic_case_id (incident_case i)) (pack_request i imported) (verified_artifacts i)"

section \<open>Policies\<close>

definition precedence :: "IdentityStrength list" where
  "precedence = [CONFLICTING, UNVERIFIED, IdentityStrength.CUSTOMER_ATTESTED, PARTIALLY_VERIFIED, FULLY_VERIFIED]"

definition strengths :: "PreflightInputs \<Rightarrow> IdentityStrength list" where
  "strengths i = [wl_identity_strength (workload_identity i), en_identity_strength (baseline_environment i),
     en_identity_strength (candidate_environment i)]"

definition identity_strength :: "PreflightInputs \<Rightarrow> IdentityStrength" where
  "identity_strength i = hd (filter (\<lambda>s. s \<in> set (strengths i)) precedence)"

definition SUPPORTED_PACKS :: "pystr list" where
  "SUPPORTED_PACKS = [''ddp-hang-v1'']"

definition SUPPORTED_NATIVE_TOOL :: pystr where
  "SUPPORTED_NATIVE_TOOL = ''PyTorch Flight Recorder''"

definition SUPPORTED_PYTORCH_VERSIONS :: "pystr list" where
  "SUPPORTED_PYTORCH_VERSIONS = [''2.5.1'']"

definition verification :: "platform \<Rightarrow> PolicyName \<Rightarrow> VerificationOutcome \<Rightarrow> json \<Rightarrow> pystr \<Rightarrow> MachineVerification" where
  "verification P policy res subject reason =
     \<lparr>mv_policy = policy, mv_outcome = res, subject_digest = digest_json P subject, mv_reason = reason\<rparr>"

definition pack_supported :: "PreflightInputs \<Rightarrow> bool" where
  "pack_supported i \<longleftrightarrow> pack_candidate (incident_case i) \<in> set SUPPORTED_PACKS"

definition access_known :: "PreflightInputs \<Rightarrow> bool" where
  "access_known i = list_all (\<lambda>(aid, expected_kind).
     aid \<noteq> None \<and> list_ex (\<lambda>a. ea_kind a = expected_kind \<and> Some (artifact_id a) = aid) (nb_binding_artifacts (native_baseline i)))
     [(materialization_recipe_artifact_id (baseline_environment i), ''BASELINE_MATERIALIZATION_RECIPE''),
      (materialization_recipe_artifact_id (candidate_environment i), ''CANDIDATE_MATERIALIZATION_RECIPE'')]"

definition privacy_supported :: "PreflightInputs \<Rightarrow> bool" where
  "privacy_supported i \<longleftrightarrow> privacy_policy (incident_case i) = ''LOCAL_ONLY''"

definition export_supported :: "PreflightInputs \<Rightarrow> bool" where
  "export_supported i = list_all (\<lambda>a. export_policy a = ''LOCAL_ONLY'') (verified_artifacts i)"

definition source_supported :: "PreflightInputs \<Rightarrow> bool" where
  "source_supported i \<longleftrightarrow> tool_name (native_baseline i) = SUPPORTED_NATIVE_TOOL \<and>
     tool_version (native_baseline i) \<in> set SUPPORTED_PYTORCH_VERSIONS"

definition economics_outcome :: "PreflightInputs \<Rightarrow> VerificationOutcome" where
  "economics_outcome i =
     (let original = original_experiment_economics i; proposed = proposed_experiment_economics i
      in case (estimated_cost original, estimated_cost proposed) of
           (Some x, Some y) \<Rightarrow>
             if xe_currency original \<noteq> xe_currency proposed then VerificationOutcome.UNKNOWN
             else if float_less x y then DENIED else VERIFIED
         | _ \<Rightarrow> VerificationOutcome.UNKNOWN)"

definition economics_reason :: "PreflightInputs \<Rightarrow> pystr" where
  "economics_reason i = (case economics_outcome i of
     VerificationOutcome.UNKNOWN \<Rightarrow> ''Original and proposed cost are not both known in the same currency.''
   | DENIED \<Rightarrow> ''Proposed experiment costs more than the original run.''
   | VERIFIED \<Rightarrow> ''Proposed experiment cost does not exceed the original run cost.'')"

definition policy_verifications_of :: "platform \<Rightarrow> PreflightInputs \<Rightarrow> MachineVerification list" where
  "policy_verifications_of P i =
     (let c = incident_case i; nb = native_baseline i; ok = (\<lambda>b. if b then VERIFIED else DENIED)
      in [verification P PACK_FIT (ok (pack_supported i))
            (JObj [(''caseId'', JStr (ic_case_id c)), (''packCandidate'', JStr (pack_candidate c))])
            (if pack_supported i then ''Pack is supported.'' else ''Pack is outside the supported envelope.''),
          verification P LOCAL_EXECUTION_AUTHORITY (if access_known i then VERIFIED else VerificationOutcome.UNKNOWN)
            (JObj [(''baseline'', jopt JStr (materialization_recipe_digest (baseline_environment i))),
               (''candidate'', jopt JStr (materialization_recipe_digest (candidate_environment i))),
               (''bindingArtifacts'', JList (map (JStr \<circ> metadata_digest) (nb_binding_artifacts nb)))])
            (if access_known i then ''Both environments have case-bound materialization recipes.''
             else ''Local execution access is not machine-verifiable.''),
          verification P PRIVACY_POLICY (ok (privacy_supported i))
            (JObj [(''caseId'', JStr (ic_case_id c)), (''privacyPolicy'', JStr (privacy_policy c))])
            (if privacy_supported i then ''Privacy policy is local-only.'' else ''Privacy policy is unsupported.''),
          verification P EXPORT_POLICY (ok (export_supported i))
            (JList (map (\<lambda>a. JObj [(''artifactId'', JStr (artifact_id a)), (''exportPolicy'', JStr (export_policy a))])
               (verified_artifacts i)))
            (if export_supported i then ''All evidence remains local.'' else ''Evidence export is unsupported.''),
          verification P SOURCE_VERSION (ok (source_supported i))
            (JObj [(''tool'', JStr (tool_name nb)), (''version'', JStr (tool_version nb))])
            (if source_supported i then ''Native source version is supported.'' else ''Native source version is unsupported.''),
          verification P ECONOMICS (economics_outcome i)
            (JObj [(''original'', dump_experiment_economics (original_experiment_economics i)),
               (''proposed'', dump_experiment_economics (proposed_experiment_economics i))]) (economics_reason i)])"

section \<open>Decisions\<close>

fun decision_of :: "EligibilityOutcome \<Rightarrow> OperationalDecision" where
  "decision_of ELIGIBLE_FOR_QUALIFICATION = APPROVE_WITHIN_ENVELOPE"
| "decision_of NEEDS_MORE_EVIDENCE = REQUIRE_MORE_EVIDENCE"
| "decision_of EligibilityOutcome.NATIVE_WORKFLOW_SUFFICIENT = OperationalDecision.NATIVE_WORKFLOW_SUFFICIENT"
| "decision_of TECHNICALLY_POSSIBLE_BUT_UNECONOMIC = TECHNICALLY_VALID_BUT_NOT_ECONOMIC"
| "decision_of OUTSIDE_SUPPORTED_ENVELOPE = BLOCK_CHANGE"
| "decision_of EligibilityOutcome.POLICY_BLOCKED = BLOCK_CHANGE"
| "decision_of EligibilityOutcome.UNKNOWN = NO_DECISION"

definition decision_fields_ok :: "EligibilityDecision \<Rightarrow> bool" where
  "decision_fields_ok d \<longleftrightarrow>
     is_identifier (ed_case_id d) \<and> is_digest (input_digest d) \<and> is_digest (ed_workload_id d) \<and>
     is_digest (ed_baseline_environment_id d) \<and> is_digest (ed_candidate_environment_id d) \<and> ed_evidence_refs d \<noteq> [] \<and>
     list_all is_digest (ed_evidence_refs d) \<and> is_digest (native_baseline_digest d) \<and>
     policy_verifications d \<noteq> [] \<and> ed_reasons d \<noteq> []"

definition decide ::
  "platform \<Rightarrow> PreflightInputs \<Rightarrow> EligibilityOutcome \<Rightarrow> TechnicalResult \<Rightarrow> pystr list \<Rightarrow> pystr list \<Rightarrow>
   EligibilityDecision result" where
  "decide P i res technical why unknown_names =
     (let d = \<lparr>ed_case_id = ic_case_id (incident_case i), input_digest = digest_json P (dump_inputs P i),
            ed_workload_id = wl_workload_id (workload_identity i),
            ed_baseline_environment_id = environment_id (baseline_environment i),
            ed_candidate_environment_id = environment_id (candidate_environment i),
            ed_evidence_refs = sort (map artifact_id (verified_artifacts i)),
            native_baseline_digest = digest_json P (dump_baseline P (native_baseline i)),
            policy_verifications = policy_verifications_of P i,
            original_economics = original_experiment_economics i, proposed_economics = proposed_experiment_economics i,
            outcome = res, ed_identity_strength = identity_strength i, technical_result = technical,
            operational_decision = decision_of res, ed_reasons = why, unknowns = unknown_names,
            generated_at = evaluated_at i\<rparr>
      in if \<not> decision_fields_ok d then Inl (ValidationError ''EligibilityDecision'') else weak_identity_cannot_approve d)"

text \<open>The exceptions \<open>evaluate_preflight\<close> turns into a decision.\<close>

definition caught :: "py_error \<Rightarrow> bool" where
  "caught e \<longleftrightarrow> is_os_error e \<or> is_value_error e"

fun raw_verified :: "platform \<Rightarrow> reader \<Rightarrow> EvidenceArtifact list \<Rightarrow> bool result" where
  "raw_verified P reader [] = Inr True"
| "raw_verified P reader (a # as) = (case reader a of
     Inl e \<Rightarrow> if caught e then Inr False else Inl e
   | Inr payload \<Rightarrow> if sha256_digest P payload = content_digest a then raw_verified P reader as else Inr False)"

definition native_matches ::
  "platform \<Rightarrow> NativeBaseline \<Rightarrow> FlightRecorderImport \<Rightarrow> NativeFinding list \<Rightarrow> bool" where
  "native_matches P nb r expected_findings \<longleftrightarrow>
     tool_name nb = SUPPORTED_NATIVE_TOOL \<and> tool_version nb = pytorch_version r \<and>
     nb_source_format nb = fi_source_format r \<and> nb_source_format_version nb = fi_source_format_version r \<and>
     import_digest nb = digest_json P (dump_import P r) \<and>
     map dump_finding (nb_findings nb) = map dump_finding expected_findings \<and>
     import_warnings nb = warnings r \<and> nb_missing_ranks nb = fi_missing_ranks r"

definition decision_matches :: "platform \<Rightarrow> NativeBaseline \<Rightarrow> bool \<Rightarrow> bool" where
  "decision_matches P nb disagreement \<longleftrightarrow>
     (let refs = (if disagreement then sort (map artifact_id (nb_artifacts nb)) else [])
      in decision_reached nb = (if disagreement then Some NATIVE_SUFFICIENT_DECISION else None) \<and>
         decision_evidence_refs nb = refs \<and>
         decision_provenance_digest nb =
           (if disagreement then Some (decision_digest P (nb_case_id nb) NATIVE_SUFFICIENT_DECISION refs) else None))"

definition denied_policies :: "MachineVerification list \<Rightarrow> PolicyName list" where
  "denied_policies vs = map mv_policy (filter (\<lambda>v. mv_outcome v = DENIED \<and> mv_policy v \<noteq> ECONOMICS) vs)"

definition unknown_policies :: "MachineVerification list \<Rightarrow> pystr list" where
  "unknown_policies vs = sort (map (policy_name_value \<circ> mv_policy) (filter (\<lambda>v. mv_outcome v = VerificationOutcome.UNKNOWN) vs))"

text \<open>From the policies to the end, when the evidence agrees with the claims.\<close>

definition decide_policies :: "platform \<Rightarrow> PreflightInputs \<Rightarrow> EligibilityDecision result" where
  "decide_policies P i =
     (let vs = policy_verifications_of P i; denied = denied_policies vs; unknown = unknown_policies vs;
          strength = identity_strength i; result = cr_technical_result (completeness_report i)
      in if denied \<noteq> [] then
           decide P i (if set denied \<inter> {PRIVACY_POLICY, EXPORT_POLICY, LOCAL_EXECUTION_AUTHORITY} \<noteq> {}
                       then EligibilityOutcome.POLICY_BLOCKED else OUTSIDE_SUPPORTED_ENVELOPE)
             TechnicalResult.POLICY_BLOCKED (map (\<lambda>p. ''Machine verification denied '' @ policy_name_value p @ ''.'') denied) []
         else if instant (decision_deadline (incident_case i)) < instant (evaluated_at i) then
           decide P i EligibilityOutcome.UNKNOWN EXPIRED [''The named customer decision deadline has passed.''] []
         else if decision_reached (native_baseline i) \<notin> {None, Some []} then
           decide P i EligibilityOutcome.NATIVE_WORKFLOW_SUFFICIENT PASS
             [''The complete native workflow already records a decision.''] []
         else if unknown \<noteq> [] then
           decide P i EligibilityOutcome.UNKNOWN TechnicalResult.UNKNOWN
             [''One or more machine-verifiable preflight inputs are unknown.''] unknown
         else if result \<noteq> PASS then
           decide P i NEEDS_MORE_EVIDENCE (if result = INVALID_EVIDENCE then result else TechnicalResult.UNKNOWN)
             [''Qualification requires complete, valid, case-bound evidence.''] []
         else if strength \<in> {UNVERIFIED, CONFLICTING} then
           decide P i NEEDS_MORE_EVIDENCE TechnicalResult.UNKNOWN [''Identity is unverified or conflicting.''] []
         else if economics_outcome i = DENIED then
           decide P i TECHNICALLY_POSSIBLE_BUT_UNECONOMIC PASS
             [''The supplied, evidence-bound cost hypothesis is uneconomic.''] []
         else if strength \<noteq> FULLY_VERIFIED then
           decide P i EligibilityOutcome.UNKNOWN TechnicalResult.UNKNOWN
             [''Identity strength does not permit an evidence-only approval.''] [''fully verified identity'']
         else decide P i ELIGIBLE_FOR_QUALIFICATION PASS
             [''All evidence-bound machine prerequisites are explicitly verified.''] [])"

definition reject :: "platform \<Rightarrow> PreflightInputs \<Rightarrow> pystr \<Rightarrow> EligibilityDecision result" where
  "reject P i why = decide P i NEEDS_MORE_EVIDENCE INVALID_EVIDENCE [why] []"

text \<open>The completeness and lifecycle stages, on the reconstructed import.\<close>

definition decide_reconstructed ::
  "platform \<Rightarrow> cpython \<Rightarrow> PreflightInputs \<Rightarrow> reader \<Rightarrow> FlightRecorderImport \<Rightarrow> EligibilityDecision result" where
  "decide_reconstructed P L i reader r =
     rbind (authoritative_completeness P i r) (\<lambda>expected.
       if completeness_report i \<noteq> expected
       then reject P i ''Caller completeness does not match the authoritative pack policy.''
       else case lifecycle_disagreement_from_raw P L (nb_artifacts (native_baseline i)) reader of
           Inl e \<Rightarrow> if caught e
             then reject P i ''Native lifecycle truth could not be recomputed from raw CAS evidence.'' else Inl e
         | Inr disagreement \<Rightarrow>
             if \<not> decision_matches P (native_baseline i) disagreement
             then reject P i ''Native decision record does not match recomputed raw CAS lifecycle truth.''
             else decide_policies P i)"

definition evaluate_preflight ::
  "platform \<Rightarrow> cpython \<Rightarrow> 'doc artifact_codec \<Rightarrow> (pystr \<Rightarrow> bool) \<Rightarrow> PreflightInputs \<Rightarrow> reader \<Rightarrow> EligibilityDecision result" where
  "evaluate_preflight P L K wordy i reader =
     rbind (raw_verified P reader (verified_artifacts i)) (\<lambda>ok.
       if \<not> ok then reject P i ''One or more case-bound artifact payloads failed local CAS verification.''
       else case reimport_from_raw_artifacts P L K (nb_artifacts (native_baseline i)) reader
              (nb_binding_artifacts (native_baseline i)) of
           Inl e \<Rightarrow> if caught e
             then reject P i ''The complete native import could not be reconstructed from raw CAS evidence.'' else Inl e
         | Inr r \<Rightarrow> rbind (traverse (redacted_native_finding P wordy) (fi_native_findings r)) (\<lambda>expected_findings.
             if \<not> native_matches P (native_baseline i) r expected_findings
             then reject P i ''Native baseline metadata/findings do not match reconstructed raw CAS evidence.''
             else decide_reconstructed P L i reader r))"

section \<open>Lemmas\<close>

lemma decide_Inr:
  assumes "decide P i res technical why names = Inr d"
  shows "outcome d = res" "operational_decision d = decision_of res" "technical_result d = technical"
    "ed_identity_strength d = identity_strength i" "ed_reasons d = why" "unknowns d = names"
  using assms
  by (auto simp: decide_def Let_def weak_identity_cannot_approve_def raise_first_Inr_iff split: if_splits)

lemma decision_of_approve [simp]: "decision_of res = APPROVE_WITHIN_ENVELOPE \<longleftrightarrow> res = ELIGIBLE_FOR_QUALIFICATION"
  by (cases res) auto

lemma identity_strength_FULLY:
  "identity_strength i = FULLY_VERIFIED \<longleftrightarrow> set (strengths i) = {FULLY_VERIFIED}"
proof -
  obtain x y z where s: "strengths i = [x, y, z]" by (simp add: strengths_def)
  show ?thesis unfolding identity_strength_def precedence_def s by (cases x; cases y; cases z) auto
qed

lemma raw_verified_True:
  "raw_verified P reader as = Inr True \<longleftrightarrow>
     (\<forall>a\<in>set as. \<exists>payload. reader a = Inr payload \<and> sha256_digest P payload = content_digest a)"
  by (induction as) (auto split: sum.splits)

lemma assess_requirement_Inr:
  assumes "assess_requirement P q verified (kind, state) = Inr r"
  shows "er_state r = state" "map_of (cq_roles q) kind = Some (er_role r)"
  using assms
  by (auto simp: assess_requirement_def coerce_requirement_def validate_requirement_def Let_def raise_first_Inr_iff
      split: if_splits option.splits)

lemma assess_completeness_Inr:
  assumes "assess_completeness P case_id q artifacts = Inr rep"
  obtains verified where "traverse (assess_requirement P q verified) (sort_key fst (cq_requirements q)) = Inr (requirements rep)"
    "cr_technical_result rep = expected_result (requirements rep)"
  using assms
  by (auto simp: assess_completeness_def validate_report_def Let_def rbind_Inr_iff raise_first_Inr_iff split: if_splits)

lemma list_all2_sets:
  "list_all2 R xs ys \<Longrightarrow> (\<And>x y. R x y \<Longrightarrow> f x = g y) \<Longrightarrow> f ` set xs = g ` set ys"
  by (induction rule: list_all2_induct) auto

lemma mandatory_result:
  assumes "\<forall>r\<in>set rs. er_role r = MANDATORY_FOR_ELIGIBILITY"
  shows "expected_result rs = PASS \<longleftrightarrow> er_state ` set rs \<subseteq> {PRESENT_VALID, NOT_APPLICABLE}"
proof -
  have "set (blocking rs) = set rs" using assms by (auto simp: blocking_def)
  then show ?thesis by (auto simp: expected_result_def list_all_iff list_ex_iff)
qed

lemma authoritative_PASS:
  assumes "authoritative_completeness P i r = Inr rep"
  shows "cr_technical_result rep = PASS \<longleftrightarrow>
    entries r \<noteq> [] \<and> fi_missing_ranks r = [] \<and> fi_world_size r \<noteq> None \<and> set (strengths i) = {FULLY_VERIFIED}"
proof -
  let ?states = "pack_states i r"
  define q where "q = pack_request i r"
  have q: "cq_requirements q = ?states" "cq_roles q = map (\<lambda>(n, _). (n, MANDATORY_FOR_ELIGIBILITY)) ?states"
    by (simp_all add: q_def pack_request_def Let_def)
  obtain verified where t: "traverse (assess_requirement P q verified) (sort_key fst ?states) = Inr (requirements rep)"
    and res: "cr_technical_result rep = expected_result (requirements rep)"
    using assms unfolding authoritative_completeness_def q_def [symmetric] q(1) [symmetric] by (rule assess_completeness_Inr)
  have l2: "list_all2 (\<lambda>x y. assess_requirement P q verified x = Inr y) (sort_key fst ?states) (requirements rep)"
    using t by (simp add: traverse_Inr_iff)
  have "er_role y = MANDATORY_FOR_ELIGIBILITY" if "assess_requirement P q verified x = Inr y" for x y
    using assess_requirement_Inr(2) [of P q verified "fst x" "snd x" y] that
    by (auto simp: q(2) dest!: map_of_SomeD)
  then have "\<forall>y\<in>set (requirements rep). er_role y = MANDATORY_FOR_ELIGIBILITY"
    by (rule traverse_all [OF t])
  moreover have "er_state ` set (requirements rep) = snd ` set ?states"
    using list_all2_sets [OF l2, of snd er_state] assess_requirement_Inr(1) [of P q verified] by (metis prod.collapse set_sort)
  ultimately show ?thesis
    unfolding res by (simp add: mandatory_result) (auto simp: pack_states_def strengths_def)
qed

lemma policies_clear_iff:
  "denied_policies (policy_verifications_of P i) = [] \<and> unknown_policies (policy_verifications_of P i) = [] \<and>
     economics_outcome i \<noteq> DENIED \<longleftrightarrow>
   pack_supported i \<and> access_known i \<and> privacy_supported i \<and> export_supported i \<and> source_supported i \<and>
     economics_outcome i = VERIFIED"
proof -
  have "sort xs = [] \<longleftrightarrow> xs = []" for xs :: "pystr list" by (metis length_0_conv length_sort)
  then show ?thesis
    unfolding denied_policies_def unknown_policies_def policy_verifications_of_def verification_def Let_def
    by (cases "economics_outcome i") (auto split: if_splits)
qed

section \<open>Properties\<close>

lemma decide_policies_approves:
  assumes "decide_policies P i = Inr d"
  shows "operational_decision d = APPROVE_WITHIN_ENVELOPE \<longleftrightarrow>
    denied_policies (policy_verifications_of P i) = [] \<and> unknown_policies (policy_verifications_of P i) = [] \<and>
    economics_outcome i \<noteq> DENIED \<and> \<not> instant (decision_deadline (incident_case i)) < instant (evaluated_at i) \<and>
    decision_reached (native_baseline i) \<in> {None, Some []} \<and> cr_technical_result (completeness_report i) = PASS \<and>
    identity_strength i = FULLY_VERIFIED"
  using assms unfolding decide_policies_def Let_def by (auto dest!: decide_Inr(2) split: if_splits)

lemma reject_not_approved: "reject P i why = Inr d \<Longrightarrow> operational_decision d \<noteq> APPROVE_WITHIN_ENVELOPE"
  by (auto simp: reject_def dest!: decide_Inr(2))

text \<open>What has to hold of the evidence and the claims for an approval.\<close>

definition evidence_agrees ::
  "platform \<Rightarrow> cpython \<Rightarrow> 'doc artifact_codec \<Rightarrow> (pystr \<Rightarrow> bool) \<Rightarrow> PreflightInputs \<Rightarrow> reader \<Rightarrow> bool" where
  "evidence_agrees P L K wordy i reader \<longleftrightarrow>
     (\<forall>a\<in>set (verified_artifacts i). \<exists>payload. reader a = Inr payload \<and> sha256_digest P payload = content_digest a) \<and>
     (\<exists>r findings. reimport_from_raw_artifacts P L K (nb_artifacts (native_baseline i)) reader
          (nb_binding_artifacts (native_baseline i)) = Inr r \<and>
        traverse (redacted_native_finding P wordy) (fi_native_findings r) = Inr findings \<and>
        native_matches P (native_baseline i) r findings \<and>
        entries r \<noteq> [] \<and> fi_missing_ranks r = [] \<and> fi_world_size r \<noteq> None \<and>
        authoritative_completeness P i r = Inr (completeness_report i)) \<and>
     lifecycle_disagreement_from_raw P L (nb_artifacts (native_baseline i)) reader = Inr False \<and>
     decision_matches P (native_baseline i) False"

definition policies_hold :: "PreflightInputs \<Rightarrow> bool" where
  "policies_hold i \<longleftrightarrow> pack_supported i \<and> access_known i \<and> privacy_supported i \<and> export_supported i \<and> source_supported i \<and>
     economics_outcome i = VERIFIED \<and> instant (evaluated_at i) \<le> instant (decision_deadline (incident_case i))"

lemma decision_matches_reached:
  "decision_matches P nb b \<Longrightarrow> decision_reached nb \<in> {None, Some []} \<longleftrightarrow> \<not> b"
  by (auto simp: decision_matches_def Let_def NATIVE_SUFFICIENT_DECISION_def split: if_splits)

lemma decide_reconstructed_approves:
  assumes "decide_reconstructed P L i reader r = Inr d"
  shows "operational_decision d = APPROVE_WITHIN_ENVELOPE \<longleftrightarrow>
    authoritative_completeness P i r = Inr (completeness_report i) \<and> entries r \<noteq> [] \<and> fi_missing_ranks r = [] \<and>
    fi_world_size r \<noteq> None \<and> lifecycle_disagreement_from_raw P L (nb_artifacts (native_baseline i)) reader = Inr False \<and>
    decision_matches P (native_baseline i) False \<and> policies_hold i \<and> set (strengths i) = {FULLY_VERIFIED}"
proof -
  from assms obtain rep where rep: "authoritative_completeness P i r = Inr rep"
    by (auto simp: decide_reconstructed_def rbind_Inr_iff)
  note run = assms [unfolded decide_reconstructed_def rep rbind_simps]
  show ?thesis
  proof (cases "completeness_report i = rep")
    case False
    then show ?thesis using run rep by (auto dest: reject_not_approved)
  next
    case True
    note pass = authoritative_PASS [OF rep [folded True]]
    show ?thesis
    proof (cases "\<exists>b. lifecycle_disagreement_from_raw P L (nb_artifacts (native_baseline i)) reader = Inr b \<and>
        decision_matches P (native_baseline i) b")
      case False
      have "operational_decision d \<noteq> APPROVE_WITHIN_ENVELOPE"
      proof (cases "lifecycle_disagreement_from_raw P L (nb_artifacts (native_baseline i)) reader")
        case (Inl e)
        with run True show ?thesis by (cases "caught e") (auto dest: reject_not_approved)
      next
        case (Inr b)
        with run True False show ?thesis by (simp add: reject_not_approved)
      qed
      with False show ?thesis by blast
    next
      case b: True
      then obtain b where b: "lifecycle_disagreement_from_raw P L (nb_artifacts (native_baseline i)) reader = Inr b"
        "decision_matches P (native_baseline i) b" by blast
      with run True have "decide_policies P i = Inr d" by simp
      from decide_policies_approves [OF this] have "operational_decision d = APPROVE_WITHIN_ENVELOPE \<longleftrightarrow>
          policies_hold i \<and> \<not> b \<and> cr_technical_result (completeness_report i) = PASS \<and> set (strengths i) = {FULLY_VERIFIED}"
        unfolding decision_matches_reached [OF b(2)] identity_strength_FULLY policies_hold_def not_less
        using policies_clear_iff [of P i] by argo
      then show ?thesis unfolding pass using b rep True by (cases b) (simp_all, blast)
    qed
  qed
qed

text \<open>
  C23: what an approval means. A preflight that returns a decision approves within the
  envelope exactly when the workload and both environments are fully verified; every
  artifact reads back with its digest; the native import rebuilt from the raw artifacts
  matches the claimed baseline in every compared field; it has entries, a declared world
  and no missing rank, and the claimed completeness is the one computed; the raw lifecycle
  shows no disagreement and the baseline claims none; pack, access, privacy, export, source
  and cost are all verified; and the deadline has not passed.
\<close>

theorem preflight_approval_iff:
  assumes "evaluate_preflight P L K wordy i reader = Inr d"
  shows "operational_decision d = APPROVE_WITHIN_ENVELOPE \<longleftrightarrow>
    evidence_agrees P L K wordy i reader \<and> policies_hold i \<and> set (strengths i) = {FULLY_VERIFIED}"
proof -
  from assms obtain ok where ok: "raw_verified P reader (verified_artifacts i) = Inr ok"
    by (auto simp: evaluate_preflight_def rbind_Inr_iff)
  note run = assms [unfolded evaluate_preflight_def ok rbind_simps]
  show ?thesis
  proof (cases ok)
    case False
    then show ?thesis
      using run ok raw_verified_True [of P reader "verified_artifacts i"]
      by (auto simp: evidence_agrees_def dest: reject_not_approved)
  next
    case True
    then have verified: "\<forall>a\<in>set (verified_artifacts i). \<exists>payload. reader a = Inr payload \<and> sha256_digest P payload = content_digest a"
      using ok by (simp flip: raw_verified_True)
    show ?thesis
    proof (cases "reimport_from_raw_artifacts P L K (nb_artifacts (native_baseline i)) reader (nb_binding_artifacts (native_baseline i))")
      case (Inl e)
      then show ?thesis using run True by (auto simp: evidence_agrees_def dest: reject_not_approved split: if_splits)
    next
      case (Inr r)
      with run True obtain fs where fs: "traverse (redacted_native_finding P wordy) (fi_native_findings r) = Inr fs"
        by (auto simp: rbind_Inr_iff)
      show ?thesis
      proof (cases "native_matches P (native_baseline i) r fs")
        case False
        then show ?thesis using run True Inr fs by (auto simp: evidence_agrees_def dest: reject_not_approved)
      next
        case nm: True
        with run True Inr fs have "decide_reconstructed P L i reader r = Inr d" by simp
        from decide_reconstructed_approves [OF this] show ?thesis
          unfolding evidence_agrees_def using verified Inr fs nm by (simp, blast)
      qed
    qed
  qed
qed

section \<open>A generated baseline passes its own preflight\<close>

text \<open>
  What the code relies on of \<open>str.strip\<close>: it is idempotent, and a text that starts and ends
  with a visible ASCII character is its own result.
\<close>

definition is_graphic :: "char \<Rightarrow> bool" where
  "is_graphic c \<longleftrightarrow> CHR ''!'' \<le> c \<and> c \<le> CHR ''~''"

definition strip_laws :: "platform \<Rightarrow> bool" where
  "strip_laws P \<longleftrightarrow> platform_ok P \<and> (\<forall>s. strip P (strip P s) = strip P s) \<and>
     (\<forall>s. s \<noteq> [] \<and> is_graphic (hd s) \<and> is_graphic (last s) \<longrightarrow> strip P s = s)"

lemma char_s_graphic: "CHR ''!'' \<le> CHR ''s''" "CHR ''s'' \<le> CHR ''~''"
  by code_simp+

lemma hex_graphic: "is_hex c \<Longrightarrow> is_graphic c"
  by (auto simp: is_graphic_def is_hex_def is_digit_def
      intro: order_trans [of _ "CHR ''0''"] order_trans [of _ "CHR ''a''"] order_trans [of _ "CHR ''9''"] order_trans [of _ "CHR ''f''"])

lemma strip_is_digest: "strip_laws P \<Longrightarrow> is_digest s \<Longrightarrow> strip P s = s"
proof -
  assume P: "strip_laws P" and s: "is_digest s"
  then have t: "take 7 s = ''sha256:''" "length s = 71" "list_all is_hex (drop 7 s)"
    by (simp_all add: is_digest_def starts_with_def numeral_eq_Suc)
  then have "s = ''sha256:'' @ drop 7 s" by (metis append_take_drop_id)
  moreover have "drop 7 s \<noteq> []" "last (drop 7 s) = last s" using t(2) by (simp_all add: last_drop)
  with t(3) have "is_hex (last s)" by (metis last_in_set list_all_iff)
  then have "is_graphic (last s)" by (rule hex_graphic)
  ultimately have "is_graphic (hd s) \<and> is_graphic (last s) \<and> s \<noteq> []"
    using t(2) by (metis append_Cons hd_Cons_tl is_graphic_def list.sel(1) list.simps(3) char_s_graphic)
  then show ?thesis using P by (simp add: strip_laws_def)
qed

lemma strip_constants:
  assumes "strip_laws P"
  shows "strip P ''PyTorch Flight Recorder'' = ''PyTorch Flight Recorder''"
    "strip P NATIVE_SUFFICIENT_DECISION = NATIVE_SUFFICIENT_DECISION"
    "strip P (digest_json P j) = digest_json P j"
  using assms strip_digest [of P] by (simp_all add: strip_laws_def is_graphic_def NATIVE_SUFFICIENT_DECISION_def digest_json_def)

lemma reimport_stripped:
  assumes "reimport_from_raw_artifacts P L K as reader bs = Inr r" "strip_laws P"
  shows "strip P (fi_case_id r) = fi_case_id r" "strip P (pytorch_version r) = pytorch_version r"
    "strip P (fi_source_format r) = fi_source_format r" "strip P (fi_source_format_version r) = fi_source_format_version r"
    "map (strip P) (warnings r) = warnings r"
  using assms
  by (auto simp: reimport_from_raw_artifacts_def import_trace_def assemble_import_def coerce_import_def Let_def strip_laws_def
      rbind_Inr_iff split: list.splits if_splits sum.splits prod.splits)

lemma verify_import_lifecycle:
  "verify_import_against_raw P L r reader = Inr b \<Longrightarrow> lifecycle_disagreement_from_raw P L (fi_artifacts r) reader = Inr b"
  by (auto simp: verify_import_against_raw_def rbind_Inr_iff split: if_splits)

lemma coerce_baseline_Inr: "coerce_baseline P b = Inr nb \<Longrightarrow> nb = (b\<lparr>nb_case_id := strip P (nb_case_id b),
     nb_workload_id := strip P (nb_workload_id b), nb_baseline_environment_id := strip P (nb_baseline_environment_id b),
     nb_candidate_environment_id := strip P (nb_candidate_environment_id b), tool_name := strip P (tool_name b),
     tool_version := strip P (tool_version b), nb_source_format := strip P (nb_source_format b),
     nb_source_format_version := strip P (nb_source_format_version b), import_digest := strip P (import_digest b),
     nb_command := map (strip P) (nb_command b), configuration := strip_keys P (configuration b),
     nb_limitations := map (strip P) (nb_limitations b), import_warnings := map (strip P) (import_warnings b),
     decision_reached := map_option (strip P) (decision_reached b),
     decision_evidence_refs := map (strip P) (decision_evidence_refs b),
     decision_provenance_digest := map_option (strip P) (decision_provenance_digest b),
     unresolved_questions := map (strip P) (unresolved_questions b)\<rparr>)"
  by (auto simp: coerce_baseline_def validate_baseline_def native_attribution_and_case_binding_def raise_first_Inr_iff Let_def
      split: if_splits)

lemma generate_native_baseline_Inr:
  assumes "generate_native_baseline P L wordy r q reader = Inr nb"
  obtains b findings where "verify_import_against_raw P L r reader = Inr b"
    "traverse (redacted_native_finding P wordy) (fi_native_findings r) = Inr findings"
    "nb_artifacts nb = fi_artifacts r" "nb_binding_artifacts nb = fi_binding_artifacts r"
    "tool_name nb = strip P ''PyTorch Flight Recorder''" "tool_version nb = strip P (pytorch_version r)"
    "nb_source_format nb = strip P (fi_source_format r)" "nb_source_format_version nb = strip P (fi_source_format_version r)"
    "import_digest nb = strip P (digest_json P (dump_import P r))" "nb_findings nb = findings"
    "import_warnings nb = map (strip P) (warnings r)" "nb_missing_ranks nb = fi_missing_ranks r"
    "nb_case_id nb = strip P (fi_case_id r)"
    "decision_reached nb = (if b then Some (strip P NATIVE_SUFFICIENT_DECISION) else None)"
    "decision_evidence_refs nb = (if b then map (strip P) (sort (map artifact_id (fi_artifacts r))) else [])"
    "decision_provenance_digest nb = (if b then Some (strip P (decision_digest P (fi_case_id r) NATIVE_SUFFICIENT_DECISION
       (sort (map artifact_id (fi_artifacts r))))) else None)"
proof -
  obtain cs qs b where b: "verify_import_against_raw P L r reader = Inr b"
    and run: "redact_command wordy [] (br_command q) = Inr cs"
      "traverse (\<lambda>question. redact_sensitive_value wordy REDACTION_POLICY ''unresolved_question'' (JStr question))
         (br_unresolved_questions q) = Inr qs"
    using assms by (auto simp: generate_native_baseline_def rbind_Inr_iff)
  obtain a as where as: "fi_artifacts r = a # as"
    using assms b run by (cases "fi_artifacts r") (auto simp: generate_native_baseline_def)
  obtain wl be ce where ids: "identity_binding a = (Some wl, Some be, Some ce)"
    using assms b run as
    by (cases "identity_binding a") (auto simp: generate_native_baseline_def split: option.splits)
  obtain config findings where fs: "traverse (redacted_native_finding P wordy) (fi_native_findings r) = Inr findings"
    and config: "redact_sensitive_value wordy REDACTION_POLICY [] (JObj (br_configuration q)) = Inr config"
    using assms b run as ids by (auto simp: generate_native_baseline_def Let_def rbind_Inr_iff)
  have nb: "\<exists>b0. coerce_baseline P b0 = Inr nb \<and> nb_artifacts b0 = fi_artifacts r \<and> nb_binding_artifacts b0 = fi_binding_artifacts r \<and>
    tool_name b0 = ''PyTorch Flight Recorder'' \<and> tool_version b0 = pytorch_version r \<and>
    nb_source_format b0 = fi_source_format r \<and> nb_source_format_version b0 = fi_source_format_version r \<and>
    import_digest b0 = digest_json P (dump_import P r) \<and> nb_findings b0 = findings \<and>
    import_warnings b0 = warnings r \<and> nb_missing_ranks b0 = fi_missing_ranks r \<and> nb_case_id b0 = fi_case_id r \<and>
    decision_reached b0 = (if b then Some NATIVE_SUFFICIENT_DECISION else None) \<and>
    decision_evidence_refs b0 = (if b then sort (map artifact_id (fi_artifacts r)) else []) \<and>
    decision_provenance_digest b0 = (if b then Some (decision_digest P (fi_case_id r) NATIVE_SUFFICIENT_DECISION
       (sort (map artifact_id (fi_artifacts r)))) else None)"
    using assms unfolding generate_native_baseline_def Let_def
    by (cases b) (simp_all add: b run as ids fs config, (rule exI, rule conjI, assumption, simp add: as)+)
  show ?thesis using nb by (elim exE conjE, intro that [OF b fs]) (auto dest!: coerce_baseline_Inr)
qed

text \<open>
  C27: a generated baseline agrees with its evidence. When the import can be rebuilt from its raw
  artifacts and a native baseline was generated from it, then the checks the preflight makes
  of that baseline succeed: the redacted findings, tool, format, import digest, warnings and
  missing ranks match the rebuilt import, and the recorded decision, its references and its
  provenance digest match the lifecycle recomputed from the raw evidence.
\<close>

theorem generated_baseline_matches:
  assumes laws: "strip_laws P" and gen: "generate_native_baseline P L wordy r q reader = Inr nb"
    and again: "reimport_from_raw_artifacts P L K (fi_artifacts r) reader (fi_binding_artifacts r) = Inr r"
    and valid: "list_all (\<lambda>a. is_digest (artifact_id a)) (fi_artifacts r)"
  shows "nb_artifacts nb = fi_artifacts r \<and> nb_binding_artifacts nb = fi_binding_artifacts r \<and>
    (\<exists>findings b. traverse (redacted_native_finding P wordy) (fi_native_findings r) = Inr findings \<and>
       native_matches P nb r findings \<and> lifecycle_disagreement_from_raw P L (nb_artifacts nb) reader = Inr b \<and>
       decision_matches P nb b)"
proof -
  have refs: "map (strip P) (sort (map artifact_id (fi_artifacts r))) = sort (map artifact_id (fi_artifacts r))"
    using valid strip_is_digest [OF laws] by (intro map_idI) (auto simp: list_all_iff)
  obtain b findings where b: "verify_import_against_raw P L r reader = Inr b"
    and fs: "traverse (redacted_native_finding P wordy) (fi_native_findings r) = Inr findings"
    and nb: "nb_artifacts nb = fi_artifacts r" "nb_binding_artifacts nb = fi_binding_artifacts r"
      "tool_name nb = strip P ''PyTorch Flight Recorder''" "tool_version nb = strip P (pytorch_version r)"
      "nb_source_format nb = strip P (fi_source_format r)" "nb_source_format_version nb = strip P (fi_source_format_version r)"
      "import_digest nb = strip P (digest_json P (dump_import P r))" "nb_findings nb = findings"
      "import_warnings nb = map (strip P) (warnings r)" "nb_missing_ranks nb = fi_missing_ranks r"
      "nb_case_id nb = strip P (fi_case_id r)"
      "decision_reached nb = (if b then Some (strip P NATIVE_SUFFICIENT_DECISION) else None)"
      "decision_evidence_refs nb = (if b then map (strip P) (sort (map artifact_id (fi_artifacts r))) else [])"
      "decision_provenance_digest nb = (if b then Some (strip P (decision_digest P (fi_case_id r) NATIVE_SUFFICIENT_DECISION
         (sort (map artifact_id (fi_artifacts r))))) else None)"
    by (rule generate_native_baseline_Inr [OF gen])
  show ?thesis
    using fs verify_import_lifecycle [OF b]
    by (simp add: nb native_matches_def decision_matches_def SUPPORTED_NATIVE_TOOL_def decision_digest_def refs
        strip_constants [OF laws] reimport_stripped [OF again laws])
qed

section \<open>A sample case\<close>

text \<open>One rank of a world of one, bound to a workload and two environments, with both recipes.\<close>

definition solo_document :: json where
  "solo_document = JObj [(''version'', JStr ''2.5''), (''pytorch_version'', JStr ''2.5.1''), (''world_size'', JInt 1),
     (''rank'', JInt 0), (''entries'', JList [JObj [(''collective_seq_id'', JInt 3), (''profiling_name'', JStr ''all_reduce''),
       (''state'', JStr ''completed'')]])]"

definition solo_platform :: platform where
  "solo_platform = trace_platform\<lparr>loads := (\<lambda>_. Some solo_document)\<rparr>"

definition solo_binding :: trace_binding where
  "solo_binding = \<lparr>tb_captured_at = Datetime 0 (Some 0), tb_workload_id = Some zero_digest,
     tb_baseline_environment_id = Some zero_digest, tb_candidate_environment_id = Some zero_digest\<rparr>"

definition solo_artifact :: EvidenceArtifact where
  "solo_artifact = raw_artifact solo_platform ''case-1'' ''data'' (trace_request solo_binding ''r0.json'')"

definition solo_recipes :: "EvidenceArtifact list" where
  "solo_recipes = map (\<lambda>k. raw_artifact solo_platform ''case-1'' ''data'' ((trace_request solo_binding ''r0.json'')\<lparr>rq_kind := k\<rparr>))
     [''BASELINE_MATERIALIZATION_RECIPE'', ''CANDIDATE_MATERIALIZATION_RECIPE'']"

definition solo_header :: trace_header where
  "solo_header = sample_header\<lparr>th_world_size := Some 1, th_expected_ranks := Some [0]\<rparr>"

definition solo_finding :: NativeFinding where
  "solo_finding = projr (trace_finding solo_platform solo_header [] 1 1 [zero_digest])"

definition solo_import :: FlightRecorderImport where
  "solo_import = \<lparr>fi_case_id = ''case-1'', fi_source_format = REAL_FORMAT, fi_source_format_version = ''2.5'',
     pytorch_version = ''2.5.1'', fi_world_size = Some 1, fi_artifacts = [solo_artifact], fi_binding_artifacts = solo_recipes,
     entries = [sample_entry], fi_native_findings = [solo_finding], warnings = trace_warnings solo_header [],
     fi_missing_ranks = [], raw_digests = [(''r0.json'', zero_digest)], metadata_unknown_fields = [],
     document_unknown_fields = [(''r0.json'', [])]\<rparr>"

lemma solo_hexdigest [simp]: "hexdigest solo_platform b = replicate 64 CHR ''0''"
  by (simp add: solo_platform_def)

lemma solo_digest_json [simp]: "digest_json solo_platform j = zero_digest"
  by (simp add: digest_json_def sha256_digest_def zero_digest_def)

lemma solo_strip [simp]: "strip solo_platform s = s"
  by (simp add: solo_platform_def)

lemma solo_strip_laws: "strip_laws solo_platform"
  by (simp add: strip_laws_def platform_ok_def list_all_iff is_hex_def is_digit_def)

lemma solo_finding_ok: "trace_finding solo_platform solo_header [] 1 1 [zero_digest] = Inr solo_finding"
proof -
  have "is_ok (trace_finding solo_platform solo_header [] 1 1 [zero_digest])"
    unfolding trace_finding_def Let_def validate_finding_def
    by (simp add: finding_fields_ok_def trace_limitations_def solo_header_def sample_header_def raise_first_def)
  then show ?thesis by (auto simp: solo_finding_def is_ok_iff)
qed

lemma solo_artifact_simps [simp]:
  "ea_case_id solo_artifact = ''case-1''" "provenance solo_artifact = [(''sourceRelativePath'', ''r0.json'')]"
  "captured_at solo_artifact = Datetime 0 (Some 0)" "content_digest solo_artifact = zero_digest"
  "artifact_id solo_artifact = zero_digest" "ea_workload_id solo_artifact = Some zero_digest"
  "ea_baseline_environment_id solo_artifact = Some zero_digest" "ea_candidate_environment_id solo_artifact = Some zero_digest"
  by (simp_all add: solo_artifact_def raw_artifact_def trace_request_def solo_binding_def Let_def sha256_digest_def zero_digest_def)

lemma solo_coerced: "coerce_artifact solo_platform solo_artifact = Inr solo_artifact"
  by code_simp

lemma solo_header_read: "read_header solo_platform [(''r0.json'', ''data'')] = Inr solo_header"
  by code_simp

lemma solo_parsed:
  "parse_documents solo_platform sample_cpython solo_header [(''r0.json'', ''data'')] [] [''r0.json''] =
     Inr ([0], [sample_entry], [(''r0.json'', [])])"
  by code_simp

lemma solo_evaluated:
  "missing_ranks_of solo_header [0] = []" "safe_identifier ''case-1'' = Inr ''case-1''"
  "claimed_entry sample_entry = (0, ''UNKNOWN'', 3, ''all_reduce'', ''completed'')"
  by code_simp+

lemma solo_lifecycle:
  "lifecycle_disagreement_from_raw solo_platform sample_cpython [solo_artifact] (\<lambda>_. Inr ''data'') = Inr False"
  by code_simp

lemma solo_entries:
  "verified_lifecycle_entries solo_platform sample_cpython [solo_artifact] (\<lambda>_. Inr ''data'') =
     Inr [(0, ''UNKNOWN'', 3, ''all_reduce'', ''completed'')]"
  by code_simp

lemma solo_verified: "verify_import_against_raw solo_platform sample_cpython solo_import (\<lambda>_. Inr ''data'') = Inr False"
  using solo_evaluated(3) solo_lifecycle solo_entries
  by (simp add: verify_import_against_raw_def solo_import_def dict_eq_def expected_raw_digests_def)

lemma solo_header_simps [simp]:
  "th_documents solo_header = [''r0.json'']" "th_format solo_header = REAL_FORMAT" "th_version solo_header = ''2.5''"
  "th_pytorch_version solo_header = ''2.5.1''" "th_world_size solo_header = Some 1" "th_metadata_unknown solo_header = []"
  by (simp_all add: solo_header_def)

lemma solo_reimport:
  "reimport_from_raw_artifacts solo_platform sample_cpython (sample_codec 8) [solo_artifact] (\<lambda>_. Inr ''data'') solo_recipes = Inr solo_import"
proof -
  have stored: "put_bytes solo_platform (sample_codec 8) default_store_config ''case-1'' ''data'' (trace_request solo_binding ''r0.json'')
      empty_store = (Inr solo_artifact, \<lparr>objects = [((''case-1'', replicate 64 CHR ''0''), ''data'')],
         metadata = [((''case-1'', replicate 64 CHR ''0''), solo_artifact)]\<rparr>)"
    using solo_coerced solo_evaluated(2)
    by (simp add: put_bytes_def Let_def default_store_config_def case_count_def case_documents_def
        store_object_def store_metadata_def empty_store_def solo_artifact_def sample_codec_def)
  have "assemble_import solo_platform sample_cpython ''case-1'' [(solo_artifact, ''r0.json'', ''data'')] =
      Inr (solo_import\<lparr>fi_binding_artifacts := []\<rparr>)"
    using solo_finding_ok solo_header_read solo_parsed solo_evaluated(1)
    by (simp add: assemble_import_def Let_def solo_import_def coerce_import_def strip_dict_def strip_keys_def
        map_idI del: parse_documents.simps)
  then have "fst (import_trace solo_platform sample_cpython (sample_codec 8) default_import_limits default_store_config
      (Directory [(''r0.json'', Regular ''data'')]) ''case-1'' solo_binding empty_store) = Inr (solo_import\<lparr>fi_binding_artifacts := []\<rparr>)"
    using stored by (simp add: import_trace_def Let_def default_import_limits_def read_trace_file_eq)
  then show ?thesis
    by (simp add: reimport_from_raw_artifacts_def empty_store_def [symmetric] solo_binding_def solo_import_def)
qed

lemma solo_finding_eq:
  "solo_finding = \<lparr>finding_id = zero_digest, attribution = NATIVE_TOOL_FOUND, native_system = ''PyTorch Flight Recorder'',
     native_version = ''2.5.1'', observation = ''Flight Recorder directly reported 1 lifecycle entries across 1 observed ranks.'',
     nf_evidence_refs = [zero_digest], confidence_class = DIRECT_OBSERVATION,
     nf_limitations = [''Importer reports native observations; it does not infer root cause.''],
     customer_decision_contribution = ''Preserves native observations and explicit evidence limits.''\<rparr>"
proof -
  have "show_nat 1 = ''1''" by code_simp
  then show ?thesis
    using solo_finding_ok unfolding trace_finding_def Let_def validate_finding_def
    by (auto simp: trace_limitations_def solo_header_def sample_header_def raise_first_Inr_iff split: if_splits)
qed

lemma plain_texts:
  "plain_text ''NATIVE_TOOL_FOUND''" "plain_text ''DIRECT_OBSERVATION''" "plain_text ''PyTorch Flight Recorder''"
  "plain_text ''2.5.1''" "plain_text zero_digest"
  "plain_text ''Flight Recorder directly reported 1 lifecycle entries across 1 observed ranks.''"
  "plain_text ''Importer reports native observations; it does not infer root cause.''"
  "plain_text ''Preserves native observations and explicit evidence limits.''"
  by code_simp+

lemma plain_names:
  "list_all (\<lambda>n. \<not> SECRET_NAME n) [''attribution'', ''confidenceClass'', ''customerDecisionContribution'', ''evidenceRefs'',
     ''limitations'', ''nativeSystem'', ''nativeVersion'', ''observation'', ''schemaVersion'', []]"
  by code_simp

lemma redact_list:
  "\<not> SECRET_NAME name \<Longrightarrow> plain_text s \<Longrightarrow>
   redact_sensitive_value wordy ''traincapsule-redaction-v1'' name (JList [JStr s]) = Inr (JList [JStr s])"
  by (subst redact_sensitive_value.simps) (simp add: SUPPORTED_REDACTION_POLICIES_def redact_plain)

lemma solo_material:
  "sort_key fst (finding_material solo_finding) =
    [(''attribution'', JStr ''NATIVE_TOOL_FOUND''), (''confidenceClass'', JStr ''DIRECT_OBSERVATION''),
     (''customerDecisionContribution'', JStr ''Preserves native observations and explicit evidence limits.''),
     (''evidenceRefs'', JList [JStr zero_digest]),
     (''limitations'', JList [JStr ''Importer reports native observations; it does not infer root cause.'']),
     (''nativeSystem'', JStr ''PyTorch Flight Recorder''), (''nativeVersion'', JStr ''2.5.1''),
     (''observation'', JStr ''Flight Recorder directly reported 1 lifecycle entries across 1 observed ranks.''),
     (''schemaVersion'', JInt 1)]"
  unfolding solo_finding_eq by code_simp

lemma solo_redacted: "redacted_native_finding solo_platform wordy solo_finding = Inr solo_finding"
proof -
  have schema: "redact_sensitive_value wordy ''traincapsule-redaction-v1'' ''schemaVersion'' (JInt 1) = Inr (JInt 1)"
    using plain_names by (subst redact_sensitive_value.simps) (simp add: SUPPORTED_REDACTION_POLICIES_def)
  have "redact_sensitive_value wordy REDACTION_POLICY [] (JObj (finding_material solo_finding)) =
      Inr (JObj (sort_key fst (finding_material solo_finding)))"
    using plain_names unfolding REDACTION_POLICY_def
    by (subst redact_sensitive_value.simps)
      (simp add: SUPPORTED_REDACTION_POLICIES_def solo_material redact_plain redact_list plain_texts schema)
  then show ?thesis
    unfolding redacted_native_finding_def solo_material
    by (simp add: finding_of_def jget_def str_of_def strs_of_def enum_of_def
        validate_finding_def finding_fields_ok_def raise_first_def solo_finding_eq)
qed

definition solo_request :: baseline_request where
  "solo_request = \<lparr>br_command = [''torchrun''], br_configuration = [], br_elapsed_seconds = 1, br_operator_effort_seconds = 0,
     br_unresolved_questions = [''which change''], br_executed_at = Datetime 0 (Some 0)\<rparr>"

definition solo_baseline :: NativeBaseline where
  "solo_baseline = \<lparr>nb_case_id = ''case-1'', nb_workload_id = zero_digest, nb_baseline_environment_id = zero_digest,
     nb_candidate_environment_id = zero_digest, tool_name = ''PyTorch Flight Recorder'', tool_version = ''2.5.1'',
     nb_source_format = REAL_FORMAT, nb_source_format_version = ''2.5'', import_digest = zero_digest, nb_command = [''torchrun''],
     configuration = [], nb_artifacts = [solo_artifact], nb_binding_artifacts = solo_recipes, nb_findings = [solo_finding],
     nb_limitations = [''Importer reports native observations; it does not infer root cause.''],
     import_warnings = trace_warnings solo_header [], nb_missing_ranks = [], elapsed_seconds = 1, operator_effort_seconds = 0,
     decision_reached = None, decision_evidence_refs = [], decision_provenance_digest = None,
     unresolved_questions = [''which change''], executed_at = Datetime 0 (Some 0)\<rparr>"

lemma solo_import_simps [simp]:
  "fi_case_id solo_import = ''case-1''" "fi_source_format solo_import = REAL_FORMAT" "fi_source_format_version solo_import = ''2.5''"
  "pytorch_version solo_import = ''2.5.1''" "fi_artifacts solo_import = [solo_artifact]"
  "fi_binding_artifacts solo_import = solo_recipes" "fi_native_findings solo_import = [solo_finding]"
  "warnings solo_import = trace_warnings solo_header []" "fi_missing_ranks solo_import = []" "fi_world_size solo_import = Some 1"
  "entries solo_import = [sample_entry]"
  by (simp_all add: solo_import_def)

lemma solo_generated:
  "generate_native_baseline solo_platform sample_cpython wordy solo_import solo_request (\<lambda>_. Inr ''data'') = Inr solo_baseline"
proof -
  have plain: "plain_text ''torchrun''" "plain_text ''which change''" "\<not> SECRET_NAME ''unresolved_question''" by code_simp+
  have empty: "redact_sensitive_value wordy ''traincapsule-redaction-v1'' [] (JObj []) = Inr (JObj [])"
    using plain_names by (subst redact_sensitive_value.simps) (simp add: SUPPORTED_REDACTION_POLICIES_def)
  have recipes: "list_all (\<lambda>a. ea_case_id a = ''case-1'' \<and> identity_binding a = (Some zero_digest, Some zero_digest, Some zero_digest))
      solo_recipes" "length solo_recipes = 2"
    by (simp_all add: solo_recipes_def raw_artifact_def trace_request_def solo_binding_def identity_binding_def Let_def)
  have digest: "is_digest zero_digest" "is_identifier ''case-1''" by code_simp+
  have valid: "validate_baseline solo_platform solo_baseline = Inr solo_baseline"
    using recipes digest
    by (simp add: solo_finding_eq validate_baseline_def baseline_fields_ok_def native_attribution_and_case_binding_def decision_checks_def
        raise_first_def solo_baseline_def identity_binding_def list_ex_iff list_all_iff REAL_FORMAT_def)
  have limitations: "nf_limitations solo_finding = [''Importer reports native observations; it does not infer root cause.'']"
    by (simp add: solo_finding_eq)
  show ?thesis
    using plain plain_names solo_verified solo_redacted valid unfolding generate_native_baseline_def
    by (simp add: solo_request_def redact_plain empty json_text_def Let_def starts_with_def
        coerce_baseline_def identity_binding_def limitations sorted_set_def strip_keys_def map_idI solo_baseline_def REDACTION_POLICY_def)
qed

theorem generated_baseline_matches_witness:
  "\<exists>b. lifecycle_disagreement_from_raw solo_platform sample_cpython (nb_artifacts solo_baseline) (\<lambda>_. Inr ''data'') = Inr b \<and>
     decision_matches solo_platform solo_baseline b"
proof -
  have "is_digest zero_digest" by code_simp
  then show ?thesis
    using generated_baseline_matches [OF solo_strip_laws solo_generated [of "\<lambda>_. True"], of "sample_codec 8"] solo_reimport
    by auto
qed

definition solo_economics :: ExperimentEconomics where
  "solo_economics = \<lparr>estimated_cost = Some (Finite 0), estimated_duration_seconds = None, xe_currency = None, basis = ''quote''\<rparr>"

definition solo_case :: IncidentCase where
  "solo_case = \<lparr>ic_case_id = ''case-1'', decision_owner = ''owner'', decision_type = ''upgrade'',
     decision_deadline = Datetime 0 (Some 0), incident_summary = ''hang'', ic_baseline_environment_id = Some zero_digest,
     ic_candidate_environment_id = Some zero_digest, ic_workload_id = Some zero_digest, ic_evidence_refs = [zero_digest],
     ic_native_findings = [], pack_candidate = ''ddp-hang-v1'',
     ic_economics = \<lparr>estimated_original_run_cost = None, estimated_investigation_cost = None,
       estimated_delay_cost = None, ce_currency = None\<rparr>, privacy_policy = ''LOCAL_ONLY'', ic_status = ''OPEN''\<rparr>"

definition solo_requirement :: "pystr \<Rightarrow> pystr \<Rightarrow> EvidenceRequirement" where
  "solo_requirement k d = \<lparr>er_kind = k, er_role = MANDATORY_FOR_ELIGIBILITY, claim_names = [], substitutable_by = [],
     er_state = PRESENT_VALID, artifact_refs = [zero_digest, zero_digest, zero_digest], detail = d\<rparr>"

definition solo_requirements :: "EvidenceRequirement list" where
  "solo_requirements = [solo_requirement ''collective_lifecycle'' ''PRESENT_VALID'',
     solo_requirement ''environment_identity'' ''PRESENT_VALID'', solo_requirement ''flight_recorder_raw'' ''PRESENT_VALID'',
     solo_requirement ''rank_process_group_inventory'' ''rank/process-group inventory captured'',
     solo_requirement ''workload_identity'' ''PRESENT_VALID'']"

definition solo_inputs :: PreflightInputs where
  "solo_inputs = \<lparr>evaluated_at = Datetime 0 (Some 0), incident_case = solo_case,
     workload_identity = sample_workload (Datetime 0 (Some 0)), baseline_environment = sample_environment (Datetime 0 (Some 0)),
     candidate_environment = sample_environment (Datetime 0 (Some 0)), verified_artifacts = [solo_artifact],
     completeness_report = \<lparr>cr_case_id = ''case-1'', requirements = solo_requirements, cr_technical_result = PASS\<rparr>,
     native_baseline = solo_baseline, original_experiment_economics = solo_economics,
     proposed_experiment_economics = solo_economics\<rparr>"

lemma solo_inputs_simps [simp]:
  "incident_case solo_inputs = solo_case" "verified_artifacts solo_inputs = [solo_artifact]" "native_baseline solo_inputs = solo_baseline"
  "workload_identity solo_inputs = sample_workload (Datetime 0 (Some 0))" "evaluated_at solo_inputs = Datetime 0 (Some 0)"
  "baseline_environment solo_inputs = sample_environment (Datetime 0 (Some 0))"
  "candidate_environment solo_inputs = sample_environment (Datetime 0 (Some 0))"
  by (simp_all add: solo_inputs_def)

lemma solo_baseline_simps [simp]:
  "nb_artifacts solo_baseline = [solo_artifact]" "nb_binding_artifacts solo_baseline = solo_recipes"
  by (simp_all add: solo_baseline_def)

lemma solo_strengths: "strengths solo_inputs = [FULLY_VERIFIED, FULLY_VERIFIED, FULLY_VERIFIED]"
  by (simp add: strengths_def sample_workload_def sample_environment_def)

lemma solo_states: "pack_states solo_inputs solo_import =
    [(''flight_recorder_raw'', PRESENT_VALID), (''collective_lifecycle'', PRESENT_VALID),
     (''rank_process_group_inventory'', PRESENT_VALID), (''workload_identity'', PRESENT_VALID), (''environment_identity'', PRESENT_VALID)]"
  by (simp add: pack_states_def sample_workload_def sample_environment_def)

lemma solo_states_sorted: "sort_key fst (pack_states solo_inputs solo_import) =
    [(''collective_lifecycle'', PRESENT_VALID), (''environment_identity'', PRESENT_VALID), (''flight_recorder_raw'', PRESENT_VALID),
     (''rank_process_group_inventory'', PRESENT_VALID), (''workload_identity'', PRESENT_VALID)]"
  unfolding solo_states by code_simp

lemma solo_request_lookups:
  assumes "k \<in> fst ` set (pack_states solo_inputs solo_import)"
  shows "get_list (cq_artifact_refs (pack_request solo_inputs solo_import)) k = [zero_digest, zero_digest, zero_digest]"
    "map_of (cq_roles (pack_request solo_inputs solo_import)) k = Some MANDATORY_FOR_ELIGIBILITY"
proof -
  have "map artifact_id solo_recipes = [zero_digest, zero_digest]"
    by (simp add: solo_recipes_def raw_artifact_def Let_def sha256_digest_def zero_digest_def)
  then show "get_list (cq_artifact_refs (pack_request solo_inputs solo_import)) k = [zero_digest, zero_digest, zero_digest]"
    "map_of (cq_roles (pack_request solo_inputs solo_import)) k = Some MANDATORY_FOR_ELIGIBILITY"
    using assms by (auto simp: pack_request_def Let_def solo_states get_list_def present_states_def)
qed

lemma solo_assessed:
  assumes "k \<in> fst ` set (pack_states solo_inputs solo_import)"
  shows "assess_requirement solo_platform (pack_request solo_inputs solo_import) [zero_digest] (k, PRESENT_VALID) =
    Inr (solo_requirement k (if k = ''rank_process_group_inventory'' then ''rank/process-group inventory captured'' else ''PRESENT_VALID''))"
proof -
  have "is_digest zero_digest" by code_simp
  moreover have "k \<noteq> []" using assms by (auto simp: solo_states)
  moreover have "cq_claim_names (pack_request solo_inputs solo_import) = []" "cq_substitutable_by (pack_request solo_inputs solo_import) = []"
    "cq_details (pack_request solo_inputs solo_import) = [(''rank_process_group_inventory'', ''rank/process-group inventory captured'')]"
    by (simp_all add: pack_request_def Let_def)
  ultimately show ?thesis
    unfolding assess_requirement_def Let_def prod.case solo_request_lookups [OF assms]
    by (simp add: coerce_requirement_def validate_requirement_def raise_first_def get_list_def present_states_def
        solo_requirement_def)
qed

lemma solo_completeness: "authoritative_completeness solo_platform solo_inputs solo_import = Inr (completeness_report solo_inputs)"
proof -
  have valid: "integrity_status solo_artifact = VALID" by (simp add: solo_artifact_def raw_artifact_def Let_def)
  have digest: "is_digest zero_digest" "is_identifier ''case-1''" by code_simp+
  have "traverse (assess_requirement solo_platform (pack_request solo_inputs solo_import) [zero_digest])
      (sort_key fst (pack_states solo_inputs solo_import)) = Inr solo_requirements"
    unfolding solo_states_sorted by (simp add: solo_assessed solo_states solo_requirements_def)
  moreover have "validate_report (completeness_report solo_inputs) = Inr (completeness_report solo_inputs)"
    using digest by (simp add: solo_inputs_def solo_requirements_def solo_requirement_def validate_report_def
        validate_requirement_def raise_first_def present_states_def expected_result_def blocking_def)
  moreover have "expected_result solo_requirements = PASS"
    by (simp add: solo_requirements_def solo_requirement_def expected_result_def blocking_def)
  moreover have "cq_requirements (pack_request solo_inputs solo_import) = pack_states solo_inputs solo_import"
    "map fst (cq_roles (pack_request solo_inputs solo_import)) = map fst (pack_states solo_inputs solo_import)"
    by (simp_all add: pack_request_def Let_def case_prod_unfold comp_def)
  moreover have "ic_case_id solo_case = ''case-1''" by (simp add: solo_case_def)
  ultimately show ?thesis
    unfolding authoritative_completeness_def assess_completeness_def Let_def
    by (simp add: valid del: set_map) (simp add: solo_inputs_def)
qed

lemma solo_native_matches: "native_matches solo_platform solo_baseline solo_import [solo_finding]"
  by (simp add: native_matches_def solo_baseline_def SUPPORTED_NATIVE_TOOL_def)

lemma solo_decision_matches: "decision_matches solo_platform solo_baseline False"
  by (simp add: decision_matches_def solo_baseline_def)

lemma solo_policies: "policies_hold solo_inputs"
proof -
  have "ea_kind (solo_recipes ! 0) = ''BASELINE_MATERIALIZATION_RECIPE''" by (simp add: solo_recipes_def raw_artifact_def Let_def)
  have "access_known solo_inputs"
    by (simp add: access_known_def sample_environment_def solo_recipes_def raw_artifact_def Let_def trace_request_def
        sha256_digest_def zero_digest_def)
  moreover have "export_policy solo_artifact = ''LOCAL_ONLY''" by (simp add: solo_artifact_def raw_artifact_def Let_def)
  ultimately show ?thesis
    by (simp add: policies_hold_def pack_supported_def solo_case_def SUPPORTED_PACKS_def privacy_supported_def export_supported_def
        source_supported_def solo_baseline_def SUPPORTED_NATIVE_TOOL_def SUPPORTED_PYTORCH_VERSIONS_def economics_outcome_def
        solo_economics_def solo_inputs_def)
qed

lemma solo_decided: "why \<noteq> [] \<Longrightarrow> \<exists>d. decide solo_platform solo_inputs res t why us = Inr d"
proof -
  assume why: "why \<noteq> []"
  have "is_digest zero_digest" "is_identifier ''case-1''" by code_simp+
  then show ?thesis
    using why solo_strengths
    by (simp add: decide_def Let_def decision_fields_ok_def weak_identity_cannot_approve_def raise_first_def
        solo_case_def sample_workload_def sample_environment_def identity_strength_def precedence_def policy_verifications_of_def)
qed

lemma solo_decides: "\<exists>d. decide_policies solo_platform solo_inputs = Inr d"
  unfolding decide_policies_def Let_def by (simp add: solo_decided split: if_split)

theorem preflight_approval_iff_witness:
  "\<exists>d. evaluate_preflight solo_platform sample_cpython (sample_codec 8) (\<lambda>_. True) solo_inputs (\<lambda>_. Inr ''data'') = Inr d \<and>
     operational_decision d = APPROVE_WITHIN_ENVELOPE"
proof -
  have digest: "sha256_digest solo_platform b = zero_digest" for b by (simp add: sha256_digest_def zero_digest_def)
  have findings: "traverse (redacted_native_finding solo_platform (\<lambda>_. True)) (fi_native_findings solo_import) = Inr [solo_finding]"
    using solo_redacted by simp
  obtain d where d: "decide_policies solo_platform solo_inputs = Inr d" using solo_decides by blast
  have "evaluate_preflight solo_platform sample_cpython (sample_codec 8) (\<lambda>_. True) solo_inputs (\<lambda>_. Inr ''data'') = Inr d"
    using d digest findings solo_reimport solo_native_matches solo_completeness solo_lifecycle solo_decision_matches
    by (simp add: evaluate_preflight_def decide_reconstructed_def)
  moreover have "evidence_agrees solo_platform sample_cpython (sample_codec 8) (\<lambda>_. True) solo_inputs (\<lambda>_. Inr ''data'')"
    unfolding evidence_agrees_def
    using digest findings solo_reimport solo_native_matches solo_completeness solo_lifecycle solo_decision_matches
    by simp
  ultimately show ?thesis using preflight_approval_iff solo_policies solo_strengths by (metis list.set(1,2) insert_absorb2)
qed

lemma traverse_defined: "traverse f xs = Inr ys \<Longrightarrow> x \<in> set xs \<Longrightarrow> \<exists>y. f x = Inr y"
  unfolding traverse_Inr_iff by (induction rule: list_all2_induct) auto

section \<open>Evidence whose integrity is not established\<close>

text \<open>
  C28: a fault the preflight does not turn into a decision. When an artifact of the rebuilt
  import is not among the verified artifacts of the case with integrity \<open>VALID\<close>, although
  its payload has its digest and the baseline matches, the completeness stage raises, outside
  every handler: no decision is returned.
\<close>

theorem preflight_raises_on_unestablished_integrity:
  assumes "raw_verified P reader (verified_artifacts i) = Inr True"
    and "reimport_from_raw_artifacts P L K (nb_artifacts (native_baseline i)) reader (nb_binding_artifacts (native_baseline i)) = Inr r"
    and "traverse (redacted_native_finding P wordy) (fi_native_findings r) = Inr findings"
    and "native_matches P (native_baseline i) r findings"
    and "a \<in> set (fi_artifacts r)"
    and unverified: "\<not> list_ex (\<lambda>b. artifact_id b = artifact_id a \<and> ea_case_id b = ic_case_id (incident_case i) \<and>
      integrity_status b = VALID) (verified_artifacts i)"
  shows "\<exists>e. evaluate_preflight P L K wordy i reader = Inl e"
proof -
  define verified where "verified = map artifact_id
    (filter (\<lambda>b. ea_case_id b = ic_case_id (incident_case i) \<and> integrity_status b = VALID) (verified_artifacts i))"
  have "artifact_id a \<notin> set verified" using unverified by (auto simp: verified_def list_ex_iff)
  moreover have "artifact_id a \<in> set (get_list (cq_artifact_refs (pack_request i r)) ''flight_recorder_raw'')"
    using assms(5) by (simp add: pack_request_def Let_def pack_states_def get_list_def present_states_def)
  ultimately have "assess_requirement P (pack_request i r) verified (''flight_recorder_raw'', PRESENT_VALID) =
      Inl (ValueError ''references evidence not verified for this case'')"
    by (auto simp: assess_requirement_def Let_def)
  moreover have "(''flight_recorder_raw'', PRESENT_VALID) \<in> set (sort_key fst (cq_requirements (pack_request i r)))"
    by (simp add: pack_request_def Let_def pack_states_def)
  ultimately have "traverse (assess_requirement P (pack_request i r) verified)
      (sort_key fst (cq_requirements (pack_request i r))) \<noteq> Inr ordered" for ordered
    using traverse_defined [of "assess_requirement P (pack_request i r) verified"] by fastforce
  then obtain e where "traverse (assess_requirement P (pack_request i r) verified)
      (sort_key fst (cq_requirements (pack_request i r))) = Inl e" by (metis sum.exhaust)
  then have "\<exists>e. authoritative_completeness P i r = Inl e"
    by (simp add: authoritative_completeness_def assess_completeness_def Let_def verified_def)
  then show ?thesis
    using assms(1-4) by (auto simp: evaluate_preflight_def decide_reconstructed_def)
qed

theorem preflight_raises_on_unestablished_integrity_witness:
  "\<exists>e. evaluate_preflight solo_platform sample_cpython (sample_codec 8) (\<lambda>_. True)
     (solo_inputs\<lparr>verified_artifacts := [solo_artifact\<lparr>integrity_status := EvidenceIntegrity.UNKNOWN\<rparr>]\<rparr>) (\<lambda>_. Inr ''data'') = Inl e"
proof (rule preflight_raises_on_unestablished_integrity)
  show "traverse (redacted_native_finding solo_platform (\<lambda>_. True)) (fi_native_findings solo_import) = Inr [solo_finding]"
    using solo_redacted by simp
  show "solo_artifact \<in> set (fi_artifacts solo_import)" by simp
qed (simp_all add: solo_reimport solo_native_matches sha256_digest_def zero_digest_def)

end
