(* ===== verification/Experiment.thy ===== *)
theory Experiment
  imports Preflight "HOL-Library.Sublist"
begin

text \<open>
  The local experiment (\<^verbatim>\<open>traincapsule_qualify/experiment.py\<close> and its records in
  \<^verbatim>\<open>traincapsule_qualify/models.py\<close>): the bounded reading of a command's output, the oracle,
  the two phases with their captured evidence and the decision. What a command does is a
  sequence of observations, what the file system answers a record of functions.
\<close>

section \<open>Records\<close>

datatype QualificationResult = PASS | FAIL | UNKNOWN | INAPPLICABLE | EXPIRED

record CommandExpectation =
  expected_exit_codes :: "int list"
  required_stdout_tokens :: "pystr list"
  forbidden_output_tokens :: "pystr list"

definition bounded_tokens :: "CommandExpectation \<Rightarrow> CommandExpectation result" where
  "bounded_tokens x = raise_first
     [(list_ex (\<lambda>token. token = [] \<or> 1024 < length token) (required_stdout_tokens x @ forbidden_output_tokens x),
       ''oracle tokens must contain 1 to 1024 UTF-8 bytes'')] x"

definition validate_expectation :: "CommandExpectation \<Rightarrow> CommandExpectation result" where
  "validate_expectation x =
     (if \<not> (expected_exit_codes x \<noteq> [] \<and> length (expected_exit_codes x) \<le> 16 \<and>
             length (required_stdout_tokens x) \<le> 32 \<and> length (forbidden_output_tokens x) \<le> 32)
      then Inl (ValidationError ''CommandExpectation'') else bounded_tokens x)"

record ExperimentSpecification =
  es_case_id :: pystr
  es_workload_id :: pystr
  es_baseline_environment_id :: pystr
  es_candidate_environment_id :: pystr
  hypothesis :: pystr
  observed_boundary :: pystr
  manipulated_variables :: "(pystr \<times> pystr) list"
  controlled_variables :: "(pystr \<times> pystr) list"
  expected_observations :: "pystr list"
  legal_transformations :: "pystr list"
  forbidden_transformations :: "pystr list"
  baseline_command :: "pystr list"
  candidate_command :: "pystr list"
  working_directory :: pystr
  es_environment :: "(pystr \<times> pystr) list"
  es_timeout_seconds :: int
  max_output_bytes :: int
  stop_conditions :: "pystr list"
  baseline_expectation :: CommandExpectation
  candidate_expectation :: CommandExpectation
  result_semantics :: pystr

text \<open>The number of characters of a text, and the two bounds of a field.\<close>

definition text_length :: "pystr \<Rightarrow> nat" where
  "text_length s = length (code_points s)"

definition text_bounded :: "pystr \<Rightarrow> bool" where
  "text_bounded s \<longleftrightarrow> s \<noteq> [] \<and> text_length s \<le> 4096"

definition size_bounded :: "'a list \<Rightarrow> nat \<Rightarrow> bool" where
  "size_bounded xs n \<longleftrightarrow> xs \<noteq> [] \<and> length xs \<le> n"

definition specification_fields_ok :: "ExperimentSpecification \<Rightarrow> bool" where
  "specification_fields_ok e \<longleftrightarrow>
     is_identifier (es_case_id e) \<and> is_digest (es_workload_id e) \<and> is_digest (es_baseline_environment_id e) \<and>
     is_digest (es_candidate_environment_id e) \<and> text_bounded (hypothesis e) \<and> text_bounded (observed_boundary e) \<and>
     size_bounded (manipulated_variables e) 64 \<and> size_bounded (controlled_variables e) 64 \<and>
     size_bounded (expected_observations e) 64 \<and> size_bounded (legal_transformations e) 64 \<and>
     size_bounded (forbidden_transformations e) 64 \<and> size_bounded (baseline_command e) 256 \<and>
     size_bounded (candidate_command e) 256 \<and> text_bounded (working_directory e) \<and> length (es_environment e) \<le> 128 \<and>
     1 \<le> es_timeout_seconds e \<and> es_timeout_seconds e \<le> 3600 \<and> 1024 \<le> max_output_bytes e \<and>
     max_output_bytes e \<le> 4 * 1024 * 1024 \<and> size_bounded (stop_conditions e) 64 \<and> text_bounded (result_semantics e)"

definition argument_unbounded :: "pystr \<Rightarrow> bool" where
  "argument_unbounded s \<longleftrightarrow> CHR 0x00 \<in> set s \<or> 16384 < text_length s"

definition environment_name :: "pystr \<Rightarrow> bool" where
  "environment_name k \<longleftrightarrow> (case k of
     [] \<Rightarrow> False
   | c # cs \<Rightarrow> (is_upper c \<or> is_lower c \<or> c = CHR ''_'') \<and> list_all (\<lambda>c. is_alnum c \<or> c = CHR ''_'') cs)"

definition commands_and_environment_are_explicit :: "ExperimentSpecification \<Rightarrow> ExperimentSpecification result" where
  "commands_and_environment_are_explicit e =
     (let per_command = (\<lambda>command.
        [(list_ex (\<lambda>s. s = [] \<or> argument_unbounded s) command, ''command arguments must be non-empty, bounded strings''),
         (\<not> starts_with ''/'' (hd command), ''experiment executables must use absolute paths'')])
      in raise_first (per_command (baseline_command e) @ per_command (candidate_command e) @
        [(list_ex (\<lambda>(key, v). \<not> environment_name key \<or> argument_unbounded v) (es_environment e),
          ''experiment environment contains an invalid key or value'')]) e)"

definition validate_specification :: "ExperimentSpecification \<Rightarrow> ExperimentSpecification result" where
  "validate_specification e =
     (if \<not> specification_fields_ok e then Inl (ValidationError ''ExperimentSpecification'')
      else rbind (validate_expectation (baseline_expectation e)) (\<lambda>_.
        rbind (validate_expectation (candidate_expectation e)) (\<lambda>_. commands_and_environment_are_explicit e)))"

definition dump_expectation :: "CommandExpectation \<Rightarrow> json" where
  "dump_expectation x = JObj
     [(''expectedExitCodes'', JList (map JInt (expected_exit_codes x))),
      (''requiredStdoutTokens'', JList (map JStr (required_stdout_tokens x))),
      (''forbiddenOutputTokens'', JList (map JStr (forbidden_output_tokens x)))]"

definition dump_strings :: "(pystr \<times> pystr) list \<Rightarrow> json" where
  "dump_strings d = JObj (map (\<lambda>(k, v). (k, JStr v)) d)"

definition dump_specification :: "ExperimentSpecification \<Rightarrow> json" where
  "dump_specification e = JObj
     [(''schemaVersion'', JInt 1), (''caseId'', JStr (es_case_id e)), (''workloadId'', JStr (es_workload_id e)),
      (''baselineEnvironmentId'', JStr (es_baseline_environment_id e)),
      (''candidateEnvironmentId'', JStr (es_candidate_environment_id e)), (''hypothesis'', JStr (hypothesis e)),
      (''observedBoundary'', JStr (observed_boundary e)), (''manipulatedVariables'', dump_strings (manipulated_variables e)),
      (''controlledVariables'', dump_strings (controlled_variables e)),
      (''expectedObservations'', JList (map JStr (expected_observations e))),
      (''legalTransformations'', JList (map JStr (legal_transformations e))),
      (''forbiddenTransformations'', JList (map JStr (forbidden_transformations e))),
      (''baselineCommand'', JList (map JStr (baseline_command e))), (''candidateCommand'', JList (map JStr (candidate_command e))),
      (''workingDirectory'', JStr (working_directory e)), (''environment'', dump_strings (es_environment e)),
      (''timeoutSeconds'', JInt (es_timeout_seconds e)), (''maxOutputBytes'', JInt (max_output_bytes e)),
      (''stopConditions'', JList (map JStr (stop_conditions e))),
      (''baselineExpectation'', dump_expectation (baseline_expectation e)),
      (''candidateExpectation'', dump_expectation (candidate_expectation e)), (''resultSemantics'', JStr (result_semantics e))]"

datatype phase = Baseline | Candidate

record ExperimentRun =
  er_phase :: phase
  command_digest :: pystr
  stdout_artifact :: EvidenceArtifact
  stderr_artifact :: EvidenceArtifact
  exit_code :: "int option"
  timed_out :: bool
  output_limit_exceeded :: bool
  expectation_met :: bool
  er_started_at :: datetime
  er_finished_at :: datetime
  elapsed_milliseconds :: int

record QualificationDecision =
  qd_case_id :: pystr
  experiment_specification_digest :: pystr
  eligibility_decision_digest :: pystr
  qd_result :: QualificationResult
  baseline_run :: "ExperimentRun option"
  candidate_run :: "ExperimentRun option"
  qd_evidence_refs :: "pystr list"
  qd_reasons :: "pystr list"
  qd_generated_at :: datetime

definition validate_qualification :: "QualificationDecision \<Rightarrow> QualificationDecision result" where
  "validate_qualification d =
     (if is_identifier (qd_case_id d) \<and> is_digest (experiment_specification_digest d) \<and>
         is_digest (eligibility_decision_digest d) \<and> qd_evidence_refs d \<noteq> [] \<and> list_all is_digest (qd_evidence_refs d) \<and>
         qd_reasons d \<noteq> []
      then Inr d else Inl (ValidationError ''QualificationDecision''))"

section \<open>The eligibility decision as a document\<close>

fun eligibility_value :: "EligibilityOutcome \<Rightarrow> pystr" where
  "eligibility_value ELIGIBLE_FOR_QUALIFICATION = ''ELIGIBLE_FOR_QUALIFICATION''"
| "eligibility_value NEEDS_MORE_EVIDENCE = ''NEEDS_MORE_EVIDENCE''"
| "eligibility_value EligibilityOutcome.NATIVE_WORKFLOW_SUFFICIENT = ''NATIVE_WORKFLOW_SUFFICIENT''"
| "eligibility_value TECHNICALLY_POSSIBLE_BUT_UNECONOMIC = ''TECHNICALLY_POSSIBLE_BUT_UNECONOMIC''"
| "eligibility_value OUTSIDE_SUPPORTED_ENVELOPE = ''OUTSIDE_SUPPORTED_ENVELOPE''"
| "eligibility_value EligibilityOutcome.POLICY_BLOCKED = ''POLICY_BLOCKED''"
| "eligibility_value EligibilityOutcome.UNKNOWN = ''UNKNOWN''"

fun operational_value :: "OperationalDecision \<Rightarrow> pystr" where
  "operational_value APPROVE_WITHIN_ENVELOPE = ''APPROVE_WITHIN_ENVELOPE''"
| "operational_value BLOCK_CHANGE = ''BLOCK_CHANGE''"
| "operational_value REQUIRE_MORE_EVIDENCE = ''REQUIRE_MORE_EVIDENCE''"
| "operational_value NO_DECISION = ''NO_DECISION''"
| "operational_value OperationalDecision.NATIVE_WORKFLOW_SUFFICIENT = ''NATIVE_WORKFLOW_SUFFICIENT''"
| "operational_value TECHNICALLY_VALID_BUT_NOT_ECONOMIC = ''TECHNICALLY_VALID_BUT_NOT_ECONOMIC''"

fun verification_value :: "VerificationOutcome \<Rightarrow> pystr" where
  "verification_value VERIFIED = ''VERIFIED''"
| "verification_value DENIED = ''DENIED''"
| "verification_value VerificationOutcome.UNKNOWN = ''UNKNOWN''"

definition dump_verification :: "MachineVerification \<Rightarrow> json" where
  "dump_verification v = JObj
     [(''policy'', JStr (policy_name_value (mv_policy v))), (''outcome'', JStr (verification_value (mv_outcome v))),
      (''verifier'', JStr ''traincapsule-deterministic-policy''), (''verifierVersion'', JStr ''1''),
      (''subjectDigest'', JStr (subject_digest v)), (''reason'', JStr (mv_reason v))]"

definition dump_eligibility :: "platform \<Rightarrow> EligibilityDecision \<Rightarrow> json" where
  "dump_eligibility P d = JObj
     [(''schemaVersion'', JInt 1), (''caseId'', JStr (ed_case_id d)), (''inputDigest'', JStr (input_digest d)),
      (''workloadId'', JStr (ed_workload_id d)), (''baselineEnvironmentId'', JStr (ed_baseline_environment_id d)),
      (''candidateEnvironmentId'', JStr (ed_candidate_environment_id d)),
      (''evidenceRefs'', JList (map JStr (ed_evidence_refs d))), (''nativeBaselineDigest'', JStr (native_baseline_digest d)),
      (''policyVerifications'', JList (map dump_verification (policy_verifications d))),
      (''originalExperimentEconomics'', dump_experiment_economics (original_economics d)),
      (''proposedExperimentEconomics'', dump_experiment_economics (proposed_economics d)),
      (''outcome'', JStr (eligibility_value (outcome d))), (''identityStrength'', JStr (strength_value (ed_identity_strength d))),
      (''technicalResult'', JStr (technical_value (technical_result d))),
      (''operationalDecision'', JStr (operational_value (operational_decision d))),
      (''reasons'', JList (map JStr (ed_reasons d))), (''unknowns'', JList (map JStr (unknowns d))),
      (''generatedAt'', JStr (dump_datetime P (generated_at d)))]"

section \<open>Reading a command's output\<close>

datatype stream = Stdout | Stderr

text \<open>
  One turn of the loop sees whether the time is over and what each ready stream delivers, an
  empty chunk at its end.
\<close>

record reading_turn =
  expired :: bool
  chunks :: "(stream \<times> pybytes) list"

record reading =
  registered :: "stream set"
  buffers :: "stream \<Rightarrow> pybytes"
  rd_timed_out :: bool
  rd_limited :: bool
  killed :: bool

definition start_reading :: reading where
  "start_reading = \<lparr>registered = {Stdout, Stderr}, buffers = (\<lambda>_. []), rd_timed_out = False, rd_limited = False, killed = False\<rparr>"

definition buffered :: "reading \<Rightarrow> nat" where
  "buffered s = length (buffers s Stdout) + length (buffers s Stderr)"

fun read_chunk :: "int \<Rightarrow> stream \<times> pybytes \<Rightarrow> reading \<Rightarrow> reading result" where
  "read_chunk limit (st, chunk) s =
     (if chunk = [] then
        (if st \<in> registered s then Inr (s\<lparr>registered := registered s - {st}\<rparr>) else Inl (KeyError ''unregister''))
      else
        (let available = limit - int (buffered s);
             s1 = (if 0 < available then s\<lparr>buffers := (buffers s)(st := buffers s st @ take (nat available) chunk)\<rparr> else s)
         in Inr (if available < int (length chunk) then s1\<lparr>rd_limited := True, killed := True\<rparr> else s1)))"

fun read_turn_chunks :: "int \<Rightarrow> (stream \<times> pybytes) list \<Rightarrow> reading \<Rightarrow> reading result" where
  "read_turn_chunks limit [] s = Inr s"
| "read_turn_chunks limit (c # cs) s = rbind (read_chunk limit c s) (read_turn_chunks limit cs)"

definition read_turn :: "int \<Rightarrow> reading_turn \<Rightarrow> reading \<Rightarrow> reading result" where
  "read_turn limit t s =
     read_turn_chunks limit (chunks t) (if expired t then s\<lparr>rd_timed_out := True, killed := True\<rparr> else s)"

text \<open>The loop has not ended when the turns run out and a stream is still registered.\<close>

fun read_loop :: "int \<Rightarrow> reading_turn list \<Rightarrow> reading \<Rightarrow> reading result option" where
  "read_loop limit ts s =
     (if registered s = {} then Some (Inr s)
      else case ts of
        [] \<Rightarrow> None
      | t # ts \<Rightarrow> (case read_turn limit t s of Inl e \<Rightarrow> Some (Inl e) | Inr s1 \<Rightarrow> read_loop limit ts s1))"

record process_observation =
  launched :: "unit result"
  turns :: "reading_turn list"
  returncode :: "int option"
  po_started_at :: datetime
  po_finished_at :: datetime
  elapsed_rounded :: int

record captured_output =
  co_exit_code :: int
  co_stdout :: pybytes
  co_stderr :: pybytes
  co_timed_out :: bool
  co_limited :: bool
  co_started_at :: datetime
  co_finished_at :: datetime
  co_elapsed :: int

text \<open>
  \<open>None\<close>: the function does not return, because a stream stays open or because the command
  never exits and the final wait has no time limit.
\<close>

definition read_bounded_process :: "int \<Rightarrow> process_observation \<Rightarrow> captured_output result option" where
  "read_bounded_process limit o' = (case launched o' of
     Inl e \<Rightarrow> Some (Inl e)
   | Inr _ \<Rightarrow> (case read_loop limit (turns o') start_reading of
       None \<Rightarrow> None
     | Some (Inl e) \<Rightarrow> Some (Inl e)
     | Some (Inr s) \<Rightarrow> map_option (\<lambda>code. Inr \<lparr>co_exit_code = code, co_stdout = buffers s Stdout,
         co_stderr = buffers s Stderr, co_timed_out = rd_timed_out s, co_limited = rd_limited s,
         co_started_at = po_started_at o', co_finished_at = po_finished_at o', co_elapsed = max 0 (elapsed_rounded o')\<rparr>)
         (returncode o')))"

section \<open>The oracle\<close>

definition oracle_met :: "CommandExpectation \<Rightarrow> int option \<Rightarrow> pybytes \<Rightarrow> pybytes \<Rightarrow> bool" where
  "oracle_met x code out err \<longleftrightarrow>
     (case code of None \<Rightarrow> False | Some k \<Rightarrow> k \<in> set (expected_exit_codes x)) \<and>
     list_all (\<lambda>token. contains token out) (required_stdout_tokens x) \<and>
     list_all (\<lambda>token. \<not> contains token (out @ [CHR 0x0A] @ err)) (forbidden_output_tokens x)"

section \<open>Local execution\<close>

text \<open>What the file system answers, on normalised paths.\<close>

record local_files =
  pure_path :: "pystr \<Rightarrow> pystr"
  resolve_path :: "pystr \<Rightarrow> pystr result"
  is_dir :: "pystr \<Rightarrow> bool"
  is_file :: "pystr \<Rightarrow> bool"
  is_executable :: "pystr \<Rightarrow> bool"

definition validate_executable :: "local_files \<Rightarrow> pystr list \<Rightarrow> unit result" where
  "validate_executable F command =
     (let executable = pure_path F (hd command)
      in rbind (resolve_path F executable) (\<lambda>resolved. raise_first
        [(resolved \<noteq> executable \<or> \<not> is_file F executable, ''experiment executable must be a non-symlink regular file''),
         (\<not> is_executable F executable, ''experiment executable is not locally executable'')] ()))"

definition validate_local_execution :: "local_files \<Rightarrow> ExperimentSpecification \<Rightarrow> pystr result" where
  "validate_local_execution F e =
     (let requested = pure_path F (working_directory e)
      in if \<not> starts_with ''/'' requested then Inl (ValueError ''experiment workingDirectory must be absolute'')
         else rbind (resolve_path F requested) (\<lambda>resolved.
           if resolved \<noteq> requested \<or> \<not> is_dir F resolved
           then Inl (ValueError ''experiment workingDirectory must be a non-symlink directory'')
           else rbind (validate_executable F (baseline_command e)) (\<lambda>_.
                rbind (validate_executable F (candidate_command e)) (\<lambda>_. Inr resolved))))"

section \<open>One phase\<close>

definition BASE64 :: "pystr" where
  "BASE64 = ''ABCDEFGHIJKLMNOPQRSTUVWXYZabcdefghijklmnopqrstuvwxyz0123456789+/''"

fun b64encode :: "pybytes \<Rightarrow> pystr" where
  "b64encode [] = []"
| "b64encode [a] = (let x = of_char a :: nat in [BASE64 ! (x div 4), BASE64 ! (x mod 4 * 16), CHR ''='', CHR ''=''])"
| "b64encode [a, b] =
     (let x = of_char a :: nat; y = of_char b :: nat
      in [BASE64 ! (x div 4), BASE64 ! (x mod 4 * 16 + y div 16), BASE64 ! (y mod 16 * 4), CHR ''=''])"
| "b64encode (a # b # c # rest) =
     (let x = of_char a :: nat; y = of_char b :: nat; z = of_char c :: nat
      in [BASE64 ! (x div 4), BASE64 ! (x mod 4 * 16 + y div 16), BASE64 ! (y mod 16 * 4 + z div 64), BASE64 ! (z mod 64)] @
         b64encode rest)"

fun phase_value :: "phase \<Rightarrow> pystr" where
  "phase_value Baseline = ''baseline''"
| "phase_value Candidate = ''candidate''"

fun stream_value :: "stream \<Rightarrow> pystr" where
  "stream_value Stdout = ''stdout''"
| "stream_value Stderr = ''stderr''"

definition capture_payload :: "platform \<Rightarrow> phase \<Rightarrow> stream \<Rightarrow> pybytes \<Rightarrow> pybytes" where
  "capture_payload P ph st payload = canonical_json_bytes P (JObj
     [(''encoding'', JStr ''base64''), (''payload'', JStr (b64encode payload)), (''phase'', JStr (phase_value ph)),
      (''stream'', JStr (stream_value st))])"

definition capture_request :: "platform \<Rightarrow> ExperimentSpecification \<Rightarrow> phase \<Rightarrow> stream \<Rightarrow> datetime \<Rightarrow> put_request" where
  "capture_request P e ph st taken =
     \<lparr>rq_kind = ''qualification-command-'' @ stream_value st, rq_source_adapter = ''traincapsule-local-runner'',
       rq_source_version = ''1'', rq_captured_at = taken, rq_privacy_class = CONFIDENTIAL,
       rq_provenance = [(''phase'', phase_value ph),
         (''experimentSpecificationDigest'', digest_json P (dump_specification e))],
       rq_workload_id = Some (es_workload_id e), rq_baseline_environment_id = Some (es_baseline_environment_id e),
       rq_candidate_environment_id = Some (es_candidate_environment_id e)\<rparr>"

definition phase_command :: "ExperimentSpecification \<Rightarrow> phase \<Rightarrow> pystr list" where
  "phase_command e ph = (case ph of Baseline \<Rightarrow> baseline_command e | Candidate \<Rightarrow> candidate_command e)"

definition phase_expectation :: "ExperimentSpecification \<Rightarrow> phase \<Rightarrow> CommandExpectation" where
  "phase_expectation e ph = (case ph of Baseline \<Rightarrow> baseline_expectation e | Candidate \<Rightarrow> candidate_expectation e)"

definition phase_run :: "platform \<Rightarrow> ExperimentSpecification \<Rightarrow> phase \<Rightarrow> captured_output \<Rightarrow> EvidenceArtifact \<Rightarrow>
    EvidenceArtifact \<Rightarrow> ExperimentRun" where
  "phase_run P e ph v out err =
     \<lparr>er_phase = ph, command_digest = digest_json P (JList (map JStr (phase_command e ph))), stdout_artifact = out,
       stderr_artifact = err, exit_code = Some (co_exit_code v), timed_out = co_timed_out v,
       output_limit_exceeded = co_limited v,
       expectation_met = (\<not> co_timed_out v \<and> \<not> co_limited v \<and>
         oracle_met (phase_expectation e ph) (Some (co_exit_code v)) (co_stdout v) (co_stderr v)),
       er_started_at = co_started_at v, er_finished_at = co_finished_at v, elapsed_milliseconds = co_elapsed v\<rparr>"

definition execute_phase ::
  "platform \<Rightarrow> 'doc artifact_codec \<Rightarrow> store_config \<Rightarrow> (phase \<Rightarrow> process_observation) \<Rightarrow> ExperimentSpecification \<Rightarrow>
   phase \<Rightarrow> datetime \<Rightarrow> 'doc store_fs \<Rightarrow> (ExperimentRun result \<times> 'doc store_fs) option" where
  "execute_phase P K c observe e ph taken fs = (case read_bounded_process (max_output_bytes e) (observe ph) of
     None \<Rightarrow> None
   | Some (Inl x) \<Rightarrow> Some (Inl x, fs)
   | Some (Inr v) \<Rightarrow> Some (
      case put_bytes P K c (es_case_id e) (capture_payload P ph Stdout (co_stdout v)) (capture_request P e ph Stdout taken) fs of
        (Inl x, fs1) \<Rightarrow> (Inl x, fs1)
      | (Inr out, fs1) \<Rightarrow>
         (case put_bytes P K c (es_case_id e) (capture_payload P ph Stderr (co_stderr v)) (capture_request P e ph Stderr taken) fs1 of
            (Inl x, fs2) \<Rightarrow> (Inl x, fs2)
          | (Inr err, fs2) \<Rightarrow> (Inr (phase_run P e ph v out err), fs2))))"

section \<open>The qualification\<close>

definition qualification ::
  "platform \<Rightarrow> PreflightInputs \<Rightarrow> ExperimentSpecification \<Rightarrow> EligibilityDecision \<Rightarrow> datetime \<Rightarrow> QualificationResult \<Rightarrow>
   ExperimentRun option \<Rightarrow> ExperimentRun option \<Rightarrow> pystr list \<Rightarrow> pystr \<Rightarrow> QualificationDecision result" where
  "qualification P i e d now res baseline candidate refs why = validate_qualification
     \<lparr>qd_case_id = es_case_id e, experiment_specification_digest = digest_json P (dump_specification e),
       eligibility_decision_digest = digest_json P (dump_eligibility P d), qd_result = res, baseline_run = baseline,
       candidate_run = candidate, qd_evidence_refs = refs, qd_reasons = [why], qd_generated_at = now\<rparr>"

definition run_refs :: "ExperimentRun \<Rightarrow> pystr list" where
  "run_refs r = [artifact_id (stdout_artifact r), artifact_id (stderr_artifact r)]"

definition bound_to :: "PreflightInputs \<Rightarrow> ExperimentSpecification \<Rightarrow> bool" where
  "bound_to i e \<longleftrightarrow> (es_case_id e, es_workload_id e, es_baseline_environment_id e, es_candidate_environment_id e) =
     (ic_case_id (incident_case i), wl_workload_id (workload_identity i), environment_id (baseline_environment i),
      environment_id (candidate_environment i))"

definition candidate_verdict :: "ExperimentRun \<Rightarrow> QualificationResult \<times> pystr" where
  "candidate_verdict r =
     (if timed_out r \<or> output_limit_exceeded r
      then (QualificationResult.UNKNOWN, ''The candidate exceeded an explicit experiment budget.'')
      else if expectation_met r
      then (QualificationResult.PASS, ''The faithful baseline reproduced and the candidate met the bound oracle.'')
      else (QualificationResult.FAIL, ''The faithful baseline reproduced but the candidate did not meet the oracle.''))"

definition run_experiment ::
  "platform \<Rightarrow> 'doc artifact_codec \<Rightarrow> store_config \<Rightarrow> (phase \<Rightarrow> process_observation) \<Rightarrow> PreflightInputs \<Rightarrow>
   ExperimentSpecification \<Rightarrow> EligibilityDecision \<Rightarrow> datetime \<Rightarrow> 'doc store_fs \<Rightarrow>
   (QualificationDecision result \<times> 'doc store_fs) option" where
  "run_experiment P K c observe i e d now fs =
     (let refs = (\<lambda>rs. sorted_set (map artifact_id (verified_artifacts i) @ concat (map run_refs rs)))
      in case execute_phase P K c observe e Baseline now fs of
        None \<Rightarrow> None
      | Some (Inl x, fs1) \<Rightarrow> Some (Inl x, fs1)
      | Some (Inr b, fs1) \<Rightarrow>
          if timed_out b \<or> output_limit_exceeded b \<or> \<not> expectation_met b
          then Some (qualification P i e d now QualificationResult.UNKNOWN (Some b) None (refs [b])
            ''The baseline did not faithfully reproduce the specified observation.'', fs1)
          else (case execute_phase P K c observe e Candidate now fs1 of
              None \<Rightarrow> None
            | Some (Inl x, fs2) \<Rightarrow> Some (Inl x, fs2)
            | Some (Inr r, fs2) \<Rightarrow>
                (case candidate_verdict r of (res, why) \<Rightarrow>
                   Some (qualification P i e d now res (Some b) (Some r) (refs [b, r]) why, fs2))))"

definition execute_qualification ::
  "platform \<Rightarrow> cpython \<Rightarrow> 'doc artifact_codec \<Rightarrow> store_config \<Rightarrow> (pystr \<Rightarrow> bool) \<Rightarrow> local_files \<Rightarrow>
   (phase \<Rightarrow> process_observation) \<Rightarrow> PreflightInputs \<Rightarrow> ExperimentSpecification \<Rightarrow> datetime \<Rightarrow> 'doc store_fs \<Rightarrow>
   (QualificationDecision result \<times> 'doc store_fs) option" where
  "execute_qualification P L K c wordy F observe i e now fs =
     (let refs = sort (map artifact_id (verified_artifacts i))
      in if \<not> is_aware now then Some (Inl (ValueError ''qualification clock must return a timezone-aware timestamp''), fs)
         else case evaluate_preflight P L K wordy i (\<lambda>a. get_bytes P K c (ic_case_id (incident_case i)) a fs) of
             Inl x \<Rightarrow> Some (Inl x, fs)
           | Inr d \<Rightarrow>
               if \<not> bound_to i e
               then Some (Inl (ValueError ''experiment specification does not match the preflight case identities''), fs)
               else if instant (decision_deadline (incident_case i)) < instant now
               then Some (qualification P i e d now QualificationResult.EXPIRED None None refs
                 ''The named customer decision deadline passed before execution.'', fs)
               else if outcome d \<noteq> ELIGIBLE_FOR_QUALIFICATION
               then Some (qualification P i e d now QualificationResult.INAPPLICABLE None None refs
                 ''Evidence preflight did not authorize a candidate experiment.'', fs)
               else case validate_local_execution F e of
                   Inl x \<Rightarrow> Some (Inl x, fs)
                 | Inr _ \<Rightarrow> run_experiment P K c observe i e d now fs)"

section \<open>The reading loop\<close>

definition delivered :: "(stream \<times> pybytes) list \<Rightarrow> stream \<Rightarrow> pybytes" where
  "delivered cs st = concat (map snd (filter (\<lambda>c. fst c = st) cs))"

definition delivered_total :: "(stream \<times> pybytes) list \<Rightarrow> nat" where
  "delivered_total cs = length (delivered cs Stdout) + length (delivered cs Stderr)"

lemma delivered_append [simp]: "delivered (cs @ ds) st = delivered cs st @ delivered ds st"
  by (simp add: delivered_def)

lemma delivered_total_append: "delivered_total (cs @ ds) = delivered_total cs + delivered_total ds"
  by (simp add: delivered_total_def)

lemma delivered_single: "delivered [(st, chunk)] x = (if x = st then chunk else [])"
  by (simp add: delivered_def)

lemma delivered_total_single: "delivered_total [(st, chunk)] = length chunk"
  by (cases st) (simp_all add: delivered_total_def delivered_single)

text \<open>What has been read once the chunks \<open>cs\<close> were seen.\<close>

definition has_read :: "int \<Rightarrow> (stream \<times> pybytes) list \<Rightarrow> reading \<Rightarrow> bool" where
  "has_read limit cs s \<longleftrightarrow>
     (int (delivered_total cs) \<le> limit \<longrightarrow> (\<forall>st. buffers s st = delivered cs st)) \<and>
     (\<forall>st. prefix (buffers s st) (delivered cs st)) \<and>
     int (buffered s) = min limit (int (delivered_total cs)) \<and> (rd_limited s \<longleftrightarrow> limit < int (delivered_total cs))"

lemma buffered_extend: "buffered (s\<lparr>buffers := (buffers s)(st := buffers s st @ x)\<rparr>) = buffered s + length x"
  by (cases st) (simp_all add: buffered_def)

lemma has_read_chunk:
  assumes "has_read limit cs s" "read_chunk limit (st, chunk) s = Inr s1" "0 \<le> limit"
  shows "has_read limit (cs @ [(st, chunk)]) s1"
proof (cases "chunk = []")
  case True
  then show ?thesis
    using assms by (auto simp: has_read_def delivered_total_append delivered_total_single delivered_single buffered_def
        split: if_splits)
next
  case False
  define total where "total = int (delivered_total cs)"
  have total: "int (delivered_total (cs @ [(st, chunk)])) = total + int (length chunk)"
    by (simp add: total_def delivered_total_append delivered_total_single)
  note inv = assms(1) [unfolded has_read_def, folded total_def]
  have b: "int (buffered s) = min limit total" using inv by blast
  show ?thesis
  proof (cases "total < limit")
    case True
    then have eq: "buffers s x = delivered cs x" for x using inv by simp
    have avail: "limit - int (buffered s) = limit - total" "0 < limit - total" using b True by simp_all
    define s0 where "s0 = s\<lparr>buffers := (buffers s)(st := buffers s st @ take (nat (limit - total)) chunk)\<rparr>"
    have s1: "s1 = (if limit - total < int (length chunk) then s0\<lparr>rd_limited := True, killed := True\<rparr> else s0)"
      using assms(2) False avail by (simp add: Let_def s0_def split: if_splits)
    have "int (buffered s0) = min limit (total + int (length chunk))"
      using True b unfolding s0_def buffered_extend by simp
    moreover have "buffered s1 = buffered s0" by (simp add: s1 buffered_def)
    moreover have "prefix (buffers s0 x) (delivered (cs @ [(st, chunk)]) x)" for x
      by (simp add: s0_def eq delivered_single take_is_prefix)
    moreover have "buffers s1 = buffers s0" by (simp add: s1)
    moreover have "\<not> rd_limited s" using inv True by simp
    ultimately show ?thesis
      using True unfolding has_read_def total by (auto simp: s1 s0_def eq delivered_single)
  next
    case full: False
    then have "limit - int (buffered s) = 0" using b by simp
    then have s1: "s1 = s\<lparr>rd_limited := True, killed := True\<rparr>" using assms(2) False by (simp add: Let_def)
    have len: "0 < int (length chunk)" using False by simp
    show ?thesis
      using inv full len unfolding has_read_def total s1 by (auto simp: buffered_def delivered_single intro: prefix_prefix)
  qed
qed

lemma has_read_chunks:
  assumes "has_read limit cs s" "read_turn_chunks limit ds s = Inr s1" "0 \<le> limit"
  shows "has_read limit (cs @ ds) s1 \<and> rd_timed_out s1 = rd_timed_out s"
  using assms
proof (induction ds arbitrary: cs s)
  case (Cons d ds)
  obtain st chunk where d: "d = (st, chunk)" by (cases d)
  obtain s2 where s2: "read_chunk limit d s = Inr s2" and rest: "read_turn_chunks limit ds s2 = Inr s1"
    using Cons.prems(2) by (auto simp: rbind_Inr_iff simp del: read_chunk.simps)
  have "rd_timed_out s2 = rd_timed_out s" using s2 by (auto simp: d Let_def split: if_splits)
  then show ?case
    using Cons.IH [OF has_read_chunk [OF Cons.prems(1) s2 [unfolded d] Cons.prems(3)] rest Cons.prems(3)] by (simp add: d)
qed simp

lemma has_read_turn:
  assumes "has_read limit cs s" "read_turn limit t s = Inr s1" "0 \<le> limit"
  shows "has_read limit (cs @ chunks t) s1 \<and> (rd_timed_out s1 \<longleftrightarrow> rd_timed_out s \<or> expired t)"
proof -
  have "has_read limit cs (s\<lparr>rd_timed_out := True, killed := True\<rparr>)"
    using assms(1) by (simp add: has_read_def buffered_def)
  then show ?thesis
    using assms has_read_chunks [of limit cs _ "chunks t" s1] by (fastforce simp: read_turn_def split: if_splits)
qed

lemma has_read_loop:
  assumes "has_read limit cs s" "read_loop limit ts s = Some (Inr s1)" "0 \<le> limit"
  shows "\<exists>n\<le>length ts. has_read limit (cs @ concat (map chunks (take n ts))) s1 \<and>
    (rd_timed_out s1 \<longleftrightarrow> rd_timed_out s \<or> (\<exists>t\<in>set (take n ts). expired t))"
  using assms(1,2)
proof (induction ts arbitrary: cs s)
  case Nil
  then show ?case by (auto split: if_splits)
next
  case (Cons t ts)
  show ?case
  proof (cases "registered s = {}")
    case True
    then show ?thesis using Cons.prems by (intro exI [of _ 0]) (auto simp: read_loop.simps [of _ _ s])
  next
    case False
    then obtain s2 where s2: "read_turn limit t s = Inr s2" and rest: "read_loop limit ts s2 = Some (Inr s1)"
      using Cons.prems(2) by (auto simp: read_loop.simps [of limit "t # ts"] split: sum.splits)
    note step = has_read_turn [OF Cons.prems(1) s2 assms(3)]
    obtain n where "n \<le> length ts" "has_read limit ((cs @ chunks t) @ concat (map chunks (take n ts))) s1"
      "rd_timed_out s1 \<longleftrightarrow> rd_timed_out s2 \<or> (\<exists>t\<in>set (take n ts). expired t)"
      using Cons.IH [OF conjunct1 [OF step] rest] by blast
    then show ?thesis using step by (intro exI [of _ "Suc n"]) auto
  qed
qed

text \<open>
  C25: what is captured of a command. When the reading loop ends, the turns it has read account for the
  result: each buffer is a prefix of what its stream delivered, together they hold everything
  up to the limit and not a byte more, the limit flag is set exactly when more was delivered,
  and the time flag exactly when one of the turns came after the deadline.
\<close>

theorem captured_output_exact:
  assumes "read_loop limit ts start_reading = Some (Inr s)" "0 \<le> limit"
  shows "\<exists>n\<le>length ts. let cs = concat (map chunks (take n ts)) in
    (\<forall>st. prefix (buffers s st) (delivered cs st)) \<and> int (buffered s) = min limit (int (delivered_total cs)) \<and>
    (rd_limited s \<longleftrightarrow> limit < int (delivered_total cs)) \<and>
    (\<not> rd_limited s \<longrightarrow> (\<forall>st. buffers s st = delivered cs st)) \<and>
    (rd_timed_out s \<longleftrightarrow> (\<exists>t\<in>set (take n ts). expired t))"
proof -
  have "has_read limit [] start_reading"
    using assms(2) by (simp add: has_read_def start_reading_def buffered_def delivered_total_def delivered_def)
  from has_read_loop [OF this assms] show ?thesis
    by (auto simp: has_read_def Let_def start_reading_def not_less)
qed

theorem captured_output_exact_witness:
  "\<exists>n\<le>2. let cs = concat (map chunks (take n
       [\<lparr>expired = False, chunks = [(Stdout, ''abc''), (Stderr, [])]\<rparr>, \<lparr>expired = True, chunks = [(Stdout, ''de''), (Stdout, [])]\<rparr>]))
     in 4 = min 4 (int (delivered_total cs)) \<and> 4 < int (delivered_total cs)"
proof -
  let ?ts = "[\<lparr>expired = False, chunks = [(Stdout, ''abc''), (Stderr, [])]\<rparr>, \<lparr>expired = True, chunks = [(Stdout, ''de''), (Stdout, [])]\<rparr>]"
  have "\<exists>s. read_loop 4 ?ts start_reading = Some (Inr s) \<and> buffered s = 4 \<and> rd_limited s"
    by (simp add: start_reading_def read_turn_def buffered_def Let_def insert_Diff_if)
  then obtain s where s: "read_loop 4 ?ts start_reading = Some (Inr s)" "buffered s = 4" "rd_limited s" by blast
  obtain n where "n \<le> length ?ts" "int (buffered s) = min 4 (int (delivered_total (concat (map chunks (take n ?ts)))))"
    "rd_limited s \<longleftrightarrow> 4 < int (delivered_total (concat (map chunks (take n ?ts))))"
    using captured_output_exact [OF s(1)] unfolding Let_def by auto
  then show ?thesis using s(2,3) unfolding Let_def by (intro exI [of _ n]) simp
qed

text \<open>Ends: each stream is unregistered by its empty chunk.\<close>

lemma read_turn_chunks_ends:
  assumes "\<And>st. count_list cs (st, []) \<le> (if st \<in> registered s then 1 else 0)"
  shows "\<exists>s1. read_turn_chunks limit cs s = Inr s1 \<and> registered s1 = registered s - {st. (st, []) \<in> set cs}"
  using assms
proof (induction cs arbitrary: s)
  case (Cons c cs)
  obtain st chunk where c: "c = (st, chunk)" by (cases c)
  show ?case
  proof (cases "chunk = []")
    case True
    have "st \<in> registered s" using Cons.prems [of st] by (simp add: c True split: if_splits)
    moreover have "count_list cs (x, []) \<le> (if x \<in> registered s - {st} then 1 else 0)" for x
      using Cons.prems [of x] Cons.prems [of st] by (auto simp: c True split: if_splits)
    ultimately show ?thesis
      using Cons.IH [of "s\<lparr>registered := registered s - {st}\<rparr>"] by (auto simp: c True)
  next
    case False
    obtain s2 where s2: "read_chunk limit c s = Inr s2" "registered s2 = registered s"
      using False by (auto simp: c Let_def)
    have "count_list cs (x, []) \<le> (if x \<in> registered s2 then 1 else 0)" for x
      using Cons.prems [of x] False by (simp add: c s2(2))
    from Cons.IH [OF this] show ?thesis using s2 False by (auto simp: c)
  qed
qed simp

lemma count_list_pos: "x \<in> set xs \<Longrightarrow> 1 \<le> count_list xs x"
  by (induction xs) auto

lemma read_loop_ends:
  assumes "\<And>st. count_list (concat (map chunks ts)) (st, []) \<le> (if st \<in> registered s then 1 else 0)"
  shows "(\<exists>s1. read_loop limit ts s = Some (Inr s1)) \<longleftrightarrow> registered s \<subseteq> {st. (st, []) \<in> set (concat (map chunks ts))}"
    and "\<nexists>e. read_loop limit ts s = Some (Inl e)"
proof -
  have "((\<exists>s1. read_loop limit ts s = Some (Inr s1)) \<longleftrightarrow> registered s \<subseteq> {st. (st, []) \<in> set (concat (map chunks ts))}) \<and>
      (\<nexists>e. read_loop limit ts s = Some (Inl e))"
    using assms
  proof (induction ts arbitrary: s)
    case (Cons t ts)
    show ?case
    proof (cases "registered s = {}")
      case False
      let ?s = "if expired t then s\<lparr>rd_timed_out := True, killed := True\<rparr> else s"
      have "count_list (chunks t) (st, []) \<le> (if st \<in> registered ?s then 1 else 0)" for st
        using Cons.prems [of st] by (simp split: if_splits)
      from read_turn_chunks_ends [of "chunks t" ?s limit, OF this] obtain s1 where
        s1: "read_turn limit t s = Inr s1" "registered s1 = registered s - {st. (st, []) \<in> set (chunks t)}"
        by (auto simp: read_turn_def split: if_splits)
      have "count_list (concat (map chunks ts)) (st, []) \<le> (if st \<in> registered s1 then 1 else 0)" for st
      proof (cases "(st, []) \<in> set (chunks t)")
        case True
        then show ?thesis using Cons.prems [of st] count_list_pos [OF True] s1(2) by (simp split: if_splits)
      next
        case False
        then show ?thesis using Cons.prems [of st] s1(2) by simp
      qed
      from Cons.IH [OF this] show ?thesis
        using s1 False unfolding read_loop.simps [of limit "t # ts"] by auto
    qed simp
  qed auto
  then show "(\<exists>s1. read_loop limit ts s = Some (Inr s1)) \<longleftrightarrow> registered s \<subseteq> {st. (st, []) \<in> set (concat (map chunks ts))}"
    "\<nexists>e. read_loop limit ts s = Some (Inl e)" by simp_all
qed

declare read_loop.simps [simp del]

text \<open>
  C26: when the reading of a command ends. For an unbounded run of turns in which no stream ends twice,
  the loop ends after finitely many of them exactly when both streams reach their end, and
  then without an exception. The deadline alone never ends it: it only kills the process group.
\<close>

theorem reading_ends_iff:
  assumes once: "\<And>n st. count_list (concat (map (chunks \<circ> observed) [0..<n])) (st, []) \<le> 1"
  shows "((\<exists>n r. read_loop limit (map observed [0..<n]) start_reading = Some r) \<longleftrightarrow>
      (\<forall>st. \<exists>m. (st, []) \<in> set (chunks (observed m)))) \<and>
    (\<forall>n e. read_loop limit (map observed [0..<n]) start_reading \<noteq> Some (Inl e))"
proof -
  have all: "st \<in> registered start_reading" for st by (cases st) (simp_all add: start_reading_def)
  have count: "count_list (concat (map chunks (map observed [0..<n]))) (st, []) \<le> (if st \<in> registered start_reading then 1 else 0)"
    for n st using once [of n st] by (simp add: all)
  have inl: "read_loop limit (map observed [0..<n]) start_reading \<noteq> Some (Inl e)" for n e
    using read_loop_ends(2) [OF count] by blast
  have ends: "(\<exists>r. read_loop limit (map observed [0..<n]) start_reading = Some r) \<longleftrightarrow>
      (\<forall>st. \<exists>m<n. (st, []) \<in> set (chunks (observed m)))" for n
  proof -
    have "(\<exists>r. read_loop limit (map observed [0..<n]) start_reading = Some r) \<longleftrightarrow>
        (\<exists>s. read_loop limit (map observed [0..<n]) start_reading = Some (Inr s))"
      using inl by (metis sum.exhaust)
    also have "\<dots> \<longleftrightarrow> (\<forall>st. (st, []) \<in> set (concat (map chunks (map observed [0..<n]))))"
      unfolding read_loop_ends(1) [OF count] using all by blast
    finally show ?thesis by (simp add: Bex_def)
  qed
  have "(\<exists>n. \<forall>st. \<exists>m<n. (st, []) \<in> set (chunks (observed m)))"
    if both: "\<forall>st. \<exists>m. (st, []) \<in> set (chunks (observed m))"
  proof -
    obtain j k where jk: "(Stdout, []) \<in> set (chunks (observed j))" "(Stderr, []) \<in> set (chunks (observed k))"
      using both by blast
    have "\<exists>m<Suc (max j k). (st, []) \<in> set (chunks (observed m))" for st
      using jk by (cases st) (auto intro: exI [of _ j] exI [of _ k])
    then show ?thesis by blast
  qed
  then have "(\<exists>n. \<forall>st. \<exists>m<n. (st, []) \<in> set (chunks (observed m))) \<longleftrightarrow> (\<forall>st. \<exists>m. (st, []) \<in> set (chunks (observed m)))"
    by (intro iffI) (auto simp only:)
  then show ?thesis unfolding ends using inl by simp
qed

theorem reading_ends_iff_witness:
  "\<exists>n r. read_loop 4 (map (\<lambda>k. \<lparr>expired = True, chunks = (if k = 2 then [(Stdout, []), (Stderr, [])] else [(Stdout, ''x'')])\<rparr>)
     [0..<n]) start_reading = Some r"
proof -
  let ?obs = "\<lambda>k::nat. \<lparr>expired = True, chunks = (if k = 2 then [(Stdout, []), (Stderr, [])] else [(Stdout, ''x'')])\<rparr>"
  have "count_list (concat (map (chunks \<circ> ?obs) [0..<n])) (st, []) = (if 2 < n then 1 else 0)" for n st
    by (induction n) (cases st; simp)+
  then have once: "count_list (concat (map (chunks \<circ> ?obs) [0..<n])) (st, []) \<le> 1" for n st by simp
  have "\<exists>m. (st, []) \<in> set (chunks (?obs m))" for st by (rule exI [of _ 2]) (cases st; simp)
  then show ?thesis using reading_ends_iff [of ?obs, OF once, of 4] by blast
qed


lemma decide_maps: "decide P i res technical why names = Inr d \<Longrightarrow> operational_decision d = decision_of (outcome d)"
  by (simp add: decide_Inr)

lemma decide_policies_maps: "decide_policies P i = Inr d \<Longrightarrow> operational_decision d = decision_of (outcome d)"
  by (auto simp: decide_policies_def Let_def decide_maps split: if_splits)

lemma evaluate_preflight_decides:
  "evaluate_preflight P L K wordy i reader = Inr d \<Longrightarrow> operational_decision d = decision_of (outcome d)"
  by (auto simp: evaluate_preflight_def decide_reconstructed_def reject_def decide_maps decide_policies_maps rbind_Inr_iff
      split: if_splits sum.splits)

section \<open>What a qualification means\<close>

definition phase_reproduced :: "(phase \<Rightarrow> process_observation) \<Rightarrow> ExperimentSpecification \<Rightarrow> phase \<Rightarrow> bool" where
  "phase_reproduced observe e ph \<longleftrightarrow>
     (\<exists>v. read_bounded_process (max_output_bytes e) (observe ph) = Some (Inr v) \<and> \<not> co_timed_out v \<and> \<not> co_limited v \<and>
        oracle_met (phase_expectation e ph) (Some (co_exit_code v)) (co_stdout v) (co_stderr v))"

lemma execute_phase_Inr:
  assumes "execute_phase P K c observe e ph taken fs = Some (Inr r, gs)"
  shows "expectation_met r \<longleftrightarrow> phase_reproduced observe e ph"
    "expectation_met r \<Longrightarrow> \<not> timed_out r \<and> \<not> output_limit_exceeded r"
  using assms
  by (auto simp: execute_phase_def phase_run_def phase_reproduced_def split: option.splits sum.splits prod.splits)

lemma qualification_Inr:
  assumes "qualification P i e d now res baseline candidate refs why = Inr q"
  shows "qd_result q = res" "baseline_run q = baseline" "candidate_run q = candidate" "qd_evidence_refs q = refs"
  using assms by (auto simp: qualification_def validate_qualification_def split: if_splits)

lemma run_experiment_outcome:
  assumes "run_experiment P K c observe i e d now fs = Some (Inr q, gs)"
  shows "baseline_run q \<noteq> None" "candidate_run q \<noteq> None \<longleftrightarrow> phase_reproduced observe e Baseline"
    "qd_result q = QualificationResult.PASS \<longleftrightarrow> phase_reproduced observe e Baseline \<and> phase_reproduced observe e Candidate"
proof -
  obtain b fs1 where b: "execute_phase P K c observe e Baseline now fs = Some (Inr b, fs1)"
    using assms by (auto simp: run_experiment_def Let_def split: option.splits prod.splits sum.splits)
  note met = execute_phase_Inr [OF b]
  note run = assms [unfolded run_experiment_def Let_def b option.case prod.case sum.case]
  have "baseline_run q \<noteq> None \<and> (candidate_run q \<noteq> None \<longleftrightarrow> phase_reproduced observe e Baseline) \<and>
      (qd_result q = QualificationResult.PASS \<longleftrightarrow> phase_reproduced observe e Baseline \<and> phase_reproduced observe e Candidate)"
  proof (cases "expectation_met b")
    case False
    then obtain refs why where "qualification P i e d now QualificationResult.UNKNOWN (Some b) None refs why = Inr q"
      using run by auto
    from qualification_Inr [OF this] show ?thesis using False met(1) by simp
  next
    case True
    then obtain r fs2 where r: "execute_phase P K c observe e Candidate now fs1 = Some (Inr r, fs2)"
      using run met(2) by (auto split: option.splits prod.splits sum.splits)
    note met_r = execute_phase_Inr [OF r]
    obtain refs where q: "qualification P i e d now (fst (candidate_verdict r)) (Some b) (Some r) refs (snd (candidate_verdict r)) = Inr q"
      using run True met(2) [OF True] unfolding r by (auto split: prod.splits)
    show ?thesis
      using qualification_Inr [OF q] True met(1) met_r by (auto simp: candidate_verdict_def)
  qed
  then show "baseline_run q \<noteq> None" "candidate_run q \<noteq> None \<longleftrightarrow> phase_reproduced observe e Baseline"
    "qd_result q = QualificationResult.PASS \<longleftrightarrow> phase_reproduced observe e Baseline \<and> phase_reproduced observe e Candidate"
    by simp_all
qed

text \<open>
  C24: what a qualification means. A qualification that returns a decision is a pass exactly when the
  preflight approves, the deadline has not passed, and both commands, within their time and
  output limits, meet their oracles. The candidate is run only after an authorized baseline
  reproduced, and without authorization nothing is run and nothing is stored.
\<close>

theorem qualification_pass_iff:
  assumes "execute_qualification P L K c wordy F observe i e now fs = Some (Inr q, gs)"
  shows "let authorized = instant now \<le> instant (decision_deadline (incident_case i)) \<and>
      (\<exists>d. evaluate_preflight P L K wordy i (\<lambda>a. get_bytes P K c (ic_case_id (incident_case i)) a fs) = Inr d \<and>
         operational_decision d = APPROVE_WITHIN_ENVELOPE)
    in (qd_result q = QualificationResult.PASS \<longleftrightarrow>
          authorized \<and> phase_reproduced observe e Baseline \<and> phase_reproduced observe e Candidate) \<and>
       (candidate_run q \<noteq> None \<longleftrightarrow> authorized \<and> phase_reproduced observe e Baseline) \<and>
       (baseline_run q \<noteq> None \<longleftrightarrow> authorized) \<and> (\<not> authorized \<longrightarrow> gs = fs)"
proof -
  let ?reader = "\<lambda>a. get_bytes P K c (ic_case_id (incident_case i)) a fs"
  obtain d where d: "evaluate_preflight P L K wordy i ?reader = Inr d"
    using assms by (auto simp: execute_qualification_def Let_def split: if_splits sum.splits)
  have approved: "operational_decision d = APPROVE_WITHIN_ENVELOPE \<longleftrightarrow> outcome d = ELIGIBLE_FOR_QUALIFICATION"
    using evaluate_preflight_decides [OF d] by simp
  note run = assms [unfolded execute_qualification_def Let_def d sum.case]
  show ?thesis
  proof (cases "instant now \<le> instant (decision_deadline (incident_case i)) \<and> operational_decision d = APPROVE_WITHIN_ENVELOPE")
    case True
    then have "run_experiment P K c observe i e d now fs = Some (Inr q, gs)"
      using run approved by (auto split: if_splits sum.splits)
    from run_experiment_outcome [OF this] show ?thesis using True d by (simp add: Let_def)
  next
    case False
    then obtain res refs why where q: "qualification P i e d now res None None refs why = Inr q" "res \<noteq> QualificationResult.PASS"
      and "gs = fs"
      using run approved by (auto split: if_splits)
    then show ?thesis using False d qualification_Inr [OF q(1)] by (auto simp: Let_def)
  qed
qed

definition solo_specification :: ExperimentSpecification where
  "solo_specification = \<lparr>es_case_id = ''case-1'', es_workload_id = zero_digest, es_baseline_environment_id = zero_digest,
     es_candidate_environment_id = zero_digest, hypothesis = ''h'', observed_boundary = ''b'', manipulated_variables = [(''a'', ''1'')],
     controlled_variables = [(''c'', ''1'')], expected_observations = [''hang''], legal_transformations = [''none''],
     forbidden_transformations = [''none''], baseline_command = [''/bin/old''], candidate_command = [''/bin/new''],
     working_directory = ''/work'', es_environment = [], es_timeout_seconds = 5, max_output_bytes = 1024, stop_conditions = [''end''],
     baseline_expectation = \<lparr>expected_exit_codes = [1], required_stdout_tokens = [], forbidden_output_tokens = []\<rparr>,
     candidate_expectation = \<lparr>expected_exit_codes = [0], required_stdout_tokens = [], forbidden_output_tokens = []\<rparr>,
     result_semantics = ''exit''\<rparr>"

definition solo_files :: local_files where
  "solo_files = \<lparr>pure_path = id, resolve_path = Inr, is_dir = (\<lambda>_. True), is_file = (\<lambda>_. True), is_executable = (\<lambda>_. True)\<rparr>"

definition solo_observation :: process_observation where
  "solo_observation = \<lparr>launched = Inr (), turns = [\<lparr>expired = False, chunks = [(Stdout, []), (Stderr, [])]\<rparr>], returncode = Some 1,
     po_started_at = Datetime 0 (Some 0), po_finished_at = Datetime 0 (Some 0), elapsed_rounded = 1\<rparr>"

theorem qualification_pass_iff_witness:
  "\<exists>q. execute_qualification solo_platform sample_cpython (sample_codec 8) sample_store_config (\<lambda>_. True) solo_files (\<lambda>_. solo_observation) solo_inputs
       solo_specification (Datetime 0 (Some 0)) empty_store = Some (Inr q, empty_store) \<and>
     qd_result q = QualificationResult.INAPPLICABLE \<and> baseline_run q = None \<and> candidate_run q = None"
proof -
  let ?reader = "\<lambda>a. get_bytes solo_platform (sample_codec 8) sample_store_config ''case-1'' a empty_store"
  have case_id: "ic_case_id solo_case = ''case-1''" "decision_deadline solo_case = Datetime 0 (Some 0)"
    by (simp_all add: solo_case_def)
  have digest: "is_digest zero_digest" "is_identifier ''case-1''" by code_simp+
  have "?reader solo_artifact = Inl (EvidenceStoreError ''stored artifact metadata is invalid'') \<or>
      ?reader solo_artifact = Inl (EvidenceStoreError ''artifact id is not a canonical SHA-256 digest'')"
    by (simp add: get_bytes_def get_artifact_def solo_evaluated(2) empty_store_def read_metadata_def Let_def)
  then have "raw_verified solo_platform ?reader [solo_artifact] = Inr False"
    by (auto simp: caught_def)
  moreover obtain d where d: "reject solo_platform solo_inputs ''One or more case-bound artifact payloads failed local CAS verification.'' = Inr d"
    unfolding reject_def using solo_decided by blast
  ultimately have preflight: "evaluate_preflight solo_platform sample_cpython (sample_codec 8) (\<lambda>_. True) solo_inputs ?reader = Inr d"
    by (simp add: evaluate_preflight_def)
  have "outcome d = NEEDS_MORE_EVIDENCE" using d by (simp add: reject_def decide_Inr(1))
  moreover have "bound_to solo_inputs solo_specification"
    by (simp add: bound_to_def solo_specification_def solo_case_def sample_workload_def sample_environment_def)
  ultimately obtain q where q: "execute_qualification solo_platform sample_cpython (sample_codec 8) sample_store_config (\<lambda>_. True) solo_files
      (\<lambda>_. solo_observation) solo_inputs solo_specification (Datetime 0 (Some 0)) empty_store = Some (Inr q, empty_store)"
    "qd_result q = QualificationResult.INAPPLICABLE"
    using preflight digest
    by (auto simp: execute_qualification_def case_id is_aware_def qualification_def validate_qualification_def solo_specification_def)
  then have "baseline_run q = None" "candidate_run q = None"
    using qualification_pass_iff [OF q(1)] preflight \<open>outcome d = NEEDS_MORE_EVIDENCE\<close> evaluate_preflight_decides [OF preflight]
    by (auto simp: Let_def case_id)
  then show ?thesis using q by blast
qed

end
