(* ===== verification/Spec2Isabelle.thy ===== *)
theory Spec2Isabelle
  imports Scheduler Work_Queue Milestones External_Actions Native_Value Recovery Experiment
begin

text \<open>
  A verification library for TrainCapsule: a factory that plans, schedules and gates its own
  work under typed evidence (\<^verbatim>\<open>src/tcfactory/v3\<close>), and the product packages that capture
  training evidence and qualify a change with it (\<^verbatim>\<open>src/packages\<close>).

  \<^bold>\<open>The program and its theories.\<close>

  \<^item> \<open>Prelude\<close>: Python values shared by all parts. A text is its UTF-8 bytes, a float a tagged
    rational, a datetime an instant with an optional offset, an exception a value of
    \<open>py_error\<close>, a raising function one into \<open>py_error + 'a\<close>.
  \<^item> \<open>Factory_Base\<close>: the enumerations of \<^verbatim>\<open>enums.py\<close>, identifiers, digests and the retry policy
    (\<^verbatim>\<open>retry_policy.py\<close>).
  \<^item> \<open>External_Evidence\<close>: receipts, their currency and trust, the chain of revocation lists
    (\<^verbatim>\<open>external_evidence.py\<close>).
  \<^item> \<open>Completion_Policy\<close>: the contracts of work items and milestones and their evaluation
    (\<^verbatim>\<open>completion_policy.py\<close>).
  \<^item> \<open>Maturity\<close>: commercial maturity, its authorization and what it supports (\<^verbatim>\<open>maturity.py\<close>).
  \<^item> \<open>Work_Items\<close>: work items, their status table, the dependency graph and completion evidence
    (\<^verbatim>\<open>work_items.py\<close>).
  \<^item> \<open>Scheduler\<close>: the scheduling cycle (\<^verbatim>\<open>scheduler.py\<close>): reasons, scores, overrides and selection.
  \<^item> \<open>Work_Queue\<close>: the durable queue (\<^verbatim>\<open>queue.py\<close>): entries, leases, journals, every operation as
    a function on the file system, and the transition as a list of file-system actions that a
    crash can cut anywhere.
  \<^item> \<open>Milestones\<close>: the roadmap, the completion evidence of work items and the runtime that
    advances the active milestone through a write-ahead transaction (\<^verbatim>\<open>milestones.py\<close>,
    \<^verbatim>\<open>milestone_runtime.py\<close>); its state is the documents of the runtime directory.
  \<^item> \<open>Recovery\<close>: the ledger of dispositions, repeated findings, bounded redesigns and the restart
    budget (\<^verbatim>\<open>dispositions.py\<close>, \<^verbatim>\<open>recovery.py\<close>).
  \<^item> \<open>V31_Contracts\<close>: machine-policy receipts and their revocation list (\<^verbatim>\<open>contracts_v31.py\<close>).
  \<^item> \<open>External_Actions\<close>: installed templates, requests, the action journal with its reservations and
    the adapter that sends at most once (\<^verbatim>\<open>external_actions.py\<close>); an operation is a list of journal
    actions that a crash can cut.
  \<^item> \<open>Native_Value\<close>: the benchmark against the native tools, its evaluation and the authorization of
    the resulting status (\<^verbatim>\<open>native_value_gate.py\<close>, \<^verbatim>\<open>contracts_v31.py\<close>).
  \<^item> \<open>Canonical_Json\<close>, \<open>Product_Models\<close>: canonical JSON and the product records with their
    validators (\<^verbatim>\<open>traincapsule_core/base.py\<close>, \<^verbatim>\<open>models.py\<close>).
  \<^item> \<open>Evidence_Store\<close>: the content-addressed store (\<^verbatim>\<open>evidence.py\<close>), its state the objects and
    the metadata documents by case and digest.
  \<^item> \<open>Redaction\<close>: secret redaction and the identities of workloads and environments
    (\<^verbatim>\<open>identity.py\<close>).
  \<^item> \<open>Flight_Recorder\<close>: the import of PyTorch Flight Recorder traces (\<^verbatim>\<open>importer.py\<close>).
  \<^item> \<open>Native_Baseline\<close>, \<open>Preflight\<close>: the native baseline, completeness and the preflight
    (\<^verbatim>\<open>traincapsule_qualify/models.py\<close>, \<^verbatim>\<open>qualify.py\<close>).
  \<^item> \<open>Experiment\<close>: the local experiment (\<^verbatim>\<open>experiment.py\<close>).

  \<^bold>\<open>How the parts meet.\<close> The scheduler reads validated work items and decides what the queue may claim;
  completion policy and maturity decide what a finished item may assert; the native value gate
  grants a passed candidate its status, milestones advance on completion evidence, the external
  actions act on machine-policy receipts, and recovery bounds what is tried again. On the product side
  the importer stores raw files in the evidence store and can rebuild its record from them;
  the native baseline is generated from such a record, the preflight rebuilds it and compares,
  and the experiment runs only after the preflight approves. The theorems on
  \<open>import_trace\<close>, \<open>generate_native_baseline\<close>, \<open>evaluate_preflight\<close> and \<open>execute_qualification\<close>
  follow that chain.

  \<^bold>\<open>What the lemmas show.\<close> The scheduler selects only eligible items, conserves work, honours trusted
  overrides and does not depend on the order of its input. Queue histories lose no item and
  follow the status table, a claim excludes others, a renewal belongs to the holder, recovery
  is exact, a transition refines one atomic step, and a crash is repaired at every cut but
  one. Graph validation, completion and milestone evaluation are characterised exactly.
  Canonical JSON is injective up to key order, so digests authenticate records. The store
  returns what was stored, only with its digest, and keeps it. Redaction leaves no secret
  under a secret name. The preflight approves, and the experiment passes, under exactly
  stated conditions. A milestone advance is atomic under crashes and completion evidence never
  changes; an external action is sent at most once, only under a receipt that binds it, and a
  recorded outcome is what every later execution returns. A candidate passes the value gate only
  on a complete, fresh and reproducible benchmark under a verified receipt. The decisions in a
  ledger form one chain per item, and redesigns, repetitions and restarts are bounded. The
  interfaces are locales, interpreted on these definitions.

  \<^bold>\<open>Bounds and fuel.\<close> The cycle search has the recursion limit of the interpreter as its fuel; its
  theorem states how large a limit is enough. The selection loops of the scheduler take the
  number of free sessions as their fuel, which is the number of turns the source makes. The
  reading of a command's output runs over the turns observed and has no result before both
  streams have ended; \<open>reading_ends_iff\<close> says when it has one. Every other recursion is
  structural or has a termination proof.

  \<^bold>\<open>Parameters.\<close> SHA-256, \<open>repr\<close> of floats, case folding, \<open>strip\<close>, datetime formats and the JSON
  parser are fields of the record \<open>platform\<close>; the YAML reader and the codec of metadata
  documents are records of functions; the file system of the experiment is the record
  \<open>local_files\<close>, the behaviour of its commands the record \<open>process_observation\<close>. The codec of the
  documents of milestones, the verifiers and the backend of external actions and the services of
  the value gate (artifact reader, verifiers, float division) are arguments of the same kind.
  Hypotheses on them (\<open>platform_ok\<close>, \<open>strip_laws\<close>, \<open>codec_ok\<close>) state their documented behaviour.

  \<^bold>\<open>Not modelled.\<close> The controller, publication, source acquisition, activation, installation, the evidence
  broker and deployment drive git, GitHub, processes and privileged files around the modelled parts; so
  do the legacy factory, the model backends, the verifier service and the canary runner. The
  Markdown rendering of a baseline for people and the command line only print. Symbolic
  links, permissions, temporary files, directory handles and failures of the operating system are left
  out of the stores; the signature checks themselves are parameters.
\<close>

end
